(* ===== verification/Prelude.thy ===== *)
theory Prelude
  imports Main "HOL-Library.Word" "HOL-Library.State_Monad"
begin

text \<open>
  The vocabulary shared by every theory of the development.

  \<^item> \<open>goerr\<close> and \<open>res\<close>: Go's \<open>error\<close> values and a function result
    \<open>(value, err)\<close>. \<open>Errorf\<close> is \<open>fmt.Errorf\<close> without \<open>%w\<close> (the format and
    its string arguments are kept apart, not rendered), \<open>Wrap\<close> is \<open>fmt.Errorf\<close> with a
    trailing \<open>%w\<close>, and \<open>errors_is\<close> is \<open>errors.Is\<close>, which looks through the
    wrapping.
  \<^item> A program is a \<open>('s, 'a) state\<close> of \<open>HOL-Library.State_Monad\<close>; a Go function
    returning \<open>(T, error)\<close> and touching the state is an \<open>('s, 'a res) state\<close>. The
    Go idiom \<open>if err != nil { return ... }\<close> is a \<open>case\<close> over the result.
  \<^item> \<open>hoare\<close> triples over such programs, with the rules (collection \<open>hr\<close>) from which
    every invariance proof of the development is assembled.
  \<^item> Tables as lists of rows: \<open>row_by\<close> (SELECT by key), \<open>update_by\<close> (UPDATE by
    key) and the interface \<open>row_store\<close> they implement.
\<close>

named_theorems hr \<open>rules for triples over programs\<close>
named_theorems blind_rules \<open>triples for predicates that do not look at a table\<close>

section \<open>Errors and results\<close>

datatype goerr =
    ErrNoRows
  | ErrInvalidRefreshToken
  | PgError string string
  | Foreign string
  | Errorf string "string list"
  | Wrap string "string list" goerr

type_synonym 'a res = "goerr + 'a"

fun errors_is :: "goerr \<Rightarrow> goerr \<Rightarrow> bool" where
  "errors_is (Wrap f as e) t \<longleftrightarrow> Wrap f as e = t \<or> errors_is e t"
| "errors_is e t \<longleftrightarrow> e = t"

lemma errors_is_refl [simp]: "errors_is e e"
  by (cases e) auto

definition is_err :: "'a res \<Rightarrow> bool" where
  "is_err r \<longleftrightarrow> (case r of Inl _ \<Rightarrow> True | Inr _ \<Rightarrow> False)"

lemma is_err_simps [simp]: "is_err (Inl e)" "\<not> is_err (Inr a)"
  by (simp_all add: is_err_def)

section \<open>Programs and triples\<close>

abbreviation ret :: "'a \<Rightarrow> ('s, 'a) state" where
  "ret \<equiv> State_Monad.return"

abbreviation exec :: "('s, 'a) state \<Rightarrow> 's \<Rightarrow> 's" where
  "exec m s \<equiv> snd (run_state m s)"

abbreviation result :: "('s, 'a) state \<Rightarrow> 's \<Rightarrow> 'a" where
  "result m s \<equiv> fst (run_state m s)"

definition hoare :: "('s \<Rightarrow> bool) \<Rightarrow> ('s, 'a) state \<Rightarrow> ('a \<Rightarrow> 's \<Rightarrow> bool) \<Rightarrow> bool" where
  "hoare P m Q \<longleftrightarrow> (\<forall>s. P s \<longrightarrow> Q (result m s) (exec m s))"

abbreviation keeps :: "('s \<Rightarrow> bool) \<Rightarrow> ('s, 'a) state \<Rightarrow> bool" where
  "keeps P m \<equiv> hoare P m (\<lambda>_. P)"

lemma hoareI: "(\<And>s. P s \<Longrightarrow> Q (result m s) (exec m s)) \<Longrightarrow> hoare P m Q"
  by (simp add: hoare_def)

lemma hoareD: "hoare P m Q \<Longrightarrow> P s \<Longrightarrow> Q (result m s) (exec m s)"
  by (simp add: hoare_def)

lemma hoare_runD: "hoare P m Q \<Longrightarrow> P s \<Longrightarrow> run_state m s = (r, s') \<Longrightarrow> Q r s'"
  by (auto dest: hoareD [where s = s])

lemma hoare_conseq:
  "hoare P' m Q' \<Longrightarrow> (\<And>s. P s \<Longrightarrow> P' s) \<Longrightarrow> (\<And>r s. Q' r s \<Longrightarrow> Q r s) \<Longrightarrow> hoare P m Q"
  by (simp add: hoare_def)

lemma hoare_return [hr]: "(\<And>s. P s \<Longrightarrow> Q x s) \<Longrightarrow> hoare P (ret x) Q"
  by (simp add: hoare_def)

lemma hoare_bind:
  "hoare P m Q \<Longrightarrow> (\<And>x. hoare (Q x) (k x) R) \<Longrightarrow> hoare P (m \<bind> k) R"
  by (auto simp: hoare_def split: prod.splits)

lemma hoare_pure: "(A \<Longrightarrow> hoare P m Q) \<Longrightarrow> hoare (\<lambda>s. P s \<and> A) m Q"
  by (simp add: hoare_def)

lemma hoare_post: "hoare P m Q \<Longrightarrow> (\<And>r s. Q r s \<Longrightarrow> R r s) \<Longrightarrow> hoare P m R"
  by (simp add: hoare_def)

lemma hoare_ignore: "hoare P m (\<lambda>_. Q) \<Longrightarrow> hoare P (m \<bind> (\<lambda>_. ret x)) (\<lambda>_. Q)"
  by (auto simp: hoare_def split: prod.splits)

lemma hoare_sum:
  "(\<And>e. r = Inl e \<Longrightarrow> hoare P (f e) Q) \<Longrightarrow> (\<And>a. r = Inr a \<Longrightarrow> hoare P (g a) Q)
    \<Longrightarrow> hoare P (case r of Inl e \<Rightarrow> f e | Inr a \<Rightarrow> g a) Q"
  by (cases r) simp_all

lemma hoare_option:
  "(r = None \<Longrightarrow> hoare P m Q) \<Longrightarrow> (\<And>a. r = Some a \<Longrightarrow> hoare P (g a) Q)
    \<Longrightarrow> hoare P (case r of None \<Rightarrow> m | Some a \<Rightarrow> g a) Q"
  by (cases r) simp_all

lemma hoare_prod: "(\<And>a b. r = (a, b) \<Longrightarrow> hoare P (g a b) Q) \<Longrightarrow> hoare P (case r of (a, b) \<Rightarrow> g a b) Q"
  by (cases r) simp

lemma hoare_if:
  "(b \<Longrightarrow> hoare P m Q) \<Longrightarrow> (\<not> b \<Longrightarrow> hoare P n Q) \<Longrightarrow> hoare P (if b then m else n) Q"
  by simp

lemma hoare_let: "hoare P (f x) Q \<Longrightarrow> hoare P (let y = x in f y) Q"
  by simp

lemmas hoare_splits = hoare_sum hoare_option hoare_prod hoare_if hoare_let

lemma keeps_bind [hr]: "keeps P m \<Longrightarrow> (\<And>x. keeps P (k x)) \<Longrightarrow> keeps P (m \<bind> k)"
  by (rule hoare_bind)

lemma keeps_if [hr]:
  "(b \<Longrightarrow> keeps P m) \<Longrightarrow> (\<not> b \<Longrightarrow> keeps P n) \<Longrightarrow> keeps P (if b then m else n)"
  by simp

lemma keeps_sum [hr]:
  "(\<And>e. r = Inl e \<Longrightarrow> keeps P (f e)) \<Longrightarrow> (\<And>a. r = Inr a \<Longrightarrow> keeps P (g a))
    \<Longrightarrow> keeps P (case r of Inl e \<Rightarrow> f e | Inr a \<Rightarrow> g a)"
  by (cases r) simp_all

lemma keeps_option [hr]:
  "(r = None \<Longrightarrow> keeps P m) \<Longrightarrow> (\<And>a. r = Some a \<Longrightarrow> keeps P (g a))
    \<Longrightarrow> keeps P (case r of None \<Rightarrow> m | Some a \<Rightarrow> g a)"
  by (cases r) simp_all

lemma keeps_prod [hr]:
  "(\<And>a b. r = (a, b) \<Longrightarrow> keeps P (g a b)) \<Longrightarrow> keeps P (case r of (a, b) \<Rightarrow> g a b)"
  by (cases r) simp

lemma keeps_let [hr]: "keeps P (f x) \<Longrightarrow> keeps P (let y = x in f y)"
  by simp

lemma keeps_conj: "keeps P m \<Longrightarrow> keeps Q m \<Longrightarrow> keeps (\<lambda>s. P s \<and> Q s) m"
  by (simp add: hoare_def)

section \<open>Tables\<close>

text \<open>
  A table is the list of its rows. \<open>query_one\<close> is a sqlc \<open>:one\<close> query: the first row,
  or \<open>pgx.ErrNoRows\<close>. \<open>sql_eq\<close> is SQL's \<open>=\<close> on nullable values, which is never true
  of NULL.
\<close>

definition query_one :: "('r \<Rightarrow> bool) \<Rightarrow> 'r list \<Rightarrow> 'r res" where
  "query_one P rs = (case List.find P rs of None \<Rightarrow> Inl ErrNoRows | Some r \<Rightarrow> Inr r)"

definition sql_eq :: "'a option \<Rightarrow> 'a option \<Rightarrow> bool" where
  "sql_eq x y \<longleftrightarrow> (case (x, y) of (Some a, Some b) \<Rightarrow> a = b | _ \<Rightarrow> False)"

lemma sql_eq_simps [simp]:
  "sql_eq (Some a) (Some b) \<longleftrightarrow> a = b" "\<not> sql_eq None y" "\<not> sql_eq x None"
  by (auto simp: sql_eq_def split: option.splits)

lemma sql_eq_iff: "sql_eq x y \<longleftrightarrow> (\<exists>a. x = Some a \<and> y = Some a)"
  by (auto simp: sql_eq_def split: option.splits)

lemma find_Some_iff:
  "List.find P xs = Some x \<Longrightarrow> x \<in> set xs \<and> P x"
  by (induction xs) (auto split: if_splits)

lemma query_one_Inr: "query_one P rs = Inr r \<Longrightarrow> r \<in> set rs \<and> P r"
  by (auto simp: query_one_def dest: find_Some_iff split: option.splits)

lemma query_one_Inl: "query_one P rs = Inl e \<longleftrightarrow> e = ErrNoRows \<and> (\<forall>r \<in> set rs. \<not> P r)"
  by (auto simp: query_one_def find_None_iff split: option.splits) (metis find_None_iff option.distinct(1))+

definition row_by :: "('r \<Rightarrow> 'k) \<Rightarrow> 'k \<Rightarrow> 'r list \<Rightarrow> 'r option" where
  "row_by key k rs = List.find (\<lambda>r. key r = k) rs"

definition update_by :: "('r \<Rightarrow> 'k) \<Rightarrow> 'k \<Rightarrow> ('r \<Rightarrow> 'r) \<Rightarrow> 'r list \<Rightarrow> 'r list" where
  "update_by key k f rs = map (\<lambda>r. if key r = k then f r else r) rs"

lemma row_by_simps [simp]:
  "row_by key k [] = None"
  "row_by key k (r # rs) = (if key r = k then Some r else row_by key k rs)"
  by (simp_all add: row_by_def)

lemma update_by_simps [simp]:
  "update_by key k f [] = []"
  "update_by key k f (r # rs) = (if key r = k then f r else r) # update_by key k f rs"
  by (simp_all add: update_by_def)

lemma query_one_row_by:
  "query_one (\<lambda>r. key r = k) rs = (case row_by key k rs of None \<Rightarrow> Inl ErrNoRows | Some r \<Rightarrow> Inr r)"
  by (simp add: query_one_def row_by_def)

lemma row_by_append:
  "row_by key k (rs @ rs') = (case row_by key k rs of None \<Rightarrow> row_by key k rs' | Some r \<Rightarrow> Some r)"
  by (induction rs) auto

lemma row_by_None: "row_by key k rs = None \<longleftrightarrow> (\<forall>r \<in> set rs. key r \<noteq> k)"
  by (induction rs) auto

lemma row_by_Some: "row_by key k rs = Some r \<Longrightarrow> r \<in> set rs \<and> key r = k"
  by (induction rs) (auto split: if_splits)

lemma row_by_distinct:
  "distinct (map key rs) \<Longrightarrow> r \<in> set rs \<Longrightarrow> row_by key (key r) rs = Some r"
  by (induction rs) (auto simp: rev_image_eqI)

lemma row_by_update_same:
  "(\<And>r. key (f r) = key r) \<Longrightarrow> row_by key k (update_by key k f rs) = map_option f (row_by key k rs)"
  by (induction rs) auto

lemma row_by_update_other:
  "(\<And>r. key (f r) = key r) \<Longrightarrow> k' \<noteq> k \<Longrightarrow> row_by key k' (update_by key k f rs) = row_by key k' rs"
  by (induction rs) auto

lemma map_update_by:
  "(\<And>r. g (f r) = g r) \<Longrightarrow> map g (update_by key k f rs) = map g rs"
  by (induction rs) auto

lemma row_by_map:
  "(\<And>r. key (g r) = key r) \<Longrightarrow> row_by key k (map g rs) = map_option g (row_by key k rs)"
  by (induction rs) auto

lemma length_update_by [simp]: "length (update_by key k f rs) = length rs"
  by (simp add: update_by_def)

lemma update_by_absent: "\<forall>r \<in> set rs. key r \<noteq> k \<Longrightarrow> update_by key k f rs = rs"
  by (induction rs) auto

lemma set_update_by:
  "r \<in> set (update_by key k f rs) \<Longrightarrow> r \<in> set rs \<or> (\<exists>r0 \<in> set rs. key r0 = k \<and> r = f r0)"
  by (induction rs) (auto split: if_splits)

lemma ball_update_by:
  "\<forall>r \<in> set rs. P r \<Longrightarrow> (\<And>r. P r \<Longrightarrow> key r = k \<Longrightarrow> P (f r)) \<Longrightarrow> \<forall>r \<in> set (update_by key k f rs). P r"
  by (auto dest!: set_update_by)

lemma filter_update_by_other:
  "(\<And>r. key r = k \<Longrightarrow> \<not> P r \<and> \<not> P (f r)) \<Longrightarrow> filter P (update_by key k f rs) = filter P rs"
  by (induction rs) auto

text \<open>
  The contract between the tables and the services: rows are looked up and updated by a key
  the updates do not change, an update is seen by the lookup of its own key and by no other.
\<close>

locale row_store =
  fixes key :: "'r \<Rightarrow> 'k"
    and get :: "'k \<Rightarrow> 's \<Rightarrow> 'r option"
    and upd :: "'k \<Rightarrow> ('r \<Rightarrow> 'r) \<Rightarrow> 's \<Rightarrow> 's"
  assumes get_key: "get k s = Some r \<Longrightarrow> key r = k"
    and get_upd_same: "(\<And>r. key (f r) = key r) \<Longrightarrow> get k (upd k f s) = map_option f (get k s)"
    and get_upd_other: "(\<And>r. key (f r) = key r) \<Longrightarrow> k' \<noteq> k \<Longrightarrow> get k' (upd k f s) = get k' s"
begin

lemma get_upd:
  "(\<And>r. key (f r) = key r) \<Longrightarrow>
    get k' (upd k f s) = (if k' = k then map_option f (get k s) else get k' s)"
  by (simp add: get_upd_same get_upd_other)

lemma get_upd_upd:
  assumes "\<And>r. key (f r) = key r" and "\<And>r. key (g r) = key r"
  shows "get k' (upd k g (upd k f s)) = get k' (upd k (g \<circ> f) s)"
  using assms by (simp add: get_upd option.map_comp)

lemma get_upd_commute:
  assumes "\<And>r. key (f r) = key r" and "\<And>r. key (g r) = key r" and "k \<noteq> l"
  shows "get k' (upd k f (upd l g s)) = get k' (upd l g (upd k f s))"
  using assms by (simp add: get_upd)

lemma upd_field_other:
  assumes "\<And>r. key (f r) = key r" and "\<And>r. g (f r) = g r"
  shows "map_option g (get k' (upd k f s)) = map_option g (get k' s)"
  using assms by (cases "get k s") (auto simp: get_upd)

end

text \<open>
  The contract of a repository over such a store, while the database answers (\<open>calm\<close>): a
  row is fetched as the view the services work with, and changed by a function that keeps its
  key; the changed row's view comes back.
\<close>

locale account_store = row_store key get upd
  for key :: "'r \<Rightarrow> 'k" and get :: "'k \<Rightarrow> 's \<Rightarrow> 'r option"
    and upd :: "'k \<Rightarrow> ('r \<Rightarrow> 'r) \<Rightarrow> 's \<Rightarrow> 's" +
  fixes calm :: "'s \<Rightarrow> bool"
    and view :: "'r \<Rightarrow> 'v"
    and fetch :: "'k \<Rightarrow> ('s, 'v res) state"
    and change :: "'k \<Rightarrow> ('r \<Rightarrow> 'r) \<Rightarrow> ('s, 'v res) state"
  assumes fetch_run:
      "calm s \<Longrightarrow> run_state (fetch k) s = (case get k s of None \<Rightarrow> Inl ErrNoRows | Some r \<Rightarrow> Inr (view r), s)"
    and change_run:
      "calm s \<Longrightarrow> (\<And>r. key (f r) = key r) \<Longrightarrow>
        run_state (change k f) s =
          (case get k s of None \<Rightarrow> Inl ErrNoRows | Some r \<Rightarrow> Inr (view (f r)), upd k f s)"
    and calm_upd: "calm (upd k f s) = calm s"
begin

lemma fetch_present:
  "calm s \<Longrightarrow> get k s = Some r \<Longrightarrow> run_state (fetch k \<bind> g) s = run_state (g (Inr (view r))) s"
  by (simp add: fetch_run)

lemma fetch_absent:
  "calm s \<Longrightarrow> get k s = None \<Longrightarrow> run_state (fetch k \<bind> g) s = run_state (g (Inl ErrNoRows)) s"
  by (simp add: fetch_run)

lemma change_present:
  "calm s \<Longrightarrow> (\<And>r. key (f r) = key r) \<Longrightarrow> get k s = Some r \<Longrightarrow>
    run_state (change k f \<bind> g) s = run_state (g (Inr (view (f r)))) (upd k f s)"
  by (simp add: change_run)

lemma read_your_write:
  "calm s \<Longrightarrow> (\<And>r. key (f r) = key r) \<Longrightarrow> get k s = Some r \<Longrightarrow>
    result (change k f \<bind> (\<lambda>_. fetch k)) s = Inr (view (f r))"
  by (simp add: change_run fetch_run calm_upd get_upd_same)

lemma change_frame:
  "calm s \<Longrightarrow> (\<And>r. key (f r) = key r) \<Longrightarrow> k' \<noteq> k \<Longrightarrow> get k' (exec (change k f) s) = get k' s"
  by (simp add: change_run get_upd_other)

end

text \<open>
  The contract of single-use tokens: a token once spent is still there, and spent, after any
  step of the system.
\<close>

locale token_registry =
  fixes find :: "'h \<Rightarrow> 's \<Rightarrow> 'r option"
    and spent :: "'r \<Rightarrow> bool"
    and inv :: "'s \<Rightarrow> bool"
    and step :: "'s \<Rightarrow> 's \<Rightarrow> bool"
  assumes inv_step: "inv s \<Longrightarrow> step s s' \<Longrightarrow> inv s'"
    and spent_step: "inv s \<Longrightarrow> step s s' \<Longrightarrow> find h s = Some r \<Longrightarrow> spent r \<Longrightarrow>
      \<exists>r'. find h s' = Some r' \<and> spent r'"
begin

lemma inv_steps: "step\<^sup>*\<^sup>* s s' \<Longrightarrow> inv s \<Longrightarrow> inv s'"
  by (induction rule: rtranclp_induct) (auto intro: inv_step)

lemma spent_steps:
  "step\<^sup>*\<^sup>* s s' \<Longrightarrow> inv s \<Longrightarrow> find h s = Some r \<Longrightarrow> spent r \<Longrightarrow> \<exists>r'. find h s' = Some r' \<and> spent r'"
proof (induction rule: rtranclp_induct)
  case (step s' s'')
  then obtain r' where "find h s' = Some r'" "spent r'" by auto
  then show ?case using spent_step [OF inv_steps [OF step(1) step(4)] step(2)] by auto
qed auto

end

section \<open>Sorting by a comparison\<close>

text \<open>A stable insertion sort by a \<open>less or equal\<close> that is a parameter (a collation).\<close>

fun insert_by :: "('a \<Rightarrow> 'a \<Rightarrow> bool) \<Rightarrow> 'a \<Rightarrow> 'a list \<Rightarrow> 'a list" where
  "insert_by le x [] = [x]"
| "insert_by le x (y # ys) = (if le x y then x # y # ys else y # insert_by le x ys)"

definition sort_by :: "('a \<Rightarrow> 'a \<Rightarrow> bool) \<Rightarrow> 'a list \<Rightarrow> 'a list" where
  "sort_by le xs = foldr (insert_by le) xs []"

lemma set_insert_by [simp]: "set (insert_by le x xs) = insert x (set xs)"
  by (induction xs) auto

lemma set_sort_by [simp]: "set (sort_by le xs) = set xs"
  by (induction xs) (auto simp: sort_by_def)

section \<open>Lists\<close>

lemma map_filter_eq_self: "(\<And>x. x \<in> set xs \<Longrightarrow> f x = x) \<Longrightarrow> map f xs = xs"
  by (induction xs) auto

end
