(* ===== verification/Go_Base.thy ===== *)
theory Go_Base
  imports Prelude
begin

text \<open>
  What the program uses of Go's standard library, on byte strings (\<open>string\<close>, one
  \<open>char\<close> per byte): \<open>fmt\<close> verbs for integers, \<open>strings.Split\<close>, \<open>HasPrefix\<close>,
  \<open>TrimPrefix\<close>, \<open>TrimSpace\<close>, \<open>ToLower\<close>, \<open>EqualFold\<close> and \<open>encoding/hex\<close>;
  \<open>time.Time\<close> and \<open>time.Duration\<close> as integer nanoseconds; and the identifiers of
  \<open>github.com/google/uuid\<close> as 128-bit words, whose printed form is a parameter of the
  definitions that use it.
\<close>

section \<open>Identifiers and instants\<close>

type_synonym uuid = "128 word"

definition uuid_Nil :: uuid where
  "uuid_Nil = 0"

text \<open>
  An instant is the number of nanoseconds since Go's zero \<open>time.Time\<close> (1 January of year 1,
  UTC), so \<open>IsZero\<close> is \<open>t = 0\<close>; the process runs in UTC (its image sets no time
  zone). A duration is a number of nanoseconds.
\<close>

type_synonym gotime = int
type_synonym duration = int

definition time_Second :: duration where "time_Second = 1000000000"
definition time_Minute :: duration where "time_Minute = 60 * time_Second"
definition time_Hour :: duration where "time_Hour = 60 * time_Minute"

lemmas durations = time_Second_def time_Minute_def time_Hour_def

definition day_ns :: duration where "day_ns = 24 * time_Hour"

definition unix_epoch :: gotime where
  "unix_epoch = 62135596800 * time_Second"

definition time_Unix :: "gotime \<Rightarrow> int" where
  "time_Unix t = (t - unix_epoch) div time_Second"

definition time_of_unix :: "int \<Rightarrow> gotime" where
  "time_of_unix s = unix_epoch + s * time_Second"

lemma time_Unix_of_unix [simp]: "time_Unix (time_of_unix s) = s"
  by (simp add: time_Unix_def time_of_unix_def time_Second_def)

text \<open>\<open>t.AddDate(0, 0, days)\<close>: in UTC every calendar day has 24 hours.\<close>

definition add_days :: "gotime \<Rightarrow> int \<Rightarrow> gotime" where
  "add_days t n = t + n * day_ns"

section \<open>Numbers as text\<close>

definition digit_char :: "nat \<Rightarrow> char" where
  "digit_char d = char_of (48 + d)"

fun dec_nat :: "nat \<Rightarrow> string" where
  "dec_nat n = (if n < 10 then [digit_char n] else dec_nat (n div 10) @ [digit_char (n mod 10)])"

declare dec_nat.simps [simp del]

text \<open>\<open>fmt.Sprintf("%d", i)\<close>, and \<open>"%02d"\<close>, whose width counts the sign.\<close>

definition fmt_d :: "int \<Rightarrow> string" where
  "fmt_d i = (if i < 0 then CHR ''-'' # dec_nat (nat (- i)) else dec_nat (nat i))"

definition fmt_02d :: "int \<Rightarrow> string" where
  "fmt_02d i = (if 0 \<le> i \<and> i < 10 then CHR ''0'' # fmt_d i else fmt_d i)"

definition is_digit :: "char \<Rightarrow> bool" where
  "is_digit c \<longleftrightarrow> 48 \<le> (of_char c :: nat) \<and> (of_char c :: nat) \<le> 57"

definition digit_val :: "char \<Rightarrow> nat" where
  "digit_val c = of_char c - 48"

lemma digit_char_props:
  assumes "d < 10"
  shows "is_digit (digit_char d)" and "digit_val (digit_char d) = d"
  using assms by (simp_all add: is_digit_def digit_val_def digit_char_def)

lemma dec_nat_digits: "\<forall>c \<in> set (dec_nat n). is_digit c"
proof (induction n rule: dec_nat.induct)
  case (1 n)
  then show ?case
    by (subst dec_nat.simps) (auto simp: digit_char_props)
qed

lemma dec_nat_nonempty [simp]: "dec_nat n \<noteq> []"
  by (subst dec_nat.simps) simp

definition val_dec :: "string \<Rightarrow> nat" where
  "val_dec s = foldl (\<lambda>v c. 10 * v + digit_val c) 0 s"

lemma val_dec_snoc [simp]: "val_dec (s @ [c]) = 10 * val_dec s + digit_val c"
  by (simp add: val_dec_def)

lemma val_dec_nat [simp]: "val_dec (dec_nat n) = n"
proof (induction n rule: dec_nat.induct)
  case (1 n)
  show ?case
  proof (cases "n < 10")
    case True
    then show ?thesis
      by (subst dec_nat.simps) (simp add: val_dec_def digit_char_props)
  next
    case False
    then show ?thesis
      by (subst dec_nat.simps) (simp add: 1 digit_char_props)
  qed
qed

lemma dec_nat_inject: "dec_nat m = dec_nat n \<longleftrightarrow> m = n"
  by (metis val_dec_nat)

lemma not_digit_dec_nat: "\<not> is_digit c \<Longrightarrow> c \<notin> set (dec_nat n)"
  using dec_nat_digits by blast

lemma not_in_fmt_d: "\<not> is_digit c \<Longrightarrow> c \<noteq> CHR ''-'' \<Longrightarrow> c \<notin> set (fmt_d i)"
  by (auto simp: fmt_d_def not_digit_dec_nat)

lemma is_digit_consts [simp]:
  "\<not> is_digit (CHR ''.'')" "\<not> is_digit (CHR ''-'')" "\<not> is_digit (CHR '' '')"
  by (simp_all add: is_digit_def)

section \<open>Package strings\<close>

text \<open>\<open>strings.Split\<close> with a one-character separator, and \<open>strings.Join\<close>.\<close>

fun split_char :: "char \<Rightarrow> string \<Rightarrow> string list" where
  "split_char c [] = [[]]"
| "split_char c (x # xs) =
     (if x = c then [] # split_char c xs
      else (case split_char c xs of [] \<Rightarrow> [[x]] | y # ys \<Rightarrow> (x # y) # ys))"

lemma split_char_nonempty [simp]: "split_char c s \<noteq> []"
  by (induction s) (auto split: list.splits)

lemma split_char_no_sep: "c \<notin> set s \<Longrightarrow> split_char c s = [s]"
  by (induction s) auto

lemma split_char_field:
  "c \<notin> set s \<Longrightarrow> split_char c (s @ c # rest) = s # split_char c rest"
  by (induction s) auto

fun join_with :: "string \<Rightarrow> string list \<Rightarrow> string" where
  "join_with sep [] = []"
| "join_with sep [x] = x"
| "join_with sep (x # xs) = x @ sep @ join_with sep xs"

lemma join_split_char: "join_with [c] (split_char c s) = s"
proof (induction s)
  case (Cons x xs)
  then show ?case
    by (cases "split_char c xs"; cases "tl (split_char c xs)") auto
qed simp

text \<open>\<open>strings.HasPrefix\<close> and \<open>strings.TrimPrefix\<close>.\<close>

definition has_prefix :: "string \<Rightarrow> string \<Rightarrow> bool" where
  "has_prefix s p \<longleftrightarrow> take (length p) s = p"

definition trim_prefix :: "string \<Rightarrow> string \<Rightarrow> string" where
  "trim_prefix s p = (if has_prefix s p then drop (length p) s else s)"

lemma has_prefix_append [simp]: "has_prefix (p @ s) p"
  by (simp add: has_prefix_def)

lemma trim_prefix_append [simp]: "trim_prefix (p @ s) p = s"
  by (simp add: trim_prefix_def)

text \<open>
  \<open>strings.TrimSpace\<close>: the byte sequences of the characters with Unicode's White_Space
  property, in UTF-8.
\<close>

definition space_seqs :: "nat list list" where
  "space_seqs =
     [[9], [10], [11], [12], [13], [32], [194, 133], [194, 160], [225, 154, 128],
      [226, 128, 128], [226, 128, 129], [226, 128, 130], [226, 128, 131], [226, 128, 132],
      [226, 128, 133], [226, 128, 134], [226, 128, 135], [226, 128, 136], [226, 128, 137],
      [226, 128, 138], [226, 128, 168], [226, 128, 169], [226, 128, 175], [226, 129, 159],
      [227, 128, 128]]"

definition bytes_of :: "string \<Rightarrow> nat list" where
  "bytes_of s = map of_char s"

definition string_of_bytes :: "nat list \<Rightarrow> string" where
  "string_of_bytes bs = map char_of bs"

text \<open>The length of the space sequence the bytes start with, 0 when they start with none.\<close>

definition lead_space :: "nat list list \<Rightarrow> nat list \<Rightarrow> nat" where
  "lead_space seqs bs =
     (case List.find (\<lambda>q. take (length q) bs = q) seqs of None \<Rightarrow> 0 | Some q \<Rightarrow> length q)"

lemma lead_space_le: "lead_space seqs bs \<le> length bs"
  by (auto simp: lead_space_def dest!: find_Some_iff split: option.splits)
    (metis length_take min.cobounded1)

function strip_left :: "nat list list \<Rightarrow> nat list \<Rightarrow> nat list" where
  "strip_left seqs bs =
     (if lead_space seqs bs = 0 then bs else strip_left seqs (drop (lead_space seqs bs) bs))"
  by pat_completeness auto
termination
proof (relation "measure (\<lambda>(_, bs). length bs)", simp)
  fix seqs bs assume "lead_space seqs bs \<noteq> 0"
  then show "((seqs, drop (lead_space seqs bs) bs), (seqs, bs)) \<in> measure (\<lambda>(_, bs). length bs)"
    using lead_space_le [of seqs bs] by simp
qed

declare strip_left.simps [simp del]

definition TrimSpace :: "string \<Rightarrow> string" where
  "TrimSpace s =
     string_of_bytes (rev (strip_left (map rev space_seqs) (rev (strip_left space_seqs (bytes_of s)))))"

text \<open>\<open>strings.ToLower\<close> on a string of ASCII bytes, and on any string given Unicode's
  simple lower-case mapping of its non-ASCII bytes.\<close>

definition ascii_lower :: "char \<Rightarrow> char" where
  "ascii_lower c = (let n = (of_char c :: nat) in if 65 \<le> n \<and> n \<le> 90 then char_of (n + 32) else c)"

definition is_ascii :: "string \<Rightarrow> bool" where
  "is_ascii s \<longleftrightarrow> list_all (\<lambda>c. (of_char c :: nat) < 128) s"

definition ToLower :: "(string \<Rightarrow> string) \<Rightarrow> string \<Rightarrow> string" where
  "ToLower uni s = (if is_ascii s then map ascii_lower s else uni s)"

definition EqualFold :: "(string \<Rightarrow> string) \<Rightarrow> string \<Rightarrow> string \<Rightarrow> bool" where
  "EqualFold uni s t \<longleftrightarrow>
     (if is_ascii s \<and> is_ascii t then map ascii_lower s = map ascii_lower t else uni s = uni t)"

section \<open>Package encoding/hex\<close>

definition hex_digit :: "nat \<Rightarrow> char" where
  "hex_digit d = char_of (if d < 10 then 48 + d else 87 + d)"

definition hex_EncodeToString :: "string \<Rightarrow> string" where
  "hex_EncodeToString s =
     concat (map (\<lambda>c. let n = of_char c :: nat in [hex_digit (n div 16), hex_digit (n mod 16)]) s)"

lemma length_hex: "length (hex_EncodeToString s) = 2 * length s"
  by (induction s) (auto simp: hex_EncodeToString_def Let_def)

end
