(* ===== verification/Go_Float.thy ===== *)
theory Go_Float
  imports Go_Base
begin

text \<open>
  Go's \<open>float64\<close>: a finite value is a sign, a mantissa and a binary exponent
  (\<open>(-1)^s * m * 2^e\<close> with \<open>m < 2^53\<close> and \<open>-1074 \<le> e \<le> 971\<close>, the mantissa at least
  \<open>2^52\<close> unless the exponent is the least one), and the operations round to nearest, ties to
  even, as IEEE 754 and the Go specification want. \<open>FormatFloat\<close> is \<open>strconv\<close>'s with
  format \<open>'f'\<close>: precision -1 (the shortest text that reads back as the same value) and a
  fixed precision.
\<close>

datatype float64 = FNaN | FInf bool | FFin bool int int

definition p2 :: "int \<Rightarrow> int" where
  "p2 e = 2 ^ nat e"

text \<open>The position of the leading bit of a positive number.\<close>

fun ilog2 :: "int \<Rightarrow> int" where
  "ilog2 n = (if n \<le> 1 then 0 else 1 + ilog2 (n div 2))"

declare ilog2.simps [simp del]

definition round_even :: "int \<Rightarrow> int \<Rightarrow> int" where
  "round_even n d =
     (let q = n div d; r = n mod d in if 2 * r < d \<or> (2 * r = d \<and> even q) then q else q + 1)"

text \<open>
  The \<open>float64\<close> nearest to the quotient of \<open>n \<ge> 0\<close> and \<open>d > 0\<close>, with the given sign.
  \<open>quot_log\<close> is the greatest \<open>k\<close> with \<open>2^k \<le> n / d\<close>.
\<close>

definition quot_log :: "int \<Rightarrow> int \<Rightarrow> int" where
  "quot_log n d = (let k = ilog2 n - ilog2 d in if n * p2 (- k) < d * p2 k then k - 1 else k)"

definition round64 :: "bool \<Rightarrow> int \<Rightarrow> int \<Rightarrow> float64" where
  "round64 s n d =
     (if n = 0 then FFin s 0 (-1074)
      else (let e = max (-1074) (quot_log n d - 52);
                q = round_even (n * p2 (- e)) (d * p2 e);
                m = (if q = 2 ^ 53 then 2 ^ 52 else q);
                f = (if q = 2 ^ 53 then e + 1 else e)
            in if f > 971 then FInf s else FFin s m f))"

definition float_of_int :: "int \<Rightarrow> float64" where
  "float_of_int i = round64 (i < 0) \<bar>i\<bar> 1"

section \<open>strconv.FormatFloat\<close>

text \<open>\<open>D * 10^k\<close> written without an exponent, for \<open>D \<ge> 0\<close>.\<close>

definition fixed_text :: "int \<Rightarrow> int \<Rightarrow> string" where
  "fixed_text D k =
     (let ds = dec_nat (nat D) in
      if 0 \<le> k then ds @ (if D = 0 then [] else replicate (nat k) (CHR ''0''))
      else (let n = nat (- k);
                padded = replicate (Suc n - length ds) (CHR ''0'') @ ds;
                w = length padded - n
            in take w padded @ ''.'' @ drop w padded))"

definition sign_text :: "bool \<Rightarrow> string" where
  "sign_text s = (if s then ''-'' else [])"

text \<open>
  The decimals with \<open>n\<close> significant digits next to a value, below and above; the shortest
  text takes the fewest digits for which one of the two reads back, the nearer when both do.
  \<open>dec_exp\<close> is the decimal exponent of the leading digit.
\<close>

definition p10 :: "int \<Rightarrow> int" where
  "p10 k = 10 ^ nat k"

fun dec_len :: "int \<Rightarrow> int" where
  "dec_len n = (if n < 10 then 1 else 1 + dec_len (n div 10))"

declare dec_len.simps [simp del]

definition dec_exp :: "int \<Rightarrow> int \<Rightarrow> int" where
  "dec_exp n d =
     (let k = dec_len n - dec_len d in if n * p10 (- k) < d * p10 k then k - 1 else k)"

definition reads_back :: "int \<Rightarrow> int \<Rightarrow> int \<Rightarrow> int \<Rightarrow> bool" where
  "reads_back m e D k \<longleftrightarrow> round64 False (D * p10 k) (p10 (- k)) = FFin False m e"

definition shortest_with :: "int \<Rightarrow> int \<Rightarrow> int \<Rightarrow> (int \<times> int) option" where
  "shortest_with m e w =
     (let n = m * p2 e; d = p2 (- e);
          k = dec_exp n d - (w - 1);
          n' = n * p10 (- k); d' = d * p10 k;
          lo = n' div d'; r = n' mod d'
      in if r = 0 then Some (lo, k)
         else (case (reads_back m e lo k, reads_back m e (lo + 1) k) of
                 (True, True) \<Rightarrow> Some (if 2 * r < d' then lo else lo + 1, k)
               | (True, False) \<Rightarrow> Some (lo, k)
               | (False, True) \<Rightarrow> Some (lo + 1, k)
               | (False, False) \<Rightarrow> None))"

fun shortest_from :: "int \<Rightarrow> int \<Rightarrow> int list \<Rightarrow> int \<times> int" where
  "shortest_from m e [] = (if 0 \<le> e then (m * p2 e, 0) else (m * 5 ^ nat (- e), e))"
| "shortest_from m e (w # ws) =
     (case shortest_with m e w of Some r \<Rightarrow> r | None \<Rightarrow> shortest_from m e ws)"

definition FormatFloat_shortest :: "float64 \<Rightarrow> string" where
  "FormatFloat_shortest f =
     (case f of
        FNaN \<Rightarrow> ''NaN''
      | FInf s \<Rightarrow> (if s then ''-Inf'' else ''+Inf'')
      | FFin s m e \<Rightarrow>
          sign_text s @ (if m = 0 then ''0''
                         else (case shortest_from m e [1..17] of (D, k) \<Rightarrow> fixed_text D k)))"

definition FormatFloat_prec :: "nat \<Rightarrow> float64 \<Rightarrow> string" where
  "FormatFloat_prec p f =
     (case f of
        FNaN \<Rightarrow> ''NaN''
      | FInf s \<Rightarrow> (if s then ''-Inf'' else ''+Inf'')
      | FFin s m e \<Rightarrow> sign_text s @ fixed_text (round_even (m * 10 ^ p * p2 e) (p2 (- e))) (- int p))"

section \<open>Arithmetic\<close>

definition fneg :: "float64 \<Rightarrow> float64" where
  "fneg f = (case f of FNaN \<Rightarrow> FNaN | FInf s \<Rightarrow> FInf (\<not> s) | FFin s m e \<Rightarrow> FFin (\<not> s) m e)"

definition signed :: "bool \<Rightarrow> int \<Rightarrow> int" where
  "signed s m = (if s then - m else m)"

definition fadd :: "float64 \<Rightarrow> float64 \<Rightarrow> float64" where
  "fadd f g =
     (case (f, g) of
        (FNaN, _) \<Rightarrow> FNaN | (_, FNaN) \<Rightarrow> FNaN
      | (FInf s, FInf t) \<Rightarrow> if s = t then FInf s else FNaN
      | (FInf s, FFin _ _ _) \<Rightarrow> FInf s | (FFin _ _ _, FInf s) \<Rightarrow> FInf s
      | (FFin s m e, FFin t n h) \<Rightarrow>
          (let c = min e h; v = signed s (m * p2 (e - c)) + signed t (n * p2 (h - c)) in
           if v = 0 then FFin (s \<and> t) 0 (-1074)
           else round64 (v < 0) (\<bar>v\<bar> * p2 c) (p2 (- c))))"

definition fsub :: "float64 \<Rightarrow> float64 \<Rightarrow> float64" where
  "fsub f g = fadd f (fneg g)"

definition fmul :: "float64 \<Rightarrow> float64 \<Rightarrow> float64" where
  "fmul f g =
     (case (f, g) of
        (FNaN, _) \<Rightarrow> FNaN | (_, FNaN) \<Rightarrow> FNaN
      | (FInf s, FInf t) \<Rightarrow> FInf (s \<noteq> t)
      | (FInf s, FFin t m _) \<Rightarrow> if m = 0 then FNaN else FInf (s \<noteq> t)
      | (FFin t m _, FInf s) \<Rightarrow> if m = 0 then FNaN else FInf (s \<noteq> t)
      | (FFin s m e, FFin t n h) \<Rightarrow> round64 (s \<noteq> t) (m * n * p2 (e + h)) (p2 (- (e + h))))"

definition fdiv :: "float64 \<Rightarrow> float64 \<Rightarrow> float64" where
  "fdiv f g =
     (case (f, g) of
        (FNaN, _) \<Rightarrow> FNaN | (_, FNaN) \<Rightarrow> FNaN
      | (FInf _, FInf _) \<Rightarrow> FNaN
      | (FInf s, FFin t _ _) \<Rightarrow> FInf (s \<noteq> t)
      | (FFin s _ _, FInf t) \<Rightarrow> FFin (s \<noteq> t) 0 (-1074)
      | (FFin s m e, FFin t n h) \<Rightarrow>
          if n = 0 then (if m = 0 then FNaN else FInf (s \<noteq> t))
          else round64 (s \<noteq> t) (m * p2 (e - h)) (n * p2 (h - e)))"

text \<open>Comparison: false when either side is not a number; the two zeros are equal.\<close>

definition fless :: "float64 \<Rightarrow> float64 \<Rightarrow> bool" where
  "fless f g =
     (case (f, g) of
        (FNaN, _) \<Rightarrow> False | (_, FNaN) \<Rightarrow> False
      | (FInf s, FInf t) \<Rightarrow> s \<and> \<not> t
      | (FInf s, FFin _ _ _) \<Rightarrow> s | (FFin _ _ _, FInf t) \<Rightarrow> \<not> t
      | (FFin s m e, FFin t n h) \<Rightarrow>
          (let c = min e h in signed s (m * p2 (e - c)) < signed t (n * p2 (h - c))))"

definition feq :: "float64 \<Rightarrow> float64 \<Rightarrow> bool" where
  "feq f g \<longleftrightarrow> f \<noteq> FNaN \<and> g \<noteq> FNaN \<and> \<not> fless f g \<and> \<not> fless g f"

definition fle :: "float64 \<Rightarrow> float64 \<Rightarrow> bool" where
  "fle f g \<longleftrightarrow> fless f g \<or> feq f g"

text \<open>\<open>math.Round\<close>: to the nearest integer, halves away from zero; and \<open>int(f)\<close>, which
  drops the fraction and, out of range, gives the least \<open>int64\<close> (the amd64 instruction).\<close>

definition fRound :: "float64 \<Rightarrow> float64" where
  "fRound f =
     (case f of
        FFin s m e \<Rightarrow> if 0 \<le> e then f
          else (case float_of_int ((2 * m + p2 (- e)) div (2 * p2 (- e))) of
                  FFin _ m' e' \<Rightarrow> FFin s m' e' | g \<Rightarrow> g)
      | _ \<Rightarrow> f)"

definition int_of_float :: "float64 \<Rightarrow> int" where
  "int_of_float f =
     (case f of
        FFin s m e \<Rightarrow>
          (let v = signed s (m * p2 e div p2 (- e)) in
           if - (2 ^ 63) \<le> v \<and> v < 2 ^ 63 then v else - (2 ^ 63))
      | _ \<Rightarrow> - (2 ^ 63))"

end
