(* ===== verification/Db.thy ===== *)
theory Db
  imports Go_Float
begin

text \<open>
  The relational store: the rows of the six tables as \<open>pkg/dbq/models.go\<close> declares them
  (nullable columns are options), the database state, the execution of one statement, and the
  conversions of \<open>pkg/pgutil\<close> between column values and Go values.

  The SQL of \<open>pkg/dbq/*.sql.go\<close> is translated statement by statement in the theories of
  the entities. What the migrations promise of a table (defaults, UNIQUE, CHECK, REFERENCES,
  ON DELETE) is part of the translation of the statements that depend on it.

  \<^item> \<open>db_clock\<close> is the server's \<open>now()\<close>, \<open>db_uuid\<close> and \<open>db_serial\<close> the stream of
    \<open>gen_random_uuid()\<close>; nothing is assumed of it, a repeated value is a violation of the
    primary key.
  \<^item> \<open>db_faults\<close> is the schedule of failures: each statement consumes one entry, and
    \<open>Some e\<close> makes it fail with \<open>Foreign e\<close> and without effect (a lost connection, a text
    Postgres rejects, a timeout). An empty schedule means no further failure, so a result about
    a database that answers assumes \<open>db_faults d = []\<close> and an invariant is proved for every
    schedule.
\<close>

section \<open>Column values\<close>

text \<open>\<open>pgtype.Numeric\<close>: an integer scaled by a power of ten, NaN or an infinity.\<close>

datatype numeric = NumNaN | NumInf bool | Num int int

text \<open>
  Storing into a \<open>NUMERIC(p, 2)\<close> column: rounded to two decimals, halves away from zero;
  an error when more than \<open>p - 2\<close> digits remain before the point; NaN is kept.
\<close>

definition round_div :: "int \<Rightarrow> int \<Rightarrow> int" where
  "round_div a b = sgn a * ((2 * \<bar>a\<bar> + b) div (2 * b))"

definition hundredths :: "int \<Rightarrow> int \<Rightarrow> int" where
  "hundredths i e = (if -2 \<le> e then i * 10 ^ nat (e + 2) else round_div i (10 ^ nat (- e - 2)))"

definition numeric_col :: "nat \<Rightarrow> numeric \<Rightarrow> numeric res" where
  "numeric_col p n =
     (case n of
        NumNaN \<Rightarrow> Inr NumNaN
      | NumInf _ \<Rightarrow> Inl (PgError ''22003'' ''numeric field overflow'')
      | Num i e \<Rightarrow>
          (let h = hundredths i e in
           if \<bar>h\<bar> < 10 ^ p then Inr (Num h (-2)) else Inl (PgError ''22003'' ''numeric field overflow'')))"

lemma numeric_col_exact:
  "\<bar>h\<bar> < 10 ^ p \<Longrightarrow> numeric_col p (Num h (-2)) = Inr (Num h (-2))"
  by (simp add: numeric_col_def hundredths_def)

lemma numeric_col_stored:
  "numeric_col p n = Inr m \<Longrightarrow> m = NumNaN \<or> (\<exists>h. m = Num h (-2) \<and> \<bar>h\<bar> < 10 ^ p)"
  by (auto simp: numeric_col_def Let_def split: numeric.splits if_splits)

lemma round_div_error:
  assumes "0 < b"
  shows "2 * \<bar>b * round_div a b - a\<bar> \<le> b"
proof -
  define q where "q = (2 * \<bar>a\<bar> + b) div (2 * b)"
  have "2 * b * q + (2 * \<bar>a\<bar> + b) mod (2 * b) = 2 * \<bar>a\<bar> + b"
    unfolding q_def by (rule mult_div_mod_eq)
  moreover have "0 \<le> (2 * \<bar>a\<bar> + b) mod (2 * b)" "(2 * \<bar>a\<bar> + b) mod (2 * b) < 2 * b"
    using assms by simp_all
  ultimately have "2 * (b * q) \<le> 2 * \<bar>a\<bar> + b" "2 * \<bar>a\<bar> < 2 * (b * q) + b"
    by (simp_all only: mult.assoc)
  then have *: "2 * \<bar>b * q - \<bar>a\<bar>\<bar> \<le> b" by (simp add: abs_if)
  have "round_div a b = sgn a * q" by (simp add: round_div_def q_def)
  with * assms show ?thesis
    by (cases a "0 :: int" rule: linorder_cases)
      (auto simp: abs_minus_commute [of "- (b * q)" a] add.commute)
qed

section \<open>Rows (pkg/dbq/models.go)\<close>

record user_row =
  ur_id :: uuid
  ur_apple_sub :: "string option"
  ur_email :: "string option"
  ur_base_currency :: string
  ur_created_at :: gotime
  ur_password_hash :: "string option"
  ur_google_sub :: "string option"
  ur_theme :: string
  ur_gradient_color :: string
  ur_plan :: string
  ur_goals :: string
  ur_subscription_status :: string
  ur_trial_ends_at :: "gotime option"
  ur_liqpay_order_id :: string
  ur_name :: string
  ur_avatar :: string

record session_row =
  sr_id :: uuid
  sr_user_id :: uuid
  sr_refresh_hash :: string
  sr_created_at :: gotime
  sr_expires_at :: gotime
  sr_revoked_at :: "gotime option"
  sr_user_agent :: string

record category_row =
  cr_id :: uuid
  cr_user_id :: "uuid option"
  cr_name :: string
  cr_icon_name :: string
  cr_color_hex :: string
  cr_type :: string
  cr_is_default :: bool
  cr_created_at :: gotime
  cr_name_uk :: "string option"
  cr_name_en :: "string option"

record transaction_row =
  tr_id :: uuid
  tr_user_id :: uuid
  tr_category_id :: "uuid option"
  tr_amount :: numeric
  tr_currency :: string
  tr_type :: string
  tr_date :: gotime
  tr_note :: string
  tr_created_at :: gotime
  tr_external_id :: string
  tr_is_internal_transfer :: bool
  tr_operation_amount :: "64 word"
  tr_operation_currency_code :: int
  tr_updated_at :: "gotime option"

record payment_row =
  pr_id :: uuid
  pr_user_id :: uuid
  pr_order_id :: string
  pr_plan :: string
  pr_action :: string
  pr_status :: string
  pr_amount :: numeric
  pr_currency :: string
  pr_error_description :: string
  pr_created_at :: gotime

record monobank_row =
  mr_user_id :: uuid
  mr_encrypted_token :: string
  mr_webhook_secret :: string
  mr_connected_at :: gotime
  mr_last_synced_at :: "gotime option"
  mr_account_ids :: "string list"
  mr_masked_pans :: "string list"
  mr_account_types :: "string list"
  mr_account_currencies :: "string list"

section \<open>The database and its statements\<close>

record db =
  db_faults :: "string option list"
  db_clock :: gotime
  db_uuid :: "nat \<Rightarrow> uuid"
  db_serial :: nat
  db_users :: "user_row list"
  db_sessions :: "session_row list"
  db_categories :: "category_row list"
  db_transactions :: "transaction_row list"
  db_payments :: "payment_row list"
  db_monobank :: "monobank_row list"

type_synonym 'a dbop = "(db, 'a res) state"

definition stmt :: "(db \<Rightarrow> 'a res \<times> db) \<Rightarrow> 'a dbop" where
  "stmt f = State (\<lambda>d.
     (case db_faults d of
        [] \<Rightarrow> f d
      | None # fs \<Rightarrow> f (d\<lparr>db_faults := fs\<rparr>)
      | Some e # fs \<Rightarrow> (Inl (Foreign e), d\<lparr>db_faults := fs\<rparr>)))"

lemma run_stmt_calm [simp]: "db_faults d = [] \<Longrightarrow> run_state (stmt f) d = f d"
  by (simp add: stmt_def)

lemma run_stmt_fault [simp]:
  "db_faults d = Some e # fs \<Longrightarrow> run_state (stmt f) d = (Inl (Foreign e), d\<lparr>db_faults := fs\<rparr>)"
  by (simp add: stmt_def)

text \<open>A predicate on the tables does not look at the schedule of failures.\<close>

definition fault_free :: "(db \<Rightarrow> bool) \<Rightarrow> bool" where
  "fault_free P \<longleftrightarrow> (\<forall>d fs. P (d\<lparr>db_faults := fs\<rparr>) = P d)"

lemma hoare_stmt:
  assumes "fault_free P" and "fault_free P'"
    and "\<And>d. P d \<Longrightarrow> P' d"
    and "\<And>d. P d \<Longrightarrow> Q (fst (f d)) (snd (f d))"
    and "\<And>d e. P' d \<Longrightarrow> Q (Inl (Foreign e)) d"
  shows "hoare P (stmt f) Q"
proof (rule hoareI)
  fix d assume "P d"
  with assms show "Q (result (stmt f) d) (exec (stmt f) d)"
    by (simp add: stmt_def fault_free_def split: list.splits option.splits)
qed

lemma keeps_stmt:
  assumes "fault_free P" and "\<And>d. P d \<Longrightarrow> P (snd (f d))"
  shows "keeps P (stmt f)"
  by (rule hoare_stmt [where P' = P]) (use assms in auto)

text \<open>A statement that only reads, and the result of a read.\<close>

definition read_stmt :: "(db \<Rightarrow> 'a res) \<Rightarrow> 'a dbop" where
  "read_stmt f = stmt (\<lambda>d. (f d, d))"

lemma run_read_calm [simp]: "db_faults d = [] \<Longrightarrow> run_state (read_stmt f) d = (f d, d)"
  by (simp add: read_stmt_def)

lemma keeps_read [hr]: "fault_free P \<Longrightarrow> keeps P (read_stmt f)"
  by (simp add: read_stmt_def keeps_stmt)

section \<open>Conversions (pkg/pgutil/pgutil.go)\<close>

text \<open>
  \<open>pgtype\<close> values are options: \<open>None\<close> is \<open>Valid: false\<close>. The Go value of a NULL is the
  zero value of its type. A \<open>timestamptz\<close> holds whole microseconds: an instant crosses
  into the database without its last three digits.
\<close>

definition UUIDFromGoogle :: "uuid \<Rightarrow> uuid option" where
  "UUIDFromGoogle u = Some u"

definition UUIDToGoogle :: "uuid option \<Rightarrow> uuid" where
  "UUIDToGoogle u = (case u of None \<Rightarrow> uuid_Nil | Some v \<Rightarrow> v)"

definition NullUUIDFromGoogle :: "uuid \<Rightarrow> uuid option" where
  "NullUUIDFromGoogle u = (if u = uuid_Nil then None else UUIDFromGoogle u)"

definition TextFromString :: "string \<Rightarrow> string option" where
  "TextFromString s = (if s = [] then None else Some s)"

definition text_String :: "string option \<Rightarrow> string" where
  "text_String t = (case t of None \<Rightarrow> [] | Some s \<Rightarrow> s)"

definition pg_instant :: "gotime \<Rightarrow> gotime" where
  "pg_instant t = t div 1000 * 1000"

definition TimeFromGo :: "gotime \<Rightarrow> gotime option" where
  "TimeFromGo t = Some (pg_instant t)"

definition NullTimeFromGo :: "gotime \<Rightarrow> gotime option" where
  "NullTimeFromGo t = (if t = 0 then None else TimeFromGo t)"

definition time_Time :: "gotime option \<Rightarrow> gotime" where
  "time_Time t = (case t of None \<Rightarrow> 0 | Some v \<Rightarrow> v)"

definition optionalTime :: "gotime option \<Rightarrow> gotime" where
  "optionalTime t = (case t of Some v \<Rightarrow> v | None \<Rightarrow> 0)"

text \<open>
  \<open>pgtype.Numeric\<close>'s own methods are a parameter, \<open>pgnum\<close>: \<open>Scan\<close>,
  \<open>Value\<close> (\<open>None\<close> when it gives an error, nil or no string) and
  \<open>Float64Value\<close> (\<open>None\<close> when it gives an error or a NULL).
\<close>

record pgnum =
  pn_Scan :: "string \<Rightarrow> numeric res"
  pn_Value :: "numeric \<Rightarrow> string option"
  pn_Float64 :: "numeric \<Rightarrow> float64 option"

definition NumericFromString :: "pgnum \<Rightarrow> string \<Rightarrow> numeric res" where
  "NumericFromString pg s = (case pn_Scan pg s of Inl e \<Rightarrow> Inl e | Inr n \<Rightarrow> Inr n)"

definition NumericToString :: "pgnum \<Rightarrow> numeric \<Rightarrow> string" where
  "NumericToString pg n = (case pn_Value pg n of None \<Rightarrow> ''0'' | Some s \<Rightarrow> s)"

definition NumericFromFloat64 :: "pgnum \<Rightarrow> float64 \<Rightarrow> numeric res" where
  "NumericFromFloat64 pg f = NumericFromString pg (FormatFloat_shortest f)"

definition NumericToFloat64 :: "pgnum \<Rightarrow> numeric \<Rightarrow> float64" where
  "NumericToFloat64 pg n = (case pn_Float64 pg n of None \<Rightarrow> float_of_int 0 | Some f \<Rightarrow> f)"

lemma UUIDToGoogle_simps [simp]: "UUIDToGoogle (Some u) = u" "UUIDToGoogle None = uuid_Nil"
  by (simp_all add: UUIDToGoogle_def)

lemma null_uuid_roundtrip [simp]: "UUIDToGoogle (NullUUIDFromGoogle u) = u"
  by (simp add: NullUUIDFromGoogle_def UUIDFromGoogle_def)

lemma text_roundtrip [simp]: "text_String (TextFromString s) = s"
  by (simp add: text_String_def TextFromString_def)

lemma text_String_simps [simp]: "text_String None = []" "text_String (Some s) = s"
  by (simp_all add: text_String_def)

lemma TextFromString_eq_Some [simp]: "TextFromString s = Some t \<longleftrightarrow> s = t \<and> s \<noteq> []"
  by (auto simp: TextFromString_def)

lemma time_Time_simps [simp]: "time_Time None = 0" "time_Time (Some t) = t"
  by (simp_all add: time_Time_def)

lemma pg_instant_le: "pg_instant t \<le> t"
  by (simp add: pg_instant_def)

lemma pg_instant_idem [simp]: "pg_instant (pg_instant t) = pg_instant t"
  by (simp add: pg_instant_def)

lemma null_time_roundtrip: "time_Time (NullTimeFromGo t) = pg_instant t"
  by (simp add: NullTimeFromGo_def TimeFromGo_def pg_instant_def)

text \<open>Values the database draws: the next identifier.\<close>

definition next_id :: "db \<Rightarrow> uuid" where
  "next_id d = db_uuid d (db_serial d)"

definition bump :: "db \<Rightarrow> db" where
  "bump d = d\<lparr>db_serial := Suc (db_serial d)\<rparr>"

definition unique_violation :: "string \<Rightarrow> goerr" where
  "unique_violation c = PgError ''23505'' c"

definition fk_violation :: "string \<Rightarrow> goerr" where
  "fk_violation c = PgError ''23503'' c"

definition check_violation :: "string \<Rightarrow> goerr" where
  "check_violation c = PgError ''23514'' c"

end
