(* ===== verification/Users.thy ===== *)
theory Users
  imports Db
begin

text \<open>
  The users table: the statements of \<open>pkg/dbq/users.sql.go\<close>, the repository of
  \<open>internal/repository/user.go\<close> and the invariant of the table (\<open>users_wf\<close>: the
  primary key and the three unique indexes of the migrations), which every statement keeps.
  The identifier parameters of the statements are never NULL (\<open>pgutil.UUIDFromGoogle\<close>).
\<close>

section \<open>The table\<close>

definition user_get :: "uuid \<Rightarrow> db \<Rightarrow> user_row option" where
  "user_get i d = row_by ur_id i (db_users d)"

definition user_upd :: "uuid \<Rightarrow> (user_row \<Rightarrow> user_row) \<Rightarrow> db \<Rightarrow> db" where
  "user_upd i f d = d\<lparr>db_users := update_by ur_id i f (db_users d)\<rparr>"

interpretation users: row_store ur_id user_get user_upd
  by unfold_locales
    (auto simp: user_get_def user_upd_def row_by_update_same row_by_update_other dest: row_by_Some)

lemma user_get_set: "user_get i d = Some r \<Longrightarrow> i \<in> ur_id ` set (db_users d)"
  by (auto simp: user_get_def dest: row_by_Some)

text \<open>The values of the rows that are not NULL.\<close>

definition somes :: "('r \<Rightarrow> 'a option) \<Rightarrow> 'r list \<Rightarrow> 'a list" where
  "somes f rs = List.map_filter f rs"

lemma somes_simps [simp]:
  "somes f [] = []"
  "somes f (r # rs) = (case f r of None \<Rightarrow> somes f rs | Some x \<Rightarrow> x # somes f rs)"
  by (auto simp: somes_def List.map_filter_simps split: option.splits)

lemma somes_append [simp]: "somes f (rs @ rs') = somes f rs @ somes f rs'"
  by (induction rs) (auto split: option.splits)

lemma set_somes: "x \<in> set (somes f rs) \<longleftrightarrow> (\<exists>r \<in> set rs. f r = Some x)"
  by (induction rs) (auto split: option.splits)

lemma somes_update_by: "(\<And>r. g (f r) = g r) \<Longrightarrow> somes g (update_by key k f rs) = somes g rs"
  by (induction rs) (auto split: option.splits)

lemma find_somes_distinct:
  "distinct (somes f rs) \<Longrightarrow> r \<in> set rs \<Longrightarrow> f r = Some x \<Longrightarrow>
    List.find (\<lambda>r. sql_eq (f r) (Some x)) rs = Some r"
  by (induction rs) (auto simp: sql_eq_iff set_somes split: option.splits)

text \<open>The indexed e-mail: the partial index leaves out NULL and the empty string.\<close>

definition indexed_email :: "user_row \<Rightarrow> string option" where
  "indexed_email r = (case ur_email r of None \<Rightarrow> None | Some e \<Rightarrow> if e = [] then None else Some e)"

definition users_wf :: "db \<Rightarrow> bool" where
  "users_wf d \<longleftrightarrow>
     distinct (map ur_id (db_users d)) \<and> distinct (somes ur_apple_sub (db_users d)) \<and>
     distinct (somes ur_google_sub (db_users d)) \<and> distinct (somes indexed_email (db_users d))"

text \<open>The unique index a new row would violate, if any.\<close>

definition user_conflict :: "user_row \<Rightarrow> user_row list \<Rightarrow> string option" where
  "user_conflict r us =
     (if ur_id r \<in> set (map ur_id us) then Some ''users_pkey''
      else if \<exists>u \<in> set us. sql_eq (ur_apple_sub u) (ur_apple_sub r) then Some ''users_apple_sub_key''
      else if \<exists>u \<in> set us. sql_eq (ur_google_sub u) (ur_google_sub r) then Some ''users_google_sub_key''
      else if \<exists>u \<in> set us. sql_eq (indexed_email u) (indexed_email r) then Some ''users_email_key''
      else None)"

definition user_insert :: "user_row \<Rightarrow> db \<Rightarrow> user_row res \<times> db" where
  "user_insert r d =
     (case user_conflict r (db_users d) of
        Some c \<Rightarrow> (Inl (unique_violation c), d)
      | None \<Rightarrow> (Inr r, bump (d\<lparr>db_users := db_users d @ [r]\<rparr>)))"

text \<open>A new row with the column defaults of the migrations.\<close>

definition blank_user :: "db \<Rightarrow> user_row" where
  "blank_user d =
     \<lparr>ur_id = next_id d, ur_apple_sub = None, ur_email = None, ur_base_currency = ''UAH'',
      ur_created_at = db_clock d, ur_password_hash = None, ur_google_sub = None,
      ur_theme = ''system'', ur_gradient_color = ''#34C759'', ur_plan = ''free'', ur_goals = [],
      ur_subscription_status = [], ur_trial_ends_at = None, ur_liqpay_order_id = [],
      ur_name = [], ur_avatar = []\<rparr>"

text \<open>\<open>UPDATE users SET ... WHERE id = $1 RETURNING ...\<close>\<close>

definition user_update :: "uuid \<Rightarrow> (user_row \<Rightarrow> user_row) \<Rightarrow> db \<Rightarrow> user_row res \<times> db" where
  "user_update i f d =
     (let d' = user_upd i f d in
      (case user_get i d' of None \<Rightarrow> Inl ErrNoRows | Some r \<Rightarrow> Inr r, d'))"

section \<open>Statements (pkg/dbq/users.sql.go)\<close>

definition UserGetByAppleSub :: "string option \<Rightarrow> user_row dbop" where
  "UserGetByAppleSub sub = read_stmt (\<lambda>d. query_one (\<lambda>r. sql_eq (ur_apple_sub r) sub) (db_users d))"

definition UserGetByEmail :: "string option \<Rightarrow> user_row dbop" where
  "UserGetByEmail email = read_stmt (\<lambda>d. query_one (\<lambda>r. sql_eq (ur_email r) email) (db_users d))"

definition UserGetByGoogleSub :: "string option \<Rightarrow> user_row dbop" where
  "UserGetByGoogleSub sub = read_stmt (\<lambda>d. query_one (\<lambda>r. sql_eq (ur_google_sub r) sub) (db_users d))"

definition UserGetByID :: "uuid \<Rightarrow> user_row dbop" where
  "UserGetByID i = read_stmt (\<lambda>d. query_one (\<lambda>r. ur_id r = i) (db_users d))"

definition UserGetByLiqPayOrderID :: "string \<Rightarrow> user_row dbop" where
  "UserGetByLiqPayOrderID oid = read_stmt (\<lambda>d. query_one (\<lambda>r. ur_liqpay_order_id r = oid) (db_users d))"

definition UserCreate :: "string option \<Rightarrow> string option \<Rightarrow> string \<Rightarrow> user_row dbop" where
  "UserCreate appleSub email baseCurrency = stmt (\<lambda>d. user_insert
     ((blank_user d)\<lparr>ur_apple_sub := appleSub, ur_email := email, ur_base_currency := baseCurrency\<rparr>) d)"

definition UserCreateWithEmail :: "string option \<Rightarrow> string option \<Rightarrow> string \<Rightarrow> user_row dbop" where
  "UserCreateWithEmail email passwordHash baseCurrency = stmt (\<lambda>d. user_insert
     ((blank_user d)\<lparr>ur_email := email, ur_password_hash := passwordHash, ur_base_currency := baseCurrency\<rparr>) d)"

definition UserCreateWithGoogle :: "string option \<Rightarrow> string option \<Rightarrow> string \<Rightarrow> user_row dbop" where
  "UserCreateWithGoogle googleSub email baseCurrency = stmt (\<lambda>d. user_insert
     ((blank_user d)\<lparr>ur_google_sub := googleSub, ur_email := email, ur_base_currency := baseCurrency\<rparr>) d)"

definition UserUpdatePreferences :: "uuid \<Rightarrow> string \<Rightarrow> string \<Rightarrow> user_row dbop" where
  "UserUpdatePreferences i theme gradientColor =
     stmt (user_update i (\<lambda>r. r\<lparr>ur_theme := theme, ur_gradient_color := gradientColor\<rparr>))"

definition UserUpdateProfile :: "uuid \<Rightarrow> string \<Rightarrow> string \<Rightarrow> user_row dbop" where
  "UserUpdateProfile i name avatar = stmt (user_update i (\<lambda>r. r\<lparr>ur_name := name, ur_avatar := avatar\<rparr>))"

definition UserUpdateGoals :: "uuid \<Rightarrow> string \<Rightarrow> user_row dbop" where
  "UserUpdateGoals i goals = stmt (user_update i (\<lambda>r. r\<lparr>ur_goals := goals\<rparr>))"

definition UserUpdateBaseCurrency :: "uuid \<Rightarrow> string \<Rightarrow> user_row dbop" where
  "UserUpdateBaseCurrency i currency = stmt (user_update i (\<lambda>r. r\<lparr>ur_base_currency := currency\<rparr>))"

definition UserStartTrial :: "uuid \<Rightarrow> string \<Rightarrow> gotime option \<Rightarrow> user_row dbop" where
  "UserStartTrial i orderID trialEndsAt =
     stmt (user_update i (\<lambda>r. r\<lparr>ur_liqpay_order_id := orderID, ur_subscription_status := ''pending'',
       ur_trial_ends_at := trialEndsAt\<rparr>))"

definition UserUpdateSubscription :: "uuid \<Rightarrow> string \<Rightarrow> string \<Rightarrow> gotime option \<Rightarrow> user_row dbop" where
  "UserUpdateSubscription i plan status trialEndsAt =
     stmt (user_update i (\<lambda>r. r\<lparr>ur_plan := plan, ur_subscription_status := status,
       ur_trial_ends_at := trialEndsAt\<rparr>))"

text \<open>
  The administrator's list. \<open>ILIKE\<close> is the server's operator (parameter \<open>ilike\<close>, value
  then pattern); a negative LIMIT or OFFSET is an error; the rows are sorted by
  \<open>created_at DESC\<close>, ties in table order.
\<close>

definition admin_match :: "(string \<Rightarrow> string \<Rightarrow> bool) \<Rightarrow> string \<Rightarrow> string \<Rightarrow> user_row \<Rightarrow> bool" where
  "admin_match ilike search planFilter r \<longleftrightarrow>
     (search = [] \<or> (case ur_email r of None \<Rightarrow> False | Some e \<Rightarrow> ilike e (''%'' @ search @ ''%''))) \<and>
     (planFilter = [] \<or> ur_plan r = planFilter)"

definition UserListForAdmin ::
  "(string \<Rightarrow> string \<Rightarrow> bool) \<Rightarrow> int \<Rightarrow> int \<Rightarrow> string \<Rightarrow> string \<Rightarrow> (user_row \<times> int) list dbop" where
  "UserListForAdmin ilike lim ofs search planFilter = read_stmt (\<lambda>d.
     if lim < 0 then Inl (PgError ''2201W'' ''LIMIT must not be negative'')
     else if ofs < 0 then Inl (PgError ''2201X'' ''OFFSET must not be negative'')
     else (let ms = filter (admin_match ilike search planFilter) (db_users d);
               page = take (nat lim) (drop (nat ofs) (sort_key (\<lambda>r. - ur_created_at r) ms))
           in Inr (map (\<lambda>r. (r, int (length ms))) page)))"

text \<open>One row per group, in the order the groups first appear.\<close>

definition UserCountByPlan :: "(string \<times> string \<times> int) list dbop" where
  "UserCountByPlan = read_stmt (\<lambda>d.
     let key = (\<lambda>r. (ur_plan r, ur_subscription_status r));
         count = (\<lambda>k. int (length (filter (\<lambda>r. key r = k) (db_users d))))
     in Inr (map (\<lambda>k. (fst k, snd k, count k)) (remdups (map key (db_users d)))))"

text \<open>
  \<open>generate_series(now() - N days, now(), '1 day')\<close> has N + 1 members; a \<open>::date\<close> is the
  number of whole days since the zero instant (the server's zone is UTC).
\<close>

definition date_of :: "gotime \<Rightarrow> int" where
  "date_of t = t div day_ns"

definition UserSignupsByDay :: "int \<Rightarrow> (int \<times> int) list dbop" where
  "UserSignupsByDay n = read_stmt (\<lambda>d.
     Inr (map (\<lambda>i. let day = date_of (db_clock d - i * day_ns) in
                 (day, int (length (filter (\<lambda>r. date_of (ur_created_at r) = day) (db_users d)))))
            (rev [0..n])))"

lemmas user_queries =
  UserGetByAppleSub_def UserGetByEmail_def UserGetByGoogleSub_def UserGetByID_def
  UserGetByLiqPayOrderID_def UserListForAdmin_def UserCountByPlan_def UserSignupsByDay_def

lemmas user_inserts = UserCreate_def UserCreateWithEmail_def UserCreateWithGoogle_def

lemmas user_updates =
  UserUpdatePreferences_def UserUpdateProfile_def UserUpdateGoals_def UserUpdateBaseCurrency_def
  UserStartTrial_def UserUpdateSubscription_def

section \<open>The invariant of the table\<close>

lemma fault_free_users_wf [simp]: "fault_free users_wf"
  by (simp add: fault_free_def users_wf_def)

lemma users_wf_insert: "users_wf d \<Longrightarrow> users_wf (snd (user_insert r d))"
  by (auto simp: user_insert_def user_conflict_def users_wf_def bump_def set_somes sql_eq_iff
      split: option.splits if_splits)

lemma users_wf_upd:
  assumes "users_wf d"
    and "\<And>r. ur_id (f r) = ur_id r" "\<And>r. ur_apple_sub (f r) = ur_apple_sub r"
    and "\<And>r. ur_google_sub (f r) = ur_google_sub r" "\<And>r. ur_email (f r) = ur_email r"
  shows "users_wf (user_upd i f d)"
proof -
  have "indexed_email (f r) = indexed_email r" for r
    using assms(5) by (simp add: indexed_email_def)
  with assms show ?thesis
    by (simp add: users_wf_def user_upd_def map_update_by somes_update_by)
qed

lemma snd_user_update [simp]: "snd (user_update i f d) = user_upd i f d"
  by (simp add: user_update_def Let_def)

lemma user_statements_keep [hr]:
  "keeps users_wf (UserGetByAppleSub t)" "keeps users_wf (UserGetByEmail t)"
  "keeps users_wf (UserGetByGoogleSub t)" "keeps users_wf (UserGetByID i)"
  "keeps users_wf (UserGetByLiqPayOrderID s)" "keeps users_wf (UserListForAdmin ilike l off s p)"
  "keeps users_wf UserCountByPlan" "keeps users_wf (UserSignupsByDay n)"
  "keeps users_wf (UserCreate t u s)" "keeps users_wf (UserCreateWithEmail t u s)"
  "keeps users_wf (UserCreateWithGoogle t u s)"
  "keeps users_wf (UserUpdatePreferences i s p)" "keeps users_wf (UserUpdateProfile i s p)"
  "keeps users_wf (UserUpdateGoals i s)" "keeps users_wf (UserUpdateBaseCurrency i s)"
  "keeps users_wf (UserStartTrial i s w)" "keeps users_wf (UserUpdateSubscription i s p w)"
  by (auto simp: user_queries user_inserts user_updates intro!: keeps_read keeps_stmt users_wf_insert users_wf_upd)

section \<open>The repository (internal/repository/user.go)\<close>

record User =
  u_ID :: uuid
  u_AppleSub :: string
  u_Email :: string
  u_BaseCurrency :: string
  u_PasswordHash :: string
  u_GoogleSub :: string
  u_Theme :: string
  u_GradientColor :: string
  u_Plan :: string
  u_Goals :: string
  u_SubscriptionStatus :: string
  u_TrialEndsAt :: gotime
  u_LiqPayOrderID :: string
  u_CreatedAt :: gotime
  u_Name :: string
  u_Avatar :: string

text \<open>
  The source has one copy of this conversion for each row type sqlc generates
  (\<open>userFromGetByAppleSubRow\<close>, \<dots>, \<open>userFromUpdateSubscriptionRow\<close>); the row types
  have the same columns, so the model has one row type and one conversion.
\<close>

definition userFromRow :: "user_row \<Rightarrow> User" where
  "userFromRow r =
     \<lparr>u_ID = ur_id r, u_AppleSub = text_String (ur_apple_sub r), u_Email = text_String (ur_email r),
      u_BaseCurrency = ur_base_currency r, u_PasswordHash = text_String (ur_password_hash r),
      u_GoogleSub = text_String (ur_google_sub r), u_Theme = ur_theme r,
      u_GradientColor = ur_gradient_color r, u_Plan = ur_plan r, u_Goals = ur_goals r,
      u_SubscriptionStatus = ur_subscription_status r, u_TrialEndsAt = time_Time (ur_trial_ends_at r),
      u_LiqPayOrderID = ur_liqpay_order_id r, u_CreatedAt = ur_created_at r,
      u_Name = ur_name r, u_Avatar = ur_avatar r\<rparr>"

lemma userFromRow_simps [simp]:
  "u_ID (userFromRow r) = ur_id r" "u_SubscriptionStatus (userFromRow r) = ur_subscription_status r"
  "u_Plan (userFromRow r) = ur_plan r" "u_LiqPayOrderID (userFromRow r) = ur_liqpay_order_id r"
  "u_TrialEndsAt (userFromRow r) = time_Time (ur_trial_ends_at r)"
  "u_PasswordHash (userFromRow r) = text_String (ur_password_hash r)"
  "u_Email (userFromRow r) = text_String (ur_email r)"
  "u_BaseCurrency (userFromRow r) = ur_base_currency r"
  by (simp_all add: userFromRow_def)

text \<open>\<open>row, err := r.q.X(...); if err != nil { return User{}, err }; return userFromXRow(row), nil\<close>\<close>

definition as_user :: "user_row dbop \<Rightarrow> User dbop" where
  "as_user q = do { r \<leftarrow> q; ret (case r of Inl e \<Rightarrow> Inl e | Inr row \<Rightarrow> Inr (userFromRow row)) }"

definition UserRepo_GetByAppleSub :: "string \<Rightarrow> User dbop" where
  "UserRepo_GetByAppleSub appleSub = as_user (UserGetByAppleSub (TextFromString appleSub))"

definition UserRepo_GetByEmail :: "string \<Rightarrow> User dbop" where
  "UserRepo_GetByEmail email = as_user (UserGetByEmail (TextFromString email))"

definition UserRepo_GetByGoogleSub :: "string \<Rightarrow> User dbop" where
  "UserRepo_GetByGoogleSub googleSub = as_user (UserGetByGoogleSub (TextFromString googleSub))"

definition UserRepo_GetByID :: "uuid \<Rightarrow> User dbop" where
  "UserRepo_GetByID i = as_user (UserGetByID i)"

definition UserRepo_GetByLiqPayOrderID :: "string \<Rightarrow> User dbop" where
  "UserRepo_GetByLiqPayOrderID orderID = as_user (UserGetByLiqPayOrderID orderID)"

definition UserRepo_Create :: "string \<Rightarrow> string \<Rightarrow> string \<Rightarrow> User dbop" where
  "UserRepo_Create appleSub email baseCurrency =
     as_user (UserCreate (TextFromString appleSub) (TextFromString email) baseCurrency)"

definition UserRepo_CreateWithEmail :: "string \<Rightarrow> string \<Rightarrow> string \<Rightarrow> User dbop" where
  "UserRepo_CreateWithEmail email passwordHash baseCurrency =
     as_user (UserCreateWithEmail (TextFromString email) (TextFromString passwordHash) baseCurrency)"

definition UserRepo_CreateWithGoogle :: "string \<Rightarrow> string \<Rightarrow> string \<Rightarrow> User dbop" where
  "UserRepo_CreateWithGoogle googleSub email baseCurrency =
     as_user (UserCreateWithGoogle (TextFromString googleSub) (TextFromString email) baseCurrency)"

definition UserRepo_UpdateGoals :: "uuid \<Rightarrow> string \<Rightarrow> User dbop" where
  "UserRepo_UpdateGoals i goals = as_user (UserUpdateGoals i goals)"

definition UserRepo_UpdateBaseCurrency :: "uuid \<Rightarrow> string \<Rightarrow> User dbop" where
  "UserRepo_UpdateBaseCurrency i currency = as_user (UserUpdateBaseCurrency i currency)"

definition UserRepo_UpdatePreferences :: "uuid \<Rightarrow> string \<Rightarrow> string \<Rightarrow> User dbop" where
  "UserRepo_UpdatePreferences i theme gradientColor = as_user (UserUpdatePreferences i theme gradientColor)"

definition UserRepo_UpdateProfile :: "uuid \<Rightarrow> string \<Rightarrow> string \<Rightarrow> User dbop" where
  "UserRepo_UpdateProfile i name avatar = as_user (UserUpdateProfile i name avatar)"

definition UserRepo_BeginCheckout :: "uuid \<Rightarrow> string \<Rightarrow> gotime \<Rightarrow> User dbop" where
  "UserRepo_BeginCheckout i orderID trialEndsAt =
     as_user (UserStartTrial i orderID (NullTimeFromGo trialEndsAt))"

definition UserRepo_UpdateSubscription :: "uuid \<Rightarrow> string \<Rightarrow> string \<Rightarrow> gotime \<Rightarrow> User dbop" where
  "UserRepo_UpdateSubscription i planName status trialEndsAt =
     as_user (UserUpdateSubscription i planName status (NullTimeFromGo trialEndsAt))"

text \<open>Go's conversion of an \<open>int\<close> to an \<open>int32\<close> keeps the low 32 bits.\<close>

definition to_int32 :: "int \<Rightarrow> int" where
  "to_int32 i = sint (word_of_int i :: 32 word)"

definition UserRepo_ListForAdmin ::
  "(string \<Rightarrow> string \<Rightarrow> bool) \<Rightarrow> string \<Rightarrow> string \<Rightarrow> int \<Rightarrow> int \<Rightarrow> (User list \<times> int) dbop" where
  "UserRepo_ListForAdmin ilike search planFilter limit offset = do {
     r \<leftarrow> UserListForAdmin ilike (to_int32 limit) (to_int32 offset) search planFilter;
     case r of
       Inl e \<Rightarrow> ret (Inl e)
     | Inr rows \<Rightarrow>
         ret (Inr (map (\<lambda>(row, _). userFromRow row) rows,
                   if rows = [] then 0 else snd (last rows))) }"

record PlanCount =
  pc_Plan :: string
  pc_SubscriptionStatus :: string
  pc_Count :: int

definition UserRepo_CountByPlan :: "PlanCount list dbop" where
  "UserRepo_CountByPlan = do {
     r \<leftarrow> UserCountByPlan;
     case r of
       Inl e \<Rightarrow> ret (Inl e)
     | Inr rows \<Rightarrow>
         ret (Inr (map (\<lambda>(p, s, c). \<lparr>pc_Plan = p, pc_SubscriptionStatus = s, pc_Count = c\<rparr>) rows)) }"

record DaySignups =
  ds_Day :: int
  ds_Signups :: int

definition UserRepo_SignupsByDay :: "int \<Rightarrow> DaySignups list dbop" where
  "UserRepo_SignupsByDay days = do {
     r \<leftarrow> UserSignupsByDay (to_int32 days);
     case r of
       Inl e \<Rightarrow> ret (Inl e)
     | Inr rows \<Rightarrow> ret (Inr (map (\<lambda>(d, n). \<lparr>ds_Day = d, ds_Signups = n\<rparr>) rows)) }"

lemmas user_repo =
  UserRepo_GetByAppleSub_def UserRepo_GetByEmail_def UserRepo_GetByGoogleSub_def
  UserRepo_GetByID_def UserRepo_GetByLiqPayOrderID_def UserRepo_Create_def
  UserRepo_CreateWithEmail_def UserRepo_CreateWithGoogle_def UserRepo_UpdateGoals_def
  UserRepo_UpdateBaseCurrency_def UserRepo_UpdatePreferences_def UserRepo_UpdateProfile_def
  UserRepo_BeginCheckout_def UserRepo_UpdateSubscription_def

lemma keeps_as_user [hr]: "keeps P q \<Longrightarrow> keeps P (as_user q)"
  by (auto simp: as_user_def intro!: hr)

lemma user_repo_keep [hr]:
  "keeps users_wf (UserRepo_GetByAppleSub t)" "keeps users_wf (UserRepo_GetByEmail t)"
  "keeps users_wf (UserRepo_GetByGoogleSub t)" "keeps users_wf (UserRepo_GetByID i)"
  "keeps users_wf (UserRepo_GetByLiqPayOrderID s)" "keeps users_wf (UserRepo_Create t u s)"
  "keeps users_wf (UserRepo_CreateWithEmail t u s)" "keeps users_wf (UserRepo_CreateWithGoogle t u s)"
  "keeps users_wf (UserRepo_UpdateGoals i s)" "keeps users_wf (UserRepo_UpdateBaseCurrency i s)"
  "keeps users_wf (UserRepo_UpdatePreferences i s p)" "keeps users_wf (UserRepo_UpdateProfile i s p)"
  "keeps users_wf (UserRepo_BeginCheckout i s w)" "keeps users_wf (UserRepo_UpdateSubscription i s p w)"
  "keeps users_wf (UserRepo_ListForAdmin ilike s p l off)" "keeps users_wf UserRepo_CountByPlan"
  "keeps users_wf (UserRepo_SignupsByDay n)"
  by (auto simp: user_repo UserRepo_ListForAdmin_def UserRepo_CountByPlan_def UserRepo_SignupsByDay_def
      intro!: hr)

section \<open>What the repository does on a database that answers\<close>

lemma run_as_user [simp]:
  "run_state (as_user q) d =
     (case run_state q d of (Inl e, d') \<Rightarrow> (Inl e, d') | (Inr row, d') \<Rightarrow> (Inr (userFromRow row), d'))"
  by (auto simp: as_user_def split: prod.splits sum.splits)

lemma run_GetByID:
  "db_faults d = [] \<Longrightarrow> run_state (UserRepo_GetByID i) d =
     (case user_get i d of None \<Rightarrow> Inl ErrNoRows | Some r \<Rightarrow> Inr (userFromRow r), d)"
  by (auto simp: UserRepo_GetByID_def UserGetByID_def query_one_row_by user_get_def split: option.splits)

lemma run_user_update:
  assumes "db_faults d = []" and "\<And>r. ur_id (f r) = ur_id r"
  shows "run_state (as_user (stmt (user_update i f))) d =
    (case user_get i d of None \<Rightarrow> Inl ErrNoRows | Some r \<Rightarrow> Inr (userFromRow (f r)), user_upd i f d)"
  using assms by (auto simp: user_update_def Let_def users.get_upd_same split: option.splits)

lemma user_upd_faults [simp]: "db_faults (user_upd i f d) = db_faults d"
  by (simp add: user_upd_def)

interpretation accounts: account_store ur_id user_get user_upd "\<lambda>d. db_faults d = []" userFromRow
  UserRepo_GetByID "\<lambda>i f. as_user (stmt (user_update i f))"
  by unfold_locales (simp_all only: run_GetByID run_user_update user_upd_faults)

definition set_subscription :: "string \<Rightarrow> string \<Rightarrow> gotime \<Rightarrow> user_row \<Rightarrow> user_row" where
  "set_subscription plan status t r =
     r\<lparr>ur_plan := plan, ur_subscription_status := status, ur_trial_ends_at := NullTimeFromGo t\<rparr>"

definition begin_checkout :: "string \<Rightarrow> gotime \<Rightarrow> user_row \<Rightarrow> user_row" where
  "begin_checkout oid t r =
     r\<lparr>ur_liqpay_order_id := oid, ur_subscription_status := ''pending'', ur_trial_ends_at := NullTimeFromGo t\<rparr>"

lemma subscription_fields [simp]:
  "ur_id (set_subscription p s t r) = ur_id r" "ur_plan (set_subscription p s t r) = p"
  "ur_subscription_status (set_subscription p s t r) = s"
  "ur_trial_ends_at (set_subscription p s t r) = NullTimeFromGo t"
  "ur_liqpay_order_id (set_subscription p s t r) = ur_liqpay_order_id r"
  "ur_id (begin_checkout oid t r) = ur_id r" "ur_plan (begin_checkout oid t r) = ur_plan r"
  "ur_subscription_status (begin_checkout oid t r) = ''pending''"
  "ur_trial_ends_at (begin_checkout oid t r) = NullTimeFromGo t"
  "ur_liqpay_order_id (begin_checkout oid t r) = oid"
  by (simp_all add: set_subscription_def begin_checkout_def)

lemma run_UpdateSubscription:
  "db_faults d = [] \<Longrightarrow> run_state (UserRepo_UpdateSubscription i p s t) d =
    (case user_get i d of None \<Rightarrow> Inl ErrNoRows | Some r \<Rightarrow> Inr (userFromRow (set_subscription p s t r)),
     user_upd i (set_subscription p s t) d)"
  unfolding UserRepo_UpdateSubscription_def UserUpdateSubscription_def set_subscription_def
  by (rule run_user_update) simp_all

lemma run_BeginCheckout:
  "db_faults d = [] \<Longrightarrow> run_state (UserRepo_BeginCheckout i oid t) d =
    (case user_get i d of None \<Rightarrow> Inl ErrNoRows | Some r \<Rightarrow> Inr (userFromRow (begin_checkout oid t r)),
     user_upd i (begin_checkout oid t) d)"
  unfolding UserRepo_BeginCheckout_def UserStartTrial_def begin_checkout_def
  by (rule run_user_update) simp_all

lemma user_get_simps [simp]:
  "user_get i (d\<lparr>db_payments := ps\<rparr>) = user_get i d"
  "user_get i (d\<lparr>db_sessions := ss\<rparr>) = user_get i d"
  "user_get i (d\<lparr>db_faults := fs\<rparr>) = user_get i d"
  "user_get i (bump d) = user_get i d"
  by (simp_all add: user_get_def bump_def)

section \<open>What the repository does on any database\<close>

text \<open>
  Under any schedule of failures: a fetch leaves the users as they are, a change either changes
  the row of its key or nothing, and an insertion appends at most one row.
\<close>

abbreviation users_are :: "user_row list \<Rightarrow> db \<Rightarrow> bool" where
  "users_are us d \<equiv> db_users d = us"

lemma fault_free_users_are [simp]: "fault_free (\<lambda>d. P (db_users d))"
  by (simp add: fault_free_def)

lemma hoare_fetch:
  "hoare (users_are us) (UserRepo_GetByID i)
     (\<lambda>r d. users_are us d \<and> (\<forall>u. r = Inr u \<longrightarrow> (\<exists>row. row_by ur_id i us = Some row \<and> u = userFromRow row)))"
proof -
  have "hoare (users_are us) (UserGetByID i)
     (\<lambda>r d. users_are us d \<and> (\<forall>row. r = Inr row \<longrightarrow> row_by ur_id i us = Some row))"
    unfolding UserGetByID_def read_stmt_def
    by (rule hoare_stmt [where P' = "users_are us"])
      (auto simp: query_one_row_by fault_free_def split: option.splits)
  then show ?thesis
    unfolding UserRepo_GetByID_def as_user_def
    by (rule hoare_bind) (auto simp: hoare_def split: sum.splits)
qed

lemma hoare_fetch_order:
  "hoare (users_are us) (UserRepo_GetByLiqPayOrderID oid)
     (\<lambda>r d. users_are us d \<and>
        (\<forall>u. r = Inr u \<longrightarrow> (\<exists>row \<in> set us. ur_liqpay_order_id row = oid \<and> u = userFromRow row)))"
proof -
  have "hoare (users_are us) (UserGetByLiqPayOrderID oid)
     (\<lambda>r d. users_are us d \<and> (\<forall>row. r = Inr row \<longrightarrow> row \<in> set us \<and> ur_liqpay_order_id row = oid))"
    unfolding UserGetByLiqPayOrderID_def read_stmt_def
    by (rule hoare_stmt [where P' = "users_are us"]) (auto simp: fault_free_def dest: query_one_Inr)
  then show ?thesis
    unfolding UserRepo_GetByLiqPayOrderID_def as_user_def
    by (rule hoare_bind) (auto simp: hoare_def split: sum.splits)
qed

lemma hoare_change:
  "hoare (users_are us) (as_user (stmt (user_update i f)))
     (\<lambda>r d. users_are us d \<or> users_are (update_by ur_id i f us) d)"
proof -
  have "hoare (users_are us) (stmt (user_update i f))
     (\<lambda>r d. users_are us d \<or> users_are (update_by ur_id i f us) d)"
    by (rule hoare_stmt [where P' = "users_are us"]) (auto simp: fault_free_def user_upd_def)
  then show ?thesis
    unfolding as_user_def by (rule hoare_bind) (auto simp: hoare_def split: sum.splits)
qed

lemma hoare_UpdateSubscription:
  "hoare (users_are us) (UserRepo_UpdateSubscription i p s t)
     (\<lambda>r d. users_are us d \<or> users_are (update_by ur_id i (set_subscription p s t) us) d)"
  using hoare_change [of us i "set_subscription p s t"]
  by (simp add: UserRepo_UpdateSubscription_def UserUpdateSubscription_def set_subscription_def [abs_def])

lemma hoare_BeginCheckout:
  "hoare (users_are us) (UserRepo_BeginCheckout i oid t)
     (\<lambda>r d. users_are us d \<or> users_are (update_by ur_id i (begin_checkout oid t) us) d)"
  using hoare_change [of us i "begin_checkout oid t"]
  by (simp add: UserRepo_BeginCheckout_def UserStartTrial_def begin_checkout_def [abs_def])

end
