(* ===== verification/Payments.thy ===== *)
theory Payments
  imports Users
begin

text \<open>
  The payment events: the statements of \<open>pkg/dbq/payments.sql.go\<close> and the repository of
  \<open>internal/repository/payment.go\<close>. The table only grows: nothing updates or deletes an event
  while its user exists.
\<close>

section \<open>Statements\<close>

record PaymentEventCreateParams =
  pp_user_id :: uuid
  pp_order_id :: string
  pp_plan :: string
  pp_action :: string
  pp_status :: string
  pp_amount :: numeric
  pp_currency :: string
  pp_error_description :: string

text \<open>
  \<open>user_id\<close> references \<open>users\<close>, \<open>amount\<close> is \<open>NUMERIC(12, 2)\<close>.
\<close>

definition new_payment :: "db \<Rightarrow> PaymentEventCreateParams \<Rightarrow> numeric \<Rightarrow> payment_row" where
  "new_payment d p amount =
     \<lparr>pr_id = next_id d, pr_user_id = pp_user_id p, pr_order_id = pp_order_id p,
      pr_plan = pp_plan p, pr_action = pp_action p, pr_status = pp_status p,
      pr_amount = amount, pr_currency = pp_currency p,
      pr_error_description = pp_error_description p, pr_created_at = db_clock d\<rparr>"

definition payment_insert :: "PaymentEventCreateParams \<Rightarrow> db \<Rightarrow> payment_row res \<times> db" where
  "payment_insert p d =
     (case numeric_col 12 (pp_amount p) of
        Inl e \<Rightarrow> (Inl e, d)
      | Inr amount \<Rightarrow>
          if next_id d \<in> set (map pr_id (db_payments d)) then (Inl (unique_violation ''payment_events_pkey''), d)
          else if user_get (pp_user_id p) d = None then (Inl (fk_violation ''payment_events_user_id_fkey''), d)
          else (let row = new_payment d p amount in
                (Inr row, bump (d\<lparr>db_payments := db_payments d @ [row]\<rparr>))))"

lemma new_payment_fields [simp]:
  "pr_id (new_payment d p a) = next_id d" "pr_user_id (new_payment d p a) = pp_user_id p"
  "pr_order_id (new_payment d p a) = pp_order_id p" "pr_plan (new_payment d p a) = pp_plan p"
  "pr_action (new_payment d p a) = pp_action p" "pr_status (new_payment d p a) = pp_status p"
  "pr_amount (new_payment d p a) = a" "pr_currency (new_payment d p a) = pp_currency p"
  "pr_error_description (new_payment d p a) = pp_error_description p"
  "pr_created_at (new_payment d p a) = db_clock d"
  by (simp_all add: new_payment_def)

definition PaymentEventCreate :: "PaymentEventCreateParams \<Rightarrow> payment_row dbop" where
  "PaymentEventCreate p = stmt (payment_insert p)"

definition PaymentEventListForUser :: "uuid \<Rightarrow> int \<Rightarrow> payment_row list dbop" where
  "PaymentEventListForUser userID limit = read_stmt (\<lambda>d.
     if limit < 0 then Inl (PgError ''2201W'' ''LIMIT must not be negative'')
     else Inr (take (nat limit)
            (sort_key (\<lambda>r. - pr_created_at r) (filter (\<lambda>r. pr_user_id r = userID) (db_payments d)))))"

section \<open>The repository\<close>

record PaymentEvent =
  pe_ID :: uuid
  pe_UserID :: uuid
  pe_OrderID :: string
  pe_Plan :: string
  pe_Action :: string
  pe_Status :: string
  pe_Amount :: float64
  pe_Currency :: string
  pe_ErrorDescription :: string
  pe_CreatedAt :: gotime

record CreatePaymentEventParams =
  cp_UserID :: uuid
  cp_OrderID :: string
  cp_Plan :: string
  cp_Action :: string
  cp_Status :: string
  cp_Amount :: float64
  cp_Currency :: string
  cp_ErrorDescription :: string

definition paymentEventFromRow :: "pgnum \<Rightarrow> payment_row \<Rightarrow> PaymentEvent" where
  "paymentEventFromRow pg row =
     \<lparr>pe_ID = pr_id row, pe_UserID = pr_user_id row, pe_OrderID = pr_order_id row,
      pe_Plan = pr_plan row, pe_Action = pr_action row, pe_Status = pr_status row,
      pe_Amount = NumericToFloat64 pg (pr_amount row), pe_Currency = pr_currency row,
      pe_ErrorDescription = pr_error_description row, pe_CreatedAt = pr_created_at row\<rparr>"

definition create_params :: "CreatePaymentEventParams \<Rightarrow> numeric \<Rightarrow> PaymentEventCreateParams" where
  "create_params p amount =
     \<lparr>pp_user_id = cp_UserID p, pp_order_id = cp_OrderID p, pp_plan = cp_Plan p,
      pp_action = cp_Action p, pp_status = cp_Status p, pp_amount = amount,
      pp_currency = cp_Currency p, pp_error_description = cp_ErrorDescription p\<rparr>"

definition PaymentRepo_Create :: "pgnum \<Rightarrow> CreatePaymentEventParams \<Rightarrow> PaymentEvent dbop" where
  "PaymentRepo_Create pg p =
     (case NumericFromFloat64 pg (cp_Amount p) of
        Inl e \<Rightarrow> ret (Inl e)
      | Inr amount \<Rightarrow> do {
          r \<leftarrow> PaymentEventCreate (create_params p amount);
          case r of
            Inl e \<Rightarrow> ret (Inl e)
          | Inr row \<Rightarrow> ret (Inr (paymentEventFromRow pg row)) })"

definition PaymentRepo_ListForUser :: "pgnum \<Rightarrow> uuid \<Rightarrow> int \<Rightarrow> PaymentEvent list dbop" where
  "PaymentRepo_ListForUser pg userID limit = do {
     r \<leftarrow> PaymentEventListForUser userID limit;
     case r of
       Inl e \<Rightarrow> ret (Inl e)
     | Inr rows \<Rightarrow> ret (Inr (map (paymentEventFromRow pg) rows)) }"

section \<open>The invariant of the table\<close>

text \<open>Every event belongs to a user, identifiers are unique, amounts fit their column.\<close>

definition stored_numeric :: "nat \<Rightarrow> numeric \<Rightarrow> bool" where
  "stored_numeric p n \<longleftrightarrow> numeric_col p n = Inr n"

lemma numeric_col_idem: "numeric_col p n = Inr m \<Longrightarrow> stored_numeric p m"
  by (auto dest!: numeric_col_stored simp: stored_numeric_def numeric_col_exact)
    (simp add: numeric_col_def)

definition payments_wf :: "db \<Rightarrow> bool" where
  "payments_wf d \<longleftrightarrow>
     distinct (map pr_id (db_payments d)) \<and>
     (\<forall>r \<in> set (db_payments d). pr_user_id r \<in> ur_id ` set (db_users d) \<and> stored_numeric 12 (pr_amount r))"

lemma fault_free_payments_wf [simp]: "fault_free payments_wf"
  by (simp add: fault_free_def payments_wf_def)

lemma payments_wf_insert: "payments_wf d \<Longrightarrow> payments_wf (snd (payment_insert p d))"
  by (auto simp: payment_insert_def payments_wf_def bump_def Let_def numeric_col_idem
      dest: user_get_set split: sum.splits)

lemma payments_wf_users:
  "payments_wf d \<Longrightarrow> ur_id ` set (db_users d) \<subseteq> ur_id ` set us \<Longrightarrow> payments_wf (d\<lparr>db_users := us\<rparr>)"
  by (auto simp: payments_wf_def)

lemma ids_update_by: "(\<And>r. ur_id (f r) = ur_id r) \<Longrightarrow> ur_id ` set (update_by ur_id i f us) = ur_id ` set us"
  by (metis list.set_map map_update_by)

lemma payments_wf_upd: "payments_wf d \<Longrightarrow> (\<And>r. ur_id (f r) = ur_id r) \<Longrightarrow> payments_wf (user_upd i f d)"
  unfolding user_upd_def by (rule payments_wf_users) (simp_all add: ids_update_by)

lemma payments_wf_user_insert: "payments_wf d \<Longrightarrow> payments_wf (snd (user_insert r d))"
  by (auto simp: user_insert_def payments_wf_def bump_def split: option.splits)

lemma payments_keep_users [hr]: "keeps users_wf (PaymentEventCreate p)" "keeps users_wf (PaymentEventListForUser i n)"
  by (auto simp: PaymentEventCreate_def PaymentEventListForUser_def users_wf_def payment_insert_def bump_def Let_def
      fault_free_def intro!: keeps_stmt keeps_read split: sum.splits)

lemma payments_keep [hr]: "keeps payments_wf (PaymentEventCreate p)" "keeps payments_wf (PaymentEventListForUser i n)"
  by (auto simp: PaymentEventCreate_def PaymentEventListForUser_def intro!: keeps_stmt keeps_read payments_wf_insert)

lemma users_keep_payments [hr]:
  "keeps payments_wf (UserRepo_GetByID i)" "keeps payments_wf (UserRepo_GetByLiqPayOrderID s)"
  "keeps payments_wf (UserRepo_BeginCheckout i s w)" "keeps payments_wf (UserRepo_UpdateSubscription i s p w)"
  by (auto simp: user_repo user_queries user_updates
      intro!: keeps_as_user keeps_read keeps_stmt payments_wf_upd)

lemma payment_repo_keep [hr]:
  "keeps users_wf (PaymentRepo_Create pg p)" "keeps payments_wf (PaymentRepo_Create pg p)"
  "keeps users_wf (PaymentRepo_ListForUser pg i n)" "keeps payments_wf (PaymentRepo_ListForUser pg i n)"
  by (auto simp: PaymentRepo_Create_def PaymentRepo_ListForUser_def intro!: hr)

end
