(* ===== verification/Go_Base64.thy ===== *)
theory Go_Base64
  imports Go_Base
begin

text \<open>
  \<open>encoding/base64\<close>: \<open>StdEncoding\<close> (alphabet \<open>A-Z a-z 0-9 + /\<close>, padded), encoding and
  decoding, and \<open>RawURLEncoding\<close>'s encoder (\<open>- _\<close>, no padding). Decoding skips carriage
  returns and line feeds, wants the padding where it belongs and nothing after it.
\<close>

definition b64_char :: "nat \<Rightarrow> char" where
  "b64_char n =
     char_of (if n < 26 then 65 + n else if n < 52 then 71 + n else if n < 62 then n - 4
              else if n = 62 then 43 else 47)"

definition b64_val :: "char \<Rightarrow> nat option" where
  "b64_val c = (let n = of_char c :: nat in
     if 65 \<le> n \<and> n \<le> 90 then Some (n - 65) else if 97 \<le> n \<and> n \<le> 122 then Some (n - 71)
     else if 48 \<le> n \<and> n \<le> 57 then Some (n + 4) else if n = 43 then Some 62
     else if n = 47 then Some 63 else None)"

fun b64_enc :: "nat list \<Rightarrow> string" where
  "b64_enc [] = []"
| "b64_enc [a] = [b64_char (a div 4), b64_char (a mod 4 * 16), CHR ''='', CHR ''='']"
| "b64_enc [a, b] =
     [b64_char (a div 4), b64_char (a mod 4 * 16 + b div 16), b64_char (b mod 16 * 4), CHR ''='']"
| "b64_enc (a # b # c # r) =
     b64_char (a div 4) # b64_char (a mod 4 * 16 + b div 16) # b64_char (b mod 16 * 4 + c div 64) #
     b64_char (c mod 64) # b64_enc r"

fun b64_dec :: "string \<Rightarrow> nat list option" where
  "b64_dec [] = Some []"
| "b64_dec (w # x # y # z # r) =
     (case (b64_val w, b64_val x) of
        (Some p, Some q) \<Rightarrow>
          if y = CHR ''='' then (if z = CHR ''='' \<and> r = [] then Some [p * 4 + q div 16] else None)
          else (case b64_val y of
                  None \<Rightarrow> None
                | Some s \<Rightarrow>
                    if z = CHR ''='' then
                      (if r = [] then Some [p * 4 + q div 16, q mod 16 * 16 + s div 4] else None)
                    else (case b64_val z of
                            None \<Rightarrow> None
                          | Some t \<Rightarrow>
                              (case b64_dec r of
                                 None \<Rightarrow> None
                               | Some bs \<Rightarrow> Some ([p * 4 + q div 16, q mod 16 * 16 + s div 4, s mod 4 * 64 + t] @ bs))))
      | _ \<Rightarrow> None)"
| "b64_dec _ = None"

definition base64_EncodeToString :: "string \<Rightarrow> string" where
  "base64_EncodeToString s = b64_enc (bytes_of s)"

definition base64_DecodeString :: "string \<Rightarrow> string option" where
  "base64_DecodeString s =
     (case b64_dec (filter (\<lambda>c. c \<noteq> CHR 0x0D \<and> c \<noteq> CHR 0x0A) s) of
        None \<Rightarrow> None | Some bs \<Rightarrow> Some (string_of_bytes bs))"

text \<open>\<open>base64.RawURLEncoding.EncodeToString\<close>\<close>

definition base64_RawURL :: "string \<Rightarrow> string" where
  "base64_RawURL s =
     map (\<lambda>c. if c = CHR ''+'' then CHR ''-'' else if c = CHR ''/'' then CHR ''_'' else c)
       (filter (\<lambda>c. c \<noteq> CHR ''='') (base64_EncodeToString s))"

lemma b64_val_char: "n < 64 \<Longrightarrow> b64_val (b64_char n) = Some n"
  by (auto simp: b64_val_def b64_char_def Let_def)

lemma char_code_neq: "(of_char c :: nat) \<noteq> of_char d \<Longrightarrow> c \<noteq> d"
  by auto

lemma b64_char_clean:
  "n < 64 \<Longrightarrow> b64_char n \<noteq> CHR ''='' \<and> b64_char n \<noteq> CHR 0x0D \<and> b64_char n \<noteq> CHR 0x0A"
  by (intro conjI char_code_neq) (auto simp: b64_char_def)

text \<open>
  The three decoded bytes of a group of four sextets, and the sextets of three bytes: the
  arithmetic of one group, which the inductions below only rewrite with.
\<close>

definition sx1 :: "nat \<Rightarrow> nat" where "sx1 a = a div 4"
definition sx2 :: "nat \<Rightarrow> nat \<Rightarrow> nat" where "sx2 a b = a mod 4 * 16 + b div 16"
definition sx3 :: "nat \<Rightarrow> nat \<Rightarrow> nat" where "sx3 b c = b mod 16 * 4 + c div 64"
definition sx4 :: "nat \<Rightarrow> nat" where "sx4 c = c mod 64"
definition by1 :: "nat \<Rightarrow> nat \<Rightarrow> nat" where "by1 p q = p * 4 + q div 16"
definition by2 :: "nat \<Rightarrow> nat \<Rightarrow> nat" where "by2 q s = q mod 16 * 16 + s div 4"
definition by3 :: "nat \<Rightarrow> nat \<Rightarrow> nat" where "by3 s t = s mod 4 * 64 + t"

lemma sextet_bounds:
  assumes "a < 256" "b < 256" "c < (256::nat)"
  shows "sx1 a < 64" "sx2 a b < 64" "sx3 b c < 64" "sx4 c < 64"
proof -
  have d: "b div 16 < 16" "c div 64 < 4" using assms by simp_all
  have m: "a mod 4 < 4" "b mod 16 < 16" by simp_all
  show "sx1 a < 64" using assms by (simp add: sx1_def)
  show "sx2 a b < 64" unfolding sx2_def using m d by linarith
  show "sx3 b c < 64" unfolding sx3_def using m d by linarith
  show "sx4 c < 64" by (simp add: sx4_def)
qed

lemma sextet_bytes:
  assumes "a < 256" "b < 256" "c < (256::nat)"
  shows "by1 (sx1 a) (sx2 a b) = a" "by2 (sx2 a b) (sx3 b c) = b" "by3 (sx3 b c) (sx4 c) = c"
proof -
  have d: "b div 16 < 16" "c div 64 < 4" using assms by simp_all
  show "by1 (sx1 a) (sx2 a b) = a" using d by (simp add: by1_def sx1_def sx2_def)
  have "(b mod 16 * 4 + c div 64) div 4 = b mod 16" using d by simp
  then show "by2 (sx2 a b) (sx3 b c) = b" using d by (simp add: by2_def sx2_def sx3_def)
  show "by3 (sx3 b c) (sx4 c) = c" using d by (simp add: by3_def sx3_def sx4_def)
qed

lemma b64_enc_sx:
  "b64_enc [a] = [b64_char (sx1 a), b64_char (sx2 a 0), CHR ''='', CHR ''='']"
  "b64_enc [a, b] = [b64_char (sx1 a), b64_char (sx2 a b), b64_char (sx3 b 0), CHR ''='']"
  "b64_enc (a # b # c # r) =
     b64_char (sx1 a) # b64_char (sx2 a b) # b64_char (sx3 b c) # b64_char (sx4 c) # b64_enc r"
  by (simp_all add: sx1_def sx2_def sx3_def sx4_def)

lemma b64_dec_by:
  "b64_val w = Some p \<Longrightarrow> b64_val x = Some q \<Longrightarrow>
    b64_dec [w, x, CHR ''='', CHR ''=''] = Some [by1 p q]"
  "b64_val w = Some p \<Longrightarrow> b64_val x = Some q \<Longrightarrow> b64_val y = Some s \<Longrightarrow> y \<noteq> CHR ''='' \<Longrightarrow>
    b64_dec [w, x, y, CHR ''=''] = Some [by1 p q, by2 q s]"
  "b64_val w = Some p \<Longrightarrow> b64_val x = Some q \<Longrightarrow> b64_val y = Some s \<Longrightarrow> y \<noteq> CHR ''='' \<Longrightarrow>
    b64_val z = Some t \<Longrightarrow> z \<noteq> CHR ''='' \<Longrightarrow> b64_dec r = Some bs \<Longrightarrow>
    b64_dec (w # x # y # z # r) = Some (by1 p q # by2 q s # by3 s t # bs)"
  by (simp_all add: by1_def by2_def by3_def)

lemma b64_dec_enc: "\<forall>n \<in> set bs. n < 256 \<Longrightarrow> b64_dec (b64_enc bs) = Some bs"
proof (induction bs rule: b64_enc.induct)
  case 1
  show ?case by simp
next
  case (2 a)
  then show ?case
    using b64_dec_by(1) [OF b64_val_char b64_val_char, OF sextet_bounds(1,2) [of a 0 0]]
      sextet_bytes(1) [of a 0 0] by (simp only: b64_enc_sx) simp
next
  case (3 a b)
  then show ?case
    using b64_dec_by(2) [OF b64_val_char b64_val_char b64_val_char b64_char_clean [THEN conjunct1],
        OF sextet_bounds(1,2,3,3) [of a b 0]]
      sextet_bytes(1,2) [of a b 0] by (simp only: b64_enc_sx) simp
next
  case (4 a b c r)
  then have "a < 256" "b < 256" "c < 256" "b64_dec (b64_enc r) = Some r" by simp_all
  then show ?case
    using b64_dec_by(3) [OF b64_val_char b64_val_char b64_val_char b64_char_clean [THEN conjunct1]
        b64_val_char b64_char_clean [THEN conjunct1], OF sextet_bounds(1,2,3,3,4,4) [of a b c]]
      sextet_bytes [of a b c] by (simp only: b64_enc_sx simp_thms)
qed

lemma b64_enc_chars:
  "\<forall>n \<in> set bs. n < 256 \<Longrightarrow> set (b64_enc bs) \<subseteq> insert (CHR ''='') (b64_char ` {..<64})"
proof (induction bs rule: b64_enc.induct)
  case 1
  show ?case by simp
next
  case (2 a)
  then show ?case using sextet_bounds [of a 0 0] by (simp only: b64_enc_sx) simp
next
  case (3 a b)
  then show ?case using sextet_bounds [of a b 0] by (simp only: b64_enc_sx) simp
next
  case (4 a b c r)
  then show ?case using sextet_bounds [of a b c] by (simp only: b64_enc_sx) simp
qed

lemma b64_enc_clean:
  "\<forall>n \<in> set bs. n < 256 \<Longrightarrow> c \<in> set (b64_enc bs) \<Longrightarrow> c \<noteq> CHR 0x0D \<and> c \<noteq> CHR 0x0A"
proof -
  assume "\<forall>n \<in> set bs. n < 256" "c \<in> set (b64_enc bs)"
  then have "c = CHR ''='' \<or> (\<exists>n < 64. c = b64_char n)" using b64_enc_chars by blast
  then show ?thesis using b64_char_clean by auto
qed

lemma of_char_bound: "(of_char c :: nat) < 256"
  by (rule nat_of_char_less_256)

lemma bytes_bound: "\<forall>n \<in> set (bytes_of s). n < 256"
  using of_char_bound by (auto simp: bytes_of_def)

lemma string_of_bytes_of [simp]: "string_of_bytes (bytes_of s) = s"
  by (simp add: string_of_bytes_def bytes_of_def comp_def)

theorem base64_roundtrip: "base64_DecodeString (base64_EncodeToString s) = Some s"
proof -
  have "filter (\<lambda>c. c \<noteq> CHR 0x0D \<and> c \<noteq> CHR 0x0A) (b64_enc (bytes_of s)) = b64_enc (bytes_of s)"
    using b64_enc_clean [OF bytes_bound] by (intro filter_True) blast
  then show ?thesis
    by (simp add: base64_DecodeString_def base64_EncodeToString_def b64_dec_enc [OF bytes_bound])
qed

end
