(* ===== verification/Go_Calendar.thy ===== *)
theory Go_Calendar
  imports Go_Base
begin

text \<open>
  The proleptic Gregorian calendar behind \<open>time.Time\<close>: the conversion between an instant
  and its civil date in UTC, \<open>time.Date\<close>'s normalisation of months, \<open>AddDate\<close>, and the
  layouts the program formats dates with. Day 0 is 1 January of year 1.
\<close>

datatype date = Date (d_year: int) (d_month: int) (d_day: int)

instantiation date :: linorder
begin

definition less_eq_date :: "date \<Rightarrow> date \<Rightarrow> bool" where
  "less_eq_date a b \<longleftrightarrow>
     d_year a < d_year b \<or> d_year a = d_year b \<and>
       (d_month a < d_month b \<or> d_month a = d_month b \<and> d_day a \<le> d_day b)"

definition less_date :: "date \<Rightarrow> date \<Rightarrow> bool" where
  "less_date a b \<longleftrightarrow>
     d_year a < d_year b \<or> d_year a = d_year b \<and>
       (d_month a < d_month b \<or> d_month a = d_month b \<and> d_day a < d_day b)"

instance
  by standard (auto simp: less_eq_date_def less_date_def date.expand)

end

section \<open>Years and months\<close>

definition is_leap :: "int \<Rightarrow> bool" where
  "is_leap y \<longleftrightarrow> y mod 4 = 0 \<and> (y mod 100 \<noteq> 0 \<or> y mod 400 = 0)"

definition year_len :: "int \<Rightarrow> int" where
  "year_len y = (if is_leap y then 366 else 365)"

definition month_lens :: "bool \<Rightarrow> int list" where
  "month_lens leap = [31, if leap then 29 else 28, 31, 30, 31, 30, 31, 31, 30, 31, 30, 31]"

definition days_before_year :: "int \<Rightarrow> int" where
  "days_before_year y = 365 * (y - 1) + (y - 1) div 4 - (y - 1) div 100 + (y - 1) div 400"

definition days_before_month :: "int \<Rightarrow> int \<Rightarrow> int" where
  "days_before_month y m = sum_list (take (nat (m - 1)) (month_lens (is_leap y)))"

definition days_in_month :: "int \<Rightarrow> int \<Rightarrow> int" where
  "days_in_month y m = month_lens (is_leap y) ! nat (m - 1)"

definition valid_date :: "date \<Rightarrow> bool" where
  "valid_date D \<longleftrightarrow> 1 \<le> d_month D \<and> d_month D \<le> 12 \<and> 1 \<le> d_day D \<and>
     d_day D \<le> days_in_month (d_year D) (d_month D)"

definition days_of_date :: "date \<Rightarrow> int" where
  "days_of_date D = days_before_year (d_year D) + days_before_month (d_year D) (d_month D) + d_day D - 1"

fun month_of :: "int list \<Rightarrow> int \<Rightarrow> int \<Rightarrow> int \<times> int" where
  "month_of [] m n = (m, n)"
| "month_of (l # ls) m n = (if n < l then (m, n) else month_of ls (m + 1) (n - l))"

text \<open>The year a day lies in and the day's number within it, from 0.\<close>

definition year_of :: "int \<Rightarrow> int \<times> int" where
  "year_of n =
     (let a = n div 146097; r = n mod 146097; b = min 3 (r div 36524);
          s = r - 36524 * b; c = s div 1461; t = s mod 1461; e = min 3 (t div 365)
      in (400 * a + 100 * b + 4 * c + e + 1, t - 365 * e))"

definition date_of_days :: "int \<Rightarrow> date" where
  "date_of_days n =
     (case year_of n of (y, doy) \<Rightarrow>
        (case month_of (month_lens (is_leap y)) 1 doy of (m, d) \<Rightarrow> Date y m (d + 1)))"

lemma div_mod_eqI:
  assumes "(n::int) = k * q + r" "0 \<le> r" "r < k"
  shows "n div k = q" and "n mod k = r"
  using assms int_div_pos_eq [OF assms] int_mod_pos_eq [OF assms] by simp_all

lemma div_pred:
  assumes "0 < (k::int)"
  shows "y div k = (y - 1) div k + (if y mod k = 0 then 1 else 0)"
proof -
  define q r where "q = (y - 1) div k" and "r = (y - 1) mod k"
  have y: "y = k * q + (r + 1)" using mult_div_mod_eq [of k "y - 1"] by (simp add: q_def r_def)
  have r: "0 \<le> r" "r < k" using assms by (simp_all add: r_def)
  show ?thesis
  proof (cases "r + 1 < k")
    case True
    with div_mod_eqI [OF y] r show ?thesis by (simp add: q_def)
  next
    case False
    with r y have "y = k * (q + 1) + 0" by (simp add: algebra_simps)
    from div_mod_eqI [OF this] assms show ?thesis by (simp add: q_def)
  qed
qed

lemma days_before_year_split:
  assumes "0 \<le> b" "b \<le> 3" "0 \<le> c" "c \<le> 24" "0 \<le> e" "e \<le> 3"
  shows "days_before_year (400 * a + 100 * b + 4 * c + e + 1) =
    146097 * a + 36524 * b + 1461 * c + 365 * e"
proof -
  let ?p = "400 * a + 100 * b + 4 * c + e"
  have "?p div 4 = 100 * a + 25 * b + c"
    by (rule div_mod_eqI(1) [where r = e]) (use assms in auto)
  moreover have "?p div 100 = 4 * a + b"
    by (rule div_mod_eqI(1) [where r = "4 * c + e"]) (use assms in auto)
  moreover have "?p div 400 = a"
    by (rule div_mod_eqI(1) [where r = "100 * b + 4 * c + e"]) (use assms in auto)
  ultimately show ?thesis by (simp add: days_before_year_def)
qed

lemma is_leap_split:
  assumes "0 \<le> b" "b \<le> 3" "0 \<le> c" "c \<le> 24" "0 \<le> e" "e \<le> 3"
  shows "is_leap (400 * a + 100 * b + 4 * c + e + 1) \<longleftrightarrow> e = 3 \<and> (c \<noteq> 24 \<or> b = 3)"
proof -
  let ?y = "400 * a + 100 * b + 4 * c + e + 1"
  consider "e < 3" | "e = 3" "c < 24" | "e = 3" "c = 24" "b < 3" | "e = 3" "c = 24" "b = 3"
    using assms by linarith
  then show ?thesis
  proof cases
    case 1
    have "?y mod 4 = e + 1"
      by (rule div_mod_eqI(2) [where q = "100 * a + 25 * b + c"]) (use assms 1 in auto)
    with assms 1 show ?thesis by (simp add: is_leap_def)
  next
    case 2
    have "?y mod 4 = 0"
      by (rule div_mod_eqI(2) [where q = "100 * a + 25 * b + c + 1"]) (use 2 in auto)
    moreover have "?y mod 100 = 4 * c + 4"
      by (rule div_mod_eqI(2) [where q = "4 * a + b"]) (use assms 2 in auto)
    ultimately show ?thesis using assms 2 by (simp add: is_leap_def)
  next
    case 3
    have "?y mod 100 = 0"
      by (rule div_mod_eqI(2) [where q = "4 * a + b + 1"]) (use 3 in auto)
    moreover have "?y mod 400 = 100 * b + 100"
      by (rule div_mod_eqI(2) [where q = a]) (use assms 3 in auto)
    ultimately show ?thesis using assms 3 by (simp add: is_leap_def)
  next
    case 4
    have "?y mod 4 = 0"
      by (rule div_mod_eqI(2) [where q = "100 * (a + 1)"]) (use 4 in auto)
    moreover have "?y mod 400 = 0"
      by (rule div_mod_eqI(2) [where q = "a + 1"]) (use 4 in auto)
    ultimately show ?thesis using 4 by (simp add: is_leap_def)
  qed
qed

lemma min_div_bounds:
  assumes "0 \<le> (r::int)" "r < 4 * k + 1" "0 < k"
  shows "0 \<le> min 3 (r div k)" "0 \<le> r - k * min 3 (r div k)" "r - k * min 3 (r div k) \<le> k"
    "min 3 (r div k) < 3 \<longrightarrow> r - k * min 3 (r div k) < k"
proof -
  have m: "r = k * (r div k) + r mod k" "0 \<le> r mod k" "r mod k < k"
    using assms by simp_all
  have q: "0 \<le> r div k" using assms by (simp add: pos_imp_zdiv_nonneg_iff)
  then show "0 \<le> min 3 (r div k)" by simp
  consider "r div k \<le> 3" "min 3 (r div k) = r div k" | "3 < r div k" "min 3 (r div k) = 3"
    by linarith
  then have "0 \<le> r - k * min 3 (r div k) \<and> r - k * min 3 (r div k) \<le> k \<and>
    (min 3 (r div k) < 3 \<longrightarrow> r - k * min 3 (r div k) < k)"
  proof cases
    case 1
    with m show ?thesis by (simp only: 1(2)) linarith
  next
    case 2
    from 2(1) assms(3) have "k * 3 \<le> k * (r div k)" by simp
    with m assms show ?thesis by (simp only: 2(2)) linarith
  qed
  then show "0 \<le> r - k * min 3 (r div k)" "r - k * min 3 (r div k) \<le> k"
    "min 3 (r div k) < 3 \<longrightarrow> r - k * min 3 (r div k) < k"
    by simp_all
qed

lemma year_of_correct:
  assumes "year_of n = (y, doy)"
  shows "days_before_year y + doy = n \<and> 0 \<le> doy \<and> doy < year_len y"
proof -
  define a where "a = n div 146097"
  define r where "r = n mod 146097"
  define b where "b = min 3 (r div 36524)"
  define s where "s = r - 36524 * b"
  define c where "c = s div 1461"
  define t where "t = s mod 1461"
  define e where "e = min 3 (t div 365)"
  have y: "y = 400 * a + 100 * b + 4 * c + e + 1" and doy: "doy = t - 365 * e"
    using assms by (simp_all only: year_of_def Let_def a_def r_def b_def s_def c_def t_def e_def prod.inject)
  have n: "n = 146097 * a + r" by (simp add: a_def r_def)
  have r: "0 \<le> r" "r < 146097" by (simp_all add: r_def)
  have "r < 4 * 36524 + 1" "(0::int) < 36524" "t < 4 * 365 + 1" "(0::int) < 365"
    using r by (simp_all add: t_def)
  note bs = min_div_bounds [OF r(1) this(1,2), folded b_def, folded s_def] and te = this(3,4)
  have b: "0 \<le> b" "b \<le> 3" and s: "0 \<le> s" "s \<le> 36524" "b < 3 \<longrightarrow> s < 36524"
    using bs by (simp_all only: b_def min.cobounded1)
  have sc: "s = 1461 * c + t" by (simp add: c_def t_def)
  have t: "0 \<le> t" "t < 1461" by (simp_all add: t_def)
  have c: "0 \<le> c" "c \<le> 24" using s sc t by linarith+
  have e: "0 \<le> e" "e \<le> 3" "0 \<le> t - 365 * e" "t - 365 * e \<le> 365" "e < 3 \<longrightarrow> t - 365 * e < 365"
    using min_div_bounds [OF t(1) te, folded e_def] by (simp_all only: e_def min.cobounded1)
  have last: "c = 24 \<and> b < 3 \<longrightarrow> t < 1460"
    using s(3) sc by auto
  have yl: "year_len y = (if e = 3 \<and> (c \<noteq> 24 \<or> b = 3) then 366 else 365)"
    unfolding year_len_def by (simp only: is_leap_split [OF b c e(1,2), of a, folded y])
  have "doy < year_len y"
    unfolding yl doy using e last b(2) by (simp split: if_splits) linarith?
  moreover have "days_before_year y + doy = n"
    using days_before_year_split [OF b c e(1,2), of a, folded y] n sc s_def doy by linarith
  ultimately show ?thesis using e doy by simp
qed

lemma month_lens_props [simp]: "length (month_lens l) = 12" "sum_list (month_lens True) = 366"
  "sum_list (month_lens False) = 365"
  by (simp_all add: month_lens_def)

lemma month_of_correct:
  assumes "0 \<le> n" "n < sum_list ls" "month_of ls m n = (m', d)"
  shows "m \<le> m' \<and> m' < m + int (length ls) \<and> 0 \<le> d \<and> d < ls ! nat (m' - m) \<and>
    sum_list (take (nat (m' - m)) ls) + d = n"
  using assms
proof (induction ls m n rule: month_of.induct)
  case (2 l ls m n)
  show ?case
  proof (cases "n < l")
    case True
    with 2 show ?thesis by simp
  next
    case False
    with 2 have IH: "m + 1 \<le> m'" "m' < m + 1 + int (length ls)" "0 \<le> d"
      "d < ls ! nat (m' - (m + 1))" "sum_list (take (nat (m' - (m + 1))) ls) + d = n - l"
      by simp_all
    moreover from IH(1) have "nat (m' - m) = Suc (nat (m' - (m + 1)))" by linarith
    ultimately show ?thesis by simp
  qed
qed simp

lemma year_len_sum: "year_len y = sum_list (month_lens (is_leap y))"
  by (simp add: year_len_def)

lemma date_of_days_correct:
  "valid_date (date_of_days n) \<and> days_of_date (date_of_days n) = n"
proof -
  obtain y doy where yd: "year_of n = (y, doy)" by fastforce
  obtain m d where md: "month_of (month_lens (is_leap y)) 1 doy = (m, d)" by fastforce
  from year_of_correct [OF yd] have doy: "days_before_year y + doy = n" "0 \<le> doy"
    "doy < sum_list (month_lens (is_leap y))"
    by (simp_all add: year_len_sum)
  from month_of_correct [OF doy(2,3) md] show ?thesis
    using doy(1) by (simp add: date_of_days_def yd md valid_date_def days_of_date_def
        days_in_month_def days_before_month_def)
qed

section \<open>The order of dates is the order of days\<close>

lemma leap_len:
  "(B \<longrightarrow> A) \<Longrightarrow> (C \<longrightarrow> B) \<Longrightarrow> (if A \<and> (\<not> B \<or> C) then 366 else 365) =
    365 + (if A then 1 else 0) - (if B then 1 else 0) + (if C then 1 else (0::int))"
  by (cases A; cases B; cases C) simp_all

lemma days_before_year_Suc: "days_before_year (y + 1) = days_before_year y + year_len y"
proof -
  define I :: "int \<Rightarrow> int" where "I k = (if y mod k = 0 then 1 else 0)" for k
  define Q :: "int \<Rightarrow> int" where "Q k = (y - 1) div k" for k
  have d: "y div k = Q k + I k" if "0 < k" for k
    unfolding I_def Q_def by (rule div_pred [OF that])
  have i: "y mod 400 = 0 \<longrightarrow> y mod 100 = 0" "y mod 100 = 0 \<longrightarrow> y mod 4 = 0"
    unfolding dvd_eq_mod_eq_0 [symmetric]
    by (auto intro: dvd_trans [of 100 400 y] dvd_trans [of 4 100 y])
  have l: "year_len y = 365 + I 4 - I 100 + I 400"
    unfolding year_len_def is_leap_def I_def by (rule leap_len [OF i(2) i(1)])
  have "days_before_year (y + 1) = 365 * y + y div 4 - y div 100 + y div 400"
    by (simp add: days_before_year_def)
  also have "\<dots> = 365 * y + (Q 4 + I 4) - (Q 100 + I 100) + (Q 400 + I 400)"
    by (simp only: d [OF zero_less_numeral])
  finally show ?thesis
    unfolding days_before_year_def l Q_def [symmetric] by simp
qed

lemma days_before_year_mono: "y \<le> z \<Longrightarrow> days_before_year y \<le> days_before_year z"
proof (induction z rule: int_ge_induct)
  case (step z)
  then show ?case using days_before_year_Suc [of z] by (simp add: year_len_def split: if_splits)
qed simp

lemma december: "days_before_month y 12 + days_in_month y 12 = year_len y"
  by (simp add: days_before_month_def days_in_month_def month_lens_def year_len_def
      eval_nat_numeral)

lemma days_before_month_mono:
  assumes "1 \<le> m" "m < m'" "m' \<le> 12"
  shows "days_before_month y m + days_in_month y m \<le> days_before_month y m'"
proof -
  have "nat (m' - 1) = Suc (nat (m - 1)) + nat (m' - 1 - m)" using assms by linarith
  then have "sum_list (take (nat (m' - 1)) (month_lens (is_leap y))) =
      sum_list (take (Suc (nat (m - 1))) (month_lens (is_leap y))) +
      sum_list (take (nat (m' - 1 - m)) (drop (Suc (nat (m - 1))) (month_lens (is_leap y))))"
    by (simp only: take_add sum_list_append)
  moreover have "0 \<le> sum_list (take k (drop j (month_lens l)))" for k j l
    by (rule sum_list_nonneg) (auto simp: month_lens_def dest!: in_set_takeD in_set_dropD split: if_splits)
  moreover have "take (Suc (nat (m - 1))) (month_lens (is_leap y)) =
      take (nat (m - 1)) (month_lens (is_leap y)) @ [month_lens (is_leap y) ! nat (m - 1)]"
    using assms by (intro take_Suc_conv_app_nth) simp
  ultimately show ?thesis
    by (simp add: days_before_month_def days_in_month_def)
qed

lemma days_in_year:
  assumes "valid_date D"
  shows "0 \<le> days_before_month (d_year D) (d_month D) + d_day D - 1"
    and "days_before_month (d_year D) (d_month D) + d_day D - 1 < year_len (d_year D)"
proof -
  have nn: "0 \<le> days_before_month y m" for y m
    unfolding days_before_month_def
    by (rule sum_list_nonneg) (auto simp: month_lens_def dest!: in_set_takeD split: if_splits)
  from assms have m: "1 \<le> d_month D" "d_month D \<le> 12" and d: "1 \<le> d_day D"
    "d_day D \<le> days_in_month (d_year D) (d_month D)"
    by (simp_all add: valid_date_def)
  show "0 \<le> days_before_month (d_year D) (d_month D) + d_day D - 1"
    using nn [of "d_year D" "d_month D"] d by simp
  have "days_before_month (d_year D) (d_month D) + days_in_month (d_year D) (d_month D)
      \<le> year_len (d_year D)"
  proof (cases "d_month D = 12")
    case True
    then show ?thesis using december [of "d_year D"] by simp
  next
    case False
    with m have "days_before_month (d_year D) (d_month D) + days_in_month (d_year D) (d_month D)
      \<le> days_before_month (d_year D) 12"
      by (intro days_before_month_mono) auto
    also have "\<dots> \<le> year_len (d_year D)"
      using december [of "d_year D"] by (simp add: days_in_month_def month_lens_def)
    finally show ?thesis .
  qed
  with d show "days_before_month (d_year D) (d_month D) + d_day D - 1 < year_len (d_year D)"
    by simp
qed

lemma days_of_date_less:
  assumes "valid_date D" "valid_date E" "D < E"
  shows "days_of_date D < days_of_date E"
proof (cases "d_year D < d_year E")
  case True
  have "days_of_date D < days_before_year (d_year D + 1)"
    using days_in_year(2) [OF assms(1)] days_before_year_Suc [of "d_year D"]
    by (simp add: days_of_date_def)
  also have "\<dots> \<le> days_before_year (d_year E)"
    using True by (intro days_before_year_mono) simp
  also have "\<dots> \<le> days_of_date E"
    using days_in_year(1) [OF assms(2)] by (simp add: days_of_date_def)
  finally show ?thesis .
next
  case False
  with assms(3) have y: "d_year D = d_year E"
    and md: "d_month D < d_month E \<or> d_month D = d_month E \<and> d_day D < d_day E"
    by (auto simp: less_date_def)
  show ?thesis
  proof (cases "d_month D < d_month E")
    case True
    with assms y have "days_before_month (d_year E) (d_month D) + days_in_month (d_year E) (d_month D)
        \<le> days_before_month (d_year E) (d_month E)"
      by (intro days_before_month_mono) (auto simp: valid_date_def)
    with assms y show ?thesis by (simp add: days_of_date_def valid_date_def)
  next
    case False
    with md y show ?thesis by (simp add: days_of_date_def)
  qed
qed

lemma days_of_date_inject:
  "valid_date D \<Longrightarrow> valid_date E \<Longrightarrow> days_of_date D = days_of_date E \<Longrightarrow> D = E"
  by (metis days_of_date_less less_irrefl linorder_less_linear)

lemma date_of_days_of_date: "valid_date D \<Longrightarrow> date_of_days (days_of_date D) = D"
  using date_of_days_correct [of "days_of_date D"] by (blast intro: days_of_date_inject)

section \<open>Instants, their date and their text\<close>

definition civil :: "gotime \<Rightarrow> date" where
  "civil t = date_of_days (t div day_ns)"

definition instant_of_date :: "date \<Rightarrow> gotime" where
  "instant_of_date D = days_of_date D * day_ns"

definition secs_of_day :: "gotime \<Rightarrow> int" where
  "secs_of_day t = (t mod day_ns) div time_Second"

lemma day_ns_pos [simp]: "0 < day_ns"
  by (simp add: day_ns_def durations)

lemma civil_instant_of_date: "valid_date D \<Longrightarrow> civil (instant_of_date D) = D"
  using day_ns_pos by (simp add: civil_def instant_of_date_def date_of_days_of_date del: day_ns_pos)

lemma valid_civil [simp]: "valid_date (civil t)"
  by (simp add: civil_def date_of_days_correct)

text \<open>The text of a non-negative number padded with zeros to a width.\<close>

definition pad0 :: "nat \<Rightarrow> nat \<Rightarrow> string" where
  "pad0 w n = replicate (w - length (dec_nat n)) (CHR ''0'') @ dec_nat n"

definition fmt_year :: "int \<Rightarrow> string" where
  "fmt_year y = (if y < 0 then CHR ''-'' # pad0 4 (nat (- y)) else pad0 4 (nat y))"

text \<open>The layouts \<open>"2006-01-02"\<close>, \<open>"2006-01-02 15:04:05"\<close> and, for an instant in
  UTC, \<open>"2006-01-02T15:04:05Z07:00"\<close>.\<close>

definition fmt_date :: "date \<Rightarrow> string" where
  "fmt_date D = fmt_year (d_year D) @ ''-'' @ pad0 2 (nat (d_month D)) @ ''-'' @ pad0 2 (nat (d_day D))"

definition fmt_clock :: "gotime \<Rightarrow> string" where
  "fmt_clock t = (let s = secs_of_day t in
     pad0 2 (nat (s div 3600)) @ '':'' @ pad0 2 (nat (s div 60 mod 60)) @ '':'' @ pad0 2 (nat (s mod 60)))"

definition Format_date :: "gotime \<Rightarrow> string" where
  "Format_date t = fmt_date (civil t)"

definition Format_datetime :: "gotime \<Rightarrow> string" where
  "Format_datetime t = fmt_date (civil t) @ '' '' @ fmt_clock t"

definition Format_rfc3339 :: "gotime \<Rightarrow> string" where
  "Format_rfc3339 t = fmt_date (civil t) @ ''T'' @ fmt_clock t @ ''Z''"

text \<open>
  \<open>time.Parse\<close> for layouts made of a four-digit year, a two-digit month, a two-digit day and
  literal characters: every field has exactly its digits, the month is in range, the day exists
  in its month, nothing is left over.
\<close>

datatype layout_tok = Y4 | M2 | D2 | Lit char

fun take_num :: "nat \<Rightarrow> string \<Rightarrow> (int \<times> string) option" where
  "take_num n s =
     (if n \<le> length s \<and> list_all is_digit (take n s) then Some (int (val_dec (take n s)), drop n s)
      else None)"

fun parse_toks :: "layout_tok list \<Rightarrow> string \<Rightarrow> date \<Rightarrow> date option" where
  "parse_toks [] s D = (if s = [] then Some D else None)"
| "parse_toks (Lit c # ts) s D =
     (case s of [] \<Rightarrow> None | x # xs \<Rightarrow> if x = c then parse_toks ts xs D else None)"
| "parse_toks (Y4 # ts) s D =
     (case take_num 4 s of None \<Rightarrow> None | Some (n, r) \<Rightarrow> parse_toks ts r (Date n (d_month D) (d_day D)))"
| "parse_toks (M2 # ts) s D =
     (case take_num 2 s of None \<Rightarrow> None
      | Some (n, r) \<Rightarrow> if 1 \<le> n \<and> n \<le> 12 then parse_toks ts r (Date (d_year D) n (d_day D)) else None)"
| "parse_toks (D2 # ts) s D =
     (case take_num 2 s of None \<Rightarrow> None | Some (n, r) \<Rightarrow> parse_toks ts r (Date (d_year D) (d_month D) n))"

definition parse_layout :: "layout_tok list \<Rightarrow> string \<Rightarrow> gotime option" where
  "parse_layout ts s =
     (case parse_toks ts s (Date 0 1 1) of
        None \<Rightarrow> None
      | Some D \<Rightarrow> if valid_date D then Some (instant_of_date D) else None)"

definition layout_iso :: "layout_tok list" where
  "layout_iso = [Y4, Lit CHR ''-'', M2, Lit CHR ''-'', D2]"

lemma val_dec_zeros: "val_dec (replicate k (CHR ''0'') @ s) = val_dec s"
proof (induction k)
  case (Suc k)
  have "val_dec (CHR ''0'' # t) = val_dec t" for t
    by (simp add: val_dec_def digit_val_def)
  with Suc show ?case by simp
qed simp

lemma length_dec_nat: "0 < w \<Longrightarrow> n < 10 ^ w \<Longrightarrow> length (dec_nat n) \<le> w"
proof (induction w arbitrary: n)
  case (Suc w)
  show ?case
  proof (cases "n < 10")
    case True
    then show ?thesis by (subst dec_nat.simps) simp
  next
    case False
    with Suc.prems have "n div 10 < 10 ^ w" by (simp add: less_mult_imp_div_less mult.commute)
    moreover from False Suc.prems have "0 < w" by (cases w) auto
    ultimately have "length (dec_nat (n div 10)) \<le> w" by (rule Suc.IH [rotated])
    with False show ?thesis by (subst dec_nat.simps) simp
  qed
qed simp

lemma pad0_props:
  assumes "0 < w" "n < 10 ^ w"
  shows "length (pad0 w n) = w" and "list_all is_digit (pad0 w n)" and "val_dec (pad0 w n) = n"
  using length_dec_nat [OF assms] dec_nat_digits [of n]
  by (auto simp: pad0_def val_dec_zeros list_all_iff is_digit_def)

lemma take_num_pad0:
  assumes "0 < w" "n < 10 ^ w"
  shows "take_num w (pad0 w n @ rest) = Some (int n, rest)"
  using pad0_props [OF assms] by simp

lemma month_len_bound: "valid_date D \<Longrightarrow> d_day D \<le> 31"
proof -
  assume "valid_date D"
  moreover have "month_lens l ! k \<le> 31" if "k < 12" for l k
    using that by (auto simp: month_lens_def less_Suc_eq eval_nat_numeral)
  ultimately show ?thesis
    by (auto simp: valid_date_def days_in_month_def intro: order_trans)
qed

lemma parse_fmt_date:
  assumes "valid_date D" "0 \<le> d_year D" "d_year D \<le> 9999"
  shows "parse_layout layout_iso (fmt_date D) = Some (instant_of_date D)"
proof -
  have m: "1 \<le> d_month D" "d_month D \<le> 12" "1 \<le> d_day D" "d_day D \<le> 31"
    using assms(1) month_len_bound [OF assms(1)] by (simp_all add: valid_date_def)
  have "nat (d_year D) < 10 ^ 4" "nat (d_month D) < 10 ^ 2" "nat (d_day D) < 10 ^ 2"
    using assms m by auto
  note t = this [THEN take_num_pad0 [rotated]]
  have d: "take_num 2 (pad0 2 (nat (d_day D))) = Some (int (nat (d_day D)), [])"
    using t(3) [of "[]"] by simp
  show ?thesis
    using assms m by (simp add: parse_layout_def layout_iso_def fmt_date_def fmt_year_def t d
        del: take_num.simps)
qed

end
