(* ===== verification/Go_Crypto.thy ===== *)
theory Go_Crypto
  imports Go_Base
begin

text \<open>
  \<open>crypto/sha1\<close> and \<open>crypto/sha256\<close> on byte strings: padding to blocks of 64 bytes, the
  message schedule and the compression function, on 32-bit words.
\<close>

unbundle bit_operations_syntax

type_synonym w32 = "32 word"

definition rotl :: "nat \<Rightarrow> w32 \<Rightarrow> w32" where
  "rotl n x = push_bit n x OR drop_bit (32 - n) x"

definition rotr :: "nat \<Rightarrow> w32 \<Rightarrow> w32" where
  "rotr n x = rotl (32 - n) x"

text \<open>A big-endian word of four bytes, and the bytes of a number, most significant first.\<close>

fun be_words :: "nat list \<Rightarrow> w32 list" where
  "be_words (a # b # c # d # r) =
     (of_nat a * 16777216 + of_nat b * 65536 + of_nat c * 256 + of_nat d) # be_words r"
| "be_words _ = []"

primrec be_bytes :: "nat \<Rightarrow> int \<Rightarrow> nat list" where
  "be_bytes 0 n = []"
| "be_bytes (Suc k) n = be_bytes k (n div 256) @ [nat (n mod 256)]"

definition md_pad :: "nat list \<Rightarrow> nat list" where
  "md_pad bs =
     (let k = (119 - length bs mod 64) mod 64 in
      bs @ [128] @ replicate k 0 @ be_bytes 8 (8 * int (length bs) mod 2 ^ 64))"

primrec blocks :: "nat \<Rightarrow> w32 list \<Rightarrow> w32 list list" where
  "blocks 0 ws = []"
| "blocks (Suc n) ws = take 16 ws # blocks n (drop 16 ws)"

definition message_blocks :: "nat list \<Rightarrow> w32 list list" where
  "message_blocks bs = (let ws = be_words (md_pad bs) in blocks (length ws div 16) ws)"

definition digest_text :: "w32 list \<Rightarrow> string" where
  "digest_text ws = string_of_bytes (concat (map (\<lambda>w. be_bytes 4 (uint w)) ws))"

section \<open>SHA-1\<close>

text \<open>The schedule, built from the back: the newest word is at the head.\<close>

primrec sha1_extend :: "nat \<Rightarrow> w32 list \<Rightarrow> w32 list" where
  "sha1_extend 0 ws = ws"
| "sha1_extend (Suc n) ws =
     sha1_extend n (rotl 1 ((ws ! 2) XOR (ws ! 7) XOR (ws ! 13) XOR (ws ! 15)) # ws)"

definition sha1_f :: "nat \<Rightarrow> w32 \<Rightarrow> w32 \<Rightarrow> w32 \<Rightarrow> w32" where
  "sha1_f t b c d =
     (if t < 20 then (b AND c) OR (NOT b AND d)
      else if 40 \<le> t \<and> t < 60 then (b AND c) OR (b AND d) OR (c AND d)
      else b XOR c XOR d)"

definition sha1_k :: "nat \<Rightarrow> w32" where
  "sha1_k t = (if t < 20 then 0x5A827999 else if t < 40 then 0x6ED9EBA1
               else if t < 60 then 0x8F1BBCDC else 0xCA62C1D6)"

definition sha1_round :: "w32 list \<Rightarrow> nat \<times> w32 \<Rightarrow> w32 list" where
  "sha1_round s p =
     [rotl 5 (s ! 0) + sha1_f (fst p) (s ! 1) (s ! 2) (s ! 3) + s ! 4 + sha1_k (fst p) + snd p,
      s ! 0, rotl 30 (s ! 1), s ! 2, s ! 3]"

definition sha1_block :: "w32 list \<Rightarrow> w32 list \<Rightarrow> w32 list" where
  "sha1_block h blk =
     map2 (+) h (foldl sha1_round h (zip [0..<80] (rev (sha1_extend 64 (rev blk)))))"

definition sha1_Sum :: "string \<Rightarrow> string" where
  "sha1_Sum s =
     digest_text (foldl sha1_block [0x67452301, 0xEFCDAB89, 0x98BADCFE, 0x10325476, 0xC3D2E1F0]
                    (message_blocks (bytes_of s)))"

section \<open>SHA-256\<close>

text \<open>
  The round constants are the first 32 bits of the fractional parts of the cube roots of the
  first 64 primes: the cube root of \<open>p * 2^96\<close>, found bit by bit, without its leading bits.
\<close>

definition cbrt_pick :: "int \<Rightarrow> int \<Rightarrow> int \<Rightarrow> int" where
  "cbrt_pick n x y = (if y ^ 3 \<le> n then y else x)"

primrec cbrt_bits :: "nat \<Rightarrow> int \<Rightarrow> int \<Rightarrow> int" where
  "cbrt_bits 0 n x = x"
| "cbrt_bits (Suc k) n x = cbrt_bits k n (cbrt_pick n x (x + 2 ^ k))"

text \<open>Below \<open>18^2\<close> a number without a divisor up to 17 but itself is prime.\<close>

definition small_primes :: "int list" where
  "small_primes =
     filter (\<lambda>p. list_all (\<lambda>d. p = d \<or> p mod d \<noteq> 0) [2, 3, 5, 7, 11, 13, 17]) [2..311]"

definition sha256_K :: "w32 list" where
  "sha256_K = map (\<lambda>p. word_of_int (cbrt_bits 35 (p * 2 ^ 96) 0)) small_primes"

definition sigma0 :: "w32 \<Rightarrow> w32" where "sigma0 x = rotr 7 x XOR rotr 18 x XOR drop_bit 3 x"
definition sigma1 :: "w32 \<Rightarrow> w32" where "sigma1 x = rotr 17 x XOR rotr 19 x XOR drop_bit 10 x"
definition Sigma0 :: "w32 \<Rightarrow> w32" where "Sigma0 x = rotr 2 x XOR rotr 13 x XOR rotr 22 x"
definition Sigma1 :: "w32 \<Rightarrow> w32" where "Sigma1 x = rotr 6 x XOR rotr 11 x XOR rotr 25 x"
definition Ch :: "w32 \<Rightarrow> w32 \<Rightarrow> w32 \<Rightarrow> w32" where "Ch e f g = (e AND f) XOR (NOT e AND g)"
definition Maj :: "w32 \<Rightarrow> w32 \<Rightarrow> w32 \<Rightarrow> w32" where "Maj a b c = (a AND b) XOR (a AND c) XOR (b AND c)"

primrec sha256_extend :: "nat \<Rightarrow> w32 list \<Rightarrow> w32 list" where
  "sha256_extend 0 ws = ws"
| "sha256_extend (Suc n) ws =
     sha256_extend n ((ws ! 15 + sigma0 (ws ! 14) + ws ! 6 + sigma1 (ws ! 1)) # ws)"

definition sha256_t1 :: "w32 list \<Rightarrow> w32 \<times> w32 \<Rightarrow> w32" where
  "sha256_t1 s p = s ! 7 + Sigma1 (s ! 4) + Ch (s ! 4) (s ! 5) (s ! 6) + fst p + snd p"

definition sha256_t2 :: "w32 list \<Rightarrow> w32" where
  "sha256_t2 s = Sigma0 (s ! 0) + Maj (s ! 0) (s ! 1) (s ! 2)"

definition sha256_mix :: "w32 list \<Rightarrow> w32 \<Rightarrow> w32 \<Rightarrow> w32 list" where
  "sha256_mix s t1 t2 = [t1 + t2, s ! 0, s ! 1, s ! 2, s ! 3 + t1, s ! 4, s ! 5, s ! 6]"

definition sha256_round :: "w32 list \<Rightarrow> w32 \<times> w32 \<Rightarrow> w32 list" where
  "sha256_round s p = sha256_mix s (sha256_t1 s p) (sha256_t2 s)"

definition sha256_block :: "w32 list \<Rightarrow> w32 list \<Rightarrow> w32 list" where
  "sha256_block h blk =
     map2 (+) h (foldl sha256_round h (zip sha256_K (rev (sha256_extend 48 (rev blk)))))"

definition sha256_Sum :: "string \<Rightarrow> string" where
  "sha256_Sum s =
     digest_text (foldl sha256_block
       [0x6a09e667, 0xbb67ae85, 0x3c6ef372, 0xa54ff53a, 0x510e527f, 0x9b05688c, 0x1f83d9ab, 0x5be0cd19]
       (message_blocks (bytes_of s)))"

section \<open>Lengths\<close>

lemma length_be_bytes [simp]: "length (be_bytes k n) = k"
  by (induction k arbitrary: n) auto

lemma length_digest [simp]: "length (digest_text ws) = 4 * length ws"
  by (induction ws) (auto simp: digest_text_def string_of_bytes_def)

lemma sha256_fold_length:
  "length h = 8 \<Longrightarrow> length (foldl sha256_round h ps) = 8"
  by (induction ps arbitrary: h) (auto simp: sha256_round_def sha256_mix_def)

lemma sha256_length: "length (sha256_Sum s) = 32"
proof -
  have "length (foldl sha256_block h bs) = 8" if "length h = 8" for h bs
    using that by (induction bs arbitrary: h) (auto simp: sha256_block_def sha256_fold_length)
  then show ?thesis by (simp add: sha256_Sum_def)
qed

end
