(* ===== verification/Go_Json.thy ===== *)
theory Go_Json
  imports Go_Float
begin

text \<open>
  \<open>unicode/utf8\<close> and \<open>encoding/json\<close>: the syntax of JSON values (one value from the front of
  a text, which is what a \<open>Decoder\<close> reads; \<open>Unmarshal\<close> wants nothing but white space
  after it), the decoding of a value into the fields of a struct (fields are matched by name,
  then without regard to case; \<open>null\<close> leaves a field as it is; a value of the wrong kind is
  an error reported at the end), and the printing of a flat map, whose keys come out sorted.
\<close>

section \<open>UTF-8\<close>

definition cont :: "nat \<Rightarrow> bool" where
  "cont b \<longleftrightarrow> 128 \<le> b \<and> b \<le> 191"

text \<open>\<open>utf8.DecodeRune\<close>: the first rune and its width; an invalid byte is U+FFFD of width 1.\<close>

definition rune_error :: nat where "rune_error = 65533"

definition decode2 :: "nat \<Rightarrow> nat list \<Rightarrow> nat \<times> nat" where
  "decode2 a r =
     (case r of b # _ \<Rightarrow> if cont b then (a mod 32 * 64 + b mod 64, 2) else (rune_error, 1)
      | [] \<Rightarrow> (rune_error, 1))"

definition decode3 :: "nat \<Rightarrow> nat list \<Rightarrow> nat \<times> nat" where
  "decode3 a r =
     (case r of
        b # c # _ \<Rightarrow>
          if cont b \<and> cont c \<and> (a = 224 \<longrightarrow> 160 \<le> b) \<and> (a = 237 \<longrightarrow> b \<le> 159)
          then (a mod 16 * 4096 + b mod 64 * 64 + c mod 64, 3) else (rune_error, 1)
      | _ \<Rightarrow> (rune_error, 1))"

definition decode4 :: "nat \<Rightarrow> nat list \<Rightarrow> nat \<times> nat" where
  "decode4 a r =
     (case r of
        b # c # d # _ \<Rightarrow>
          if cont b \<and> cont c \<and> cont d \<and> (a = 240 \<longrightarrow> 144 \<le> b) \<and> (a = 244 \<longrightarrow> b \<le> 143)
          then (a mod 8 * 262144 + b mod 64 * 4096 + c mod 64 * 64 + d mod 64, 4) else (rune_error, 1)
      | _ \<Rightarrow> (rune_error, 1))"

definition DecodeRune :: "nat list \<Rightarrow> nat \<times> nat" where
  "DecodeRune bs =
     (case bs of
        [] \<Rightarrow> (rune_error, 0)
      | a # r \<Rightarrow>
          if a < 128 then (a, 1) else if a < 194 then (rune_error, 1)
          else if a < 224 then decode2 a r else if a < 240 then decode3 a r
          else if a < 245 then decode4 a r else (rune_error, 1))"

text \<open>\<open>utf8.AppendRune\<close>, a surrogate or an out-of-range rune giving U+FFFD.\<close>

definition EncodeRune :: "nat \<Rightarrow> nat list" where
  "EncodeRune u =
     (if u < 128 then [u]
      else if u < 2048 then [192 + u div 64, 128 + u mod 64]
      else if 1114112 \<le> u \<or> (55296 \<le> u \<and> u < 57344) then [239, 191, 189]
      else if u < 65536 then [224 + u div 4096, 128 + u div 64 mod 64, 128 + u mod 64]
      else [240 + u div 262144, 128 + u div 4096 mod 64, 128 + u div 64 mod 64, 128 + u mod 64])"

lemma DecodeRune_width: "bs \<noteq> [] \<Longrightarrow> 1 \<le> snd (DecodeRune bs)"
  by (auto simp: DecodeRune_def decode2_def decode3_def decode4_def split: list.splits)

lemma DecodeRune_progress: "bs \<noteq> [] \<Longrightarrow> (u, w) = DecodeRune bs \<Longrightarrow> length bs - w < length bs"
  using DecodeRune_width [of bs] by (cases bs) (auto dest: arg_cong [where f = snd])

text \<open>The runes of a byte sequence, as \<open>range\<close> over a string and \<open>[]rune(s)\<close> give them.\<close>

function runes_of :: "nat list \<Rightarrow> nat list" where
  "runes_of bs = (if bs = [] then [] else (case DecodeRune bs of (u, w) \<Rightarrow> u # runes_of (drop w bs)))"
  by pat_completeness auto
termination
  by (relation "measure length") (auto intro: DecodeRune_progress)

declare runes_of.simps [simp del]

text \<open>The text with the given code points.\<close>

definition utf8 :: "nat list \<Rightarrow> string" where
  "utf8 us = string_of_bytes (concat (map EncodeRune us))"

section \<open>The syntax of values\<close>

text \<open>A number is kept as its literal: sign, integer digits, fraction digits, exponent.\<close>

datatype json =
    JNull
  | JBool bool
  | JNum bool string "string option" "int option"
  | JString string
  | JArr "json list"
  | JObj "(string \<times> json) list"

definition json_space :: "char \<Rightarrow> bool" where
  "json_space c \<longleftrightarrow> c \<in> {CHR '' '', CHR 0x09, CHR 0x0A, CHR 0x0D}"

definition json_skip :: "string \<Rightarrow> string" where
  "json_skip s = dropWhile json_space s"

definition hex_val :: "char \<Rightarrow> nat option" where
  "hex_val c = (let n = of_char c :: nat in
     if 48 \<le> n \<and> n \<le> 57 then Some (n - 48) else if 97 \<le> n \<and> n \<le> 102 then Some (n - 87)
     else if 65 \<le> n \<and> n \<le> 70 then Some (n - 55) else None)"

definition hex4 :: "string \<Rightarrow> (nat \<times> string) option" where
  "hex4 s =
     (case s of
        a # b # c # d # r \<Rightarrow>
          (case (hex_val a, hex_val b, hex_val c, hex_val d) of
             (Some i, Some j, Some k, Some l) \<Rightarrow> Some (4096 * i + 256 * j + 16 * k + l, r)
           | _ \<Rightarrow> None)
      | _ \<Rightarrow> None)"

definition low_surrogate :: "string \<Rightarrow> (nat \<times> string) option" where
  "low_surrogate s =
     (case s of
        b # u # r \<Rightarrow>
          if b = CHR 0x5C \<and> u = CHR ''u'' then
            (case hex4 r of
               Some (l, r') \<Rightarrow> if 56320 \<le> l \<and> l < 57344 then Some (l, r') else None
             | None \<Rightarrow> None)
          else None
      | _ \<Rightarrow> None)"

text \<open>What \<open>\\uXXXX\<close> stands for: the bytes of the rune, and the rest of the text.\<close>

definition unicode_escape :: "string \<Rightarrow> (nat list \<times> string) option" where
  "unicode_escape s =
     (case hex4 s of
        None \<Rightarrow> None
      | Some (h, r) \<Rightarrow>
          if 55296 \<le> h \<and> h < 56320 then
            (case low_surrogate r of
               Some (l, r') \<Rightarrow> Some (EncodeRune (65536 + (h - 55296) * 1024 + (l - 56320)), r')
             | None \<Rightarrow> Some (EncodeRune rune_error, r))
          else Some (EncodeRune h, r))"

definition simple_escape :: "char \<Rightarrow> char option" where
  "simple_escape e =
     (if e \<in> {CHR 0x22, CHR 0x5C, CHR ''/''} then Some e
      else if e = CHR ''b'' then Some (CHR 0x08) else if e = CHR ''f'' then Some (CHR 0x0C)
      else if e = CHR ''n'' then Some (CHR 0x0A) else if e = CHR ''r'' then Some (CHR 0x0D)
      else if e = CHR ''t'' then Some (CHR 0x09) else None)"

lemma unicode_escape_shorter: "unicode_escape s = Some (bs, r) \<Longrightarrow> length r < length s"
  by (auto simp: unicode_escape_def low_surrogate_def hex4_def split: list.splits option.splits if_splits)

definition more :: "string \<Rightarrow> (string \<times> string) option \<Rightarrow> (string \<times> string) option" where
  "more p m = (case m of None \<Rightarrow> None | Some (t, r) \<Rightarrow> Some (p @ t, r))"

text \<open>The body of a string literal, after its opening quote.\<close>

function json_str :: "string \<Rightarrow> (string \<times> string) option" where
  "json_str [] = None"
| "json_str (c # r) =
     (if c = CHR 0x22 then Some ([], r)
      else if c = CHR 0x5C then
        (case r of
           [] \<Rightarrow> None
         | e # r1 \<Rightarrow>
             if e = CHR ''u'' then
               (case unicode_escape r1 of None \<Rightarrow> None | Some (bs, r2) \<Rightarrow> more (string_of_bytes bs) (json_str r2))
             else (case simple_escape e of None \<Rightarrow> None | Some d \<Rightarrow> more [d] (json_str r1)))
      else if (of_char c :: nat) < 32 then None
      else (case DecodeRune (bytes_of (c # r)) of
              (u, w) \<Rightarrow> more (string_of_bytes (EncodeRune u)) (json_str (drop (w - 1) r))))"
  by pat_completeness auto
termination
  by (relation "measure length") (auto dest: unicode_escape_shorter)

text \<open>A number literal.\<close>

definition digits1 :: "string \<Rightarrow> (string \<times> string) option" where
  "digits1 s = (let ds = takeWhile is_digit s in if ds = [] then None else Some (ds, dropWhile is_digit s))"

definition json_frac :: "string \<Rightarrow> (string option \<times> string) option" where
  "json_frac s =
     (case s of
        c # r \<Rightarrow> if c = CHR ''.'' then (case digits1 r of None \<Rightarrow> None | Some (ds, r') \<Rightarrow> Some (Some ds, r'))
                 else Some (None, s)
      | [] \<Rightarrow> Some (None, []))"

definition json_exp :: "string \<Rightarrow> (int option \<times> string) option" where
  "json_exp s =
     (case s of
        c # r \<Rightarrow>
          if c = CHR ''e'' \<or> c = CHR ''E'' then
            (let neg = (case r of d # _ \<Rightarrow> d = CHR ''-'' | [] \<Rightarrow> False);
                 r1 = (case r of d # r' \<Rightarrow> if d = CHR ''-'' \<or> d = CHR ''+'' then r' else r | [] \<Rightarrow> r)
             in (case digits1 r1 of
                   None \<Rightarrow> None
                 | Some (ds, r2) \<Rightarrow> Some (Some (if neg then - int (val_dec ds) else int (val_dec ds)), r2)))
          else Some (None, s)
      | [] \<Rightarrow> Some (None, []))"

definition json_int :: "string \<Rightarrow> (string \<times> string) option" where
  "json_int s =
     (case s of
        c # r \<Rightarrow> if c = CHR ''0'' then Some (''0'', r) else digits1 s
      | [] \<Rightarrow> None)"

definition json_num :: "string \<Rightarrow> (json \<times> string) option" where
  "json_num s =
     (let neg = (case s of c # _ \<Rightarrow> c = CHR ''-'' | [] \<Rightarrow> False) in
      case json_int (if neg then tl s else s) of
        None \<Rightarrow> None
      | Some (ip, r) \<Rightarrow>
          (case json_frac r of
             None \<Rightarrow> None
           | Some (fp, r1) \<Rightarrow>
               (case json_exp r1 of None \<Rightarrow> None | Some (ex, r2) \<Rightarrow> Some (JNum neg ip fp ex, r2))))"

text \<open>
  A value, the items of an array after \<open>[\<close>, the members of an object after \<open>{\<close>. The first
  argument is fuel, the second the nesting still allowed (10000 at the top, as in the source).
\<close>

fun json_val :: "nat \<Rightarrow> nat \<Rightarrow> string \<Rightarrow> (json \<times> string) option"
  and json_items :: "nat \<Rightarrow> nat \<Rightarrow> string \<Rightarrow> (json list \<times> string) option"
  and json_members :: "nat \<Rightarrow> nat \<Rightarrow> string \<Rightarrow> ((string \<times> json) list \<times> string) option" where
  "json_val 0 dep s = None"
| "json_val (Suc n) dep s =
     (case json_skip s of
        [] \<Rightarrow> None
      | c # r \<Rightarrow>
          if c = CHR 0x22 then map_option (apfst JString) (json_str r)
          else if c = CHR ''['' then
            (if dep = 0 then None
             else if has_prefix (json_skip r) '']'' then Some (JArr [], tl (json_skip r))
             else map_option (apfst JArr) (json_items n (dep - 1) r))
          else if c = CHR ''{'' then
            (if dep = 0 then None
             else if has_prefix (json_skip r) ''}'' then Some (JObj [], tl (json_skip r))
             else map_option (apfst JObj) (json_members n (dep - 1) r))
          else if has_prefix (c # r) ''null'' then Some (JNull, drop 4 (c # r))
          else if has_prefix (c # r) ''true'' then Some (JBool True, drop 4 (c # r))
          else if has_prefix (c # r) ''false'' then Some (JBool False, drop 5 (c # r))
          else json_num (c # r))"
| "json_items 0 dep s = None"
| "json_items (Suc n) dep s =
     (case json_val n dep s of
        None \<Rightarrow> None
      | Some (v, r) \<Rightarrow>
          (case json_skip r of
             c # r1 \<Rightarrow>
               if c = CHR '','' then map_option (apfst (Cons v)) (json_items n dep r1)
               else if c = CHR '']'' then Some ([v], r1) else None
           | [] \<Rightarrow> None))"
| "json_members 0 dep s = None"
| "json_members (Suc n) dep s =
     (case json_skip s of
        q # r \<Rightarrow>
          if q \<noteq> CHR 0x22 then None
          else (case json_str r of
                  None \<Rightarrow> None
                | Some (k, r1) \<Rightarrow>
                    (case json_skip r1 of
                       c # r2 \<Rightarrow>
                         if c \<noteq> CHR '':'' then None
                         else (case json_val n dep r2 of
                                 None \<Rightarrow> None
                               | Some (v, r3) \<Rightarrow>
                                   (case json_skip r3 of
                                      e # r4 \<Rightarrow>
                                        if e = CHR '','' then map_option (apfst (Cons (k, v))) (json_members n dep r4)
                                        else if e = CHR ''}'' then Some ([(k, v)], r4) else None
                                    | [] \<Rightarrow> None))
                     | [] \<Rightarrow> None))
      | [] \<Rightarrow> None)"

text \<open>
  Two calls per character are enough: an array or object consumes its bracket before its items,
  an item or member consumes its separator before the next.
\<close>

definition json_first :: "string \<Rightarrow> (json \<times> string) option" where
  "json_first s = json_val (2 * length s + 2) 10000 s"

definition json_whole :: "string \<Rightarrow> json option" where
  "json_whole s =
     (case json_first s of None \<Rightarrow> None | Some (v, r) \<Rightarrow> if json_skip r = [] then Some v else None)"

section \<open>Decoding into a struct\<close>

text \<open>
  \<open>foldName\<close>: ASCII letters in upper case; the long s and the Kelvin sign are the only other
  runes that fold to ASCII letters.
\<close>

fun fold_name :: "nat list \<Rightarrow> nat list" where
  "fold_name [] = []"
| "fold_name (b # r) =
     (if b = 197 \<and> take 1 r = [191] then 83 # fold_name (drop 1 r)
      else if b = 226 \<and> take 2 r = [132, 170] then 75 # fold_name (drop 2 r)
      else (if 97 \<le> b \<and> b \<le> 122 then b - 32 else b) # fold_name r)"

definition field_of :: "string list \<Rightarrow> string \<Rightarrow> string option" where
  "field_of names key =
     (if key \<in> set names then Some key
      else List.find (\<lambda>n. fold_name (bytes_of n) = fold_name (bytes_of key)) names)"

text \<open>
  A setter gives the struct with the field stored and whether the value was of the wrong kind.
\<close>

type_synonym 's setter = "json \<Rightarrow> 's \<Rightarrow> 's \<times> bool"

definition decode_fields :: "(string \<times> 's setter) list \<Rightarrow> 's setter" where
  "decode_fields fs v s =
     (case v of
        JNull \<Rightarrow> (s, False)
      | JObj ms \<Rightarrow>
          foldl (\<lambda>(t, bad) (k, w).
                   (case field_of (map fst fs) k of
                      None \<Rightarrow> (t, bad)
                    | Some n \<Rightarrow> (case map_of fs n of
                                    None \<Rightarrow> (t, bad)
                                  | Some f \<Rightarrow> (case f w t of (t', b) \<Rightarrow> (t', bad \<or> b)))))
            (s, False) ms
      | _ \<Rightarrow> (s, True))"

definition set_string :: "(string \<Rightarrow> 's \<Rightarrow> 's) \<Rightarrow> 's setter" where
  "set_string upd v s = (case v of JNull \<Rightarrow> (s, False) | JString t \<Rightarrow> (upd t s, False) | _ \<Rightarrow> (s, True))"

definition set_bool :: "(bool \<Rightarrow> 's \<Rightarrow> 's) \<Rightarrow> 's setter" where
  "set_bool upd v s = (case v of JNull \<Rightarrow> (s, False) | JBool b \<Rightarrow> (upd b s, False) | _ \<Rightarrow> (s, True))"

text \<open>\<open>strconv.ParseInt\<close> on a literal: no fraction, no exponent, within 64 bits.\<close>

definition num_int :: "bool \<Rightarrow> string \<Rightarrow> string option \<Rightarrow> int option \<Rightarrow> int option" where
  "num_int neg ip fp ex =
     (let i = (if neg then - int (val_dec ip) else int (val_dec ip)) in
      if fp = None \<and> ex = None \<and> - (2 ^ 63) \<le> i \<and> i < 2 ^ 63 then Some i else None)"

definition set_int :: "(int \<Rightarrow> 's \<Rightarrow> 's) \<Rightarrow> 's setter" where
  "set_int upd v s =
     (case v of
        JNull \<Rightarrow> (s, False)
      | JNum neg ip fp ex \<Rightarrow>
          (case num_int neg ip fp ex of None \<Rightarrow> (s, True) | Some i \<Rightarrow> (upd i s, False))
      | _ \<Rightarrow> (s, True))"

text \<open>\<open>strconv.ParseFloat\<close> on a literal: the nearest value, an error when it overflows.\<close>

definition num_float :: "bool \<Rightarrow> string \<Rightarrow> string option \<Rightarrow> int option \<Rightarrow> float64 option" where
  "num_float neg ip fp ex =
     (let f = (case fp of None \<Rightarrow> [] | Some ds \<Rightarrow> ds);
          e = (case ex of None \<Rightarrow> 0 | Some i \<Rightarrow> i) - int (length f)
      in (case round64 neg (int (val_dec (ip @ f)) * p10 e) (p10 (- e)) of
            FInf _ \<Rightarrow> None
          | x \<Rightarrow> (case x of FFin _ m b \<Rightarrow> Some (FFin neg m b) | y \<Rightarrow> Some y)))"

definition set_float :: "(float64 \<Rightarrow> 's \<Rightarrow> 's) \<Rightarrow> 's setter" where
  "set_float upd v s =
     (case v of
        JNull \<Rightarrow> (s, False)
      | JNum neg ip fp ex \<Rightarrow>
          (case num_float neg ip fp ex of None \<Rightarrow> (s, True) | Some x \<Rightarrow> (upd x s, False))
      | _ \<Rightarrow> (s, True))"

text \<open>A value decoded into \<open>any\<close>: every number in it has to be in the range of \<open>float64\<close>.\<close>

fun any_ok :: "json \<Rightarrow> bool" where
  "any_ok (JNum neg ip fp ex) \<longleftrightarrow> num_float neg ip fp ex \<noteq> None"
| "any_ok (JArr vs) \<longleftrightarrow> list_all any_ok vs"
| "any_ok (JObj ms) \<longleftrightarrow> list_all (\<lambda>m. any_ok (snd m)) ms"
| "any_ok v \<longleftrightarrow> True"

section \<open>Structs, slices and the decoder\<close>

text \<open>
  A struct inside a struct, and a slice: the elements are decoded over those the slice had, as
  the decoder does when a key is repeated. A nil slice is \<open>None\<close>.
\<close>

type_synonym 'a slice = "'a list option"

definition slice_list :: "'a slice \<Rightarrow> 'a list" where
  "slice_list s = (case s of None \<Rightarrow> [] | Some xs \<Rightarrow> xs)"

definition set_struct :: "('s \<Rightarrow> 't) \<Rightarrow> ('t \<Rightarrow> 's \<Rightarrow> 's) \<Rightarrow> (string \<times> 't setter) list \<Rightarrow> 's setter" where
  "set_struct get put fs v s = (case decode_fields fs v (get s) of (t, bad) \<Rightarrow> (put t s, bad))"

fun decode_items :: "'a setter \<Rightarrow> 'a \<Rightarrow> json list \<Rightarrow> 'a list \<Rightarrow> 'a list \<times> bool" where
  "decode_items elem zero [] olds = ([], False)"
| "decode_items elem zero (v # vs) olds =
     (case elem v (case olds of [] \<Rightarrow> zero | x # _ \<Rightarrow> x) of
        (x, bad) \<Rightarrow> (case decode_items elem zero vs (tl olds) of (xs, bads) \<Rightarrow> (x # xs, bad \<or> bads)))"

definition decode_slice :: "'a setter \<Rightarrow> 'a \<Rightarrow> 'a slice setter" where
  "decode_slice elem zero v old =
     (case v of
        JNull \<Rightarrow> (None, False)
      | JArr vs \<Rightarrow> (case decode_items elem zero vs (slice_list old) of (xs, bad) \<Rightarrow> (Some xs, bad))
      | _ \<Rightarrow> (old, True))"

definition set_slice :: "('s \<Rightarrow> 'a slice) \<Rightarrow> ('a slice \<Rightarrow> 's \<Rightarrow> 's) \<Rightarrow> 'a setter \<Rightarrow> 'a \<Rightarrow> 's setter" where
  "set_slice get put elem zero v s = (case decode_slice elem zero v (get s) of (xs, bad) \<Rightarrow> (put xs s, bad))"

definition set_strings :: "('s \<Rightarrow> string slice) \<Rightarrow> (string slice \<Rightarrow> 's \<Rightarrow> 's) \<Rightarrow> 's setter" where
  "set_strings get put = set_slice get put (set_string (\<lambda>t _. t)) []"

text \<open>\<open>json.NewDecoder(r).Decode(&v)\<close>: the first value of the text.\<close>

definition Decode :: "'s setter \<Rightarrow> 's \<Rightarrow> string \<Rightarrow> 's res" where
  "Decode f zero body =
     (case json_first body of
        None \<Rightarrow> Inl (Errorf ''json: syntax error'' [])
      | Some (v, _) \<Rightarrow>
          (case f v zero of (s, bad) \<Rightarrow> if bad then Inl (Errorf ''json: cannot unmarshal'' []) else Inr s))"

section \<open>Printing a flat map\<close>

datatype anyval = AStr string | AInt int | AFloat float64

definition json_safe :: "nat \<Rightarrow> bool" where
  "json_safe b \<longleftrightarrow> 32 \<le> b \<and> b < 128 \<and> b \<notin> {34, 92, 60, 62, 38}"

definition escape_byte :: "nat \<Rightarrow> nat list" where
  "escape_byte b =
     (if json_safe b then [b] else if b = 92 \<or> b = 34 then [92, b]
      else if b = 8 then [92, 98] else if b = 12 then [92, 102] else if b = 10 then [92, 110]
      else if b = 13 then [92, 114] else if b = 9 then [92, 116]
      else [92, 117, 48, 48] @ bytes_of [hex_digit (b div 16), hex_digit (b mod 16)])"

function json_escape :: "nat list \<Rightarrow> nat list" where
  "json_escape bs =
     (case bs of
        [] \<Rightarrow> []
      | b # r \<Rightarrow>
          if b < 128 then escape_byte b @ json_escape r
          else (case DecodeRune bs of
                  (u, w) \<Rightarrow>
                    (if u = rune_error \<and> w = 1 then bytes_of (CHR 0x5C # ''ufffd'')
                     else if u = 8232 then bytes_of (CHR 0x5C # ''u2028'') else if u = 8233 then bytes_of (CHR 0x5C # ''u2029'')
                     else b # take (w - 1) r) @ json_escape (drop (w - 1) r)))"
  by pat_completeness auto
termination by (relation "measure length") auto

declare json_escape.simps [simp del]

definition json_quote :: "string \<Rightarrow> string" where
  "json_quote s = CHR 0x22 # string_of_bytes (json_escape (bytes_of s)) @ [CHR 0x22]"

text \<open>A \<open>float64\<close>: fixed notation between \<open>1e-6\<close> and \<open>1e21\<close>, else with an exponent.\<close>

definition exp_text :: "int \<Rightarrow> int \<Rightarrow> string" where
  "exp_text D k =
     (let ds = dec_nat (nat D); x = k + int (length ds) - 1;
          xs = dec_nat (nat \<bar>x\<bar>);
          xt = (if x < 0 then xs else if length xs < 2 then CHR ''0'' # xs else xs)
      in [hd ds] @ (if tl ds = [] then [] else CHR ''.'' # tl ds) @ ''e'' @ (if x < 0 then ''-'' else ''+'') @ xt)"

definition json_float :: "float64 \<Rightarrow> string option" where
  "json_float f =
     (case f of
        FFin s m e \<Rightarrow>
          (let a = FFin False m e in
           if m \<noteq> 0 \<and> (fless a (round64 False 1 (10 ^ 6)) \<or> \<not> fless a (round64 False (10 ^ 21) 1))
           then Some (sign_text s @ (case shortest_from m e [1..17] of (D, k) \<Rightarrow> exp_text D k))
           else Some (FormatFloat_shortest f))
      | _ \<Rightarrow> None)"

definition json_any :: "anyval \<Rightarrow> string option" where
  "json_any v = (case v of AStr s \<Rightarrow> Some (json_quote s) | AInt i \<Rightarrow> Some (fmt_d i) | AFloat f \<Rightarrow> json_float f)"

text \<open>A Go map from strings: an association list with distinct keys.\<close>

type_synonym gomap = "(string \<times> anyval) list"

definition map_put :: "string \<Rightarrow> 'v \<Rightarrow> (string \<times> 'v) list \<Rightarrow> (string \<times> 'v) list" where
  "map_put k v m = filter (\<lambda>p. fst p \<noteq> k) m @ [(k, v)]"

fun bytes_less :: "nat list \<Rightarrow> nat list \<Rightarrow> bool" where
  "bytes_less _ [] \<longleftrightarrow> False"
| "bytes_less [] (_ # _) \<longleftrightarrow> True"
| "bytes_less (x # xs) (y # ys) \<longleftrightarrow> x < y \<or> (x = y \<and> bytes_less xs ys)"

fun insert_member :: "string \<times> 'v \<Rightarrow> (string \<times> 'v) list \<Rightarrow> (string \<times> 'v) list" where
  "insert_member p [] = [p]"
| "insert_member p (q # qs) =
     (if bytes_less (bytes_of (fst q)) (bytes_of (fst p)) then q # insert_member p qs else p # q # qs)"

definition sort_members :: "(string \<times> 'v) list \<Rightarrow> (string \<times> 'v) list" where
  "sort_members m = foldr insert_member m []"

definition member_text :: "string \<times> anyval \<Rightarrow> string option" where
  "member_text p = (case json_any (snd p) of None \<Rightarrow> None | Some t \<Rightarrow> Some (json_quote (fst p) @ '':'' @ t))"

definition json_Marshal :: "gomap \<Rightarrow> string res" where
  "json_Marshal m =
     (let ts = map member_text (sort_members m) in
      if None \<in> set ts then Inl (Errorf ''json: unsupported value'' [])
      else Inr (''{'' @ join_with '','' (map the ts) @ ''}''))"

lemma map_of_map_put: "map_of (map_put k v m) k' = (if k' = k then Some v else map_of m k')"
  by (induction m) (auto simp: map_put_def)

end
