(* ===== verification/Go_Http.thy ===== *)
theory Go_Http
  imports Go_Json
begin

text \<open>
  \<open>net/http\<close> as a client and \<open>net/url\<close>: a request, the answer of the network to it (a
  parameter, with the transport's own failures as errors), and the encoding of a query.
\<close>

section \<open>net/http and net/url\<close>

record http_req =
  hq_method :: string
  hq_url :: string
  hq_headers :: "(string \<times> string) list"
  hq_body :: string

record http_resp =
  hp_status :: int
  hp_body :: string

type_synonym network = "http_req \<Rightarrow> http_resp res"

text \<open>\<open>url.QueryEscape\<close>, and \<open>url.Values.Encode\<close>, whose keys come out sorted.\<close>

definition url_safe :: "nat \<Rightarrow> bool" where
  "url_safe b \<longleftrightarrow>
     (48 \<le> b \<and> b \<le> 57) \<or> (65 \<le> b \<and> b \<le> 90) \<or> (97 \<le> b \<and> b \<le> 122) \<or> b \<in> {45, 95, 46, 126}"

definition upper_hex :: "nat \<Rightarrow> char" where
  "upper_hex d = char_of (if d < 10 then 48 + d else 55 + d)"

definition QueryEscape :: "string \<Rightarrow> string" where
  "QueryEscape s =
     concat (map (\<lambda>c. let b = of_char c :: nat in
                    if url_safe b then [c] else if b = 32 then ''+''
                    else [CHR ''%'', upper_hex (b div 16), upper_hex (b mod 16)]) s)"

definition Values_Encode :: "(string \<times> string) list \<Rightarrow> string" where
  "Values_Encode vs =
     join_with ''&'' (map (\<lambda>p. QueryEscape (fst p) @ ''='' @ QueryEscape (snd p)) (sort_members vs))"

end
