(* ===== verification/LiqPay.thy ===== *)
theory LiqPay
  imports Go_Base64 Go_Calendar Go_Crypto Go_Http
begin

text \<open>
  The LiqPay client (\<open>pkg/liqpay/liqpay.go\<close>): the signature, the encoding of a request, the
  fields of the checkout form, the verification and decoding of a callback, and the
  server-to-server call. What the network answers to a request is a parameter
  (\<open>network\<close>), a function of the request sent.
\<close>

section \<open>Constants\<close>

definition apiBaseURL :: string where "apiBaseURL = ''https://www.liqpay.ua/api''"
definition CheckoutURL :: string where "CheckoutURL = apiBaseURL @ ''/3/checkout''"
definition Version :: int where "Version = 3"
definition ActionSub :: string where "ActionSub = ''subscribe''"
definition ActionUnsub :: string where "ActionUnsub = ''unsubscribe''"
definition Periodicity :: string where "Periodicity = ''month''"

definition StatusSubscribed :: string where "StatusSubscribed = ''subscribed''"
definition StatusSuccess :: string where "StatusSuccess = ''success''"
definition StatusFailure :: string where "StatusFailure = ''failure''"
definition StatusError :: string where "StatusError = ''error''"
definition StatusUnsubscribed :: string where "StatusUnsubscribed = ''unsubscribed''"

lemmas liqpay_statuses =
  StatusSubscribed_def StatusSuccess_def StatusFailure_def StatusError_def StatusUnsubscribed_def

section \<open>The client\<close>

record Client =
  lc_publicKey :: string
  lc_privateKey :: string
  lc_sandbox :: bool

definition Sign :: "Client \<Rightarrow> string \<Rightarrow> string" where
  "Sign c data = base64_EncodeToString (sha1_Sum (lc_privateKey c @ data @ lc_privateKey c))"

definition encode :: "Client \<Rightarrow> gomap \<Rightarrow> string res" where
  "encode c params =
     (let p1 = map_put ''public_key'' (AStr (lc_publicKey c)) params;
          p2 = map_put ''version'' (AInt Version) p1;
          p3 = (if lc_sandbox c then map_put ''sandbox'' (AInt 1) p2 else p2)
      in (case json_Marshal p3 of
            Inl e \<Rightarrow> Inl (Wrap ''marshal liqpay params'' [] e)
          | Inr raw \<Rightarrow> Inr (base64_EncodeToString raw)))"

definition CheckoutFields :: "Client \<Rightarrow> gomap \<Rightarrow> (string \<times> string) res" where
  "CheckoutFields c params =
     (case encode c params of Inl e \<Rightarrow> Inl e | Inr data \<Rightarrow> Inr (data, Sign c data))"

record Callback =
  cb_Action :: string
  cb_Status :: string
  cb_OrderID :: string
  cb_Amount :: float64
  cb_Currency :: string
  cb_ErrDescription :: string

definition Callback0 :: Callback where
  "Callback0 = \<lparr>cb_Action = [], cb_Status = [], cb_OrderID = [], cb_Amount = float_of_int 0,
                cb_Currency = [], cb_ErrDescription = []\<rparr>"

definition callback_fields :: "(string \<times> Callback setter) list" where
  "callback_fields =
     [(''action'', set_string (\<lambda>v c. c\<lparr>cb_Action := v\<rparr>)),
      (''status'', set_string (\<lambda>v c. c\<lparr>cb_Status := v\<rparr>)),
      (''order_id'', set_string (\<lambda>v c. c\<lparr>cb_OrderID := v\<rparr>)),
      (''amount'', set_float (\<lambda>v c. c\<lparr>cb_Amount := v\<rparr>)),
      (''currency'', set_string (\<lambda>v c. c\<lparr>cb_Currency := v\<rparr>)),
      (''err_description'', set_string (\<lambda>v c. c\<lparr>cb_ErrDescription := v\<rparr>))]"

text \<open>\<open>json.Unmarshal(raw, &cb)\<close>\<close>

definition unmarshal_callback :: "string \<Rightarrow> Callback res" where
  "unmarshal_callback raw =
     (case json_whole raw of
        None \<Rightarrow> Inl (Errorf ''json: syntax error'' [])
      | Some v \<Rightarrow>
          (case decode_fields callback_fields v Callback0 of
             (cb, bad) \<Rightarrow> if bad then Inl (Errorf ''json: cannot unmarshal'' []) else Inr cb))"

definition VerifyAndDecode :: "Client \<Rightarrow> string \<Rightarrow> string \<Rightarrow> Callback res" where
  "VerifyAndDecode c data signature =
     (if Sign c data \<noteq> signature then Inl (Errorf ''invalid liqpay callback signature'' [])
      else (case base64_DecodeString data of
              None \<Rightarrow> Inl (Wrap ''decode callback data'' [] (Errorf ''illegal base64 data'' []))
            | Some raw \<Rightarrow>
                (case unmarshal_callback raw of
                   Inl e \<Rightarrow> Inl (Wrap ''unmarshal callback data'' [] e)
                 | Inr cb \<Rightarrow> Inr cb)))"

text \<open>
  \<open>Request\<close>: the URL and the method are constants, so building the request cannot fail. The
  reply is decoded into a map, \<open>JNull\<close> giving the nil map; the description LiqPay sends with
  an error is not kept in the error value.
\<close>

definition liqpay_request :: "string \<Rightarrow> string \<Rightarrow> http_req" where
  "liqpay_request data signature =
     \<lparr>hq_method = ''POST'', hq_url = apiBaseURL @ ''/request'',
      hq_headers = [(''Content-Type'', ''application/x-www-form-urlencoded'')],
      hq_body = Values_Encode [(''data'', data), (''signature'', signature)]\<rparr>"

definition decode_map :: "string \<Rightarrow> (string \<times> json) list res" where
  "decode_map body =
     (case json_first body of
        None \<Rightarrow> Inl (Errorf ''json: syntax error'' [])
      | Some (v, _) \<Rightarrow>
          (case v of
             JNull \<Rightarrow> Inr []
           | JObj ms \<Rightarrow> if any_ok v then Inr ms else Inl (Errorf ''json: cannot unmarshal'' [])
           | _ \<Rightarrow> Inl (Errorf ''json: cannot unmarshal'' [])))"

definition liqpay_Request :: "network \<Rightarrow> Client \<Rightarrow> gomap \<Rightarrow> (string \<times> json) list res" where
  "liqpay_Request net c params =
     (case encode c params of
        Inl e \<Rightarrow> Inl e
      | Inr data \<Rightarrow>
          (case net (liqpay_request data (Sign c data)) of
             Inl e \<Rightarrow> Inl (Wrap ''call liqpay'' [] e)
           | Inr resp \<Rightarrow>
               (case decode_map (hp_body resp) of
                  Inl e \<Rightarrow> Inl (Wrap ''decode liqpay response'' [] e)
                | Inr out \<Rightarrow>
                    if hp_status resp \<noteq> 200 then Inl (Errorf ''liqpay returned status %d: %v'' [fmt_d (hp_status resp)])
                    else Inr out)))"

definition FormatSubscribeDate :: "gotime \<Rightarrow> string" where
  "FormatSubscribeDate t = Format_datetime t"

section \<open>What the client guarantees\<close>

text \<open>Only a text signed with the private key passes.\<close>

lemma VerifyAndDecode_signed:
  "VerifyAndDecode c data signature = Inr cb \<Longrightarrow> signature = Sign c data"
  by (auto simp: VerifyAndDecode_def split: if_splits)

text \<open>A text the client itself signed is accepted and decoded as JSON.\<close>

lemma VerifyAndDecode_encoded:
  "VerifyAndDecode c (base64_EncodeToString raw) (Sign c (base64_EncodeToString raw)) =
     (case unmarshal_callback raw of
        Inl e \<Rightarrow> Inl (Wrap ''unmarshal callback data'' [] e) | Inr cb \<Rightarrow> Inr cb)"
  by (simp add: VerifyAndDecode_def base64_roundtrip)

lemma CheckoutFields_signed:
  "CheckoutFields c params = Inr (data, signature) \<Longrightarrow> signature = Sign c data"
  by (auto simp: CheckoutFields_def split: sum.splits)

end
