(* ===== verification/Plan.thy ===== *)
theory Plan
  imports Go_Base
begin

text \<open>
  The subscription tiers and what each unlocks (\<open>internal/plan/plan.go\<close>). A plan is the text
  the users table holds; the functions are total on every text.
\<close>

definition plan_Free :: string where "plan_Free = ''free''"
definition plan_Pro :: string where "plan_Pro = ''pro''"
definition plan_Max :: string where "plan_Max = ''max''"
definition plan_Enterprise :: string where "plan_Enterprise = ''enterprise''"

lemmas plan_names = plan_Free_def plan_Pro_def plan_Max_def plan_Enterprise_def

definition AllowsMonobank :: "string \<Rightarrow> bool" where
  "AllowsMonobank p \<longleftrightarrow> p = plan_Max \<or> p = plan_Enterprise"

definition AllowsFelix :: "string \<Rightarrow> bool" where
  "AllowsFelix p \<longleftrightarrow> p \<noteq> plan_Free"

text \<open>\<open>Some days\<close> is \<open>(days, true)\<close>, \<open>None\<close> is \<open>(0, false)\<close>: kept forever.\<close>

definition RetentionDays :: "string \<Rightarrow> int option" where
  "RetentionDays p = (if p = plan_Free then Some 30 else if p = plan_Pro then Some 365 else None)"

text \<open>
  The tiers are ordered: bank sync implies the assistant, and a plan with bank sync keeps its
  history forever.
\<close>

lemma monobank_plan: "AllowsMonobank p \<Longrightarrow> AllowsFelix p \<and> RetentionDays p = None"
  by (auto simp: AllowsMonobank_def AllowsFelix_def RetentionDays_def plan_names)

lemma retention_positive: "RetentionDays p = Some n \<Longrightarrow> 0 < n"
  by (auto simp: RetentionDays_def split: if_splits)

end
