(* ===== verification/Billing.thy ===== *)
theory Billing
  imports Payments LiqPay Plan
begin

text \<open>
  The subscription flow: \<open>internal/service/billing/billing.go\<close> and the webhook handler of
  \<open>internal/webhook/liqpay.go\<close>. The operations are programs over the database; the clock
  readings, the network and the library calls are arguments (\<open>billing_env\<close>, and one argument
  per \<open>time.Now()\<close>). Log lines have no effect on what is modelled and are left out.
\<close>

section \<open>The service\<close>

definition trialDuration :: duration where "trialDuration = 7 * 24 * time_Hour"
definition proPlanPriceUSD :: int where "proPlanPriceUSD = 15"
definition maxPlanPriceUSD :: int where "maxPlanPriceUSD = 99"

definition planPrice :: "string \<Rightarrow> float64 option" where
  "planPrice planName =
     (if planName = plan_Pro then Some (float_of_int proPlanPriceUSD)
      else if planName = plan_Max then Some (float_of_int maxPlanPriceUSD) else None)"

text \<open>
  The service's fields, and the library functions it relies on: the printed form of an
  identifier (\<open>uuid.UUID.String\<close>), pgtype's numerics and the network.
\<close>

record Billing =
  bs_liqpay :: Client
  bs_frontendURL :: string
  bs_backendURL :: string

record billing_env =
  be_uuid_String :: "uuid \<Rightarrow> string"
  be_pgnum :: pgnum
  be_network :: network

record Checkout =
  co_URL :: string
  co_Data :: string
  co_Signature :: string

definition orderID :: "(uuid \<Rightarrow> string) \<Rightarrow> gotime \<Rightarrow> string \<Rightarrow> string \<Rightarrow> uuid \<Rightarrow> string" where
  "orderID uuid_String now flow planName userID =
     ''sub.'' @ flow @ ''.'' @ planName @ ''.'' @ uuid_String userID @ ''.'' @ fmt_d (time_Unix now)"

definition parseOrderID :: "string \<Rightarrow> (string \<times> string) option" where
  "parseOrderID i =
     (let parts = split_char (CHR ''.'') i in
      if length parts \<noteq> 5 \<or> parts ! 0 \<noteq> ''sub'' then None else Some (parts ! 1, parts ! 2))"

text \<open>The em dash of the description, in UTF-8.\<close>

definition em_dash :: string where
  "em_dash = string_of_bytes [226, 128, 148]"

definition already_exists :: goerr where
  "already_exists = Errorf ''a trial or subscription already exists for this account'' []"

definition checkout_params ::
  "Billing \<Rightarrow> anyval \<Rightarrow> string \<Rightarrow> string \<Rightarrow> gotime \<Rightarrow> gomap" where
  "checkout_params s amount description i startAt =
     [(''action'', AStr ActionSub), (''amount'', amount), (''currency'', AStr ''USD''),
      (''description'', AStr description), (''order_id'', AStr i), (''subscribe'', AInt 1),
      (''subscribe_date_start'', AStr (FormatSubscribeDate startAt)),
      (''subscribe_periodicity'', AStr Periodicity),
      (''server_url'', AStr (bs_backendURL s @ ''/webhooks/liqpay'')),
      (''result_url'', AStr (bs_frontendURL s @ ''/app/profile/plan?checkout=done''))]"

definition build_checkout :: "Billing \<Rightarrow> gomap \<Rightarrow> Checkout res" where
  "build_checkout s params =
     (case CheckoutFields (bs_liqpay s) params of
        Inl e \<Rightarrow> Inl (Wrap ''build checkout'' [] e)
      | Inr (data, signature) \<Rightarrow>
          Inr \<lparr>co_URL = CheckoutURL, co_Data = data, co_Signature = signature\<rparr>)"

definition StartTrial :: "billing_env \<Rightarrow> Billing \<Rightarrow> gotime \<Rightarrow> gotime \<Rightarrow> uuid \<Rightarrow> Checkout dbop" where
  "StartTrial env s now1 now2 userID = do {
     r \<leftarrow> UserRepo_GetByID userID;
     case r of
       Inl e \<Rightarrow> ret (Inl (Wrap ''look up user'' [] e))
     | Inr user \<Rightarrow>
         if u_SubscriptionStatus user \<noteq> [] then ret (Inl already_exists)
         else do {
           let i = orderID (be_uuid_String env) now1 ''trial'' plan_Max userID;
           let trialEndsAt = now2 + trialDuration;
           r2 \<leftarrow> UserRepo_BeginCheckout userID i trialEndsAt;
           case r2 of
             Inl e \<Rightarrow> ret (Inl (Wrap ''record trial start'' [] e))
           | Inr _ \<Rightarrow>
               ret (build_checkout s
                 (checkout_params s (AInt maxPlanPriceUSD)
                    (''Vaultly Max '' @ em_dash @ '' monthly subscription'') i trialEndsAt)) } }"

definition Subscribe :: "billing_env \<Rightarrow> Billing \<Rightarrow> gotime \<Rightarrow> gotime \<Rightarrow> uuid \<Rightarrow> string \<Rightarrow> Checkout dbop" where
  "Subscribe env s now1 now2 userID planName =
     (case planPrice planName of
        None \<Rightarrow> ret (Inl (Errorf ''plan %q is not purchasable'' [planName]))
      | Some price \<Rightarrow> do {
          r \<leftarrow> UserRepo_GetByID userID;
          case r of
            Inl e \<Rightarrow> ret (Inl (Wrap ''look up user'' [] e))
          | Inr user \<Rightarrow>
              if u_SubscriptionStatus user \<noteq> [] then ret (Inl already_exists)
              else do {
                let i = orderID (be_uuid_String env) now1 ''direct'' planName userID;
                let startAt = now2 + 5 * time_Minute;
                r2 \<leftarrow> UserRepo_BeginCheckout userID i 0;
                case r2 of
                  Inl e \<Rightarrow> ret (Inl (Wrap ''record subscription start'' [] e))
                | Inr _ \<Rightarrow>
                    ret (build_checkout s
                      (checkout_params s (AFloat price)
                         (''Vaultly '' @ planName @ '' '' @ em_dash @ '' monthly subscription'') i startAt)) } })"

text \<open>The \<open>switch cb.Status\<close> at the end of \<open>HandleCallback\<close>, and the whole handler.\<close>

definition apply_status :: "User \<Rightarrow> string \<Rightarrow> string \<Rightarrow> string \<Rightarrow> unit dbop" where
  "apply_status user flow planName st =
     (if st = StatusSubscribed then do {
        r \<leftarrow> UserRepo_UpdateSubscription (u_ID user) planName
               (if flow = ''direct'' then ''active'' else ''trialing'') (u_TrialEndsAt user);
        ret (case r of Inl e \<Rightarrow> Inl e | Inr _ \<Rightarrow> Inr ()) }
      else if st = StatusSuccess then do {
        r \<leftarrow> UserRepo_UpdateSubscription (u_ID user) planName ''active'' 0;
        ret (case r of Inl e \<Rightarrow> Inl e | Inr _ \<Rightarrow> Inr ()) }
      else if st = StatusFailure \<or> st = StatusUnsubscribed \<or> st = StatusError then do {
        r \<leftarrow> UserRepo_UpdateSubscription (u_ID user) plan_Free ''canceled'' 0;
        ret (case r of Inl e \<Rightarrow> Inl e | Inr _ \<Rightarrow> Inr ()) }
      else ret (Inr ()))"

definition HandleCallback :: "billing_env \<Rightarrow> Billing \<Rightarrow> string \<Rightarrow> string \<Rightarrow> unit dbop" where
  "HandleCallback env s rawData rawSignature =
     (case VerifyAndDecode (bs_liqpay s) rawData rawSignature of
        Inl e \<Rightarrow> ret (Inl (Wrap ''verify callback signature'' [] e))
      | Inr cb \<Rightarrow> do {
          r \<leftarrow> UserRepo_GetByLiqPayOrderID (cb_OrderID cb);
          case r of
            Inl e \<Rightarrow> ret (Inl (Wrap ''no user for liqpay order_id %q'' [cb_OrderID cb] e))
          | Inr user \<Rightarrow>
              (case parseOrderID (cb_OrderID cb) of
                 None \<Rightarrow> ret (Inl (Errorf ''malformed order_id %q'' [cb_OrderID cb]))
               | Some (flow, planName) \<Rightarrow> do {
                   r2 \<leftarrow> PaymentRepo_Create (be_pgnum env)
                     \<lparr>cp_UserID = u_ID user, cp_OrderID = cb_OrderID cb, cp_Plan = planName,
                      cp_Action = cb_Action cb, cp_Status = cb_Status cb, cp_Amount = cb_Amount cb,
                      cp_Currency = cb_Currency cb, cp_ErrorDescription = cb_ErrDescription cb\<rparr>;
                   case r2 of
                     Inl e \<Rightarrow> ret (Inl (Wrap ''record payment event'' [] e))
                   | Inr _ \<Rightarrow> apply_status user flow planName (cb_Status cb) }) })"

definition Receipts :: "billing_env \<Rightarrow> uuid \<Rightarrow> PaymentEvent list dbop" where
  "Receipts env userID = PaymentRepo_ListForUser (be_pgnum env) userID 50"

definition Cancel :: "billing_env \<Rightarrow> Billing \<Rightarrow> uuid \<Rightarrow> unit dbop" where
  "Cancel env s userID = do {
     r \<leftarrow> UserRepo_GetByID userID;
     case r of
       Inl e \<Rightarrow> ret (Inl (Wrap ''look up user'' [] e))
     | Inr user \<Rightarrow>
         if u_LiqPayOrderID user = [] then ret (Inl (Errorf ''no active subscription to cancel'' []))
         else (case liqpay_Request (be_network env) (bs_liqpay s)
                      [(''action'', AStr ActionUnsub), (''order_id'', AStr (u_LiqPayOrderID user))] of
                 Inl e \<Rightarrow> ret (Inl (Wrap ''unsubscribe via liqpay'' [] e))
               | Inr _ \<Rightarrow> do {
                   r2 \<leftarrow> UserRepo_UpdateSubscription userID plan_Free ''canceled'' 0;
                   ret (case r2 of Inl e \<Rightarrow> Inl e | Inr _ \<Rightarrow> Inr ()) }) }"

text \<open>
  The webhook handler: the method, the result of \<open>ParseForm\<close> (\<open>None\<close> when it fails) and the
  two form values in, the HTTP status out. Whatever \<open>HandleCallback\<close> says, the answer is 200.
\<close>

definition LiqPay_ServeHTTP ::
  "billing_env \<Rightarrow> Billing \<Rightarrow> string \<Rightarrow> (string \<times> string) option \<Rightarrow> (db, int) state" where
  "LiqPay_ServeHTTP env s meth form =
     (if meth \<noteq> ''POST'' then ret 405
      else (case form of
              None \<Rightarrow> ret 400
            | Some (data, signature) \<Rightarrow>
                if data = [] \<or> signature = [] then ret 400
                else do { _ \<leftarrow> HandleCallback env s data signature; ret 200 }))"

section \<open>Invariants of the tables\<close>

lemma keeps_apply_status [hr]:
  "keeps users_wf (apply_status u f p st)" "keeps payments_wf (apply_status u f p st)"
  by (auto simp: apply_status_def intro!: hr)

lemma billing_keeps_users [hr]:
  "keeps users_wf (StartTrial env s t t' i)" "keeps users_wf (Subscribe env s t t' i p)"
  "keeps users_wf (HandleCallback env s d sg)" "keeps users_wf (Cancel env s i)"
  "keeps users_wf (Receipts env i)" "keeps users_wf (LiqPay_ServeHTTP env s m f)"
  by (auto simp: StartTrial_def Subscribe_def HandleCallback_def Cancel_def Receipts_def
      LiqPay_ServeHTTP_def Let_def intro!: hr)

lemma billing_keeps_payments [hr]:
  "keeps payments_wf (StartTrial env s t t' i)" "keeps payments_wf (Subscribe env s t t' i p)"
  "keeps payments_wf (HandleCallback env s d sg)" "keeps payments_wf (Cancel env s i)"
  "keeps payments_wf (Receipts env i)" "keeps payments_wf (LiqPay_ServeHTTP env s m f)"
  by (auto simp: StartTrial_def Subscribe_def HandleCallback_def Cancel_def Receipts_def
      LiqPay_ServeHTTP_def Let_def intro!: hr)

end
