(* ===== verification/Subscriptions.thy ===== *)
theory Subscriptions
  imports Billing
begin

text \<open>
  What the billing operations do: the text of an order, each operation's result on a database
  that answers, what a rejected or interrupted callback leaves behind, and the subscription of
  one account as a state machine (\<open>sub_step\<close>), which every billing operation refines.
\<close>

section \<open>Orders\<close>

text \<open>
  What the code relies on of \<open>uuid.UUID.String\<close>: no separator in it, and different texts for
  different identifiers. \<open>uuid_hex\<close> is the canonical form (RFC 9562), used as the instance.
\<close>

definition uuid_text :: "(uuid \<Rightarrow> string) \<Rightarrow> bool" where
  "uuid_text u \<longleftrightarrow> inj u \<and> (\<forall>i. CHR ''.'' \<notin> set (u i))"

primrec hex_chars :: "nat \<Rightarrow> nat \<Rightarrow> string" where
  "hex_chars 0 n = []"
| "hex_chars (Suc k) n = hex_chars k (n div 16) @ [hex_digit (n mod 16)]"

definition uuid_hex :: "uuid \<Rightarrow> string" where
  "uuid_hex i =
     (let h = hex_chars 32 (unat i) in
      join_with ''-'' [take 8 h, take 4 (drop 8 h), take 4 (drop 12 h), take 4 (drop 16 h), drop 20 h])"

lemma hex_digit_props:
  assumes "d < 16"
  shows "hex_digit d \<noteq> CHR ''.''" "hex_digit d \<noteq> CHR ''-''"
    and "(of_char (hex_digit d) :: nat) = (if d < 10 then 48 + d else 87 + d)"
proof -
  show v: "(of_char (hex_digit d) :: nat) = (if d < 10 then 48 + d else 87 + d)"
    using assms by (simp add: hex_digit_def)
  show "hex_digit d \<noteq> CHR ''.''" "hex_digit d \<noteq> CHR ''-''"
    by (rule char_code_neq; cases "d < 10"; simp add: v)+
qed

lemma hex_digit_inj:
  assumes "c < 16" "d < 16" "hex_digit c = hex_digit d"
  shows "c = d"
proof -
  have "(if c < 10 then 48 + c else 87 + c) = (if d < 10 then 48 + d else 87 + d)"
    using hex_digit_props(3) [OF assms(1)] hex_digit_props(3) [OF assms(2)] assms(3) by simp
  then show ?thesis by (cases "c < 10"; cases "d < 10") simp_all
qed

lemma length_hex_chars [simp]: "length (hex_chars k n) = k"
  by (induction k arbitrary: n) auto

lemma hex_chars_set: "set (hex_chars k n) \<subseteq> hex_digit ` {..<16}"
  by (induction k arbitrary: n) auto

lemma hex_chars_inj:
  "m < 16 ^ k \<Longrightarrow> n < 16 ^ k \<Longrightarrow> hex_chars k m = hex_chars k n \<Longrightarrow> m = n"
proof (induction k arbitrary: m n)
  case (Suc k)
  then have "m div 16 < 16 ^ k" "n div 16 < 16 ^ k"
    by (simp_all add: less_mult_imp_div_less mult.commute)
  with Suc have "m div 16 = n div 16" by simp
  moreover have "m mod 16 = n mod 16" using Suc.prems(3) by (auto intro: hex_digit_inj)
  ultimately show ?case by (metis div_mult_mod_eq)
qed simp

lemma filter_joined:
  assumes "length h = 32" and "\<forall>x \<in> set h. x \<noteq> c"
  shows "filter (\<lambda>x. x \<noteq> c)
    (join_with [c] [take 8 h, take 4 (drop 8 h), take 4 (drop 12 h), take 4 (drop 16 h), drop 20 h]) = h"
proof -
  have keep: "filter (\<lambda>x. x \<noteq> c) (take m (drop n h)) = take m (drop n h)" for m n
    using assms(2) by (auto simp: filter_id_conv dest!: in_set_takeD in_set_dropD)
  have "take 8 h @ take 4 (drop 8 h) @ take 4 (drop 12 h) @ take 4 (drop 16 h) @ drop 20 h = h"
    using append_take_drop_id [of 8 h] append_take_drop_id [of 4 "drop 8 h"]
      append_take_drop_id [of 4 "drop 12 h"] append_take_drop_id [of 4 "drop 16 h"] by simp
  moreover have "filter (\<lambda>x. x \<noteq> c) (take 8 h) = take 8 h" "filter (\<lambda>x. x \<noteq> c) (drop 20 h) = drop 20 h"
    using keep [of 8 0] keep [of 12 20] assms(1) by simp_all
  ultimately show ?thesis by (simp add: keep)
qed

lemma uuid_hex_text: "uuid_text uuid_hex"
proof -
  have len: "unat i < 16 ^ 32" for i :: uuid
    using unsigned_less [of i, where ?'a = nat] by simp
  have "x \<noteq> CHR ''-'' \<and> x \<noteq> CHR ''.''" if "x \<in> set (hex_chars 32 (unat i))" for x and i :: uuid
  proof -
    from that obtain d :: nat where "d < 16" "x = hex_digit d" using hex_chars_set [of 32 "unat i"] by auto
    then show ?thesis using hex_digit_props(1,2) [of d] by simp
  qed
  then have clean: "CHR ''-'' \<notin> set (hex_chars 32 (unat i)) \<and> CHR ''.'' \<notin> set (hex_chars 32 (unat i))"
    for i :: uuid by blast
  have stripped: "filter (\<lambda>x. x \<noteq> CHR ''-'') (uuid_hex i) = hex_chars 32 (unat i)" for i
    unfolding uuid_hex_def Let_def by (rule filter_joined) (use clean in auto)
  have "inj uuid_hex"
  proof (rule injI)
    fix i j :: uuid assume "uuid_hex i = uuid_hex j"
    then have "hex_chars 32 (unat i) = hex_chars 32 (unat j)"
      using stripped [of i] stripped [of j] by simp
    then have "unat i = unat j" by (rule hex_chars_inj [OF len len])
    then show "i = j" by (rule unsigned_word_eqI)
  qed
  moreover have "CHR ''.'' \<notin> set (uuid_hex i)" for i
  proof
    assume "CHR ''.'' \<in> set (uuid_hex i)"
    then have "CHR ''.'' \<in> set (filter (\<lambda>x. x \<noteq> CHR ''-'') (uuid_hex i))" by simp
    then show False using stripped [of i] clean [of i] by simp
  qed
  ultimately show ?thesis by (simp add: uuid_text_def)
qed

text \<open>The flows and plans the service puts in an order.\<close>

definition sold :: "string \<Rightarrow> string \<Rightarrow> bool" where
  "sold flow p \<longleftrightarrow> (flow = ''trial'' \<and> p = plan_Max) \<or> (flow = ''direct'' \<and> p \<in> {plan_Pro, plan_Max})"

lemma sold_no_sep: "sold flow p \<Longrightarrow> CHR ''.'' \<notin> set flow \<and> CHR ''.'' \<notin> set p"
  by (auto simp: sold_def plan_names)

lemma split_orderID:
  assumes "CHR ''.'' \<notin> set flow" "CHR ''.'' \<notin> set p" "CHR ''.'' \<notin> set (u i)"
  shows "split_char (CHR ''.'') (orderID u now flow p i) =
    [''sub'', flow, p, u i, fmt_d (time_Unix now)]"
proof -
  define c where "c = CHR ''.''"
  define t where "t = fmt_d (time_Unix now)"
  have s: "orderID u now flow p i = ''sub'' @ c # (flow @ c # (p @ c # (u i @ c # t)))"
    by (simp add: orderID_def c_def t_def)
  have "c \<notin> set ''sub''" "c \<notin> set t"
    by (simp_all add: c_def t_def not_in_fmt_d)
  then show ?thesis
    unfolding s using assms [folded c_def]
    by (simp only: split_char_field split_char_no_sep simp_thms c_def [symmetric] t_def)
qed

lemma parse_orderID:
  assumes "uuid_text u" "sold flow p"
  shows "parseOrderID (orderID u now flow p i) = Some (flow, p)"
  using assms by (simp add: parseOrderID_def split_orderID uuid_text_def sold_no_sep)

lemma orderID_user:
  assumes "uuid_text u" "sold flow p" "sold flow' p'"
    and "orderID u now flow p i = orderID u now' flow' p' i'"
  shows "i = i'"
proof -
  have "split_char (CHR ''.'') (orderID u now flow p i) = split_char (CHR ''.'') (orderID u now' flow' p' i')"
    using assms(4) by simp
  then show ?thesis
    using assms(1-3) by (simp add: split_orderID uuid_text_def sold_no_sep inj_eq)
qed

lemma orderID_nonempty: "orderID u now flow p i \<noteq> []"
  by (simp add: orderID_def)

lemma parse_empty [simp]: "parseOrderID [] = None"
  by (simp add: parseOrderID_def)


section \<open>Results on a database that answers\<close>

lemma run_StartTrial:
  assumes "db_faults d = []"
  shows "run_state (StartTrial env s t1 t2 i) d =
    (case user_get i d of
       None \<Rightarrow> (Inl (Wrap ''look up user'' [] ErrNoRows), d)
     | Some r \<Rightarrow>
         if ur_subscription_status r \<noteq> [] then (Inl already_exists, d)
         else (let oid = orderID (be_uuid_String env) t1 ''trial'' plan_Max i in
               (build_checkout s
                  (checkout_params s (AInt maxPlanPriceUSD)
                     (''Vaultly Max '' @ em_dash @ '' monthly subscription'') oid (t2 + trialDuration)),
                user_upd i (begin_checkout oid (t2 + trialDuration)) d)))"
  using assms
  by (cases "user_get i d") (simp_all add: StartTrial_def run_GetByID run_BeginCheckout Let_def)

lemma run_Subscribe:
  assumes "db_faults d = []"
  shows "run_state (Subscribe env s t1 t2 i p) d =
    (case planPrice p of
       None \<Rightarrow> (Inl (Errorf ''plan %q is not purchasable'' [p]), d)
     | Some price \<Rightarrow>
         (case user_get i d of
            None \<Rightarrow> (Inl (Wrap ''look up user'' [] ErrNoRows), d)
          | Some r \<Rightarrow>
              if ur_subscription_status r \<noteq> [] then (Inl already_exists, d)
              else (let oid = orderID (be_uuid_String env) t1 ''direct'' p i in
                    (build_checkout s
                       (checkout_params s (AFloat price)
                          (''Vaultly '' @ p @ '' '' @ em_dash @ '' monthly subscription'') oid (t2 + 5 * time_Minute)),
                     user_upd i (begin_checkout oid 0) d))))"
  using assms
  by (cases "planPrice p"; cases "user_get i d")
    (simp_all add: Subscribe_def run_GetByID run_BeginCheckout Let_def)

definition unsubscribe_params :: "string \<Rightarrow> gomap" where
  "unsubscribe_params oid = [(''action'', AStr ActionUnsub), (''order_id'', AStr oid)]"

lemma run_Cancel:
  assumes "db_faults d = []"
  shows "run_state (Cancel env s i) d =
    (case user_get i d of
       None \<Rightarrow> (Inl (Wrap ''look up user'' [] ErrNoRows), d)
     | Some r \<Rightarrow>
         if ur_liqpay_order_id r = [] then (Inl (Errorf ''no active subscription to cancel'' []), d)
         else (case liqpay_Request (be_network env) (bs_liqpay s) (unsubscribe_params (ur_liqpay_order_id r)) of
                 Inl e \<Rightarrow> (Inl (Wrap ''unsubscribe via liqpay'' [] e), d)
               | Inr _ \<Rightarrow> (Inr (), user_upd i (set_subscription plan_Free ''canceled'' 0) d)))"
  using assms
  by (cases "user_get i d")
    (auto simp: Cancel_def run_GetByID run_UpdateSubscription unsubscribe_params_def split: sum.splits)

text \<open>The subscription a notification leads to, \<open>None\<close> when it changes nothing.\<close>

definition notified :: "string \<Rightarrow> string \<Rightarrow> string \<Rightarrow> user_row \<Rightarrow> user_row" where
  "notified flow p st r =
     (if st = StatusSubscribed
      then set_subscription p (if flow = ''direct'' then ''active'' else ''trialing'') (time_Time (ur_trial_ends_at r)) r
      else if st = StatusSuccess then set_subscription p ''active'' 0 r
      else if st = StatusFailure \<or> st = StatusUnsubscribed \<or> st = StatusError
      then set_subscription plan_Free ''canceled'' 0 r
      else r)"

lemma notified_id [simp]: "ur_id (notified flow p st r) = ur_id r"
  by (simp add: notified_def)

lemma user_upd_cong:
  "user_get i d = Some r \<Longrightarrow> distinct (map ur_id (db_users d)) \<Longrightarrow> f r = g r \<Longrightarrow> user_upd i f d = user_upd i g d"
proof -
  assume a: "user_get i d = Some r" "distinct (map ur_id (db_users d))" "f r = g r"
  have "x = r" if "x \<in> set (db_users d)" "ur_id x = i" for x
    using row_by_distinct [OF a(2) that(1)] a(1) that(2) by (simp add: user_get_def)
  with a(3) have "update_by ur_id i f (db_users d) = update_by ur_id i g (db_users d)"
    by (auto simp: update_by_def)
  then show ?thesis by (simp add: user_upd_def)
qed

lemma user_upd_self:
  "user_get i d = Some r \<Longrightarrow> distinct (map ur_id (db_users d)) \<Longrightarrow> f r = r \<Longrightarrow> user_upd i f d = d"
  using user_upd_cong [of i d r f "\<lambda>r. r"] by (simp add: user_upd_def update_by_def cong: map_cong)

lemma run_apply_status:
  assumes "db_faults d = []" and "user_get i d = Some r" and "distinct (map ur_id (db_users d))"
  shows "run_state (apply_status (userFromRow r) flow p st) d =
    (Inr (), user_upd i (notified flow p st) d)"
proof -
  have i: "ur_id r = i" using assms(2) by (rule users.get_key)
  have up: "run_state (UserRepo_UpdateSubscription i p s t) d = (Inr (userFromRow (set_subscription p s t r)),
      user_upd i (set_subscription p s t) d)" for p s t
    using assms by (simp add: run_UpdateSubscription)
  have eq: "user_upd i (set_subscription p' s' t') d = user_upd i (notified flow p st) d"
    if "notified flow p st r = set_subscription p' s' t' r" for p' s' t'
    by (rule user_upd_cong [OF assms(2,3)]) (rule that [symmetric])
  consider (sub) "st = StatusSubscribed" | (suc) "st = StatusSuccess"
    | (ended) "st \<noteq> StatusSubscribed" "st \<noteq> StatusSuccess" "st = StatusFailure \<or> st = StatusUnsubscribed \<or> st = StatusError"
    | (other) "st \<noteq> StatusSubscribed" "st \<noteq> StatusSuccess" "\<not> (st = StatusFailure \<or> st = StatusUnsubscribed \<or> st = StatusError)"
    by blast
  then show ?thesis
  proof cases
    case sub
    then show ?thesis using up eq by (simp add: apply_status_def i notified_def)
  next
    case suc
    have ne: "StatusSuccess \<noteq> StatusSubscribed" by (simp add: liqpay_statuses)
    show ?thesis using up eq suc ne by (simp add: apply_status_def i notified_def)
  next
    case ended
    then show ?thesis using up eq by (simp add: apply_status_def i notified_def)
  next
    case other
    then have "notified flow p st r = r" by (simp add: notified_def)
    with other show ?thesis
      using user_upd_self [OF assms(2,3)] by (simp add: apply_status_def)
  qed
qed

section \<open>Callbacks\<close>

definition same_tables :: "db \<Rightarrow> db \<Rightarrow> bool" where
  "same_tables d d' \<longleftrightarrow> d'\<lparr>db_faults := []\<rparr> = d\<lparr>db_faults := []\<rparr>"

lemma fault_free_same_tables [simp]: "fault_free (same_tables d)"
  by (simp add: fault_free_def same_tables_def)

lemma same_tables_refl [simp]: "same_tables d d"
  by (simp add: same_tables_def)

lemma same_tables_fields:
  assumes "same_tables d d'"
  shows "db_users d' = db_users d" "db_payments d' = db_payments d" "db_sessions d' = db_sessions d"
    "db_transactions d' = db_transactions d"
  using arg_cong [where f = db_users, OF assms [unfolded same_tables_def]]
    arg_cong [where f = db_payments, OF assms [unfolded same_tables_def]]
    arg_cong [where f = db_sessions, OF assms [unfolded same_tables_def]]
    arg_cong [where f = db_transactions, OF assms [unfolded same_tables_def]] by simp_all

definition payment_of :: "CreatePaymentEventParams \<Rightarrow> payment_row \<Rightarrow> bool" where
  "payment_of p row \<longleftrightarrow>
     pr_user_id row = cp_UserID p \<and> pr_order_id row = cp_OrderID p \<and> pr_plan row = cp_Plan p \<and>
     pr_action row = cp_Action p \<and> pr_status row = cp_Status p \<and> pr_currency row = cp_Currency p \<and>
     pr_error_description row = cp_ErrorDescription p"

text \<open>Recording a payment appends one event or leaves the tables alone, whatever fails.\<close>

lemma hoare_payment_create:
  "hoare (same_tables d0) (PaymentRepo_Create pg p)
     (\<lambda>r d. case r of
        Inl _ \<Rightarrow> same_tables d0 d
      | Inr _ \<Rightarrow> db_users d = db_users d0 \<and> (\<exists>row. payment_of p row \<and> db_payments d = db_payments d0 @ [row]))"
proof -
  have create: "hoare (same_tables d0) (PaymentEventCreate q)
     (\<lambda>r d. case r of
        Inl _ \<Rightarrow> same_tables d0 d
      | Inr row \<Rightarrow> db_users d = db_users d0 \<and> db_payments d = db_payments d0 @ [row] \<and>
          pr_user_id row = pp_user_id q \<and> pr_order_id row = pp_order_id q \<and> pr_plan row = pp_plan q \<and>
          pr_action row = pp_action q \<and> pr_status row = pp_status q \<and> pr_currency row = pp_currency q \<and>
          pr_error_description row = pp_error_description q)" for q
    unfolding PaymentEventCreate_def
    by (rule hoare_stmt [where P' = "same_tables d0"])
      (auto simp: payment_insert_def Let_def bump_def same_tables_fields split: sum.splits)
  show ?thesis
    unfolding PaymentRepo_Create_def
    by (intro hoare_splits hoare_return hoare_bind [OF create])
      (auto simp: hoare_def payment_of_def create_params_def split: sum.splits)
qed

text \<open>The result on a database that answers.\<close>

definition callback_payment :: "User \<Rightarrow> Callback \<Rightarrow> string \<Rightarrow> CreatePaymentEventParams" where
  "callback_payment user cb planName =
     \<lparr>cp_UserID = u_ID user, cp_OrderID = cb_OrderID cb, cp_Plan = planName, cp_Action = cb_Action cb,
      cp_Status = cb_Status cb, cp_Amount = cb_Amount cb, cp_Currency = cb_Currency cb,
      cp_ErrorDescription = cb_ErrDescription cb\<rparr>"

lemma run_payment_create:
  assumes "db_faults d = []" "NumericFromFloat64 pg (cp_Amount p) = Inr n" "numeric_col 12 n = Inr amount"
    and "next_id d \<notin> set (map pr_id (db_payments d))" "user_get (cp_UserID p) d = Some r"
  shows "run_state (PaymentRepo_Create pg p) d =
    (Inr (paymentEventFromRow pg (new_payment d (create_params p n) amount)),
     bump (d\<lparr>db_payments := db_payments d @ [new_payment d (create_params p n) amount]\<rparr>))"
  using assms
  by (simp add: PaymentRepo_Create_def PaymentEventCreate_def payment_insert_def create_params_def Let_def)

lemma run_fetch_order:
  assumes "db_faults d = []" "r \<in> set (db_users d)"
    and "\<And>r'. r' \<in> set (db_users d) \<Longrightarrow> ur_liqpay_order_id r' = ur_liqpay_order_id r \<Longrightarrow> r' = r"
  shows "run_state (UserRepo_GetByLiqPayOrderID (ur_liqpay_order_id r)) d = (Inr (userFromRow r), d)"
proof -
  have "query_one (\<lambda>x. ur_liqpay_order_id x = ur_liqpay_order_id r) (db_users d) = Inr r"
  proof (cases "query_one (\<lambda>x. ur_liqpay_order_id x = ur_liqpay_order_id r) (db_users d)")
    case (Inl e)
    then show ?thesis using assms(2) by (auto simp: query_one_Inl)
  next
    case (Inr x)
    then show ?thesis using assms(3) query_one_Inr [OF Inr] by blast
  qed
  then show ?thesis
    using assms(1) by (simp add: UserRepo_GetByLiqPayOrderID_def UserGetByLiqPayOrderID_def)
qed

lemma fetch_unknown_order:
  assumes "db_faults d = []" "\<forall>r \<in> set (db_users d). ur_liqpay_order_id r \<noteq> oid"
  shows "run_state (UserRepo_GetByLiqPayOrderID oid) d = (Inl ErrNoRows, d)"
proof -
  have "query_one (\<lambda>x. ur_liqpay_order_id x = oid) (db_users d) = Inl ErrNoRows"
    using assms(2) query_one_Inl [of "\<lambda>x. ur_liqpay_order_id x = oid" "db_users d" ErrNoRows] by blast
  then show ?thesis
    using assms(1) by (simp add: UserRepo_GetByLiqPayOrderID_def UserGetByLiqPayOrderID_def)
qed

section \<open>One account as a state machine\<close>

text \<open>
  What billing knows of an account, the events that can happen to it, and the steps they allow.
  A checkout begins only on an account that never had a subscription; a notification acts on
  the plan its own order names; a failed charge, an unsubscription and a cancellation all lead
  to \<open>free\<close> and \<open>canceled\<close>.
\<close>

record sub =
  sb_plan :: string
  sb_status :: string
  sb_order :: string
  sb_trial :: "gotime option"

definition sub_of :: "user_row \<Rightarrow> sub" where
  "sub_of r = \<lparr>sb_plan = ur_plan r, sb_status = ur_subscription_status r, sb_order = ur_liqpay_order_id r,
               sb_trial = ur_trial_ends_at r\<rparr>"

datatype billing_event = Began string gotime | Tokenized | Charged | Ended

inductive sub_step :: "sub \<Rightarrow> billing_event \<Rightarrow> sub \<Rightarrow> bool" where
  begins: "sb_status x = [] \<Longrightarrow> parseOrderID oid = Some (flow, p) \<Longrightarrow> sold flow p \<Longrightarrow>
    sub_step x (Began oid t) (x\<lparr>sb_order := oid, sb_status := ''pending'', sb_trial := NullTimeFromGo t\<rparr>)"
| tokenized: "parseOrderID (sb_order x) = Some (flow, p) \<Longrightarrow>
    sub_step x Tokenized
      (x\<lparr>sb_plan := p, sb_status := (if flow = ''direct'' then ''active'' else ''trialing''),
         sb_trial := NullTimeFromGo (time_Time (sb_trial x))\<rparr>)"
| charged: "parseOrderID (sb_order x) = Some (flow, p) \<Longrightarrow>
    sub_step x Charged (x\<lparr>sb_plan := p, sb_status := ''active'', sb_trial := None\<rparr>)"
| ended: "sb_order x \<noteq> [] \<Longrightarrow>
    sub_step x Ended (x\<lparr>sb_plan := plan_Free, sb_status := ''canceled'', sb_trial := None\<rparr>)"

inductive_cases began_cases: "sub_step x (Began oid t) y"
inductive_cases tokenized_cases: "sub_step x Tokenized y"
inductive_cases charged_cases: "sub_step x Charged y"
inductive_cases ended_cases: "sub_step x Ended y"

inductive sub_reach :: "sub \<Rightarrow> sub \<Rightarrow> bool" for x where
  here: "sub_reach x x"
| step: "sub_reach x y \<Longrightarrow> sub_step y ev z \<Longrightarrow> sub_reach x z"

text \<open>The states that make sense: what each status says of the plan, the order and the trial.\<close>

definition sub_ok :: "sub \<Rightarrow> bool" where
  "sub_ok x \<longleftrightarrow>
     (sb_status x = [] \<and> sb_plan x = plan_Free \<and> sb_order x = [] \<and> sb_trial x = None) \<or>
     ((\<exists>flow p. parseOrderID (sb_order x) = Some (flow, p) \<and> sold flow p \<and>
         (sb_status x = ''pending'' \<and> sb_plan x = plan_Free \<or>
          sb_status x = ''trialing'' \<and> flow = ''trial'' \<and> sb_plan x = p \<or>
          sb_status x = ''active'' \<and> sb_plan x = p \<or>
          sb_status x = ''canceled'' \<and> sb_plan x = plan_Free \<and> sb_trial x = None)))"

lemma sub_ok_new: "sub_ok \<lparr>sb_plan = plan_Free, sb_status = [], sb_order = [], sb_trial = None\<rparr>"
  by (simp add: sub_ok_def)

lemma sub_ok_parse: "sub_ok x \<Longrightarrow> parseOrderID (sb_order x) = Some (flow, p) \<Longrightarrow> sold flow p"
  by (auto simp: sub_ok_def)

lemma sub_ok_order: "sub_ok x \<Longrightarrow> sb_order x \<noteq> [] \<Longrightarrow> \<exists>flow p. parseOrderID (sb_order x) = Some (flow, p) \<and> sold flow p"
  by (auto simp: sub_ok_def)

lemma sub_step_ok: "sub_step x ev y \<Longrightarrow> sub_ok x \<Longrightarrow> sub_ok y"
proof (induction rule: sub_step.induct)
  case (begins x oid flow p t)
  then have "sb_plan x = plan_Free" by (auto simp: sub_ok_def)
  with begins show ?case by (auto simp: sub_ok_def)
next
  case (tokenized x flow p)
  then have "sold flow p" by (rule_tac sub_ok_parse)
  with tokenized(1) show ?case by (auto simp: sub_ok_def sold_def)
next
  case (charged x flow p)
  then have "sold flow p" by (rule_tac sub_ok_parse)
  with charged(1) show ?case by (auto simp: sub_ok_def)
next
  case (ended x)
  with sub_ok_order [OF ended(2,1)] show ?case by (auto simp: sub_ok_def)
qed

lemma sub_reach_ok: "sub_reach x y \<Longrightarrow> sub_ok x \<Longrightarrow> sub_ok y"
  by (induction rule: sub_reach.induct) (auto dest: sub_step_ok)

lemma sub_step_started: "sub_step x ev y \<Longrightarrow> sb_status y \<noteq> []"
  by (induction rule: sub_step.induct) auto

text \<open>Once a checkout has begun, its order stays: a second one never begins.\<close>

lemma sub_step_order: "sub_step x ev y \<Longrightarrow> sb_status x \<noteq> [] \<Longrightarrow> sb_order y = sb_order x \<and> (\<forall>oid t. ev \<noteq> Began oid t)"
  by (induction rule: sub_step.induct) auto

lemma sub_reach_order: "sub_reach x y \<Longrightarrow> sb_status x \<noteq> [] \<Longrightarrow> sb_order y = sb_order x \<and> sb_status y \<noteq> []"
proof (induction rule: sub_reach.induct)
  case (step y ev z)
  then show ?case using sub_step_order [of y ev z] sub_step_started [of y ev z] by simp
qed simp

section \<open>The operations refine the state machine\<close>

text \<open>
  One operation on the table of users: every account stays as it was or makes one step, and
  nothing but the four billing columns changes.
\<close>

definition billing_columns :: "user_row \<Rightarrow> user_row \<Rightarrow> user_row" where
  "billing_columns r r' =
     r\<lparr>ur_plan := ur_plan r', ur_subscription_status := ur_subscription_status r',
       ur_trial_ends_at := ur_trial_ends_at r', ur_liqpay_order_id := ur_liqpay_order_id r'\<rparr>"

definition account_step :: "user_row \<Rightarrow> user_row \<Rightarrow> bool" where
  "account_step r r' \<longleftrightarrow> (\<exists>ev. sub_step (sub_of r) ev (sub_of r')) \<and> r' = billing_columns r r'"

definition follows :: "user_row list \<Rightarrow> user_row list \<Rightarrow> bool" where
  "follows us us' \<longleftrightarrow>
     (\<forall>j. rel_option (\<lambda>r r'. r' = r \<or> account_step r r') (row_by ur_id j us) (row_by ur_id j us'))"

lemma follows_refl [simp]: "follows us us"
  by (auto simp: follows_def option.rel_refl)

lemma follows_update:
  assumes "\<And>r. ur_id (f r) = ur_id r"
    and "\<And>r. row_by ur_id i us = Some r \<Longrightarrow> f r = r \<or> account_step r (f r)"
  shows "follows us (update_by ur_id i f us)"
  unfolding follows_def
proof
  fix j
  show "rel_option (\<lambda>r r'. r' = r \<or> account_step r r') (row_by ur_id j us) (row_by ur_id j (update_by ur_id i f us))"
  proof (cases "j = i")
    case True
    with assms show ?thesis by (cases "row_by ur_id i us") (auto simp: row_by_update_same)
  next
    case False
    with assms(1) show ?thesis by (simp add: row_by_update_other option.rel_refl)
  qed
qed

lemma begin_step:
  assumes "ur_subscription_status r = []" "parseOrderID oid = Some (flow, p)" "sold flow p"
  shows "account_step r (begin_checkout oid t r)"
proof -
  have "sub_of (begin_checkout oid t r) =
      (sub_of r)\<lparr>sb_order := oid, sb_status := ''pending'', sb_trial := NullTimeFromGo t\<rparr>"
    by (simp add: sub_of_def)
  moreover have "sb_status (sub_of r) = []" using assms(1) by (simp add: sub_of_def)
  ultimately have "sub_step (sub_of r) (Began oid t) (sub_of (begin_checkout oid t r))"
    using sub_step.begins assms(2,3) by metis
  then show ?thesis by (auto simp: account_step_def billing_columns_def begin_checkout_def)
qed

lemma NullTime0 [simp]: "NullTimeFromGo 0 = None"
  by (simp add: NullTimeFromGo_def)

lemma end_step: "ur_liqpay_order_id r \<noteq> [] \<Longrightarrow> account_step r (set_subscription plan_Free ''canceled'' 0 r)"
  using sub_step.ended [of "sub_of r"]
  by (auto simp: account_step_def billing_columns_def set_subscription_def sub_of_def)

lemma notified_step:
  assumes "parseOrderID (ur_liqpay_order_id r) = Some (flow, p)"
  shows "notified flow p st r = r \<or> account_step r (notified flow p st r)"
proof -
  have ne: "ur_liqpay_order_id r \<noteq> []" using assms by auto
  have cols: "notified flow p st r = billing_columns r (notified flow p st r)"
    by (simp add: notified_def billing_columns_def set_subscription_def)
  have po: "parseOrderID (sb_order (sub_of r)) = Some (flow, p)" using assms by (simp add: sub_of_def)
  show ?thesis
    using end_step [OF ne] sub_step.tokenized [OF po] sub_step.charged [OF po] cols
    by (auto simp: notified_def account_step_def sub_of_def)
qed

lemma StartTrial_follows:
  assumes "uuid_text (be_uuid_String env)"
  shows "hoare (users_are us) (StartTrial env s t1 t2 i) (\<lambda>_ d. follows us (db_users d))"
proof -
  have p: "parseOrderID (orderID (be_uuid_String env) t1 ''trial'' plan_Max i) = Some (''trial'', plan_Max)"
    and q: "sold ''trial'' plan_Max"
    using assms by (simp_all add: parse_orderID sold_def)
  have f: "follows us (update_by ur_id i (begin_checkout (orderID (be_uuid_String env) t1 ''trial'' plan_Max i) t) us)"
    if "row_by ur_id i us = Some row" "ur_subscription_status row = []" for row t
    by (rule follows_update) (use that begin_step [OF that(2) p q] in auto)
  show ?thesis
    unfolding StartTrial_def Let_def
    by (rule hoare_bind [OF hoare_fetch], intro hoare_pure hoare_splits hoare_return
        hoare_bind [OF hoare_BeginCheckout]) (auto simp: f)
qed

lemma planPrice_sold: "planPrice p = Some price \<Longrightarrow> sold ''direct'' p"
  by (auto simp: planPrice_def sold_def split: if_splits)

lemma Subscribe_follows:
  assumes "uuid_text (be_uuid_String env)"
  shows "hoare (users_are us) (Subscribe env s t1 t2 i p) (\<lambda>_ d. follows us (db_users d))"
proof (cases "planPrice p")
  case (Some price)
  then have q: "sold ''direct'' p" by (rule planPrice_sold)
  with assms have o: "parseOrderID (orderID (be_uuid_String env) t1 ''direct'' p i) = Some (''direct'', p)"
    by (simp add: parse_orderID)
  have f: "follows us (update_by ur_id i (begin_checkout (orderID (be_uuid_String env) t1 ''direct'' p i) t) us)"
    if "row_by ur_id i us = Some row" "ur_subscription_status row = []" for row t
    by (rule follows_update) (use that begin_step [OF that(2) o q] in auto)
  show ?thesis
    unfolding Subscribe_def Let_def
    by (intro hoare_option hoare_return, simp, rule hoare_bind [OF hoare_fetch], intro hoare_pure hoare_splits
        hoare_return hoare_bind [OF hoare_BeginCheckout]) (auto simp: f)
qed (auto simp: Subscribe_def hoare_def)

lemma Cancel_follows: "hoare (users_are us) (Cancel env s i) (\<lambda>_ d. follows us (db_users d))"
proof -
  have f: "follows us (update_by ur_id i (set_subscription plan_Free ''canceled'' 0) us)"
    if "row_by ur_id i us = Some row" "ur_liqpay_order_id row \<noteq> []" for row
    by (rule follows_update) (use that end_step in auto)
  show ?thesis
    unfolding Cancel_def
    by (rule hoare_bind [OF hoare_fetch], intro hoare_pure hoare_splits hoare_return
        hoare_bind [OF hoare_UpdateSubscription]) (auto simp: f)
qed

lemma apply_status_follows:
  assumes "distinct (map ur_id us)" "row \<in> set us" "parseOrderID (ur_liqpay_order_id row) = Some (flow, p)"
  shows "hoare (users_are us) (apply_status (userFromRow row) flow p st) (\<lambda>_ d. follows us (db_users d))"
proof -
  have here: "row_by ur_id (ur_id row) us = Some row" using assms(1,2) by (rule row_by_distinct)
  have f: "follows us (update_by ur_id (ur_id row) (set_subscription p' s' t') us)"
    if "set_subscription p' s' t' row = notified flow p st' row" for p' s' t' st'
    by (rule follows_update) (use here that notified_step [OF assms(3), of st'] in auto)
  have ne: "StatusSuccess \<noteq> StatusSubscribed" by (simp add: liqpay_statuses)
  have sub: "follows us (update_by ur_id (ur_id row) (set_subscription p
      (if flow = ''direct'' then ''active'' else ''trialing'') (time_Time (ur_trial_ends_at row))) us)"
    by (rule f [of _ _ _ StatusSubscribed]) (simp add: notified_def)
  have suc: "follows us (update_by ur_id (ur_id row) (set_subscription p ''active'' 0) us)"
    by (rule f [of _ _ _ StatusSuccess]) (use ne in \<open>simp add: notified_def\<close>)
  have fin: "follows us (update_by ur_id (ur_id row) (set_subscription plan_Free ''canceled'' 0) us)"
    by (rule f [of _ _ _ StatusFailure]) (simp add: notified_def liqpay_statuses)
  show ?thesis
    unfolding apply_status_def
    by (intro hoare_splits hoare_return hoare_bind [OF hoare_UpdateSubscription])
      (use sub suc fin in auto)
qed

lemma hoare_payment_users: "keeps (users_are us) (PaymentRepo_Create pg p)"
proof -
  have "keeps (users_are us) (PaymentEventCreate q)" for q
    unfolding PaymentEventCreate_def
    by (rule keeps_stmt) (auto simp: payment_insert_def Let_def bump_def fault_free_def split: sum.splits)
  then show ?thesis by (auto simp: PaymentRepo_Create_def intro!: hr)
qed

lemma HandleCallback_follows:
  assumes "distinct (map ur_id us)"
  shows "hoare (users_are us) (HandleCallback env s data signature) (\<lambda>_ d. follows us (db_users d))"
  unfolding HandleCallback_def
proof (intro hoare_sum hoare_return hoare_bind [OF hoare_fetch_order] hoare_pure)
  fix cb r user
  assume r: "\<forall>u. r = Inr u \<longrightarrow> (\<exists>row \<in> set us. ur_liqpay_order_id row = cb_OrderID cb \<and> u = userFromRow row)"
    and "r = Inr user"
  then obtain row where row: "row \<in> set us" "ur_liqpay_order_id row = cb_OrderID cb" "user = userFromRow row"
    by auto
  show "hoare (users_are us)
      (case parseOrderID (cb_OrderID cb) of
         None \<Rightarrow> ret (Inl (Errorf ''malformed order_id %q'' [cb_OrderID cb]))
       | Some (flow, planName) \<Rightarrow> do {
           r2 \<leftarrow> PaymentRepo_Create (be_pgnum env)
             \<lparr>cp_UserID = u_ID user, cp_OrderID = cb_OrderID cb, cp_Plan = planName,
              cp_Action = cb_Action cb, cp_Status = cb_Status cb, cp_Amount = cb_Amount cb,
              cp_Currency = cb_Currency cb, cp_ErrorDescription = cb_ErrDescription cb\<rparr>;
           case r2 of
             Inl e \<Rightarrow> ret (Inl (Wrap ''record payment event'' [] e))
           | Inr _ \<Rightarrow> apply_status user flow planName (cb_Status cb) })
      (\<lambda>_ d. follows us (db_users d))"
    unfolding row(3)
    by (intro hoare_option hoare_prod hoare_sum hoare_return hoare_bind [OF hoare_payment_users])
      (use apply_status_follows [OF assms row(1)] row(2) in auto)
qed auto

text \<open>Every account of the table is in a state that makes sense.\<close>

definition subs_ok :: "db \<Rightarrow> bool" where
  "subs_ok d \<longleftrightarrow> (\<forall>j r. row_by ur_id j (db_users d) = Some r \<longrightarrow> sub_ok (sub_of r))"

lemma follows_ok:
  assumes "follows (db_users d) (db_users d')" and "subs_ok d"
  shows "subs_ok d'"
  unfolding subs_ok_def
proof (intro allI impI)
  fix j r' assume r': "row_by ur_id j (db_users d') = Some r'"
  with assms(1) obtain r where r: "row_by ur_id j (db_users d) = Some r" "r' = r \<or> account_step r r'"
    using spec [OF assms(1) [unfolded follows_def], of j]
    by (cases "row_by ur_id j (db_users d)") auto
  with assms(2) have "sub_ok (sub_of r)" by (simp add: subs_ok_def)
  with r(2) show "sub_ok (sub_of r')" by (auto simp: account_step_def dest: sub_step_ok)
qed

section \<open>Who owns an order\<close>

text \<open>An account's order was made for that account, by one of the two flows.\<close>

definition order_owned :: "(uuid \<Rightarrow> string) \<Rightarrow> user_row \<Rightarrow> bool" where
  "order_owned u r \<longleftrightarrow>
     ur_liqpay_order_id r = [] \<or>
     (\<exists>now flow p. sold flow p \<and> ur_liqpay_order_id r = orderID u now flow p (ur_id r))"

definition orders_owned :: "(uuid \<Rightarrow> string) \<Rightarrow> db \<Rightarrow> bool" where
  "orders_owned u d \<longleftrightarrow> (\<forall>r \<in> set (db_users d). order_owned u r)"

lemma fault_free_orders_owned [simp]: "fault_free (orders_owned u)"
  by (simp add: fault_free_def orders_owned_def)

lemma orders_owned_upd:
  "orders_owned u d \<Longrightarrow> (\<And>r. order_owned u r \<Longrightarrow> ur_id r = i \<Longrightarrow> order_owned u (f r)) \<Longrightarrow> orders_owned u (user_upd i f d)"
  using ball_update_by [of "db_users d" "order_owned u" ur_id i f]
  by (simp add: orders_owned_def user_upd_def)

lemma UpdateSubscription_owned [hr]: "keeps (orders_owned u) (UserRepo_UpdateSubscription i p st t)"
  by (auto simp: UserRepo_UpdateSubscription_def UserUpdateSubscription_def order_owned_def
      intro!: keeps_as_user keeps_stmt orders_owned_upd)

lemma BeginCheckout_owned:
  assumes "sold flow p"
  shows "keeps (orders_owned u) (UserRepo_BeginCheckout i (orderID u now flow p i) t)"
proof -
  have "order_owned u (begin_checkout (orderID u now flow p i) t r)" if "ur_id r = i" for r
    using assms that by (auto simp: order_owned_def)
  then show ?thesis
    unfolding UserRepo_BeginCheckout_def UserStartTrial_def begin_checkout_def
    by (intro keeps_as_user keeps_stmt) (simp_all add: orders_owned_upd)
qed

lemma reads_owned [hr]:
  "keeps (orders_owned u) (UserRepo_GetByID i)" "keeps (orders_owned u) (UserRepo_GetByLiqPayOrderID oid)"
  by (auto simp: UserRepo_GetByID_def UserGetByID_def UserRepo_GetByLiqPayOrderID_def UserGetByLiqPayOrderID_def
      intro!: keeps_as_user keeps_read)

lemma payment_owned [hr]: "keeps (orders_owned u) (PaymentRepo_Create pg p)"
proof -
  have "keeps (orders_owned u) (PaymentEventCreate q)" for q
    unfolding PaymentEventCreate_def
    by (rule keeps_stmt)
      (auto simp: payment_insert_def Let_def bump_def orders_owned_def split: sum.splits)
  then show ?thesis by (auto simp: PaymentRepo_Create_def intro!: hr)
qed

lemma apply_status_owned [hr]: "keeps (orders_owned u) (apply_status user flow p st)"
  by (auto simp: apply_status_def intro!: hr)

lemma billing_owned [hr]:
  "keeps (orders_owned (be_uuid_String env)) (StartTrial env s t1 t2 i)"
  "keeps (orders_owned (be_uuid_String env)) (Subscribe env s t1 t2 i p)"
  "keeps (orders_owned u) (HandleCallback env s data signature)"
  "keeps (orders_owned u) (Cancel env s i)"
proof -
  show "keeps (orders_owned (be_uuid_String env)) (StartTrial env s t1 t2 i)"
    unfolding StartTrial_def Let_def by (intro hr BeginCheckout_owned) (simp_all add: sold_def)
  show "keeps (orders_owned (be_uuid_String env)) (Subscribe env s t1 t2 i p)"
    unfolding Subscribe_def Let_def by (intro hr BeginCheckout_owned) (simp_all add: planPrice_sold)
  show "keeps (orders_owned u) (HandleCallback env s data signature)"
    unfolding HandleCallback_def by (intro hr)
  show "keeps (orders_owned u) (Cancel env s i)"
    unfolding Cancel_def by (intro hr)
qed

lemma owned_unique:
  assumes "uuid_text u" "order_owned u r" "order_owned u r'"
    and "ur_liqpay_order_id r = ur_liqpay_order_id r'" "ur_liqpay_order_id r \<noteq> []"
  shows "ur_id r = ur_id r'"
  using assms orderID_user [OF assms(1)] unfolding order_owned_def by metis

section \<open>Reachable databases\<close>

text \<open>
  From an empty users table: people sign up, the billing operations run with any arguments,
  time passes, and the schedule of failures is renewed at any moment.
\<close>

inductive billing_reach :: "billing_env \<Rightarrow> Billing \<Rightarrow> db \<Rightarrow> bool" for env s where
  start: "db_users d = [] \<Longrightarrow> db_payments d = [] \<Longrightarrow> billing_reach env s d"
| world: "billing_reach env s d \<Longrightarrow> billing_reach env s (d\<lparr>db_faults := fs, db_clock := t\<rparr>)"
| signup: "billing_reach env s d \<Longrightarrow> billing_reach env s (exec (UserRepo_CreateWithEmail e h c) d)"
| trial: "billing_reach env s d \<Longrightarrow> billing_reach env s (exec (StartTrial env s t1 t2 i) d)"
| buy: "billing_reach env s d \<Longrightarrow> billing_reach env s (exec (Subscribe env s t1 t2 i p) d)"
| callback: "billing_reach env s d \<Longrightarrow> billing_reach env s (exec (HandleCallback env s data sg) d)"
| cancel: "billing_reach env s d \<Longrightarrow> billing_reach env s (exec (Cancel env s i) d)"

definition billing_inv :: "billing_env \<Rightarrow> db \<Rightarrow> bool" where
  "billing_inv env d \<longleftrightarrow> users_wf d \<and> payments_wf d \<and> subs_ok d \<and> orders_owned (be_uuid_String env) d"

lemma blank_sub: "sub_ok (sub_of ((blank_user d)\<lparr>ur_email := e, ur_password_hash := h, ur_base_currency := c\<rparr>))"
  using sub_ok_new by (simp add: sub_of_def blank_user_def plan_Free_def)

lemma subs_ok_insert: "subs_ok d \<Longrightarrow> sub_ok (sub_of r) \<Longrightarrow> subs_ok (snd (user_insert r d))"
  by (auto simp: subs_ok_def user_insert_def bump_def row_by_append split: option.splits if_splits)

lemma fault_free_subs_ok [simp]: "fault_free subs_ok"
  by (simp add: fault_free_def subs_ok_def)

lemma signup_inv: "keeps (billing_inv env) (UserRepo_CreateWithEmail e h c)"
  unfolding billing_inv_def
proof (intro keeps_conj)
  show "keeps users_wf (UserRepo_CreateWithEmail e h c)" by (rule hr)
  show "keeps payments_wf (UserRepo_CreateWithEmail e h c)"
    by (auto simp: UserRepo_CreateWithEmail_def UserCreateWithEmail_def
        intro!: keeps_as_user keeps_stmt payments_wf_user_insert)
  show "keeps subs_ok (UserRepo_CreateWithEmail e h c)"
    by (auto simp: UserRepo_CreateWithEmail_def UserCreateWithEmail_def
        intro!: keeps_as_user keeps_stmt subs_ok_insert blank_sub)
  show "keeps (orders_owned (be_uuid_String env)) (UserRepo_CreateWithEmail e h c)"
    by (auto simp: UserRepo_CreateWithEmail_def UserCreateWithEmail_def orders_owned_def order_owned_def
        user_insert_def bump_def blank_user_def fault_free_def intro!: keeps_as_user keeps_stmt split: option.splits)
qed

lemma step_inv:
  assumes "billing_inv env d" "keeps users_wf m" "keeps payments_wf m"
    and "keeps (orders_owned (be_uuid_String env)) m"
    and "hoare (users_are (db_users d)) m (\<lambda>_ d'. follows (db_users d) (db_users d'))"
  shows "billing_inv env (exec m d)"
  using assms follows_ok [of d "exec m d"] hoareD [OF assms(5), of d]
  by (auto simp: billing_inv_def hoare_def)

lemma billing_reach_inv:
  assumes "uuid_text (be_uuid_String env)" and "billing_reach env s d"
  shows "billing_inv env d"
  using assms(2)
proof (induction rule: billing_reach.induct)
  case (start d)
  then show ?case
    by (simp add: billing_inv_def users_wf_def payments_wf_def subs_ok_def orders_owned_def)
next
  case (world d fs t)
  then show ?case
    by (simp add: billing_inv_def users_wf_def payments_wf_def subs_ok_def orders_owned_def)
next
  case (signup d e h c)
  show ?case by (rule hoareD [OF signup_inv signup.IH])
next
  case (trial d t1 t2 i)
  show ?case by (rule step_inv [OF trial.IH]) (intro hr StartTrial_follows assms(1))+
next
  case (buy d t1 t2 i p)
  show ?case by (rule step_inv [OF buy.IH]) (intro hr Subscribe_follows assms(1))+
next
  case (callback d data sg)
  then have "distinct (map ur_id (db_users d))" by (simp add: billing_inv_def users_wf_def)
  then show ?case by (intro step_inv [OF callback.IH] hr HandleCallback_follows)
next
  case (cancel d i)
  show ?case by (rule step_inv [OF cancel.IH]) (intro hr Cancel_follows)+
qed

end
