(* ===== verification/Categories.thy ===== *)
theory Categories
  imports Users
begin

text \<open>
  The categories and transactions tables: the statements of \<open>pkg/dbq/categories.sql.go\<close> and
  the repository of \<open>internal/repository/category.go\<close>. A category with no owner is a shared
  default. Deleting a category uncategorises the transactions that used it
  (\<open>ON DELETE SET NULL\<close>). The collation of \<open>ORDER BY name\<close> is the parameter \<open>name_le\<close>.
\<close>

section \<open>Statements\<close>

definition category_get :: "uuid \<Rightarrow> db \<Rightarrow> category_row option" where
  "category_get i d = row_by cr_id i (db_categories d)"

definition category_upd :: "uuid \<Rightarrow> (category_row \<Rightarrow> category_row) \<Rightarrow> db \<Rightarrow> db" where
  "category_upd i f d = d\<lparr>db_categories := update_by cr_id i f (db_categories d)\<rparr>"

interpretation categories: row_store cr_id category_get category_upd
  by unfold_locales
    (auto simp: category_get_def category_upd_def row_by_update_same row_by_update_other dest: row_by_Some)

definition transaction_type_ok :: "string \<Rightarrow> bool" where
  "transaction_type_ok t \<longleftrightarrow> t = ''expense'' \<or> t = ''income''"

record CategoryCreateParams =
  kp_user_id :: uuid
  kp_name :: string
  kp_icon_name :: string
  kp_color_hex :: string
  kp_type :: string
  kp_name_uk :: "string option"
  kp_name_en :: "string option"

definition new_category :: "db \<Rightarrow> CategoryCreateParams \<Rightarrow> category_row" where
  "new_category d p =
     \<lparr>cr_id = next_id d, cr_user_id = Some (kp_user_id p), cr_name = kp_name p, cr_icon_name = kp_icon_name p,
      cr_color_hex = kp_color_hex p, cr_type = kp_type p, cr_is_default = False, cr_created_at = db_clock d,
      cr_name_uk = kp_name_uk p, cr_name_en = kp_name_en p\<rparr>"

definition category_insert :: "category_row \<Rightarrow> db \<Rightarrow> category_row res \<times> db" where
  "category_insert row d =
     (if \<not> transaction_type_ok (cr_type row) then (Inl (check_violation ''categories_type_check''), d)
      else if cr_id row \<in> set (map cr_id (db_categories d)) then (Inl (unique_violation ''categories_pkey''), d)
      else if (case cr_user_id row of None \<Rightarrow> False | Some u \<Rightarrow> user_get u d = None)
      then (Inl (fk_violation ''categories_user_id_fkey''), d)
      else (Inr row, bump (d\<lparr>db_categories := db_categories d @ [row]\<rparr>)))"

definition CategoryCreate :: "CategoryCreateParams \<Rightarrow> category_row dbop" where
  "CategoryCreate p = stmt (\<lambda>d. category_insert (new_category d p) d)"

definition CategoryGetByID :: "uuid \<Rightarrow> category_row dbop" where
  "CategoryGetByID i = read_stmt (\<lambda>d. query_one (\<lambda>r. cr_id r = i) (db_categories d))"

definition category_before :: "(string \<Rightarrow> string \<Rightarrow> bool) \<Rightarrow> category_row \<Rightarrow> category_row \<Rightarrow> bool" where
  "category_before name_le a b \<longleftrightarrow>
     (if cr_is_default a = cr_is_default b then name_le (cr_name a) (cr_name b) else cr_is_default a)"

definition CategoryListForUser :: "(string \<Rightarrow> string \<Rightarrow> bool) \<Rightarrow> uuid \<Rightarrow> category_row list dbop" where
  "CategoryListForUser name_le userID = read_stmt (\<lambda>d.
     Inr (sort_by (category_before name_le)
       (filter (\<lambda>r. cr_user_id r = Some userID \<or> cr_is_default r) (db_categories d))))"

text \<open>The deletion, with its effect on the referencing transactions.\<close>

definition uncategorise :: "uuid set \<Rightarrow> transaction_row \<Rightarrow> transaction_row" where
  "uncategorise gone r =
     (case tr_category_id r of
        Some c \<Rightarrow> if c \<in> gone then r\<lparr>tr_category_id := None\<rparr> else r
      | None \<Rightarrow> r)"

definition deletable :: "uuid \<Rightarrow> uuid \<Rightarrow> category_row \<Rightarrow> bool" where
  "deletable i userID r \<longleftrightarrow> cr_id r = i \<and> cr_user_id r = Some userID \<and> \<not> cr_is_default r"

definition CategoryDeleteForUser :: "uuid \<Rightarrow> uuid \<Rightarrow> int dbop" where
  "CategoryDeleteForUser i userID = stmt (\<lambda>d.
     let gone = filter (deletable i userID) (db_categories d) in
     (Inr (int (length gone)),
      d\<lparr>db_categories := filter (\<lambda>r. \<not> deletable i userID r) (db_categories d),
        db_transactions := map (uncategorise (cr_id ` set gone)) (db_transactions d)\<rparr>))"

definition CategoryUpdateTranslations :: "uuid \<Rightarrow> string option \<Rightarrow> string option \<Rightarrow> unit dbop" where
  "CategoryUpdateTranslations i nameUk nameEn = stmt (\<lambda>d.
     (Inr (), category_upd i (\<lambda>r. r\<lparr>cr_name_uk := nameUk, cr_name_en := nameEn\<rparr>) d))"

section \<open>The repository\<close>

record Category =
  ca_ID :: uuid
  ca_UserID :: uuid
  ca_Name :: string
  ca_IconName :: string
  ca_ColorHex :: string
  ca_Type :: string
  ca_IsDefault :: bool
  ca_NameUK :: string
  ca_NameEN :: string
  ca_CreatedAt :: gotime

definition categoryFromRow :: "category_row \<Rightarrow> Category" where
  "categoryFromRow row =
     \<lparr>ca_ID = cr_id row, ca_UserID = UUIDToGoogle (cr_user_id row), ca_Name = cr_name row,
      ca_IconName = cr_icon_name row, ca_ColorHex = cr_color_hex row, ca_Type = cr_type row,
      ca_IsDefault = cr_is_default row, ca_NameUK = text_String (cr_name_uk row),
      ca_NameEN = text_String (cr_name_en row), ca_CreatedAt = cr_created_at row\<rparr>"

definition CategoryRepo_ListForUser :: "(string \<Rightarrow> string \<Rightarrow> bool) \<Rightarrow> uuid \<Rightarrow> Category list dbop" where
  "CategoryRepo_ListForUser name_le userID = do {
     r \<leftarrow> CategoryListForUser name_le userID;
     case r of Inl e \<Rightarrow> ret (Inl e) | Inr rows \<Rightarrow> ret (Inr (map categoryFromRow rows)) }"

definition CategoryRepo_Create ::
  "uuid \<Rightarrow> string \<Rightarrow> string \<Rightarrow> string \<Rightarrow> string \<Rightarrow> string \<Rightarrow> string \<Rightarrow> Category dbop" where
  "CategoryRepo_Create userID name iconName colorHex transactionType nameUK nameEN = do {
     r \<leftarrow> CategoryCreate
       \<lparr>kp_user_id = userID, kp_name = name, kp_icon_name = iconName, kp_color_hex = colorHex,
        kp_type = transactionType, kp_name_uk = TextFromString nameUK, kp_name_en = TextFromString nameEN\<rparr>;
     case r of Inl e \<Rightarrow> ret (Inl e) | Inr row \<Rightarrow> ret (Inr (categoryFromRow row)) }"

definition CategoryRepo_GetByID :: "uuid \<Rightarrow> Category dbop" where
  "CategoryRepo_GetByID i = do {
     r \<leftarrow> CategoryGetByID i;
     case r of Inl e \<Rightarrow> ret (Inl e) | Inr row \<Rightarrow> ret (Inr (categoryFromRow row)) }"

definition CategoryRepo_UpdateTranslations :: "uuid \<Rightarrow> string \<Rightarrow> string \<Rightarrow> unit dbop" where
  "CategoryRepo_UpdateTranslations i nameUK nameEN =
     CategoryUpdateTranslations i (TextFromString nameUK) (TextFromString nameEN)"

definition CategoryRepo_DeleteForUser :: "uuid \<Rightarrow> uuid \<Rightarrow> bool dbop" where
  "CategoryRepo_DeleteForUser i userID = do {
     r \<leftarrow> CategoryDeleteForUser i userID;
     case r of Inl e \<Rightarrow> ret (Inl e) | Inr rows \<Rightarrow> ret (Inr (rows > 0)) }"

section \<open>The service (internal/service/category/category.go)\<close>

text \<open>
  \<open>translate.Translate\<close> is a call to the network with a circuit breaker of its own; here it is
  a function of the number of the call, the name and the language, whose error the callers drop
  (\<open>translateBoth\<close>). The background healing of a list is a program of its own, since nothing
  waits for it; when its ten seconds are over, the remaining calls fail.
\<close>

type_synonym translator = "nat \<Rightarrow> string \<Rightarrow> string \<Rightarrow> string res"

definition translateBoth :: "translator \<Rightarrow> nat \<Rightarrow> string \<Rightarrow> string \<times> string" where
  "translateBoth tr n name =
     (case tr n name ''uk'' of Inl _ \<Rightarrow> [] | Inr s \<Rightarrow> s,
      case tr (n + 1) name ''en'' of Inl _ \<Rightarrow> [] | Inr s \<Rightarrow> s)"

fun healTranslations :: "translator \<Rightarrow> nat \<Rightarrow> Category list \<Rightarrow> (db, unit) state" where
  "healTranslations tr n [] = ret ()"
| "healTranslations tr n (c # cs) =
     (if ca_NameUK c \<noteq> [] \<and> ca_NameEN c \<noteq> [] then healTranslations tr n cs
      else (case translateBoth tr n (ca_Name c) of
              (nameUK, nameEN) \<Rightarrow>
                if nameUK = [] \<and> nameEN = [] then ret ()
                else do {
                  _ \<leftarrow> CategoryRepo_UpdateTranslations (ca_ID c) nameUK nameEN;
                  healTranslations tr (n + 2) cs }))"

definition category_List :: "(string \<Rightarrow> string \<Rightarrow> bool) \<Rightarrow> uuid \<Rightarrow> Category list dbop" where
  "category_List name_le userID = CategoryRepo_ListForUser name_le userID"

definition category_Create ::
  "translator \<Rightarrow> uuid \<Rightarrow> string \<Rightarrow> string \<Rightarrow> string \<Rightarrow> string \<Rightarrow> Category dbop" where
  "category_Create tr userID name iconName colorHex transactionType =
     (if name = [] then ret (Inl (Errorf ''name is required'' []))
      else if transactionType \<noteq> ''expense'' \<and> transactionType \<noteq> ''income''
      then ret (Inl (Errorf ''invalid transaction type: %s'' [transactionType]))
      else (case translateBoth tr 0 name of
              (nameUK, nameEN) \<Rightarrow>
                CategoryRepo_Create userID name iconName colorHex transactionType nameUK nameEN))"

definition category_Delete :: "uuid \<Rightarrow> uuid \<Rightarrow> unit dbop" where
  "category_Delete userID categoryID = do {
     r \<leftarrow> CategoryRepo_DeleteForUser categoryID userID;
     case r of
       Inl e \<Rightarrow> ret (Inl e)
     | Inr deleted \<Rightarrow>
         ret (if \<not> deleted then Inl (Errorf ''category not found or not deletable'' []) else Inr ()) }"

end
