(* ===== verification/Transactions.thy ===== *)
theory Transactions
  imports Categories Plan
begin

text \<open>
  The transactions: the statements of \<open>pkg/dbq/transactions.sql.go\<close>, the repository of
  \<open>internal/repository/transaction.go\<close>, the service of
  \<open>internal/service/transaction/transaction.go\<close> and the retention job of
  \<open>internal/retention/retention.go\<close>. An imported transaction carries the external identifier
  of the bank; the partial unique index over it makes importing idempotent.
\<close>

section \<open>Statements\<close>

definition transaction_get :: "uuid \<Rightarrow> db \<Rightarrow> transaction_row option" where
  "transaction_get i d = row_by tr_id i (db_transactions d)"

text \<open>The constraints of a row that do not depend on the other rows of its table.\<close>

definition transaction_checks :: "transaction_row \<Rightarrow> db \<Rightarrow> goerr option" where
  "transaction_checks row d =
     (if \<not> transaction_type_ok (tr_type row) then Some (check_violation ''transactions_type_check'')
      else if user_get (tr_user_id row) d = None then Some (fk_violation ''transactions_user_id_fkey'')
      else if (case tr_category_id row of None \<Rightarrow> False | Some c \<Rightarrow> category_get c d = None)
      then Some (fk_violation ''transactions_category_id_fkey'')
      else None)"

text \<open>The unique index on \<open>(user_id, external_id) WHERE external_id <> ''\<close>.\<close>

definition external_key :: "transaction_row \<Rightarrow> (uuid \<times> string) option" where
  "external_key r = (if tr_external_id r = [] then None else Some (tr_user_id r, tr_external_id r))"

definition imported :: "uuid \<Rightarrow> string \<Rightarrow> db \<Rightarrow> bool" where
  "imported u x d \<longleftrightarrow> x \<noteq> [] \<and> (\<exists>r \<in> set (db_transactions d). tr_user_id r = u \<and> tr_external_id r = x)"

definition transaction_insert :: "transaction_row \<Rightarrow> db \<Rightarrow> transaction_row res \<times> db" where
  "transaction_insert row d =
     (if tr_id row \<in> set (map tr_id (db_transactions d)) then (Inl (unique_violation ''transactions_pkey''), d)
      else case transaction_checks row d of
             Some e \<Rightarrow> (Inl e, d)
           | None \<Rightarrow> (Inr row, bump (d\<lparr>db_transactions := db_transactions d @ [row]\<rparr>)))"

record TransactionCreateParams =
  xp_user_id :: uuid
  xp_category_id :: "uuid option"
  xp_amount :: numeric
  xp_currency :: string
  xp_type :: string
  xp_date :: gotime
  xp_note :: string

definition new_transaction ::
  "db \<Rightarrow> TransactionCreateParams \<Rightarrow> numeric \<Rightarrow> string \<Rightarrow> 64 word \<Rightarrow> int \<Rightarrow> transaction_row" where
  "new_transaction d p amount externalID opAmount opCurrency =
     \<lparr>tr_id = next_id d, tr_user_id = xp_user_id p, tr_category_id = xp_category_id p, tr_amount = amount,
      tr_currency = xp_currency p, tr_type = xp_type p, tr_date = xp_date p, tr_note = xp_note p,
      tr_created_at = db_clock d, tr_external_id = externalID, tr_is_internal_transfer = False,
      tr_operation_amount = opAmount, tr_operation_currency_code = opCurrency, tr_updated_at = None\<rparr>"

definition TransactionCreate :: "TransactionCreateParams \<Rightarrow> transaction_row dbop" where
  "TransactionCreate p = stmt (\<lambda>d.
     case numeric_col 14 (xp_amount p) of
       Inl e \<Rightarrow> (Inl e, d)
     | Inr amount \<Rightarrow> transaction_insert (new_transaction d p amount [] 0 0) d)"

text \<open>
  \<open>ON CONFLICT (user_id, external_id) WHERE external_id <> '' DO NOTHING\<close>: a conflict gives no
  row (\<open>pgx.ErrNoRows\<close>); the CHECK comes before it, the foreign keys after.
\<close>

definition TransactionCreateWithExternalID ::
  "TransactionCreateParams \<Rightarrow> string \<Rightarrow> 64 word \<Rightarrow> int \<Rightarrow> transaction_row dbop" where
  "TransactionCreateWithExternalID p externalID opAmount opCurrency = stmt (\<lambda>d.
     case numeric_col 14 (xp_amount p) of
       Inl e \<Rightarrow> (Inl e, d)
     | Inr amount \<Rightarrow>
         if \<not> transaction_type_ok (xp_type p) then (Inl (check_violation ''transactions_type_check''), d)
         else if imported (xp_user_id p) externalID d then (Inl ErrNoRows, d)
         else transaction_insert (new_transaction d p amount externalID opAmount opCurrency) d)"

definition TransactionListForUser ::
  "uuid \<Rightarrow> gotime option \<Rightarrow> gotime option \<Rightarrow> transaction_row list dbop" where
  "TransactionListForUser userID from to = read_stmt (\<lambda>d.
     Inr (sort_key (\<lambda>r. - tr_date r)
       (filter (\<lambda>r. tr_user_id r = userID \<and>
                  (case from of None \<Rightarrow> True | Some t \<Rightarrow> t \<le> tr_date r) \<and>
                  (case to of None \<Rightarrow> True | Some t \<Rightarrow> tr_date r \<le> t))
         (db_transactions d))))"

record TransactionUpdateParams =
  yp_category_id :: "uuid option"
  yp_amount :: numeric
  yp_currency :: string
  yp_type :: string
  yp_date :: gotime
  yp_note :: string
  yp_is_internal_transfer :: bool

definition transaction_set :: "db \<Rightarrow> TransactionUpdateParams \<Rightarrow> numeric \<Rightarrow> transaction_row \<Rightarrow> transaction_row" where
  "transaction_set d p amount r =
     r\<lparr>tr_category_id := yp_category_id p, tr_amount := amount, tr_currency := yp_currency p,
       tr_type := yp_type p, tr_date := yp_date p, tr_note := yp_note p,
       tr_is_internal_transfer := yp_is_internal_transfer p, tr_updated_at := Some (db_clock d)\<rparr>"

definition TransactionUpdateForUser :: "uuid \<Rightarrow> uuid \<Rightarrow> TransactionUpdateParams \<Rightarrow> transaction_row dbop" where
  "TransactionUpdateForUser i userID p = stmt (\<lambda>d.
     case List.find (\<lambda>r. tr_id r = i \<and> tr_user_id r = userID) (db_transactions d) of
       None \<Rightarrow> (Inl ErrNoRows, d)
     | Some r \<Rightarrow>
         (case numeric_col 14 (yp_amount p) of
            Inl e \<Rightarrow> (Inl e, d)
          | Inr amount \<Rightarrow>
              (case transaction_checks (transaction_set d p amount r) d of
                 Some e \<Rightarrow> (Inl e, d)
               | None \<Rightarrow>
                   (Inr (transaction_set d p amount r),
                    d\<lparr>db_transactions := map (\<lambda>x. if tr_id x = i \<and> tr_user_id x = userID
                                                  then transaction_set d p amount x else x)
                                           (db_transactions d)\<rparr>))))"

definition TransactionCountForUser :: "uuid \<Rightarrow> int dbop" where
  "TransactionCountForUser userID = read_stmt (\<lambda>d.
     Inr (int (length (filter (\<lambda>r. tr_user_id r = userID) (db_transactions d)))))"

definition delete_where :: "(transaction_row \<Rightarrow> bool) \<Rightarrow> db \<Rightarrow> int res \<times> db" where
  "delete_where P d =
     (Inr (int (length (filter P (db_transactions d)))),
      d\<lparr>db_transactions := filter (\<lambda>r. \<not> P r) (db_transactions d)\<rparr>)"

definition TransactionDeleteForUser :: "uuid \<Rightarrow> uuid \<Rightarrow> int dbop" where
  "TransactionDeleteForUser i userID = stmt (delete_where (\<lambda>r. tr_id r = i \<and> tr_user_id r = userID))"

definition expired :: "db \<Rightarrow> gotime \<Rightarrow> string \<Rightarrow> transaction_row \<Rightarrow> bool" where
  "expired d cutoff p r \<longleftrightarrow>
     tr_date r < cutoff \<and> (\<exists>u \<in> set (db_users d). ur_plan u = p \<and> ur_id u = tr_user_id r)"

definition TransactionDeleteExpiredForPlan :: "gotime \<Rightarrow> string \<Rightarrow> int dbop" where
  "TransactionDeleteExpiredForPlan cutoff planName = stmt (\<lambda>d. delete_where (expired d cutoff planName) d)"

section \<open>The repository\<close>

record Transaction =
  tx_ID :: uuid
  tx_UserID :: uuid
  tx_CategoryID :: uuid
  tx_Amount :: string
  tx_Currency :: string
  tx_Type :: string
  tx_Date :: gotime
  tx_Note :: string
  tx_CreatedAt :: gotime
  tx_IsInternalTransfer :: bool
  tx_ExternalID :: string
  tx_OperationAmount :: "64 word"
  tx_OperationCurrencyCode :: int
  tx_UpdatedAt :: gotime

definition transactionFromRow :: "pgnum \<Rightarrow> transaction_row \<Rightarrow> Transaction" where
  "transactionFromRow pg row =
     \<lparr>tx_ID = tr_id row, tx_UserID = tr_user_id row, tx_CategoryID = UUIDToGoogle (tr_category_id row),
      tx_Amount = NumericToString pg (tr_amount row), tx_Currency = tr_currency row, tx_Type = tr_type row,
      tx_Date = tr_date row, tx_Note = tr_note row, tx_CreatedAt = tr_created_at row,
      tx_IsInternalTransfer = tr_is_internal_transfer row, tx_ExternalID = tr_external_id row,
      tx_OperationAmount = tr_operation_amount row, tx_OperationCurrencyCode = tr_operation_currency_code row,
      tx_UpdatedAt = optionalTime (tr_updated_at row)\<rparr>"

text \<open>
  The parameters of a creation, as the service and both creating methods of the repository have
  them (three Go types with the same fields).
\<close>

record CreateTransactionParams =
  ct_UserID :: uuid
  ct_CategoryID :: uuid
  ct_Amount :: string
  ct_Currency :: string
  ct_Type :: string
  ct_Date :: gotime
  ct_Note :: string

definition create_columns :: "CreateTransactionParams \<Rightarrow> numeric \<Rightarrow> TransactionCreateParams" where
  "create_columns p amount =
     \<lparr>xp_user_id = ct_UserID p, xp_category_id = NullUUIDFromGoogle (ct_CategoryID p), xp_amount = amount,
      xp_currency = ct_Currency p, xp_type = ct_Type p, xp_date = pg_instant (ct_Date p), xp_note = ct_Note p\<rparr>"

definition TransactionRepo_Create :: "pgnum \<Rightarrow> CreateTransactionParams \<Rightarrow> Transaction dbop" where
  "TransactionRepo_Create pg p =
     (case NumericFromString pg (ct_Amount p) of
        Inl e \<Rightarrow> ret (Inl e)
      | Inr amount \<Rightarrow> do {
          r \<leftarrow> TransactionCreate (create_columns p amount);
          case r of Inl e \<Rightarrow> ret (Inl e) | Inr row \<Rightarrow> ret (Inr (transactionFromRow pg row)) })"

text \<open>\<open>None\<close> is \<open>created = false\<close>: already imported.\<close>

definition TransactionRepo_CreateWithExternalID ::
  "pgnum \<Rightarrow> CreateTransactionParams \<Rightarrow> string \<Rightarrow> 64 word \<Rightarrow> int \<Rightarrow> Transaction option dbop" where
  "TransactionRepo_CreateWithExternalID pg p externalID opAmount opCurrency =
     (case NumericFromString pg (ct_Amount p) of
        Inl e \<Rightarrow> ret (Inl e)
      | Inr amount \<Rightarrow> do {
          r \<leftarrow> TransactionCreateWithExternalID (create_columns p amount) externalID opAmount (to_int32 opCurrency);
          case r of
            Inl e \<Rightarrow> ret (if errors_is e ErrNoRows then Inr None else Inl e)
          | Inr row \<Rightarrow> ret (Inr (Some (transactionFromRow pg row))) })"

definition TransactionRepo_ListForUser :: "pgnum \<Rightarrow> uuid \<Rightarrow> gotime \<Rightarrow> gotime \<Rightarrow> Transaction list dbop" where
  "TransactionRepo_ListForUser pg userID from to = do {
     r \<leftarrow> TransactionListForUser userID (NullTimeFromGo from) (NullTimeFromGo to);
     case r of Inl e \<Rightarrow> ret (Inl e) | Inr rows \<Rightarrow> ret (Inr (map (transactionFromRow pg) rows)) }"

record UpdateTransactionParams =
  ut_ID :: uuid
  ut_UserID :: uuid
  ut_CategoryID :: uuid
  ut_Amount :: string
  ut_Currency :: string
  ut_Type :: string
  ut_Date :: gotime
  ut_Note :: string
  ut_IsInternalTransfer :: bool

definition update_columns :: "UpdateTransactionParams \<Rightarrow> numeric \<Rightarrow> TransactionUpdateParams" where
  "update_columns p amount =
     \<lparr>yp_category_id = NullUUIDFromGoogle (ut_CategoryID p), yp_amount = amount, yp_currency = ut_Currency p,
      yp_type = ut_Type p, yp_date = pg_instant (ut_Date p), yp_note = ut_Note p,
      yp_is_internal_transfer = ut_IsInternalTransfer p\<rparr>"

definition TransactionRepo_UpdateForUser :: "pgnum \<Rightarrow> UpdateTransactionParams \<Rightarrow> Transaction dbop" where
  "TransactionRepo_UpdateForUser pg p =
     (case NumericFromString pg (ut_Amount p) of
        Inl e \<Rightarrow> ret (Inl e)
      | Inr amount \<Rightarrow> do {
          r \<leftarrow> TransactionUpdateForUser (ut_ID p) (ut_UserID p) (update_columns p amount);
          case r of Inl e \<Rightarrow> ret (Inl e) | Inr row \<Rightarrow> ret (Inr (transactionFromRow pg row)) })"

definition TransactionRepo_CountForUser :: "uuid \<Rightarrow> int dbop" where
  "TransactionRepo_CountForUser userID = TransactionCountForUser userID"

definition TransactionRepo_DeleteForUser :: "uuid \<Rightarrow> uuid \<Rightarrow> bool dbop" where
  "TransactionRepo_DeleteForUser i userID = do {
     r \<leftarrow> TransactionDeleteForUser i userID;
     case r of Inl e \<Rightarrow> ret (Inl e) | Inr rows \<Rightarrow> ret (Inr (rows > 0)) }"

definition TransactionRepo_DeleteExpiredForPlan :: "string \<Rightarrow> gotime \<Rightarrow> int dbop" where
  "TransactionRepo_DeleteExpiredForPlan planName cutoff =
     TransactionDeleteExpiredForPlan (pg_instant cutoff) planName"

section \<open>The service\<close>

definition transaction_List :: "pgnum \<Rightarrow> uuid \<Rightarrow> gotime \<Rightarrow> gotime \<Rightarrow> Transaction list dbop" where
  "transaction_List pg userID from to = TransactionRepo_ListForUser pg userID from to"

text \<open>The check \<open>Create\<close> and \<open>Update\<close> share: the category exists and is the user's or a default.\<close>

definition check_category :: "uuid \<Rightarrow> uuid \<Rightarrow> unit dbop" where
  "check_category categoryID userID =
     (if categoryID = uuid_Nil then ret (Inr ())
      else do {
        r \<leftarrow> CategoryRepo_GetByID categoryID;
        case r of
          Inl e \<Rightarrow> ret (Inl (Wrap ''lookup category'' [] e))
        | Inr category \<Rightarrow>
            ret (if ca_UserID category \<noteq> uuid_Nil \<and> ca_UserID category \<noteq> userID
                 then Inl (Errorf ''category does not belong to user'' []) else Inr ()) })"

definition transaction_Create :: "pgnum \<Rightarrow> CreateTransactionParams \<Rightarrow> Transaction dbop" where
  "transaction_Create pg p =
     (if ct_Type p \<noteq> ''expense'' \<and> ct_Type p \<noteq> ''income''
      then ret (Inl (Errorf ''invalid transaction type: %s'' [ct_Type p]))
      else if ct_Amount p = [] then ret (Inl (Errorf ''amount is required'' []))
      else do {
        c \<leftarrow> check_category (ct_CategoryID p) (ct_UserID p);
        case c of Inl e \<Rightarrow> ret (Inl e) | Inr _ \<Rightarrow> TransactionRepo_Create pg p })"

definition transaction_Update :: "pgnum \<Rightarrow> UpdateTransactionParams \<Rightarrow> Transaction dbop" where
  "transaction_Update pg p =
     (if ut_Type p \<noteq> ''expense'' \<and> ut_Type p \<noteq> ''income''
      then ret (Inl (Errorf ''invalid transaction type: %s'' [ut_Type p]))
      else if ut_Amount p = [] then ret (Inl (Errorf ''amount is required'' []))
      else do {
        c \<leftarrow> check_category (ut_CategoryID p) (ut_UserID p);
        case c of Inl e \<Rightarrow> ret (Inl e) | Inr _ \<Rightarrow> TransactionRepo_UpdateForUser pg p })"

definition transaction_Delete :: "uuid \<Rightarrow> uuid \<Rightarrow> unit dbop" where
  "transaction_Delete userID transactionID = do {
     r \<leftarrow> TransactionRepo_DeleteForUser transactionID userID;
     case r of
       Inl e \<Rightarrow> ret (Inl e)
     | Inr deleted \<Rightarrow> ret (if \<not> deleted then Inl (Errorf ''transaction not found'' []) else Inr ()) }"

section \<open>Retention\<close>

definition plansWithLimitedRetention :: "string list" where
  "plansWithLimitedRetention = [plan_Free, plan_Pro]"

text \<open>
  One sweep; \<open>now\<close> gives the clock reading of each plan's turn. A failure is logged and the
  next plan is swept all the same.
\<close>

primrec sweep_plans :: "(string \<Rightarrow> gotime) \<Rightarrow> string list \<Rightarrow> (db, unit) state" where
  "sweep_plans now [] = ret ()"
| "sweep_plans now (p # ps) =
     (case RetentionDays p of
        None \<Rightarrow> sweep_plans now ps
      | Some days \<Rightarrow> do {
          _ \<leftarrow> TransactionRepo_DeleteExpiredForPlan p (add_days (now p) (- days));
          sweep_plans now ps })"

definition sweepOnce :: "(string \<Rightarrow> gotime) \<Rightarrow> (db, unit) state" where
  "sweepOnce now = sweep_plans now plansWithLimitedRetention"

end
