(* ===== verification/Admin.thy ===== *)
theory Admin
  imports Subscriptions Transactions
begin

text \<open>
  The operator's service (\<open>internal/service/admin/admin.go\<close>): the list of accounts, a plan
  set by hand, a trial extended, a subscription ended, and the figures of the dashboard. The
  server's \<open>ILIKE\<close> is the parameter \<open>ilike\<close>; one argument stands for each \<open>time.Now()\<close>.
\<close>

section \<open>The service\<close>

record UserList =
  ul_Users :: "User list"
  ul_Total :: int

definition ListUsers ::
  "(string \<Rightarrow> string \<Rightarrow> bool) \<Rightarrow> string \<Rightarrow> string \<Rightarrow> int \<Rightarrow> int \<Rightarrow> UserList dbop" where
  "ListUsers ilike search planFilter limit offset = do {
     r \<leftarrow> UserRepo_ListForAdmin ilike search planFilter limit offset;
     case r of
       Inl e \<Rightarrow> ret (Inl e)
     | Inr (us, n) \<Rightarrow> ret (Inr \<lparr>ul_Users = us, ul_Total = n\<rparr>) }"

record UserDetail =
  ud_User :: User
  ud_TransactionCount :: int

definition GetUser :: "uuid \<Rightarrow> UserDetail dbop" where
  "GetUser i = do {
     r \<leftarrow> UserRepo_GetByID i;
     case r of
       Inl e \<Rightarrow> ret (Inl e)
     | Inr user \<Rightarrow> do {
         r2 \<leftarrow> TransactionRepo_CountForUser i;
         case r2 of
           Inl e \<Rightarrow> ret (Inl e)
         | Inr txCount \<Rightarrow> ret (Inr \<lparr>ud_User = user, ud_TransactionCount = txCount\<rparr>) } }"

definition SetPlan :: "uuid \<Rightarrow> string \<Rightarrow> User dbop" where
  "SetPlan i planName =
     (if planName \<notin> {plan_Free, plan_Pro, plan_Max, plan_Enterprise}
      then ret (Inl (Errorf ''invalid plan: %s'' [planName]))
      else (let status = (if planName = plan_Free then [] else ''manual'') in
            UserRepo_UpdateSubscription i planName status 0))"

text \<open>
  \<open>base.AddDate(0, 0, days)\<close> is computed on the calendar; for a number of days that leaves the
  range of Go's \<open>time.Time\<close> it would wrap, which is not modelled.
\<close>

definition ExtendTrial :: "gotime \<Rightarrow> gotime \<Rightarrow> uuid \<Rightarrow> int \<Rightarrow> User dbop" where
  "ExtendTrial now1 now2 i days =
     (if days \<le> 0 then ret (Inl (Errorf ''days must be positive'' []))
      else do {
        r \<leftarrow> UserRepo_GetByID i;
        case r of
          Inl e \<Rightarrow> ret (Inl e)
        | Inr user \<Rightarrow>
            (let base = (if u_TrialEndsAt user < now1 then now2 else u_TrialEndsAt user);
                 newEnd = add_days base days
             in UserRepo_UpdateSubscription i plan_Max ''trialing'' newEnd) })"

definition CancelSubscription :: "billing_env \<Rightarrow> Billing \<Rightarrow> uuid \<Rightarrow> unit dbop" where
  "CancelSubscription env s i = do {
     r \<leftarrow> UserRepo_GetByID i;
     case r of
       Inl e \<Rightarrow> ret (Inl e)
     | Inr user \<Rightarrow>
         if u_LiqPayOrderID user \<noteq> [] then do { _ \<leftarrow> Cancel env s i; ret (Inr ()) }
         else do {
           r2 \<leftarrow> UserRepo_UpdateSubscription i plan_Free [] 0;
           ret (case r2 of Inl e \<Rightarrow> Inl e | Inr _ \<Rightarrow> Inr ()) } }"

text \<open>\<open>Stats\<close>: the loop over the groups, a Go map for the plans, a \<open>float64\<close> for the revenue.\<close>

record Stats =
  st_TotalUsers :: int
  st_ByPlan :: "(string \<times> int) list"
  st_ActiveMRR :: float64
  st_TrialCount :: int
  st_SignupsByDay :: "DaySignups list"

definition proPriceUSD :: int where "proPriceUSD = 15"
definition maxPriceUSD :: int where "maxPriceUSD = 99"
definition signupTrendDays :: int where "signupTrendDays = 30"

definition map_count :: "(string \<times> int) list \<Rightarrow> string \<Rightarrow> int" where
  "map_count m k = (case map_of m k of None \<Rightarrow> 0 | Some n \<Rightarrow> n)"

definition group_revenue :: "PlanCount \<Rightarrow> float64 \<Rightarrow> float64" where
  "group_revenue c mrr =
     (if pc_SubscriptionStatus c = ''active'' then
        (if pc_Plan c = plan_Pro then fadd mrr (fmul (float_of_int (pc_Count c)) (float_of_int proPriceUSD))
         else if pc_Plan c = plan_Max then fadd mrr (fmul (float_of_int (pc_Count c)) (float_of_int maxPriceUSD))
         else mrr)
      else mrr)"

definition count_group :: "Stats \<Rightarrow> PlanCount \<Rightarrow> Stats" where
  "count_group stats c =
     stats\<lparr>st_TotalUsers := st_TotalUsers stats + pc_Count c,
           st_ByPlan := map_put (pc_Plan c) (map_count (st_ByPlan stats) (pc_Plan c) + pc_Count c) (st_ByPlan stats),
           st_TrialCount :=
             (if pc_SubscriptionStatus c = ''trialing'' then st_TrialCount stats + pc_Count c else st_TrialCount stats),
           st_ActiveMRR := group_revenue c (st_ActiveMRR stats)\<rparr>"

definition no_stats :: Stats where
  "no_stats = \<lparr>st_TotalUsers = 0, st_ByPlan = [], st_ActiveMRR = float_of_int 0, st_TrialCount = 0,
               st_SignupsByDay = []\<rparr>"

definition admin_Stats :: "Stats dbop" where
  "admin_Stats = do {
     r \<leftarrow> UserRepo_CountByPlan;
     case r of
       Inl e \<Rightarrow> ret (Inl e)
     | Inr counts \<Rightarrow> do {
         r2 \<leftarrow> UserRepo_SignupsByDay signupTrendDays;
         case r2 of
           Inl e \<Rightarrow> ret (Inl e)
         | Inr signups \<Rightarrow>
             ret (Inr ((foldl count_group no_stats counts)\<lparr>st_SignupsByDay := signups\<rparr>)) } }"

lemmas admin_defs =
  ListUsers_def GetUser_def SetPlan_def ExtendTrial_def CancelSubscription_def admin_Stats_def

lemma keeps_count [hr]: "keeps users_wf (TransactionRepo_CountForUser i)"
  by (simp add: TransactionRepo_CountForUser_def TransactionCountForUser_def keeps_read)

lemma admin_keeps_users [hr]:
  "keeps users_wf (ListUsers ilike q p l off)" "keeps users_wf (GetUser i)" "keeps users_wf (SetPlan i p)"
  "keeps users_wf (ExtendTrial t t' i n)" "keeps users_wf (CancelSubscription env s i)" "keeps users_wf admin_Stats"
  by (auto simp: admin_defs Let_def intro!: hr)

section \<open>Results on a database that answers\<close>

lemma run_SetPlan:
  assumes "db_faults d = []"
  shows "run_state (SetPlan i p) d =
    (if p \<notin> {plan_Free, plan_Pro, plan_Max, plan_Enterprise} then (Inl (Errorf ''invalid plan: %s'' [p]), d)
     else (let f = set_subscription p (if p = plan_Free then [] else ''manual'') 0 in
           (case user_get i d of None \<Rightarrow> Inl ErrNoRows | Some r \<Rightarrow> Inr (userFromRow (f r)), user_upd i f d)))"
  using assms unfolding SetPlan_def Let_def by (simp add: run_UpdateSubscription del: insert_iff)

lemma run_ExtendTrial:
  assumes "db_faults d = []"
  shows "run_state (ExtendTrial t1 t2 i n) d =
    (if n \<le> 0 then (Inl (Errorf ''days must be positive'' []), d)
     else (case user_get i d of
             None \<Rightarrow> (Inl ErrNoRows, d)
           | Some r \<Rightarrow>
               (let old = time_Time (ur_trial_ends_at r);
                    f = set_subscription plan_Max ''trialing'' (add_days (if old < t1 then t2 else old) n)
                in (Inr (userFromRow (f r)), user_upd i f d))))"
  using assms by (auto simp: ExtendTrial_def run_GetByID run_UpdateSubscription Let_def split: option.splits)

lemma run_CancelSubscription:
  assumes "db_faults d = []"
  shows "run_state (CancelSubscription env s i) d =
    (case user_get i d of
       None \<Rightarrow> (Inl ErrNoRows, d)
     | Some r \<Rightarrow>
         if ur_liqpay_order_id r = [] then (Inr (), user_upd i (set_subscription plan_Free [] 0) d)
         else (Inr (),
               case liqpay_Request (be_network env) (bs_liqpay s) (unsubscribe_params (ur_liqpay_order_id r)) of
                 Inl _ \<Rightarrow> d | Inr _ \<Rightarrow> user_upd i (set_subscription plan_Free ''canceled'' 0) d))"
  using assms
  by (auto simp: CancelSubscription_def run_GetByID run_UpdateSubscription run_Cancel
      split: option.splits sum.splits)

end
