(* ===== verification/Go_Float_Facts.thy ===== *)
theory Go_Float_Facts
  imports Complex_Main Go_Float
begin

text \<open>
  What the operations of \<open>Go_Float\<close> compute, over the reals: the value of a finite float, the
  error of one rounding, and when there is none. The laws of \<open>rounds_to\<close> are all the proofs
  about sums and products of floats use.
\<close>

section \<open>Powers of two\<close>

definition pw :: "int \<Rightarrow> real" where
  "pw e = 2 powi e"

lemma pw_pos [simp]: "0 < pw e"
  by (simp add: pw_def)

lemma pw_add: "pw (a + b) = pw a * pw b"
  by (simp add: pw_def power_int_add)

lemma pw_diff: "pw (a - b) = pw a / pw b"
  by (simp add: pw_def power_int_diff)

lemma pw_minus: "pw (- a) = 1 / pw a"
  by (simp add: pw_def power_int_minus inverse_eq_divide)

lemma pw_half: "pw e / 2 = pw (e - 1)"
  by (simp add: pw_diff) (simp add: pw_def)

lemma pw_nat: "0 \<le> e \<Longrightarrow> pw e = 2 ^ nat e"
  by (simp add: pw_def power_int_def)

lemma pw_mono: "a \<le> b \<Longrightarrow> pw a \<le> pw b"
  by (simp add: pw_def power_int_increasing)

lemma pw_less: "pw a < pw b \<Longrightarrow> a < b"
  by (meson linorder_not_le pw_mono)

lemma pw_nonneg [simp]: "0 \<le> pw e" "pw e \<noteq> 0" "\<not> pw e \<le> 0"
  using pw_pos [of e] by linarith+

lemma p2_pos [simp]: "0 < p2 e"
  by (simp add: p2_def)

lemma p2_nonneg [simp]: "0 \<le> p2 e" "p2 e \<noteq> 0"
  using p2_pos [of e] by linarith+

lemma p2_ratio: "real_of_int (p2 e) / real_of_int (p2 (- e)) = pw e"
  by (cases "0 \<le> e") (simp_all add: p2_def pw_def power_int_def field_simps)

lemma p2_ratio': "real_of_int (p2 (- e)) / real_of_int (p2 e) = pw (- e)"
  using p2_ratio [of "- e"] by simp

section \<open>Logarithms\<close>

lemma ilog2_bounds: "1 \<le> n \<Longrightarrow> 0 \<le> ilog2 n \<and> 2 ^ nat (ilog2 n) \<le> n \<and> n < 2 ^ nat (ilog2 n + 1)"
proof (induction n rule: ilog2.induct)
  case (1 n)
  show ?case
  proof (cases "n = 1")
    case True
    then show ?thesis by (subst (1 2 3) ilog2.simps) simp
  next
    case False
    with 1 have h: "\<not> n \<le> 1" "1 \<le> n div 2" by simp_all
    with 1 have IH: "0 \<le> ilog2 (n div 2)" "2 ^ nat (ilog2 (n div 2)) \<le> n div 2"
      "n div 2 < 2 ^ nat (ilog2 (n div 2) + 1)" by simp_all
    have e: "ilog2 n = 1 + ilog2 (n div 2)" using h by (subst ilog2.simps) simp
    have s: "nat (ilog2 n) = Suc (nat (ilog2 (n div 2)))" "nat (ilog2 n + 1) = Suc (nat (ilog2 (n div 2) + 1))"
      using IH(1) unfolding e by (simp_all add: nat_add_distrib)
    have h: "2 * (n div 2) \<le> n" "n < 2 * (n div 2) + 2" by simp_all
    show ?thesis
    proof (intro conjI)
      show "0 \<le> ilog2 n" using IH(1) e by simp
      show "2 ^ nat (ilog2 n) \<le> n" using IH(2) h unfolding s power_Suc by linarith
      show "n < 2 ^ nat (ilog2 n + 1)" using IH(3) h unfolding s power_Suc by linarith
    qed
  qed
qed

lemma ilog2_real:
  assumes "1 \<le> n"
  shows "pw (ilog2 n) \<le> real_of_int n" and "real_of_int n < pw (ilog2 n + 1)"
proof -
  note b = ilog2_bounds [OF assms]
  then have "real_of_int (2 ^ nat (ilog2 n)) \<le> real_of_int n" "real_of_int n < real_of_int (2 ^ nat (ilog2 n + 1))"
    by (simp_all only: of_int_le_iff of_int_less_iff)
  with b show "pw (ilog2 n) \<le> real_of_int n" "real_of_int n < pw (ilog2 n + 1)"
    by (simp_all add: pw_nat)
qed

lemma scaled_less:
  assumes "0 < d"
  shows "n * p2 (- k) < d * p2 k \<longleftrightarrow> real_of_int n / real_of_int d < pw k"
proof -
  have "n * p2 (- k) < d * p2 k \<longleftrightarrow> real_of_int (n * p2 (- k)) < real_of_int (d * p2 k)"
    by (simp only: of_int_less_iff)
  also have "\<dots> \<longleftrightarrow> real_of_int n / real_of_int d < real_of_int (p2 k) / real_of_int (p2 (- k))"
    using assms by (simp add: field_simps)
  finally show ?thesis by (simp only: p2_ratio)
qed

lemma quot_log_bounds:
  assumes "0 < n" and "0 < d"
  shows "pw (quot_log n d) \<le> real_of_int n / real_of_int d" and "real_of_int n / real_of_int d < pw (quot_log n d + 1)"
proof -
  define k where "k = ilog2 n - ilog2 d"
  have n: "pw (ilog2 n) \<le> real_of_int n" "real_of_int n < pw (ilog2 n + 1)"
    and d: "pw (ilog2 d) \<le> real_of_int d" "real_of_int d < pw (ilog2 d + 1)" "0 < real_of_int d"
    using ilog2_real assms by simp_all
  have "real_of_int n / real_of_int d < pw (ilog2 n + 1) / pw (ilog2 d)"
    using n(2) d(1) assms by (intro frac_less) auto
  then have up: "real_of_int n / real_of_int d < pw (k + 1)"
    by (simp add: pw_diff [symmetric] k_def algebra_simps)
  have "pw (ilog2 n) / pw (ilog2 d + 1) \<le> real_of_int n / real_of_int d"
    using n(1) d assms by (intro frac_le) auto
  then have low: "pw (k - 1) \<le> real_of_int n / real_of_int d"
    by (simp add: pw_diff [symmetric] k_def algebra_simps)
  have "quot_log n d = (if real_of_int n / real_of_int d < pw k then k - 1 else k)"
    by (simp add: quot_log_def k_def [symmetric] scaled_less [OF assms(2)])
  with up low show "pw (quot_log n d) \<le> real_of_int n / real_of_int d"
    and "real_of_int n / real_of_int d < pw (quot_log n d + 1)" by simp_all
qed

section \<open>Rounding to an integer\<close>

lemma round_even_error:
  assumes "0 < d"
  shows "\<bar>real_of_int (round_even n d) - real_of_int n / real_of_int d\<bar> \<le> 1 / 2"
proof -
  define q r where "q = n div d" and "r = n mod d"
  have n: "n = d * q + r" and r: "0 \<le> r" "r < d" using assms by (simp_all add: q_def r_def)
  have "real_of_int n / real_of_int d = real_of_int q + real_of_int r / real_of_int d"
    using assms unfolding n by (simp add: field_simps)
  moreover have "0 \<le> real_of_int r / real_of_int d" "real_of_int r / real_of_int d < 1"
    using r assms by simp_all
  moreover have "2 * r \<le> d \<longrightarrow> real_of_int r / real_of_int d \<le> 1 / 2"
    "d \<le> 2 * r \<longrightarrow> 1 / 2 \<le> real_of_int r / real_of_int d"
    using assms by (simp_all add: field_simps)
  moreover have "round_even n d = q \<and> 2 * r \<le> d \<or> round_even n d = q + 1 \<and> d \<le> 2 * r"
    by (auto simp: round_even_def Let_def q_def [symmetric] r_def [symmetric])
  ultimately show ?thesis by auto
qed

lemma round_even_int: "0 < d \<Longrightarrow> n = d * q \<Longrightarrow> round_even n d = q"
  by (simp add: round_even_def Let_def)

lemma round_even_nonneg: "0 < d \<Longrightarrow> 0 \<le> n \<Longrightarrow> 0 \<le> round_even n d"
  by (simp add: round_even_def Let_def pos_imp_zdiv_nonneg_iff)

section \<open>Rounding to a float\<close>

fun fval :: "float64 \<Rightarrow> real" where
  "fval (FFin s m e) = real_of_int (signed s m) * pw e"
| "fval (FInf s) = 0"
| "fval FNaN = 0"

definition finite64 :: "float64 \<Rightarrow> bool" where
  "finite64 f \<longleftrightarrow> (case f of FFin s m e \<Rightarrow> 0 \<le> m | _ \<Rightarrow> False)"

definition rounds_to :: "real \<Rightarrow> float64 \<Rightarrow> bool" where
  "rounds_to x r \<longleftrightarrow>
     finite64 r \<and> \<bar>fval r - x\<bar> \<le> max (\<bar>x\<bar> * pw (-53)) (pw (-1075)) \<and>
     (\<forall>j h. \<bar>j\<bar> < 2 ^ 53 \<longrightarrow> -1074 \<le> h \<longrightarrow> x = real_of_int j * pw h \<longrightarrow> fval r = x)"

lemma signed_mult: "real_of_int (signed s m) = (if s then -1 else 1) * real_of_int m"
  by (simp add: signed_def)

lemma round64_rounds:
  assumes "0 \<le> n" and "0 < d" and "real_of_int n / real_of_int d < pw 1023"
  shows "rounds_to ((if s then -1 else 1) * (real_of_int n / real_of_int d)) (round64 s n d)"
proof (cases "n = 0")
  case True
  then show ?thesis by (simp add: round64_def rounds_to_def finite64_def signed_def)
next
  case False
  define x where "x = real_of_int n / real_of_int d"
  define k where "k = quot_log n d"
  define e where "e = max (-1074) (k - 52)"
  define q where "q = round_even (n * p2 (- e)) (d * p2 e)"
  have n: "0 < n" using False assms(1) by simp
  have x: "0 < x" "pw k \<le> x" "x < pw (k + 1)"
    using quot_log_bounds [OF n assms(2)] n assms(2) by (simp_all add: x_def k_def)
  have k: "k < 1023" using x(2) assms(3) pw_less by (metis x_def order_le_less_trans)
  have scale: "real_of_int (n * p2 (- e)) / real_of_int (d * p2 e) = x / pw e"
  proof -
    have "real_of_int (n * p2 (- e)) / real_of_int (d * p2 e) = x * (real_of_int (p2 (- e)) / real_of_int (p2 e))"
      by (simp add: x_def)
    then show ?thesis by (simp add: p2_ratio' pw_minus)
  qed
  have qe: "\<bar>real_of_int q - x / pw e\<bar> \<le> 1 / 2"
    using round_even_error [of "d * p2 e" "n * p2 (- e)"] assms(2) unfolding q_def scale by simp
  have "x / pw e < pw (k + 1) / pw e" using x(3) by (simp add: divide_strict_right_mono)
  also have "\<dots> \<le> pw 53" unfolding pw_diff [symmetric] by (rule pw_mono) (simp add: e_def)
  finally have "real_of_int q < pw 53 + 1" using qe by linarith
  moreover have "pw 53 = real_of_int (2 ^ 53)" by (simp add: pw_nat)
  ultimately have q53: "q \<le> 2 ^ 53" by linarith
  have q0: "0 \<le> q" unfolding q_def by (rule round_even_nonneg) (use assms n in auto)
  define m where "m = (if q = 2 ^ 53 then 2 ^ 52 else q)"
  define f where "f = (if q = 2 ^ 53 then e + 1 else e)"
  have r: "round64 s n d = FFin s m f"
    using False k
    by (simp add: round64_def Let_def k_def [symmetric] e_def [symmetric] q_def [symmetric] m_def f_def)
      (auto simp: e_def)
  have mf: "real_of_int m * pw f = real_of_int q * pw e"
    by (simp add: m_def f_def pw_add) (simp add: pw_def)
  have err: "\<bar>real_of_int q * pw e - x\<bar> \<le> pw e / 2"
  proof -
    have "real_of_int q * pw e - x = (real_of_int q - x / pw e) * pw e" by (simp add: field_simps)
    then have "\<bar>real_of_int q * pw e - x\<bar> = \<bar>real_of_int q - x / pw e\<bar> * pw e" by (simp add: abs_mult)
    also have "\<dots> \<le> 1 / 2 * pw e" by (rule mult_right_mono [OF qe]) (simp add: less_imp_le)
    finally show ?thesis by simp
  qed
  have half: "pw e / 2 \<le> max (x * pw (-53)) (pw (-1075))"
  proof (cases "k - 52 \<le> -1074")
    case True
    then have "e = -1074" by (simp add: e_def)
    then show ?thesis by (simp add: pw_half)
  next
    case False
    then have "pw e / 2 = pw (k + (-53))" by (simp add: e_def pw_half)
    also have "\<dots> \<le> x * pw (-53)" unfolding pw_add by (rule mult_right_mono [OF x(2)]) (simp add: less_imp_le)
    finally show ?thesis by simp
  qed
  have exact: "real_of_int q * pw e = x" if j: "\<bar>j\<bar> < 2 ^ 53" "-1074 \<le> h" "x = real_of_int j * pw h" for j h
  proof (cases "e \<le> h")
    case True
    define i where "i = j * 2 ^ nat (h - e)"
    have "x / pw e = real_of_int i"
      using True by (simp add: that(3) i_def pw_nat [symmetric] pw_diff)
    then have "real_of_int (n * p2 (- e)) = real_of_int (d * p2 e * i)"
      using scale assms(2) by (simp add: field_simps)
    then have "n * p2 (- e) = d * p2 e * i" by (simp only: of_int_eq_iff)
    then have "q = i" unfolding q_def by (intro round_even_int) (use assms(2) in auto)
    with \<open>x / pw e = real_of_int i\<close> show ?thesis by (simp add: field_simps)
  next
    case False
    then have "e = k - 52" using j(2) by (auto simp: e_def)
    then have "pw (e + 52) \<le> real_of_int j * pw h" using x(2) j(3) by simp
    then have "pw (e + 52 - h) \<le> real_of_int j" by (simp add: pw_diff pw_add field_simps)
    moreover have "pw 53 \<le> pw (e + 52 - h)" by (rule pw_mono) (use False in simp)
    moreover have "real_of_int j < pw 53"
    proof -
      have "j < 2 ^ 53" using j(1) by simp
      then have "real_of_int j < real_of_int (2 ^ 53)" by (simp only: of_int_less_iff)
      then show ?thesis by (simp add: pw_nat)
    qed
    ultimately have False by linarith
    then show ?thesis ..
  qed
  have "m \<ge> 0" using q0 by (simp add: m_def)
  then show ?thesis
    unfolding rounds_to_def r x_def [symmetric]
  proof (intro conjI allI impI)
    show "finite64 (FFin s m f)" using \<open>0 \<le> m\<close> by (simp add: finite64_def)
    have v: "fval (FFin s m f) = (if s then -1 else 1) * (real_of_int q * pw e)"
      by (simp add: signed_mult mf [symmetric])
    show "\<bar>fval (FFin s m f) - (if s then -1 else 1) * x\<bar>
        \<le> max (\<bar>(if s then -1 else 1) * x\<bar> * pw (-53)) (pw (-1075))"
      unfolding v using err half x(1) by (cases s) (simp_all add: abs_minus_commute)
    fix j :: int and h :: int
    assume "\<bar>j\<bar> < 2 ^ 53" "-1074 \<le> h" "(if s then -1 else 1) * x = real_of_int j * pw h"
    then have "x = real_of_int (if s then - j else j) * pw h" by (cases s) simp_all
    then have "real_of_int q * pw e = x"
      using \<open>\<bar>j\<bar> < 2 ^ 53\<close> \<open>-1074 \<le> h\<close> by (intro exact [of "if s then - j else j" h]) auto
    then show "fval (FFin s m f) = (if s then -1 else 1) * x" unfolding v by simp
  qed
qed


section \<open>The operations\<close>

lemma finite64_cases: "finite64 f \<Longrightarrow> (\<And>s m e. f = FFin s m e \<Longrightarrow> 0 \<le> m \<Longrightarrow> P) \<Longrightarrow> P"
  by (cases f) (auto simp: finite64_def)

lemma rounds_toD:
  assumes "rounds_to x r"
  shows "finite64 r" and "\<bar>fval r - x\<bar> \<le> max (\<bar>x\<bar> * pw (-53)) (pw (-1075))"
    and "\<bar>j\<bar> < 2 ^ 53 \<Longrightarrow> -1074 \<le> h \<Longrightarrow> x = real_of_int j * pw h \<Longrightarrow> fval r = x"
  using assms unfolding rounds_to_def by blast+

lemma rounds_to_int:
  assumes "rounds_to (real_of_int j) r" and "\<bar>j\<bar> < 2 ^ 53"
  shows "fval r = real_of_int j"
  using rounds_toD(3) [OF assms(1), of j 0] assms(2) by (simp add: pw_nat)

lemma rounds_to_zero: "rounds_to 0 r \<Longrightarrow> fval r = 0"
  using rounds_to_int [of 0 r] by simp

lemma fval_zero: "rounds_to 0 (FFin s 0 e)"
  by (simp add: rounds_to_def finite64_def signed_def)

lemma aligned:
  "c \<le> e \<Longrightarrow> real_of_int (signed s (m * p2 (e - c))) * pw c = real_of_int (signed s m) * pw e"
  using pw_add [of "e - c" c] by (simp add: signed_mult pw_nat p2_def)

lemma round64_signed:
  assumes "\<bar>real_of_int v * pw c\<bar> < pw 1023"
  shows "rounds_to (real_of_int v * pw c) (round64 (v < 0) (\<bar>v\<bar> * p2 c) (p2 (- c)))"
proof -
  have r: "real_of_int (\<bar>v\<bar> * p2 c) / real_of_int (p2 (- c)) = \<bar>real_of_int v\<bar> * pw c"
    using p2_ratio [of c] by (simp add: times_divide_eq_right [symmetric] del: times_divide_eq_right)
  have "(if v < 0 then -1 else 1) * (\<bar>real_of_int v\<bar> * pw c) = real_of_int v * pw c"
    by (cases "v < 0") simp_all
  moreover have "\<bar>real_of_int v\<bar> * pw c < pw 1023" using assms by (simp add: abs_mult)
  then have "rounds_to ((if v < 0 then -1 else 1) * (\<bar>real_of_int v\<bar> * pw c)) (round64 (v < 0) (\<bar>v\<bar> * p2 c) (p2 (- c)))"
    using round64_rounds [of "\<bar>v\<bar> * p2 c" "p2 (- c)" "v < 0"] unfolding r by simp
  ultimately show ?thesis by (simp only:)
qed

lemma fadd_rounds:
  assumes "finite64 f" and "finite64 g" and "\<bar>fval f + fval g\<bar> < pw 1023"
  shows "rounds_to (fval f + fval g) (fadd f g)"
proof -
  obtain s m e where f: "f = FFin s m e" using assms(1) by (rule finite64_cases)
  obtain t n h where g: "g = FFin t n h" using assms(2) by (rule finite64_cases)
  define c where "c = min e h"
  define v where "v = signed s (m * p2 (e - c)) + signed t (n * p2 (h - c))"
  have v: "fval f + fval g = real_of_int v * pw c"
    using aligned [of c e s m] aligned [of c h t n] by (simp add: f g v_def c_def distrib_right)
  show ?thesis
  proof (cases "v = 0")
    case True
    then show ?thesis unfolding v by (simp add: f g fadd_def Let_def c_def [symmetric] v_def [symmetric] fval_zero)
  next
    case False
    have "fadd f g = round64 (v < 0) (\<bar>v\<bar> * p2 c) (p2 (- c))"
      using False by (simp add: f g fadd_def Let_def c_def [symmetric] v_def [symmetric])
    then show ?thesis using round64_signed assms(3) unfolding v by metis
  qed
qed

lemma fneg_val [simp]: "fval (fneg f) = - fval f" "finite64 (fneg f) = finite64 f"
  by (cases f; simp add: fneg_def signed_def finite64_def)+

lemma fsub_rounds:
  assumes "finite64 f" and "finite64 g" and "\<bar>fval f - fval g\<bar> < pw 1023"
  shows "rounds_to (fval f - fval g) (fsub f g)"
  using fadd_rounds [of f "fneg g"] assms by (simp add: fsub_def)

lemma sign_mult: "(if s \<noteq> t then -1 else 1) = (if s then -1 else 1) * (if t then -1 else (1 :: real))"
  by simp

lemma fmul_rounds:
  assumes "finite64 f" and "finite64 g" and "\<bar>fval f * fval g\<bar> < pw 1023"
  shows "rounds_to (fval f * fval g) (fmul f g)"
proof -
  obtain s m e where f: "f = FFin s m e" and m: "0 \<le> m" using assms(1) by (rule finite64_cases)
  obtain t n h where g: "g = FFin t n h" and n: "0 \<le> n" using assms(2) by (rule finite64_cases)
  have r: "real_of_int (m * n * p2 (e + h)) / real_of_int (p2 (- (e + h))) = real_of_int m * real_of_int n * pw (e + h)"
    using p2_ratio [of "e + h"] by (simp only: of_int_mult times_divide_eq_right [symmetric])
  have v: "fval f * fval g = (if s \<noteq> t then -1 else 1) * (real_of_int m * real_of_int n * pw (e + h))"
    by (simp add: f g signed_mult pw_add sign_mult del: mult_minus_left)
  have "real_of_int m * real_of_int n * pw (e + h) = \<bar>fval f * fval g\<bar>"
    unfolding v using m n by (simp add: abs_mult)
  then have "real_of_int m * real_of_int n * pw (e + h) < pw 1023" using assms(3) by simp
  then show ?thesis
    using round64_rounds [of "m * n * p2 (e + h)" "p2 (- (e + h))" "s \<noteq> t"] m n
    unfolding v r by (simp add: f g fmul_def)
qed

lemma fdiv_rounds:
  assumes "finite64 f" and "finite64 g" and "fval g \<noteq> 0" and "\<bar>fval f / fval g\<bar> < pw 1023"
  shows "rounds_to (fval f / fval g) (fdiv f g)"
proof -
  obtain s m e where f: "f = FFin s m e" and m: "0 \<le> m" using assms(1) by (rule finite64_cases)
  obtain t n h where g: "g = FFin t n h" and n: "0 \<le> n" using assms(2) by (rule finite64_cases)
  have n0: "0 < n" using assms(3) n by (cases "n = 0") (simp_all add: g signed_mult)
  have "real_of_int (p2 (e - h)) / real_of_int (p2 (h - e)) = pw (e - h)" using p2_ratio [of "e - h"] by simp
  then have r: "real_of_int (m * p2 (e - h)) / real_of_int (n * p2 (h - e)) = real_of_int m / real_of_int n * pw (e - h)"
    by (simp only: of_int_mult times_divide_times_eq [symmetric])
  have v: "fval f / fval g = (if s \<noteq> t then -1 else 1) * (real_of_int m / real_of_int n * pw (e - h))"
    using n0 by (simp add: f g signed_mult pw_diff field_simps)
  have "real_of_int m / real_of_int n * pw (e - h) = \<bar>fval f / fval g\<bar>"
    unfolding v using m n0 by (simp add: abs_mult)
  then have "real_of_int m / real_of_int n * pw (e - h) < pw 1023" using assms(4) by simp
  then show ?thesis
    using round64_rounds [of "m * p2 (e - h)" "n * p2 (h - e)" "s \<noteq> t"] m n0
    unfolding v r by (simp add: f g fdiv_def)
qed

lemma float_of_int_rounds: "\<bar>real_of_int i\<bar> < pw 1023 \<Longrightarrow> rounds_to (real_of_int i) (float_of_int i)"
  using round64_signed [of i 0] by (simp add: float_of_int_def p2_def pw_nat)

lemma small_pw: "\<bar>i\<bar> < 2 ^ 53 \<Longrightarrow> \<bar>real_of_int i\<bar> < pw 1023"
proof -
  assume "\<bar>i\<bar> < 2 ^ 53"
  then have "real_of_int \<bar>i\<bar> < real_of_int (2 ^ 53)" by (simp only: of_int_less_iff)
  then have "\<bar>real_of_int i\<bar> < pw 53" by (simp add: pw_nat)
  also have "\<dots> \<le> pw 1023" by (rule pw_mono) simp
  finally show ?thesis .
qed

lemma float_of_int_exact:
  assumes "\<bar>i\<bar> < 2 ^ 53"
  shows "finite64 (float_of_int i)" and "fval (float_of_int i) = real_of_int i"
  using float_of_int_rounds [OF small_pw [OF assms]] assms by (auto intro: rounds_toD rounds_to_int)

text \<open>Sums and products of whole numbers below \<open>2^53\<close> are exact.\<close>

lemma fadd_int:
  assumes "finite64 f" "fval f = real_of_int a" "finite64 g" "fval g = real_of_int b" "\<bar>a + b\<bar> < 2 ^ 53"
  shows "finite64 (fadd f g)" and "fval (fadd f g) = real_of_int (a + b)"
proof -
  have "rounds_to (real_of_int (a + b)) (fadd f g)"
    using fadd_rounds [of f g] assms small_pw [OF assms(5)] by simp
  then show "finite64 (fadd f g)" "fval (fadd f g) = real_of_int (a + b)"
    using rounds_to_int [OF _ assms(5)] by (blast intro: rounds_toD)+
qed

lemma fmul_int:
  assumes "finite64 f" "fval f = real_of_int a" "finite64 g" "fval g = real_of_int b" "\<bar>a * b\<bar> < 2 ^ 53"
  shows "finite64 (fmul f g)" and "fval (fmul f g) = real_of_int (a * b)"
proof -
  have "rounds_to (real_of_int (a * b)) (fmul f g)"
    using fmul_rounds [of f g] assms small_pw [OF assms(5)] by simp
  then show "finite64 (fmul f g)" "fval (fmul f g) = real_of_int (a * b)"
    using rounds_to_int [OF _ assms(5)] by (blast intro: rounds_toD)+
qed

section \<open>Comparison\<close>

lemma fless_val:
  assumes "finite64 f" and "finite64 g"
  shows "fless f g \<longleftrightarrow> fval f < fval g"
proof -
  obtain s m e where f: "f = FFin s m e" using assms(1) by (rule finite64_cases)
  obtain t n h where g: "g = FFin t n h" using assms(2) by (rule finite64_cases)
  define c where "c = min e h"
  have "fval f = real_of_int (signed s (m * p2 (e - c))) * pw c" "fval g = real_of_int (signed t (n * p2 (h - c))) * pw c"
    using aligned [of c e s m] aligned [of c h t n] by (simp_all add: f g c_def)
  moreover have "fless f g \<longleftrightarrow> signed s (m * p2 (e - c)) < signed t (n * p2 (h - c))"
    by (simp add: f g fless_def Let_def c_def)
  ultimately show ?thesis by simp
qed

lemma feq_val: "finite64 f \<Longrightarrow> finite64 g \<Longrightarrow> feq f g \<longleftrightarrow> fval f = fval g"
  by (auto simp: feq_def fless_val finite64_def)

section \<open>Rounding to a whole number\<close>

lemma int_of_float_whole:
  assumes "real_of_int m * pw e = real_of_int k" and "0 \<le> m" and "0 \<le> k" and "k < 2 ^ 63"
  shows "int_of_float (FFin s m e) = signed s k"
proof -
  have "real_of_int (m * p2 e) = real_of_int (k * p2 (- e))"
    using assms(1) p2_ratio [of e] by (simp add: field_simps)
  then have "m * p2 e = k * p2 (- e)" by (simp only: of_int_eq_iff)
  then have "m * p2 e div p2 (- e) = k" by simp
  with assms(3,4) show ?thesis by (auto simp: int_of_float_def signed_def)
qed

lemma round_half_up:
  assumes "0 < P"
  shows "(2 * m + P) div (2 * P) = \<lfloor>real_of_int m / real_of_int P + 1 / 2\<rfloor>"
proof -
  have "real_of_int (2 * m + P) / real_of_int (2 * P) = real_of_int m / real_of_int P + 1 / 2"
    using assms by (simp add: field_simps)
  then show ?thesis by (metis floor_divide_of_int_eq)
qed

lemma int_of_fRound:
  assumes "finite64 f" and "0 \<le> fval f" and "fval f < 2 ^ 52"
  shows "int_of_float (fRound f) = \<lfloor>fval f + 1 / 2\<rfloor>"
proof -
  obtain s m e where f: "f = FFin s m e" and m: "0 \<le> m" using assms(1) by (rule finite64_cases)
  have s0: "m = 0" if s
  proof -
    have "real_of_int m * pw e \<le> 0" using assms(2) that by (simp add: f signed_mult)
    then show ?thesis using m by (simp add: mult_le_0_iff not_le [symmetric])
  qed
  then have v: "fval f = real_of_int m * pw e" by (cases s) (simp_all add: f signed_def)
  show ?thesis
  proof (cases "0 \<le> e")
    case True
    then have k: "real_of_int m * pw e = real_of_int (m * 2 ^ nat e)" by (simp add: pw_nat)
    have "real_of_int (m * 2 ^ nat e) < 2 ^ 52" using assms(3) unfolding v k .
    also have "(2 :: real) ^ 52 < real_of_int (2 ^ 63)" by simp
    finally have "m * 2 ^ nat e < 2 ^ 63" by (simp only: of_int_less_iff)
    then have "int_of_float (FFin s m e) = signed s (m * 2 ^ nat e)"
      using k m by (intro int_of_float_whole) simp_all
    also have "\<dots> = m * 2 ^ nat e" using s0 by (cases s) (simp_all add: signed_def)
    also have "\<dots> = \<lfloor>fval f + 1 / 2\<rfloor>" unfolding v k by linarith
    finally show ?thesis using True by (simp add: f fRound_def)
  next
    case False
    define k where "k = (2 * m + p2 (- e)) div (2 * p2 (- e))"
    have "real_of_int m / real_of_int (p2 (- e)) = fval f"
      using False p2_ratio [of e] unfolding v by (simp add: p2_def divide_inverse)
    then have k: "k = \<lfloor>fval f + 1 / 2\<rfloor>" unfolding k_def by (simp add: round_half_up)
    have "0 \<le> k" unfolding k using assms(2) by simp
    have "k \<le> 2 ^ 52" unfolding k using assms(3) by (simp add: floor_le_iff)
    then have small: "\<bar>k\<bar> < 2 ^ 53" using \<open>0 \<le> k\<close> by simp
    obtain b n h where n: "float_of_int k = FFin b n h" "0 \<le> n"
      using float_of_int_exact(1) [OF small] by (rule finite64_cases)
    have "fval (FFin b n h) = real_of_int k" using float_of_int_exact(2) [OF small] n by simp
    moreover have "b \<Longrightarrow> k \<le> 0"
    proof -
      assume b
      then have "fval (FFin b n h) \<le> 0" using n(2) by (simp add: signed_def)
      with calculation show "k \<le> 0" by simp
    qed
    ultimately have kn: "real_of_int n * pw h = real_of_int k"
      using \<open>0 \<le> k\<close> by (cases b) (simp_all add: signed_def)
    have "int_of_float (FFin s n h) = signed s k"
      by (rule int_of_float_whole [OF kn n(2) \<open>0 \<le> k\<close>]) (use \<open>k \<le> 2 ^ 52\<close> in simp)
    also have "\<dots> = k"
      using s0 by (cases s) (auto simp: signed_def k v)
    finally show ?thesis using False n(1) by (simp add: f fRound_def k_def [symmetric] k)
  qed
qed

end
