(* ===== verification/Samples.thy ===== *)
theory Samples
  imports Subscriptions
begin

text \<open>
  Concrete data the witnesses run the model on: a database with two accounts, a LiqPay client,
  a network that answers 200 to every request, and numerics read as whole units.
\<close>

definition sample_user :: "uuid \<Rightarrow> user_row" where
  "sample_user i =
     \<lparr>ur_id = i, ur_apple_sub = None, ur_email = None, ur_base_currency = ''UAH'', ur_created_at = 5,
      ur_password_hash = None, ur_google_sub = None, ur_theme = ''system'',
      ur_gradient_color = ''#34C759'', ur_plan = ''free'', ur_goals = [],
      ur_subscription_status = [], ur_trial_ends_at = None, ur_liqpay_order_id = [],
      ur_name = [], ur_avatar = []\<rparr>"

definition empty_db :: db where
  "empty_db =
     \<lparr>db_faults = [], db_clock = time_of_unix 1700000000, db_uuid = of_nat, db_serial = 1000,
      db_users = [], db_sessions = [], db_categories = [], db_transactions = [], db_payments = [],
      db_monobank = []\<rparr>"

definition sample_db :: db where
  "sample_db = empty_db\<lparr>db_users := [sample_user 1, sample_user 2]\<rparr>"

definition sample_order :: string where
  "sample_order = ''sub.trial.max.7.1''"

text \<open>The first account has a checkout pending for \<open>sample_order\<close>.\<close>

definition pending_db :: db where
  "pending_db =
     empty_db\<lparr>db_users :=
       [(sample_user 1)\<lparr>ur_subscription_status := ''pending'', ur_liqpay_order_id := sample_order\<rparr>, sample_user 2]\<rparr>"

definition sample_pgnum :: pgnum where
  "sample_pgnum =
     \<lparr>pn_Scan = (\<lambda>s. Inr (Num (int (val_dec s)) 0)), pn_Value = (\<lambda>n. Some ''0''), pn_Float64 = (\<lambda>n. None)\<rparr>"

definition sample_network :: network where
  "sample_network q = Inr \<lparr>hp_status = 200, hp_body = ''{}''\<rparr>"

definition sample_client :: Client where
  "sample_client = \<lparr>lc_publicKey = ''pub'', lc_privateKey = ''key'', lc_sandbox = True\<rparr>"

definition sample_billing :: Billing where
  "sample_billing = \<lparr>bs_liqpay = sample_client, bs_frontendURL = ''https://f'', bs_backendURL = ''https://b''\<rparr>"

definition sample_env :: billing_env where
  "sample_env = \<lparr>be_uuid_String = uuid_hex, be_pgnum = sample_pgnum, be_network = sample_network\<rparr>"

text \<open>A callback of LiqPay for \<open>sample_order\<close>, as the JSON text that is signed.\<close>

definition quoted :: "string \<Rightarrow> string" where
  "quoted s = CHR 0x22 # s @ [CHR 0x22]"

definition sample_callback :: "string \<Rightarrow> string" where
  "sample_callback st =
     ''{'' @ quoted ''status'' @ '':'' @ quoted st @ '','' @ quoted ''order_id'' @ '':'' @
     quoted sample_order @ '','' @ quoted ''amount'' @ '': 0}''"

lemma sample_users [simp]:
  "db_faults sample_db = []" "db_faults pending_db = []" "db_faults empty_db = []"
  "db_payments pending_db = []" "db_payments sample_db = []"
  "db_users sample_db = [sample_user 1, sample_user 2]"
  by (simp_all add: sample_db_def pending_db_def empty_db_def)

end
