(* ===== verification/Admin_Properties.thy ===== *)
theory Admin_Properties
  imports Admin Go_Float_Facts Samples
begin

text \<open>
  What the operator sees and does: the figures of the dashboard are the counts of the users
  table, the revenue is exact although it is summed in floating point, and what ending a
  subscription by hand reports and changes.
\<close>

section \<open>Groups\<close>

lemma sum_groups:
  fixes w :: "'k \<Rightarrow> int"
  assumes "finite S" and "set xs \<subseteq> S"
  shows "sum_list (map w xs) = (\<Sum>k \<in> S. w k * int (length (filter (\<lambda>x. x = k) xs)))"
  using assms(2)
proof (induction xs)
  case (Cons x xs)
  have "(\<Sum>k \<in> S. w k * int (length (filter (\<lambda>y. y = k) (x # xs)))) =
      (\<Sum>k \<in> S. (if k = x then w k else 0) + w k * int (length (filter (\<lambda>y. y = k) xs)))"
    by (rule sum.cong) (auto simp: algebra_simps)
  also have "\<dots> = w x + sum_list (map w xs)"
    using Cons assms(1) by (simp add: sum.distrib sum.delta)
  finally show ?case by simp
qed simp

definition groups :: "user_row list \<Rightarrow> PlanCount list" where
  "groups us =
     map (\<lambda>k. \<lparr>pc_Plan = fst k, pc_SubscriptionStatus = snd k,
               pc_Count = int (length (filter (\<lambda>r. (ur_plan r, ur_subscription_status r) = k) us))\<rparr>)
       (remdups (map (\<lambda>r. (ur_plan r, ur_subscription_status r)) us))"

lemma run_CountByPlan:
  "db_faults d = [] \<Longrightarrow> run_state UserRepo_CountByPlan d = (Inr (groups (db_users d)), d)"
  by (simp add: UserRepo_CountByPlan_def UserCountByPlan_def groups_def Let_def comp_def)

text \<open>A weight given to every group, times the size of the group, adds up over the users.\<close>

lemma sum_over_groups:
  "sum_list (map (\<lambda>c. w (pc_Plan c, pc_SubscriptionStatus c) * pc_Count c) (groups us)) =
     sum_list (map (\<lambda>r. w (ur_plan r, ur_subscription_status r)) us)"
proof -
  let ?key = "\<lambda>r. (ur_plan r, ur_subscription_status r)"
  have "sum_list (map (\<lambda>c. w (pc_Plan c, pc_SubscriptionStatus c) * pc_Count c) (groups us)) =
      sum_list (map (\<lambda>k. w k * int (length (filter (\<lambda>x. x = k) (map ?key us)))) (remdups (map ?key us)))"
    by (simp add: groups_def comp_def filter_map)
  also have "\<dots> = (\<Sum>k \<in> set (map ?key us). w k * int (length (filter (\<lambda>x. x = k) (map ?key us))))"
    by (simp add: sum_list_distinct_conv_sum_set)
  also have "\<dots> = sum_list (map w (map ?key us))"
    by (rule sum_groups [symmetric]) auto
  finally show ?thesis by (simp add: comp_def)
qed

lemma groups_nonneg: "c \<in> set (groups us) \<Longrightarrow> 0 \<le> pc_Count c"
  by (auto simp: groups_def)

lemma sum_indicator: "sum_list (map (\<lambda>x. if P x then 1 else 0) xs) = int (length (filter P xs))"
  by (induction xs) auto

lemma sum_weight: "sum_list (map (\<lambda>x. if P x then c else 0) xs) = c * int (length (filter P xs))"
  by (induction xs) (auto simp: algebra_simps)

lemma filters_disjoint:
  "(\<And>x. P x \<Longrightarrow> \<not> Q x) \<Longrightarrow> length (filter P xs) + length (filter Q xs) \<le> length xs"
  by (induction xs) auto

section \<open>The loop\<close>

definition price :: "PlanCount \<Rightarrow> int" where
  "price c =
     (if pc_SubscriptionStatus c = ''active''
      then (if pc_Plan c = plan_Pro then proPriceUSD else if pc_Plan c = plan_Max then maxPriceUSD else 0) else 0)"

lemma price_bounds: "0 \<le> price c" "price c \<le> 99"
  by (simp_all add: price_def proPriceUSD_def maxPriceUSD_def)

lemma map_count_empty [simp]: "map_count [] k = 0"
  by (simp add: map_count_def)

lemma map_count_put: "map_count (map_put k v m) k' = (if k' = k then v else map_count m k')"
  by (simp add: map_count_def map_of_map_put)

lemma fold_counts:
  "st_TotalUsers (foldl count_group st cs) = st_TotalUsers st + sum_list (map pc_Count cs)"
  "st_TrialCount (foldl count_group st cs) =
     st_TrialCount st + sum_list (map (\<lambda>c. (if pc_SubscriptionStatus c = ''trialing'' then 1 else 0) * pc_Count c) cs)"
  "map_count (st_ByPlan (foldl count_group st cs)) p =
     map_count (st_ByPlan st) p + sum_list (map (\<lambda>c. (if pc_Plan c = p then 1 else 0) * pc_Count c) cs)"
  by (induction cs arbitrary: st) (auto simp: count_group_def map_count_put)

text \<open>The revenue: each group adds its price times its size, and nothing is rounded.\<close>

lemma group_revenue_exact:
  assumes "finite64 f" "fval f = real_of_int a" "0 \<le> a" "0 \<le> pc_Count c" "a + price c * pc_Count c < 2 ^ 53"
  shows "finite64 (group_revenue c f) \<and> fval (group_revenue c f) = real_of_int (a + price c * pc_Count c)"
proof (cases "price c = 0")
  case True
  then have "group_revenue c f = f"
    by (auto simp: group_revenue_def price_def proPriceUSD_def maxPriceUSD_def split: if_splits)
  with True assms show ?thesis by simp
next
  case False
  then have p: "15 \<le> price c"
    by (auto simp: price_def proPriceUSD_def maxPriceUSD_def split: if_splits)
  have "pc_Count c \<le> price c * pc_Count c"
    using p assms(4) by (simp add: mult_le_cancel_right1)
  then have n: "\<bar>pc_Count c\<bar> < 2 ^ 53" "\<bar>pc_Count c * price c\<bar> < 2 ^ 53" "\<bar>a + pc_Count c * price c\<bar> < 2 ^ 53"
    using assms(3-5) p by (simp_all add: mult.commute)
  have "\<bar>price c\<bar> < 2 ^ 53" using price_bounds [of c] by simp
  note c = float_of_int_exact [OF n(1)] and pr = float_of_int_exact [OF this]
  note m = fmul_int [OF c pr n(2)]
  note s = fadd_int [OF assms(1,2) m n(3)]
  have "group_revenue c f = fadd f (fmul (float_of_int (pc_Count c)) (float_of_int (price c)))"
    using False by (auto simp: group_revenue_def price_def split: if_splits)
  with s show ?thesis by (simp add: mult.commute)
qed

lemma fold_revenue:
  assumes "finite64 (st_ActiveMRR st)" "fval (st_ActiveMRR st) = real_of_int a" "0 \<le> a"
    and "\<forall>c \<in> set cs. 0 \<le> pc_Count c" "a + sum_list (map (\<lambda>c. price c * pc_Count c) cs) < 2 ^ 53"
  shows "fval (st_ActiveMRR (foldl count_group st cs)) = real_of_int (a + sum_list (map (\<lambda>c. price c * pc_Count c) cs))"
  using assms
proof (induction cs arbitrary: st a)
  case (Cons c cs)
  have rest: "0 \<le> sum_list (map (\<lambda>c. price c * pc_Count c) cs)"
    using Cons.prems(4) price_bounds by (intro sum_list_nonneg) auto
  have step: "0 \<le> price c * pc_Count c" using Cons.prems(4) price_bounds [of c] by simp
  have "finite64 (group_revenue c (st_ActiveMRR st)) \<and>
      fval (group_revenue c (st_ActiveMRR st)) = real_of_int (a + price c * pc_Count c)"
    using Cons.prems rest by (intro group_revenue_exact) auto
  then show ?case
    using Cons.IH [of "count_group st c" "a + price c * pc_Count c"] Cons.prems step
    by (simp add: count_group_def add.assoc)
qed simp

section \<open>The dashboard\<close>

definition users_with :: "(user_row \<Rightarrow> bool) \<Rightarrow> db \<Rightarrow> int" where
  "users_with P d = int (length (filter P (db_users d)))"

text \<open>
  C26. The dashboard is exact: on a database that answers, \<open>Stats\<close>, which adds up the groups of
  one query in a loop and the revenue in floating point, gives the number of users, of users on
  each plan and of users in a trial, and a revenue of exactly 15 dollars per active Pro and 99
  per active Max account; it changes nothing. The trend has 31 days, not 30.
\<close>

theorem stats_exact:
  assumes "db_faults d = []" and "99 * int (length (db_users d)) < 2 ^ 53"
  shows "\<exists>st. run_state admin_Stats d = (Inr st, d) \<and>
    st_TotalUsers st = int (length (db_users d)) \<and>
    (\<forall>p. map_count (st_ByPlan st) p = users_with (\<lambda>r. ur_plan r = p) d) \<and>
    st_TrialCount st = users_with (\<lambda>r. ur_subscription_status r = ''trialing'') d \<and>
    fval (st_ActiveMRR st) =
      real_of_int (15 * users_with (\<lambda>r. ur_plan r = plan_Pro \<and> ur_subscription_status r = ''active'') d +
                   99 * users_with (\<lambda>r. ur_plan r = plan_Max \<and> ur_subscription_status r = ''active'') d) \<and>
    length (st_SignupsByDay st) = 31"
proof -
  let ?us = "db_users d" and ?cs = "groups (db_users d)"
  define st where "st = foldl count_group no_stats ?cs"
  obtain days where days: "run_state (UserRepo_SignupsByDay signupTrendDays) d = (Inr days, d)" "length days = 31"
    using assms(1)
    by (simp add: UserRepo_SignupsByDay_def UserSignupsByDay_def signupTrendDays_def to_int32_def)
  have run: "run_state admin_Stats d = (Inr (st\<lparr>st_SignupsByDay := days\<rparr>), d)"
    using assms(1) days by (simp add: admin_Stats_def run_CountByPlan st_def)
  have zero: "finite64 (float_of_int 0)" "fval (float_of_int 0) = real_of_int 0"
    using float_of_int_exact [of 0] by simp_all
  let ?pro = "\<lambda>r. ur_plan r = plan_Pro \<and> ur_subscription_status r = ''active''"
  let ?max = "\<lambda>r. ur_plan r = plan_Max \<and> ur_subscription_status r = ''active''"
  have rev: "sum_list (map (\<lambda>c. price c * pc_Count c) ?cs) = 15 * users_with ?pro d + 99 * users_with ?max d"
  proof -
    let ?w = "\<lambda>k :: string \<times> string. if snd k = ''active'' then if fst k = plan_Pro then 15 else if fst k = plan_Max then 99 else 0 else (0 :: int)"
    have "sum_list (map (\<lambda>c. price c * pc_Count c) ?cs) = sum_list (map (\<lambda>r. ?w (ur_plan r, ur_subscription_status r)) ?us)"
      using sum_over_groups [of ?w ?us] by (simp add: price_def proPriceUSD_def maxPriceUSD_def cong: if_cong)
    also have "\<dots> = sum_list (map (\<lambda>r. (if ?pro r then 15 else 0) + (if ?max r then 99 else 0)) ?us)"
      by (rule arg_cong [where f = sum_list], rule map_cong) (auto simp: plan_names)
    also have "\<dots> = 15 * users_with ?pro d + 99 * users_with ?max d"
      by (simp add: sum_list_addf sum_weight users_with_def)
    finally show ?thesis .
  qed
  have "length (filter ?pro ?us) + length (filter ?max ?us) \<le> length ?us"
    by (rule filters_disjoint) (simp add: plan_names)
  then have "15 * users_with ?pro d + 99 * users_with ?max d < 2 ^ 53"
    using assms(2) by (simp add: users_with_def)
  then have "fval (st_ActiveMRR st) = real_of_int (15 * users_with ?pro d + 99 * users_with ?max d)"
    using fold_revenue [of no_stats 0 ?cs] zero groups_nonneg unfolding st_def rev
    by (auto simp: no_stats_def)
  moreover have "st_TotalUsers st = int (length ?us)"
    using sum_over_groups [of "\<lambda>_. 1" ?us] by (simp add: st_def fold_counts no_stats_def sum_list_triv)
  moreover have "map_count (st_ByPlan st) p = users_with (\<lambda>r. ur_plan r = p) d" for p
    using sum_over_groups [of "\<lambda>k. if fst k = p then 1 else 0" ?us]
    by (simp add: st_def fold_counts no_stats_def users_with_def sum_indicator)
  moreover have "st_TrialCount st = users_with (\<lambda>r. ur_subscription_status r = ''trialing'') d"
    using sum_over_groups [of "\<lambda>k. if snd k = ''trialing'' then 1 else 0" ?us]
    by (simp add: st_def fold_counts no_stats_def users_with_def sum_indicator)
  ultimately show ?thesis using run days(2) by (intro exI [of _ "st\<lparr>st_SignupsByDay := days\<rparr>"]) simp
qed


theorem stats_exact_witness:
  "\<exists>st. run_state admin_Stats sample_db = (Inr st, sample_db) \<and>
    st_TotalUsers st = int (length (db_users sample_db)) \<and>
    (\<forall>p. map_count (st_ByPlan st) p = users_with (\<lambda>r. ur_plan r = p) sample_db) \<and>
    st_TrialCount st = users_with (\<lambda>r. ur_subscription_status r = ''trialing'') sample_db \<and>
    fval (st_ActiveMRR st) =
      real_of_int (15 * users_with (\<lambda>r. ur_plan r = plan_Pro \<and> ur_subscription_status r = ''active'') sample_db +
                   99 * users_with (\<lambda>r. ur_plan r = plan_Max \<and> ur_subscription_status r = ''active'') sample_db) \<and>
    length (st_SignupsByDay st) = 31"
  by (rule stats_exact) simp_all

section \<open>Ending and granting a subscription by hand\<close>

text \<open>
  C27. Ending a subscription by hand reports success whenever the account exists, but it only
  downgrades an account that never had an order, or one whose order LiqPay agrees to end: when
  LiqPay refuses or cannot be reached, the plan, the status and everything else stay as they
  are, against the promise of the comment that the downgrade happens in any case.
\<close>

theorem cancel_outcome:
  assumes "db_faults d = []" and "user_get i d = Some r"
  shows "run_state (CancelSubscription env s i) d =
    (Inr (),
     if ur_liqpay_order_id r = [] then user_upd i (set_subscription plan_Free [] 0) d
     else case liqpay_Request (be_network env) (bs_liqpay s) (unsubscribe_params (ur_liqpay_order_id r)) of
            Inl _ \<Rightarrow> d
          | Inr _ \<Rightarrow> user_upd i (set_subscription plan_Free ''canceled'' 0) d)"
  using assms by (simp add: run_CancelSubscription)

definition dead_network :: network where
  "dead_network q = Inl (Foreign ''connection refused'')"

lemma dead_refuses: "\<exists>e. liqpay_Request dead_network c params = Inl e"
  by (cases "encode c params") (simp_all add: liqpay_Request_def dead_network_def)

theorem cancel_outcome_witness:
  "run_state (CancelSubscription (sample_env\<lparr>be_network := dead_network\<rparr>) sample_billing 1) pending_db =
    (Inr (), pending_db)"
proof -
  let ?r = "(sample_user 1)\<lparr>ur_subscription_status := ''pending'', ur_liqpay_order_id := sample_order\<rparr>"
  have "user_get 1 pending_db = Some ?r"
    by (simp add: pending_db_def user_get_def sample_user_def)
  moreover obtain e where "liqpay_Request dead_network (bs_liqpay sample_billing) (unsubscribe_params sample_order) = Inl e"
    using dead_refuses by blast
  ultimately show ?thesis
    using cancel_outcome [of pending_db 1 ?r "sample_env\<lparr>be_network := dead_network\<rparr>" sample_billing]
    by (simp add: sample_order_def)
qed

end
