(* ===== verification/Jwt.thy ===== *)
theory Jwt
  imports Go_Base
begin

text \<open>
  \<open>pkg/jwt/jwt.go\<close>, \<open>pkg/adminauth/adminauth.go\<close> and \<open>pkg/passwordhash/passwordhash.go\<close>:
  the program's own part of token handling -- which claims are put in, which are checked --
  over the token library, the identifier's text and bcrypt as parameters.

  A token is parsed with the claims it carries, the family of its signing method and the key to
  check it with; the library also checks the expiry against the time of the call.
\<close>

record claims =
  cl_subject :: string
  cl_user_id :: string
  cl_expires_at :: int
  cl_issued_at :: int

text \<open>
  \<open>jl_sign\<close> is \<open>SignedString\<close> with HS256; \<open>jl_parse\<close> is \<open>ParseWithClaims\<close>: it asks the
  key function (here: given whether the token's method is HMAC) and gives the claims and
  \<open>Valid\<close>. \<open>NewNumericDate\<close> keeps whole seconds.
\<close>

record jwt_lib =
  jl_sign :: "string \<Rightarrow> claims \<Rightarrow> string res"
  jl_parse :: "gotime \<Rightarrow> (bool \<Rightarrow> string res) \<Rightarrow> string \<Rightarrow> (claims \<times> bool) res"
  jl_uuid_String :: "uuid \<Rightarrow> string"
  jl_uuid_Parse :: "string \<Rightarrow> uuid res"

record jwtManager =
  jm_secret :: string
  jm_duration :: duration

definition NumericDate :: "gotime \<Rightarrow> int" where
  "NumericDate t = time_Unix t"

text \<open>The key function: any method that is not HMAC is refused.\<close>

definition hmac_key :: "string \<Rightarrow> bool \<Rightarrow> string res" where
  "hmac_key secret is_hmac =
     (if \<not> is_hmac then Inl (Errorf ''unexpected signing method: %v'' []) else Inr secret)"

definition jwt_Generate :: "jwt_lib \<Rightarrow> jwtManager \<Rightarrow> gotime \<Rightarrow> gotime \<Rightarrow> uuid \<Rightarrow> string res" where
  "jwt_Generate lib m now1 now2 userID =
     jl_sign lib (jm_secret m)
       \<lparr>cl_subject = [], cl_user_id = jl_uuid_String lib userID,
        cl_expires_at = NumericDate (now1 + jm_duration m), cl_issued_at = NumericDate now2\<rparr>"

definition jwt_Verify :: "jwt_lib \<Rightarrow> jwtManager \<Rightarrow> gotime \<Rightarrow> string \<Rightarrow> uuid res" where
  "jwt_Verify lib m now token =
     (case jl_parse lib now (hmac_key (jm_secret m)) token of
        Inl e \<Rightarrow> Inl (Wrap ''parse token'' [] e)
      | Inr (c, valid) \<Rightarrow>
          if \<not> valid then Inl (Errorf ''invalid token claims'' [])
          else (case jl_uuid_Parse lib (cl_user_id c) of
                  Inl e \<Rightarrow> Inl (Wrap ''invalid user id in token'' [] e)
                | Inr userID \<Rightarrow> Inr userID))"

definition admin_subject :: string where "admin_subject = ''admin''"

definition admin_Generate :: "jwt_lib \<Rightarrow> string \<Rightarrow> duration \<Rightarrow> gotime \<Rightarrow> gotime \<Rightarrow> string res" where
  "admin_Generate lib secret dur now1 now2 =
     jl_sign lib secret
       \<lparr>cl_subject = admin_subject, cl_user_id = [], cl_expires_at = NumericDate (now1 + dur),
        cl_issued_at = NumericDate now2\<rparr>"

definition admin_Verify :: "jwt_lib \<Rightarrow> string \<Rightarrow> gotime \<Rightarrow> string \<Rightarrow> unit res" where
  "admin_Verify lib secret now token =
     (case jl_parse lib now (hmac_key secret) token of
        Inl e \<Rightarrow> Inl (Wrap ''parse admin token'' [] e)
      | Inr (c, valid) \<Rightarrow>
          if \<not> valid \<or> cl_subject c \<noteq> admin_subject then Inl (Errorf ''invalid admin token'' []) else Inr ())"

text \<open>bcrypt, and the two functions over it.\<close>

record bcrypt_lib =
  bl_Generate :: "string \<Rightarrow> string res"
  bl_Compare :: "string \<Rightarrow> string \<Rightarrow> unit res"

definition passwordhash_Hash :: "bcrypt_lib \<Rightarrow> string \<Rightarrow> string res" where
  "passwordhash_Hash lib password = (case bl_Generate lib password of Inl e \<Rightarrow> Inl e | Inr h \<Rightarrow> Inr h)"

definition passwordhash_Verify :: "bcrypt_lib \<Rightarrow> string \<Rightarrow> string \<Rightarrow> unit res" where
  "passwordhash_Verify lib h password = bl_Compare lib h password"

section \<open>What the token library promises\<close>

text \<open>
  A token signed with HS256 is parsed back with the key it was signed with while it has not
  expired; the claims come back as they went in; a token is not accepted with another key.
\<close>

definition jwt_contract :: "jwt_lib \<Rightarrow> bool" where
  "jwt_contract lib \<longleftrightarrow>
     (\<forall>k c. \<exists>t. jl_sign lib k c = Inr t \<and>
        (\<forall>now key. jl_parse lib now key t =
           (case key True of
              Inl e \<Rightarrow> Inl e
            | Inr k' \<Rightarrow> if k' \<noteq> k then Inl (Foreign ''signature is invalid'')
                        else if cl_expires_at c \<le> time_Unix now then Inl (Foreign ''token is expired'')
                        else Inr (c, True)))) \<and>
     (\<forall>i. jl_uuid_Parse lib (jl_uuid_String lib i) = Inr i) \<and> (\<exists>e. jl_uuid_Parse lib [] = Inl e)"

lemma jwt_contract_parse:
  assumes "jwt_contract lib" and "jl_sign lib k c = Inr t"
  shows "jl_parse lib now (hmac_key k') t =
    (if k' \<noteq> k then Inl (Foreign ''signature is invalid'')
     else if cl_expires_at c \<le> time_Unix now then Inl (Foreign ''token is expired'') else Inr (c, True))"
proof -
  obtain t' where "jl_sign lib k c = Inr t'" and
    p: "\<And>now key. jl_parse lib now key t' =
           (case key True of
              Inl e \<Rightarrow> Inl e
            | Inr k' \<Rightarrow> if k' \<noteq> k then Inl (Foreign ''signature is invalid'')
                        else if cl_expires_at c \<le> time_Unix now then Inl (Foreign ''token is expired'')
                        else Inr (c, True))"
    using assms(1) unfolding jwt_contract_def by blast
  with assms(2) show ?thesis by (simp add: hmac_key_def)
qed


end
