(* ===== verification/Auth.thy ===== *)
theory Auth
  imports Users Jwt
begin

text \<open>
  Identity: \<open>internal/service/auth/auth.go\<close>. The two verifiers of identity tokens, bcrypt,
  the token library and Unicode's lower-case mapping are fields of \<open>auth_env\<close>; the two clock
  readings of \<open>jwt.Generate\<close> are arguments.
\<close>

section \<open>The service\<close>

definition defaultBaseCurrency :: string where "defaultBaseCurrency = ''UAH''"

record auth_env =
  ae_jwt :: jwt_lib
  ae_bcrypt :: bcrypt_lib
  ae_apple :: "string \<Rightarrow> (string \<times> string) res"
  ae_google :: "string \<Rightarrow> (string \<times> string) res"
  ae_lower :: "string \<Rightarrow> string"

record AuthService =
  au_jwt :: jwtManager
  au_devMode :: bool

record SignInResult =
  si_AccessToken :: string
  si_User :: User

definition normalizeEmail :: "auth_env \<Rightarrow> string \<Rightarrow> string" where
  "normalizeEmail env email = ToLower (ae_lower env) (TrimSpace email)"

text \<open>The end every sign-in shares: \<open>s.jwt.Generate(user.ID)\<close>.\<close>

definition issue_token :: "auth_env \<Rightarrow> AuthService \<Rightarrow> gotime \<Rightarrow> gotime \<Rightarrow> User \<Rightarrow> SignInResult res" where
  "issue_token env s now1 now2 user =
     (case jwt_Generate (ae_jwt env) (au_jwt s) now1 now2 (u_ID user) of
        Inl e \<Rightarrow> Inl (Wrap ''generate access token'' [] e)
      | Inr token \<Rightarrow> Inr \<lparr>si_AccessToken = token, si_User = user\<rparr>)"

definition findOrCreateAndIssueToken ::
  "auth_env \<Rightarrow> AuthService \<Rightarrow> gotime \<Rightarrow> gotime \<Rightarrow> string \<Rightarrow> string \<Rightarrow> SignInResult dbop" where
  "findOrCreateAndIssueToken env s now1 now2 sub email = do {
     r \<leftarrow> UserRepo_GetByAppleSub sub;
     case r of
       Inl e \<Rightarrow>
         if \<not> errors_is e ErrNoRows then ret (Inl (Wrap ''lookup user'' [] e))
         else do {
           r2 \<leftarrow> UserRepo_Create sub email defaultBaseCurrency;
           case r2 of
             Inl e2 \<Rightarrow> ret (Inl (Wrap ''create user'' [] e2))
           | Inr user \<Rightarrow> ret (issue_token env s now1 now2 user) }
     | Inr user \<Rightarrow> ret (issue_token env s now1 now2 user) }"

definition SignInWithApple :: "auth_env \<Rightarrow> AuthService \<Rightarrow> gotime \<Rightarrow> gotime \<Rightarrow> string \<Rightarrow> SignInResult dbop" where
  "SignInWithApple env s now1 now2 identityToken =
     (case ae_apple env identityToken of
        Inl e \<Rightarrow> ret (Inl (Wrap ''verify apple identity token'' [] e))
      | Inr (sub, email) \<Rightarrow> findOrCreateAndIssueToken env s now1 now2 sub email)"

definition DevSignIn :: "auth_env \<Rightarrow> AuthService \<Rightarrow> gotime \<Rightarrow> gotime \<Rightarrow> string \<Rightarrow> SignInResult dbop" where
  "DevSignIn env s now1 now2 deviceID =
     (if \<not> au_devMode s then ret (Inl (Errorf ''dev sign-in is disabled'' []))
      else if deviceID = [] then ret (Inl (Errorf ''device_id is required'' []))
      else findOrCreateAndIssueToken env s now1 now2 (''dev:'' @ deviceID) [])"

definition SignUpWithEmail ::
  "auth_env \<Rightarrow> AuthService \<Rightarrow> gotime \<Rightarrow> gotime \<Rightarrow> string \<Rightarrow> string \<Rightarrow> SignInResult dbop" where
  "SignUpWithEmail env s now1 now2 rawEmail password =
     (let email = normalizeEmail env rawEmail in
      if email = [] \<or> password = [] then ret (Inl (Errorf ''email and password are required'' []))
      else do {
        r \<leftarrow> UserRepo_GetByEmail email;
        case r of
          Inr _ \<Rightarrow> ret (Inl (Errorf ''an account with this email already exists'' []))
        | Inl e \<Rightarrow>
            if \<not> errors_is e ErrNoRows then ret (Inl (Wrap ''lookup user'' [] e))
            else (case passwordhash_Hash (ae_bcrypt env) password of
                    Inl e2 \<Rightarrow> ret (Inl (Wrap ''hash password'' [] e2))
                  | Inr h \<Rightarrow> do {
                      r2 \<leftarrow> UserRepo_CreateWithEmail email h defaultBaseCurrency;
                      case r2 of
                        Inl e3 \<Rightarrow> ret (Inl (Wrap ''create user'' [] e3))
                      | Inr user \<Rightarrow> ret (issue_token env s now1 now2 user) }) })"

definition invalidCredentials :: goerr where
  "invalidCredentials = Errorf ''invalid email or password'' []"

definition SignInWithEmail ::
  "auth_env \<Rightarrow> AuthService \<Rightarrow> gotime \<Rightarrow> gotime \<Rightarrow> string \<Rightarrow> string \<Rightarrow> SignInResult dbop" where
  "SignInWithEmail env s now1 now2 email password = do {
     r \<leftarrow> UserRepo_GetByEmail (normalizeEmail env email);
     case r of
       Inl e \<Rightarrow> ret (Inl (if errors_is e ErrNoRows then invalidCredentials else Wrap ''lookup user'' [] e))
     | Inr user \<Rightarrow>
         if u_PasswordHash user = [] then ret (Inl invalidCredentials)
         else (case passwordhash_Verify (ae_bcrypt env) (u_PasswordHash user) password of
                 Inl _ \<Rightarrow> ret (Inl invalidCredentials)
               | Inr _ \<Rightarrow> ret (issue_token env s now1 now2 user)) }"

definition SignInWithGoogle :: "auth_env \<Rightarrow> AuthService \<Rightarrow> gotime \<Rightarrow> gotime \<Rightarrow> string \<Rightarrow> SignInResult dbop" where
  "SignInWithGoogle env s now1 now2 idToken =
     (case ae_google env idToken of
        Inl e \<Rightarrow> ret (Inl (Wrap ''verify google id token'' [] e))
      | Inr (sub, email) \<Rightarrow> do {
          r \<leftarrow> UserRepo_GetByGoogleSub sub;
          case r of
            Inl e \<Rightarrow>
              if \<not> errors_is e ErrNoRows then ret (Inl (Wrap ''lookup user'' [] e))
              else do {
                r2 \<leftarrow> UserRepo_CreateWithGoogle sub email defaultBaseCurrency;
                case r2 of
                  Inl e2 \<Rightarrow> ret (Inl (Wrap ''create user'' [] e2))
                | Inr user \<Rightarrow> ret (issue_token env s now1 now2 user) }
          | Inr user \<Rightarrow> ret (issue_token env s now1 now2 user) })"

definition Me :: "uuid \<Rightarrow> User dbop" where
  "Me userID = UserRepo_GetByID userID"

section \<open>Settings\<close>

definition validThemes :: "string list" where "validThemes = [''system'', ''light'', ''dark'']"

definition is_hex :: "char \<Rightarrow> bool" where
  "is_hex c \<longleftrightarrow> (let n = of_char c :: nat in (48 \<le> n \<and> n \<le> 57) \<or> (65 \<le> n \<and> n \<le> 70) \<or> (97 \<le> n \<and> n \<le> 102))"

text \<open>\<open>regexp.MatchString(`^#[0-9A-Fa-f]{6}$`, s)\<close>\<close>

definition is_color :: "string \<Rightarrow> bool" where
  "is_color s \<longleftrightarrow> (case s of [] \<Rightarrow> False | c # r \<Rightarrow> c = CHR ''#'' \<and> length r = 6 \<and> list_all is_hex r)"

definition UpdatePreferences :: "uuid \<Rightarrow> string \<Rightarrow> string \<Rightarrow> User dbop" where
  "UpdatePreferences userID theme gradientColor =
     (if theme \<notin> set validThemes then ret (Inl (Errorf ''invalid theme %q'' [theme]))
      else if \<not> is_color gradientColor then ret (Inl (Errorf ''gradientColor must be a #RRGGBB hex value'' []))
      else UserRepo_UpdatePreferences userID theme gradientColor)"

definition validCurrencies :: "string list" where
  "validCurrencies = [''UAH'', ''USD'', ''EUR'', ''GBP'', ''PLN'']"

definition UpdateBaseCurrency :: "uuid \<Rightarrow> string \<Rightarrow> User dbop" where
  "UpdateBaseCurrency userID currency =
     (if currency \<notin> set validCurrencies then ret (Inl (Errorf ''unsupported currency %q'' [currency]))
      else UserRepo_UpdateBaseCurrency userID currency)"

definition maxGoalsLength :: int where "maxGoalsLength = 4000"

definition UpdateGoals :: "uuid \<Rightarrow> string \<Rightarrow> User dbop" where
  "UpdateGoals userID goals =
     (if int (length goals) > maxGoalsLength
      then ret (Inl (Errorf ''goals text is too long (max %d characters)'' [fmt_d maxGoalsLength]))
      else UserRepo_UpdateGoals userID goals)"

definition maxNameLength :: int where "maxNameLength = 80"
definition maxAvatarLength :: int where "maxAvatarLength = 300000"

definition UpdateProfile :: "uuid \<Rightarrow> string \<Rightarrow> string \<Rightarrow> User dbop" where
  "UpdateProfile userID name avatar =
     (if int (length name) > maxNameLength
      then ret (Inl (Errorf ''name is too long (max %d characters)'' [fmt_d maxNameLength]))
      else if int (length avatar) > maxAvatarLength then ret (Inl (Errorf ''avatar image is too large'' []))
      else if avatar \<noteq> [] \<and> \<not> has_prefix avatar ''data:image/''
      then ret (Inl (Errorf ''avatar must be an image data URI'' []))
      else UserRepo_UpdateProfile userID (TrimSpace name) avatar)"

lemmas auth_defs =
  findOrCreateAndIssueToken_def SignInWithApple_def DevSignIn_def SignUpWithEmail_def SignInWithEmail_def
  SignInWithGoogle_def Me_def UpdatePreferences_def UpdateBaseCurrency_def UpdateGoals_def UpdateProfile_def

lemma auth_keeps_users [hr]:
  "keeps users_wf (SignInWithApple env s t t' x)" "keeps users_wf (DevSignIn env s t t' x)"
  "keeps users_wf (SignUpWithEmail env s t t' x y)" "keeps users_wf (SignInWithEmail env s t t' x y)"
  "keeps users_wf (SignInWithGoogle env s t t' x)" "keeps users_wf (Me i)"
  "keeps users_wf (UpdatePreferences i x y)" "keeps users_wf (UpdateBaseCurrency i x)"
  "keeps users_wf (UpdateGoals i x)" "keeps users_wf (UpdateProfile i x y)"
  by (auto simp: auth_defs Let_def intro!: hr)

section \<open>Settings stay valid\<close>

text \<open>
  What the checks above are for: the settings of every account are ones the clients can show.
\<close>

definition settings_ok :: "user_row \<Rightarrow> bool" where
  "settings_ok r \<longleftrightarrow>
     ur_theme r \<in> set validThemes \<and> is_color (ur_gradient_color r) \<and> ur_base_currency r \<in> set validCurrencies \<and>
     int (length (ur_goals r)) \<le> maxGoalsLength \<and> int (length (ur_name r)) \<le> maxNameLength \<and>
     int (length (ur_avatar r)) \<le> maxAvatarLength \<and>
     (ur_avatar r = [] \<or> has_prefix (ur_avatar r) ''data:image/'')"

definition all_settings_ok :: "db \<Rightarrow> bool" where
  "all_settings_ok d \<longleftrightarrow> (\<forall>r \<in> set (db_users d). settings_ok r)"

lemma fault_free_settings [simp]: "fault_free all_settings_ok"
  by (simp add: fault_free_def all_settings_ok_def)

lemma settings_blank:
  "settings_ok ((blank_user d)\<lparr>ur_apple_sub := a, ur_email := e, ur_base_currency := ''UAH''\<rparr>)"
  "settings_ok ((blank_user d)\<lparr>ur_email := e, ur_password_hash := h, ur_base_currency := ''UAH''\<rparr>)"
  "settings_ok ((blank_user d)\<lparr>ur_google_sub := a, ur_email := e, ur_base_currency := ''UAH''\<rparr>)"
  by (simp_all add: settings_ok_def blank_user_def validThemes_def is_color_def is_hex_def validCurrencies_def
      maxGoalsLength_def maxNameLength_def maxAvatarLength_def)

lemma settings_insert: "all_settings_ok d \<Longrightarrow> settings_ok r \<Longrightarrow> all_settings_ok (snd (user_insert r d))"
  by (auto simp: all_settings_ok_def user_insert_def bump_def split: option.splits)

lemma settings_upd:
  "all_settings_ok d \<Longrightarrow> (\<And>r. settings_ok r \<Longrightarrow> settings_ok (f r)) \<Longrightarrow> all_settings_ok (user_upd i f d)"
  using ball_update_by [of "db_users d" settings_ok ur_id i f]
  by (simp add: all_settings_ok_def user_upd_def)

lemma length_strip_left: "length (strip_left seqs bs) \<le> length bs"
proof (induction seqs bs rule: strip_left.induct)
  case (1 seqs bs)
  then show ?case by (subst strip_left.simps) (auto intro: le_trans)
qed

lemma length_TrimSpace: "length (TrimSpace s) \<le> length s"
  using length_strip_left [of "map rev space_seqs" "rev (strip_left space_seqs (bytes_of s))"]
    length_strip_left [of space_seqs "bytes_of s"]
  by (simp add: TrimSpace_def string_of_bytes_def bytes_of_def)

lemma settings_reads [hr]:
  "keeps all_settings_ok (UserRepo_GetByID i)" "keeps all_settings_ok (UserRepo_GetByEmail x)"
  "keeps all_settings_ok (UserRepo_GetByAppleSub x)" "keeps all_settings_ok (UserRepo_GetByGoogleSub x)"
  by (auto simp: user_repo user_queries intro!: keeps_as_user keeps_read)

lemma settings_creates [hr]:
  "keeps all_settings_ok (UserRepo_Create x y defaultBaseCurrency)"
  "keeps all_settings_ok (UserRepo_CreateWithEmail x y defaultBaseCurrency)"
  "keeps all_settings_ok (UserRepo_CreateWithGoogle x y defaultBaseCurrency)"
  by (auto simp: user_repo user_inserts defaultBaseCurrency_def
      intro!: keeps_as_user keeps_stmt settings_insert settings_blank)

lemma settings_updates:
  "theme \<in> set validThemes \<Longrightarrow> is_color c \<Longrightarrow> keeps all_settings_ok (UserRepo_UpdatePreferences i theme c)"
  "cur \<in> set validCurrencies \<Longrightarrow> keeps all_settings_ok (UserRepo_UpdateBaseCurrency i cur)"
  "int (length g) \<le> maxGoalsLength \<Longrightarrow> keeps all_settings_ok (UserRepo_UpdateGoals i g)"
  "int (length n) \<le> maxNameLength \<Longrightarrow> int (length a) \<le> maxAvatarLength \<Longrightarrow>
    a = [] \<or> has_prefix a ''data:image/'' \<Longrightarrow> keeps all_settings_ok (UserRepo_UpdateProfile i n a)"
  by (auto simp: user_repo user_updates settings_ok_def intro!: keeps_as_user keeps_stmt settings_upd)

lemma auth_keeps_settings [hr]:
  "keeps all_settings_ok (SignInWithApple env s t t' x)" "keeps all_settings_ok (DevSignIn env s t t' x)"
  "keeps all_settings_ok (SignUpWithEmail env s t t' x y)" "keeps all_settings_ok (SignInWithEmail env s t t' x y)"
  "keeps all_settings_ok (SignInWithGoogle env s t t' x)" "keeps all_settings_ok (Me i)"
  "keeps all_settings_ok (UpdatePreferences i x y)" "keeps all_settings_ok (UpdateBaseCurrency i x)"
  "keeps all_settings_ok (UpdateGoals i x)"
  by (auto simp: auth_defs Let_def intro!: hr settings_updates)

lemma profile_keeps_settings [hr]: "keeps all_settings_ok (UpdateProfile i x y)"
proof -
  have "int (length (TrimSpace x)) \<le> maxNameLength" if "int (length x) \<le> maxNameLength"
    using length_TrimSpace [of x] that by linarith
  then show ?thesis
    unfolding UpdateProfile_def by (intro hr settings_updates) auto
qed

definition auth_inv :: "db \<Rightarrow> bool" where
  "auth_inv d \<longleftrightarrow> all_settings_ok d \<and> users_wf d"

lemma auth_keeps_inv:
  "keeps auth_inv (SignInWithApple env s t t' x)" "keeps auth_inv (DevSignIn env s t t' x)"
  "keeps auth_inv (SignUpWithEmail env s t t' x y)" "keeps auth_inv (SignInWithEmail env s t t' x y)"
  "keeps auth_inv (SignInWithGoogle env s t t' x)" "keeps auth_inv (UpdatePreferences i x y)"
  "keeps auth_inv (UpdateBaseCurrency i x)" "keeps auth_inv (UpdateGoals i x)" "keeps auth_inv (UpdateProfile i x y)"
  unfolding auth_inv_def by (intro keeps_conj hr)+

lemma issue_token_ok:
  assumes "\<And>c. \<exists>t. jl_sign (ae_jwt env) (jm_secret (au_jwt s)) c = Inr t"
  shows "\<exists>k. issue_token env s t1 t2 u = Inr k \<and> si_User k = u"
proof -
  obtain t where "jwt_Generate (ae_jwt env) (au_jwt s) t1 t2 (u_ID u) = Inr t"
    using assms unfolding jwt_Generate_def by blast
  then show ?thesis by (simp add: issue_token_def)
qed

end
