(* ===== verification/Auth_Properties.thy ===== *)
theory Auth_Properties
  imports Auth Samples
begin

text \<open>
  The properties of sign-up and sign-in: what a password sign-in answers and hides, that an
  account made by sign-up can sign in, that a provider's subject finds the same account again,
  and that the settings of every account stay valid.
\<close>

section \<open>Look-ups\<close>

definition user_by_email :: "string \<Rightarrow> db \<Rightarrow> user_row option" where
  "user_by_email e d = (if e = [] then None else List.find (\<lambda>r. ur_email r = Some e) (db_users d))"

definition user_by_apple :: "string \<Rightarrow> db \<Rightarrow> user_row option" where
  "user_by_apple sub d = (if sub = [] then None else List.find (\<lambda>r. ur_apple_sub r = Some sub) (db_users d))"

lemma query_nullable:
  "query_one (\<lambda>r. sql_eq (f r) (TextFromString x)) rs =
    (if x = [] then Inl ErrNoRows
     else case List.find (\<lambda>r. f r = Some x) rs of None \<Rightarrow> Inl ErrNoRows | Some r \<Rightarrow> Inr r)"
proof (cases "x = []")
  case True
  have "List.find (\<lambda>_. False) rs = None" for rs :: "'a list" by (induction rs) auto
  with True show ?thesis by (simp add: query_one_def TextFromString_def)
next
  case False
  have "(\<lambda>r. sql_eq (f r) (Some x)) = (\<lambda>r. f r = Some x)" by (auto simp: sql_eq_iff)
  with False show ?thesis by (simp add: query_one_def TextFromString_def)
qed

lemma run_GetByEmail:
  "db_faults d = [] \<Longrightarrow> run_state (UserRepo_GetByEmail e) d =
    (case user_by_email e d of None \<Rightarrow> Inl ErrNoRows | Some r \<Rightarrow> Inr (userFromRow r), d)"
  by (auto simp: UserRepo_GetByEmail_def UserGetByEmail_def query_nullable user_by_email_def split: option.splits)

lemma run_GetByAppleSub:
  "db_faults d = [] \<Longrightarrow> run_state (UserRepo_GetByAppleSub sub) d =
    (case user_by_apple sub d of None \<Rightarrow> Inl ErrNoRows | Some r \<Rightarrow> Inr (userFromRow r), d)"
  by (auto simp: UserRepo_GetByAppleSub_def UserGetByAppleSub_def query_nullable user_by_apple_def split: option.splits)

lemma run_user_insert:
  "db_faults d = [] \<Longrightarrow> run_state (as_user (stmt (\<lambda>d. user_insert (mk d) d))) d =
    (case user_conflict (mk d) (db_users d) of
       Some c \<Rightarrow> (Inl (unique_violation c), d)
     | None \<Rightarrow> (Inr (userFromRow (mk d)), bump (d\<lparr>db_users := db_users d @ [mk d]\<rparr>)))"
  by (auto simp: user_insert_def split: option.splits)

lemma find_append_new:
  "List.find P rs = None \<Longrightarrow> P r \<Longrightarrow> List.find P (rs @ [r]) = Some r"
  by (induction rs) auto

definition email_row :: "db \<Rightarrow> string \<Rightarrow> string \<Rightarrow> user_row" where
  "email_row d e h =
     (blank_user d)\<lparr>ur_email := TextFromString e, ur_password_hash := TextFromString h, ur_base_currency := ''UAH''\<rparr>"

definition apple_row :: "db \<Rightarrow> string \<Rightarrow> string \<Rightarrow> user_row" where
  "apple_row d sub e =
     (blank_user d)\<lparr>ur_apple_sub := TextFromString sub, ur_email := TextFromString e, ur_base_currency := ''UAH''\<rparr>"

lemma run_CreateWithEmail:
  "db_faults d = [] \<Longrightarrow> run_state (UserRepo_CreateWithEmail e h defaultBaseCurrency) d =
    (case user_conflict (email_row d e h) (db_users d) of
       Some c \<Rightarrow> (Inl (unique_violation c), d)
     | None \<Rightarrow> (Inr (userFromRow (email_row d e h)), bump (d\<lparr>db_users := db_users d @ [email_row d e h]\<rparr>)))"
  unfolding UserRepo_CreateWithEmail_def UserCreateWithEmail_def defaultBaseCurrency_def email_row_def
  by (rule run_user_insert)

lemma run_Create:
  "db_faults d = [] \<Longrightarrow> run_state (UserRepo_Create sub e defaultBaseCurrency) d =
    (case user_conflict (apple_row d sub e) (db_users d) of
       Some c \<Rightarrow> (Inl (unique_violation c), d)
     | None \<Rightarrow> (Inr (userFromRow (apple_row d sub e)), bump (d\<lparr>db_users := db_users d @ [apple_row d sub e]\<rparr>)))"
  unfolding UserRepo_Create_def UserCreate_def defaultBaseCurrency_def apple_row_def
  by (rule run_user_insert)

section \<open>Password sign-in\<close>

text \<open>
  C12. Sign-in with a password never tells which part was wrong: on a database that answers an
  unknown address, an account without a password and a wrong password all give the same error,
  and no attempt changes the database; only the right password of an existing account yields
  a token, for that account.
\<close>

theorem signin_uniform:
  assumes "db_faults d = []"
  shows "run_state (SignInWithEmail env s now1 now2 email password) d =
    (case (if normalizeEmail env email = [] then None
           else List.find (\<lambda>r. ur_email r = Some (normalizeEmail env email)) (db_users d)) of
       None \<Rightarrow> Inl (Errorf ''invalid email or password'' [])
     | Some r \<Rightarrow>
         (case ur_password_hash r of
            None \<Rightarrow> Inl (Errorf ''invalid email or password'' [])
          | Some h \<Rightarrow>
              if h = [] \<or> is_err (bl_Compare (ae_bcrypt env) h password)
              then Inl (Errorf ''invalid email or password'' [])
              else issue_token env s now1 now2 (userFromRow r)), d)"
  using assms
  by (auto simp: SignInWithEmail_def run_GetByEmail user_by_email_def invalidCredentials_def
      passwordhash_Verify_def is_err_def split: option.splits sum.splits)

definition sample_bcrypt :: bcrypt_lib where
  "sample_bcrypt =
     \<lparr>bl_Generate = (\<lambda>p. Inr (CHR ''$'' # p)),
      bl_Compare = (\<lambda>h p. if h = CHR ''$'' # p then Inr () else Inl (Foreign ''mismatch''))\<rparr>"

definition sample_auth :: auth_env where
  "sample_auth =
     \<lparr>ae_jwt = \<lparr>jl_sign = (\<lambda>k c. Inr (k @ cl_user_id c)), jl_parse = (\<lambda>now key t. Inl (Foreign ''x'')),
                jl_uuid_String = uuid_hex, jl_uuid_Parse = (\<lambda>t. Inl (Foreign ''x''))\<rparr>,
      ae_bcrypt = sample_bcrypt, ae_apple = (\<lambda>t. Inr (t, [])), ae_google = (\<lambda>t. Inr (t, [])), ae_lower = id\<rparr>"

definition sample_auth_service :: AuthService where
  "sample_auth_service = \<lparr>au_jwt = \<lparr>jm_secret = ''k'', jm_duration = 720 * time_Hour\<rparr>, au_devMode = False\<rparr>"

lemma sample_auth_fields [simp]:
  "ae_bcrypt sample_auth = sample_bcrypt" "bl_Generate sample_bcrypt p = Inr (CHR ''$'' # p)"
  "bl_Compare sample_bcrypt (CHR ''$'' # p) p = Inr ()"
  by (simp_all add: sample_auth_def sample_bcrypt_def)

theorem signin_uniform_witness:
  "run_state (SignInWithEmail sample_auth sample_auth_service 5 6 ''nobody'' ''pw'') empty_db =
    (Inl (Errorf ''invalid email or password'' []), empty_db)"
  by (subst signin_uniform) (simp_all add: empty_db_def)

text \<open>
  C13. Who signs up can sign in: after a sign-up with a free address on a database that answers,
  signing in with any spelling that normalises to the same address and the same password gives a
  token for the account just created, which is new.
\<close>

theorem signup_then_signin:
  assumes "db_faults d = []" and "normalizeEmail env email \<noteq> []" and "password \<noteq> []"
    and "normalizeEmail env email' = normalizeEmail env email"
    and "\<forall>r \<in> set (db_users d). ur_email r \<noteq> Some (normalizeEmail env email)"
    and "next_id d \<notin> set (map ur_id (db_users d))"
    and "bl_Generate (ae_bcrypt env) password = Inr h" and "h \<noteq> []"
    and "bl_Compare (ae_bcrypt env) h password = Inr ()"
    and "\<And>c. \<exists>t. jl_sign (ae_jwt env) (jm_secret (au_jwt s)) c = Inr t"
  shows "\<exists>a b. result (SignUpWithEmail env s t1 t2 email password) d = Inr a \<and>
    result (SignInWithEmail env s t3 t4 email' password) (exec (SignUpWithEmail env s t1 t2 email password) d) = Inr b \<and>
    u_ID (si_User a) = next_id d \<and> u_ID (si_User b) = next_id d"
proof -
  let ?e = "normalizeEmail env email"
  let ?row = "email_row d ?e h"
  let ?d = "bump (d\<lparr>db_users := db_users d @ [?row]\<rparr>)"
  have none: "List.find (\<lambda>r. ur_email r = Some ?e) (db_users d) = None"
    using assms(5) by (auto simp: find_None_iff)
  have row: "ur_email ?row = Some ?e" "ur_password_hash ?row = Some h" "ur_id ?row = next_id d"
    using assms(2,8) by (simp_all add: email_row_def TextFromString_def blank_user_def)
  have free: "user_conflict ?row (db_users d) = None"
    using assms(2,5,6) by (auto simp: user_conflict_def email_row_def blank_user_def TextFromString_def
        indexed_email_def sql_eq_iff split: option.splits if_splits)
  obtain k1 k2 where k: "issue_token env s t1 t2 (userFromRow ?row) = Inr k1" "u_ID (si_User k1) = next_id d"
    "issue_token env s t3 t4 (userFromRow ?row) = Inr k2" "u_ID (si_User k2) = next_id d"
    using issue_token_ok [OF assms(10), of t1 t2 "userFromRow ?row"]
      issue_token_ok [OF assms(10), of t3 t4 "userFromRow ?row"] row(3) by auto
  have up: "run_state (SignUpWithEmail env s t1 t2 email password) d = (Inr k1, ?d)"
    using assms(1,2,3,7) none free k(1)
    by (simp add: SignUpWithEmail_def Let_def run_GetByEmail user_by_email_def run_CreateWithEmail
        passwordhash_Hash_def)
  have "List.find (\<lambda>r. ur_email r = Some ?e) (db_users ?d) = Some ?row"
    using find_append_new [OF none, of ?row] row(1) by (simp add: bump_def)
  moreover have "db_faults ?d = []" using assms(1) by (simp add: bump_def)
  ultimately have "run_state (SignInWithEmail env s t3 t4 email' password) ?d = (Inr k2, ?d)"
    using assms(2,4,8,9) row(2) k(3)
    by (simp add: SignInWithEmail_def run_GetByEmail user_by_email_def passwordhash_Verify_def)
  with up k show ?thesis by auto
qed

theorem signup_then_signin_witness:
  "\<exists>a b. result (SignUpWithEmail sample_auth sample_auth_service 5 6 '' A@b '' ''pw'') empty_db = Inr a \<and>
    result (SignInWithEmail sample_auth sample_auth_service 7 8 ''a@b'' ''pw'')
      (exec (SignUpWithEmail sample_auth sample_auth_service 5 6 '' A@b '' ''pw'') empty_db) = Inr b \<and>
    u_ID (si_User a) = next_id empty_db \<and> u_ID (si_User b) = next_id empty_db"
proof -
  have "normalizeEmail sample_auth '' A@b '' = ''a@b''" "normalizeEmail sample_auth ''a@b'' = ''a@b''"
    by code_simp+
  then show ?thesis
    by (intro signup_then_signin [where h = "''$pw''"])
      (simp_all add: empty_db_def sample_auth_def sample_bcrypt_def)
qed

section \<open>Provider sign-in\<close>

text \<open>
  Sign in with Apple is tied to the subject, not to the device: after a successful sign-in,
  any identity token of the same (non-empty) subject, with whatever e-mail, signs in to the same
  account and leaves the database as it is, so no second account appears.
\<close>

theorem apple_same_account:
  assumes "db_faults d = []" and "sub \<noteq> []"
    and "ae_apple env token = Inr (sub, email)" and "ae_apple env token' = Inr (sub, email')"
    and "result (SignInWithApple env s t1 t2 token) d = Inr a"
    and "\<And>c. \<exists>t. jl_sign (ae_jwt env) (jm_secret (au_jwt s)) c = Inr t"
  shows "\<exists>b. run_state (SignInWithApple env s t3 t4 token') (exec (SignInWithApple env s t1 t2 token) d) =
      (Inr b, exec (SignInWithApple env s t1 t2 token) d) \<and> u_ID (si_User b) = u_ID (si_User a)"
proof -
  let ?d = "exec (SignInWithApple env s t1 t2 token) d"
  have "\<exists>r. db_faults ?d = [] \<and> user_by_apple sub ?d = Some r \<and> u_ID (si_User a) = ur_id r"
  proof (cases "user_by_apple sub d")
    case (Some r)
    then show ?thesis
      using assms(1,3,5)
      by (auto simp: SignInWithApple_def findOrCreateAndIssueToken_def run_GetByAppleSub issue_token_def
          split: sum.splits)
  next
    case None
    let ?row = "apple_row d sub email"
    have "user_conflict ?row (db_users d) = None"
      using assms(1,3,5) None
      by (auto simp: SignInWithApple_def findOrCreateAndIssueToken_def run_GetByAppleSub run_Create
          split: option.splits)
    then have up: "?d = bump (d\<lparr>db_users := db_users d @ [?row]\<rparr>)" "u_ID (si_User a) = ur_id ?row"
      using assms(1,3,5) None
      by (auto simp: SignInWithApple_def findOrCreateAndIssueToken_def run_GetByAppleSub run_Create issue_token_def
          split: sum.splits)
    have "List.find (\<lambda>r. ur_apple_sub r = Some sub) (db_users d) = None"
      using None assms(2) by (simp add: user_by_apple_def)
    moreover have "ur_apple_sub ?row = Some sub" using assms(2) by (simp add: apple_row_def TextFromString_def)
    ultimately have "user_by_apple sub ?d = Some ?row"
      using assms(2) by (simp add: up(1) user_by_apple_def bump_def find_append_new)
    with up assms(1) show ?thesis by (simp add: bump_def)
  qed
  then obtain r where r: "db_faults ?d = []" "user_by_apple sub ?d = Some r" "u_ID (si_User a) = ur_id r"
    by blast
  obtain b where b: "issue_token env s t3 t4 (userFromRow r) = Inr b" "u_ID (si_User b) = ur_id r"
    using issue_token_ok [OF assms(6), of t3 t4 "userFromRow r"] by auto
  have "run_state (SignInWithApple env s t3 t4 token') ?d = (Inr b, ?d)"
    using assms(4) r b by (simp add: SignInWithApple_def findOrCreateAndIssueToken_def run_GetByAppleSub)
  with b r show ?thesis by auto
qed

theorem apple_same_account_witness:
  "\<exists>a b. result (SignInWithApple sample_auth sample_auth_service 5 6 ''sub'') empty_db = Inr a \<and>
    run_state (SignInWithApple sample_auth sample_auth_service 7 8 ''sub'')
      (exec (SignInWithApple sample_auth sample_auth_service 5 6 ''sub'') empty_db) =
    (Inr b, exec (SignInWithApple sample_auth sample_auth_service 5 6 ''sub'') empty_db) \<and>
    u_ID (si_User b) = u_ID (si_User a)"
proof -
  have ap: "ae_apple sample_auth ''sub'' = Inr (''sub'', [])"
    and sg: "\<exists>t. jl_sign (ae_jwt sample_auth) (jm_secret (au_jwt sample_auth_service)) c = Inr t" for c
    by (simp_all add: sample_auth_def)
  have "user_conflict (apple_row empty_db ''sub'' []) (db_users empty_db) = None" by code_simp
  then have "\<exists>a. result (SignInWithApple sample_auth sample_auth_service 5 6 ''sub'') empty_db = Inr a"
    using issue_token_ok [OF sg, of 5 6 "userFromRow (apple_row empty_db ''sub'' [])"]
    by (auto simp: SignInWithApple_def findOrCreateAndIssueToken_def run_GetByAppleSub run_Create ap
        user_by_apple_def empty_db_def)
  then obtain a where a: "result (SignInWithApple sample_auth sample_auth_service 5 6 ''sub'') empty_db = Inr a" ..
  from apple_same_account [OF _ _ ap ap a sg, of 7 8] a show ?thesis by auto
qed

section \<open>Settings\<close>

text \<open>
  Everything that can happen to the accounts through the identity service, in any order, with any
  arguments and failures.
\<close>

inductive auth_reach :: "auth_env \<Rightarrow> AuthService \<Rightarrow> db \<Rightarrow> bool" for env s where
  start: "db_users d = [] \<Longrightarrow> auth_reach env s d"
| world: "auth_reach env s d \<Longrightarrow> auth_reach env s (d\<lparr>db_faults := fs, db_clock := t\<rparr>)"
| apple: "auth_reach env s d \<Longrightarrow> auth_reach env s (exec (SignInWithApple env s t1 t2 x) d)"
| dev: "auth_reach env s d \<Longrightarrow> auth_reach env s (exec (DevSignIn env s t1 t2 x) d)"
| google: "auth_reach env s d \<Longrightarrow> auth_reach env s (exec (SignInWithGoogle env s t1 t2 x) d)"
| signup: "auth_reach env s d \<Longrightarrow> auth_reach env s (exec (SignUpWithEmail env s t1 t2 x y) d)"
| signin: "auth_reach env s d \<Longrightarrow> auth_reach env s (exec (SignInWithEmail env s t1 t2 x y) d)"
| prefs: "auth_reach env s d \<Longrightarrow> auth_reach env s (exec (UpdatePreferences i x y) d)"
| currency: "auth_reach env s d \<Longrightarrow> auth_reach env s (exec (UpdateBaseCurrency i x) d)"
| goals: "auth_reach env s d \<Longrightarrow> auth_reach env s (exec (UpdateGoals i x) d)"
| profile: "auth_reach env s d \<Longrightarrow> auth_reach env s (exec (UpdateProfile i x y) d)"

lemma auth_reach_inv: "auth_reach env s d \<Longrightarrow> auth_inv d"
proof (induction rule: auth_reach.induct)
  case (start d)
  then show ?case by (simp add: auth_inv_def all_settings_ok_def users_wf_def)
next
  case (world d fs t)
  then show ?case by (simp add: auth_inv_def all_settings_ok_def users_wf_def)
qed (rule hoareD, rule auth_keeps_inv, assumption)+

text \<open>
  C14. The settings of every account are ones the clients can show: in every database the identity
  service can reach, a theme is one of the three, a colour is \<open>#RRGGBB\<close>, a currency is one of
  the five, goals, names and avatars are within their limits and an avatar is an image URI; and
  no two accounts share an identifier, a provider subject or an e-mail address.
\<close>

theorem reachable_settings:
  assumes "auth_reach env s d" and "r \<in> set (db_users d)"
  shows "ur_theme r \<in> {''system'', ''light'', ''dark''} \<and>
    length (ur_gradient_color r) = 7 \<and> hd (ur_gradient_color r) = CHR ''#'' \<and>
    list_all is_hex (tl (ur_gradient_color r)) \<and>
    ur_base_currency r \<in> {''UAH'', ''USD'', ''EUR'', ''GBP'', ''PLN''} \<and>
    length (ur_goals r) \<le> 4000 \<and> length (ur_name r) \<le> 80 \<and> length (ur_avatar r) \<le> 300000 \<and>
    (ur_avatar r = [] \<or> (\<exists>rest. ur_avatar r = ''data:image/'' @ rest)) \<and>
    (\<forall>r' \<in> set (db_users d). ur_email r' = ur_email r \<and> ur_email r \<notin> {None, Some []} \<longrightarrow> ur_id r' = ur_id r)"
proof -
  have inv: "settings_ok r" "users_wf d"
    using auth_reach_inv [OF assms(1)] assms(2) by (auto simp: auth_inv_def all_settings_ok_def)
  have prefix: "has_prefix a p \<Longrightarrow> \<exists>rest. a = p @ rest" for a p :: string
    by (metis append_take_drop_id has_prefix_def)
  have "ur_id r' = ur_id r"
    if m: "r' \<in> set (db_users d)" "ur_email r' = ur_email r" and n: "ur_email r \<notin> {None, Some []}" for r'
  proof -
    obtain e where e: "ur_email r = Some e" "e \<noteq> []" using n by auto
    have *: "distinct (somes indexed_email (db_users d))" using inv(2) by (simp add: users_wf_def)
    have "indexed_email r = Some e" "indexed_email r' = Some e" using m(2) e by (simp_all add: indexed_email_def)
    with find_somes_distinct [OF *] assms(2) m(1) show ?thesis by (metis option.inject)
  qed
  with inv(1) show ?thesis
    by (cases "ur_gradient_color r")
      (auto simp: settings_ok_def validThemes_def is_color_def validCurrencies_def maxGoalsLength_def
        maxNameLength_def maxAvatarLength_def dest: prefix)
qed

theorem reachable_settings_witness:
  "let d = exec (SignUpWithEmail sample_auth sample_auth_service 5 6 ''a@b'' ''pw'') empty_db in
   \<forall>r \<in> set (db_users d). length (ur_gradient_color r) = 7"
proof -
  have "auth_reach sample_auth sample_auth_service
      (exec (SignUpWithEmail sample_auth sample_auth_service 5 6 ''a@b'' ''pw'') empty_db)"
    by (intro auth_reach.intros) (simp add: empty_db_def)
  from reachable_settings [OF this] show ?thesis by (simp add: Let_def)
qed

end
