(* ===== verification/Billing_Properties.thy ===== *)
theory Billing_Properties
  imports Samples
begin

text \<open>
  The properties of the subscription flow, each with an input on which its hypotheses hold:
  order identifiers, authentication and audit of callbacks, the effect of every operation, and
  the invariants of all reachable databases.
\<close>

lemma uuid_hex_sep: "\<forall>j. CHR ''.'' \<notin> set (uuid_hex j)"
  using uuid_hex_text by (simp add: uuid_text_def)

section \<open>Orders and callbacks\<close>

text \<open>
  C9. An order identifier round-trips: \<open>parseOrderID\<close> gives back the flow and the plan that
  \<open>orderID\<close> put in, as long as neither they nor the printed user contain the separator.
\<close>

theorem order_roundtrip:
  assumes "CHR ''.'' \<notin> set flow" and "CHR ''.'' \<notin> set planName" and "CHR ''.'' \<notin> set (uuid_String userID)"
  shows "parseOrderID (orderID uuid_String now flow planName userID) = Some (flow, planName)"
  using assms by (simp add: parseOrderID_def split_orderID)

theorem order_roundtrip_witness:
  "parseOrderID (orderID uuid_hex (time_of_unix 1700000000) ''trial'' ''max'' 7) = Some (''trial'', ''max'')"
  by (rule order_roundtrip) (simp_all add: uuid_hex_sep)

text \<open>
  An order belongs to one user: the orders the service makes for two users (any plan it
  sells, any time) are different, so a callback cannot reach the wrong account.
\<close>

theorem order_owner:
  assumes "inj uuid_String" and "\<forall>j. CHR ''.'' \<notin> set (uuid_String j)"
    and "planPrice p = Some price \<and> flow = ''direct'' \<or> p = plan_Max \<and> flow = ''trial''"
    and "planPrice p' = Some price' \<and> flow' = ''direct'' \<or> p' = plan_Max \<and> flow' = ''trial''"
    and "i \<noteq> i'"
  shows "orderID uuid_String now flow p i \<noteq> orderID uuid_String now' flow' p' i'"
proof -
  have "sold flow p" "sold flow' p'"
    using assms(3,4) planPrice_sold by (auto simp: sold_def)
  then show ?thesis
    using orderID_user [of uuid_String flow p flow' p' now i now' i'] assms(1,2,5) by (auto simp: uuid_text_def)
qed

theorem order_owner_witness:
  "orderID uuid_hex 0 ''direct'' ''pro'' 1 \<noteq> orderID uuid_hex 0 ''trial'' ''max'' 2"
  by (rule order_owner [where price = "float_of_int 15" and price' = "float_of_int 99"])
    (use uuid_hex_text in \<open>simp_all add: uuid_text_def planPrice_def plan_names proPlanPriceUSD_def\<close>)

text \<open>
  C1. A forged callback is rejected before anything is read or written: with a signature that
  is not the merchant's over these very bytes, \<open>HandleCallback\<close> fails and the database,
  including its schedule of failures, is the same.
\<close>

theorem forged_callback_rejected:
  assumes "rawSignature \<noteq> Sign (bs_liqpay s) rawData"
  shows "run_state (HandleCallback env s rawData rawSignature) d =
    (Inl (Wrap ''verify callback signature'' [] (Errorf ''invalid liqpay callback signature'' [])), d)"
  using assms by (simp add: HandleCallback_def VerifyAndDecode_def)

theorem forged_callback_rejected_witness:
  "run_state (HandleCallback sample_env sample_billing ''data'' (Sign sample_client ''data'' @ ''x'')) pending_db =
    (Inl (Wrap ''verify callback signature'' [] (Errorf ''invalid liqpay callback signature'' [])), pending_db)"
  by (rule forged_callback_rejected) (simp add: sample_billing_def)

text \<open>
  C7. Every change a callback makes to an account is on record: under any failures, after
  \<open>HandleCallback\<close> either the users table is what it was, or exactly one payment event was
  appended, carrying the order and the status of the verified callback.
\<close>

theorem callback_audited:
  "let d' = exec (HandleCallback env s rawData rawSignature) d in
   db_users d' = db_users d \<or>
   (\<exists>cb row. VerifyAndDecode (bs_liqpay s) rawData rawSignature = Inr cb \<and>
      db_payments d' = db_payments d @ [row] \<and> pr_order_id row = cb_OrderID cb \<and> pr_status row = cb_Status cb)"
proof (cases "VerifyAndDecode (bs_liqpay s) rawData rawSignature")
  case (Inl e)
  then show ?thesis by (simp add: Let_def HandleCallback_def)
next
  case (Inr cb)
  let ?Q = "\<lambda>_ d'. db_users d' = db_users d \<or> (\<exists>row. db_payments d' = db_payments d @ [row] \<and>
    pr_order_id row = cb_OrderID cb \<and> pr_status row = cb_Status cb)"
  have pay: "keeps (\<lambda>e. db_payments e = ps) (apply_status u flow p st)" for ps u flow p st
    by (auto simp: apply_status_def UserRepo_UpdateSubscription_def UserUpdateSubscription_def user_upd_def
        fault_free_def intro!: hr keeps_stmt)
  have fetch: "keeps (same_tables d) (UserRepo_GetByLiqPayOrderID oid)" for oid
    by (auto simp: UserRepo_GetByLiqPayOrderID_def UserGetByLiqPayOrderID_def intro!: hr)
  have finish: "hoare (\<lambda>e. db_users e = db_users d \<and>
      (\<exists>row. payment_of q row \<and> db_payments e = db_payments d @ [row])) (apply_status u flow p st) ?Q"
    if "cp_OrderID q = cb_OrderID cb" "cp_Status q = cb_Status cb" for q u flow p st
    using pay that by (fastforce simp: hoare_def payment_of_def)
  have "hoare (same_tables d) (HandleCallback env s rawData rawSignature) ?Q"
    unfolding HandleCallback_def Inr sum.case
    by (rule hoare_bind [OF fetch], intro hoare_splits hoare_return hoare_bind [OF hoare_payment_create])
      (auto simp: same_tables_fields intro!: hoare_return finish)
  then have "?Q () (exec (HandleCallback env s rawData rawSignature) d)" by (auto dest: hoareD [where s = d])
  with Inr show ?thesis by (auto simp: Let_def)
qed

section \<open>What each operation does\<close>

text \<open>
  C2. What a genuine callback does, on a database that answers: for a well-formed order held by
  exactly one account, the event is recorded (with the amount as its column stores it) and the
  account moves as the status says -- \<open>subscribed\<close> to \<open>trialing\<close> (or \<open>active\<close> for
  a direct purchase) on the order's plan, \<open>success\<close> to \<open>active\<close> without a trial,
  \<open>failure\<close>, \<open>unsubscribed\<close> and \<open>error\<close> to a canceled free account, any
  other status to no change.
\<close>

theorem callback_effect:
  assumes "db_faults d = []" and "distinct (map ur_id (db_users d))" and "r \<in> set (db_users d)"
    and "VerifyAndDecode (bs_liqpay s) rawData rawSignature = Inr cb"
    and "cb_OrderID cb = ur_liqpay_order_id r"
    and "\<And>r'. r' \<in> set (db_users d) \<Longrightarrow> ur_liqpay_order_id r' = ur_liqpay_order_id r \<Longrightarrow> r' = r"
    and "parseOrderID (ur_liqpay_order_id r) = Some (flow, p)"
    and "NumericFromFloat64 (be_pgnum env) (cb_Amount cb) = Inr n" and "numeric_col 12 n = Inr amount"
    and "next_id d \<notin> set (map pr_id (db_payments d))"
  shows "run_state (HandleCallback env s rawData rawSignature) d =
    (Inr (),
     user_upd (ur_id r) (\<lambda>u.
         if cb_Status cb = ''subscribed''
         then u\<lparr>ur_plan := p, ur_subscription_status := (if flow = ''direct'' then ''active'' else ''trialing''),
                ur_trial_ends_at := NullTimeFromGo (time_Time (ur_trial_ends_at u))\<rparr>
         else if cb_Status cb = ''success''
         then u\<lparr>ur_plan := p, ur_subscription_status := ''active'', ur_trial_ends_at := None\<rparr>
         else if cb_Status cb \<in> {''failure'', ''unsubscribed'', ''error''}
         then u\<lparr>ur_plan := ''free'', ur_subscription_status := ''canceled'', ur_trial_ends_at := None\<rparr>
         else u)
       (bump (d\<lparr>db_payments := db_payments d @
          [new_payment d (create_params (callback_payment (userFromRow r) cb p) n) amount]\<rparr>)))"
proof -
  let ?q = "callback_payment (userFromRow r) cb p"
  let ?d = "bump (d\<lparr>db_payments := db_payments d @ [new_payment d (create_params ?q n) amount]\<rparr>)"
  have here: "user_get (ur_id r) d = Some r"
    unfolding user_get_def by (rule row_by_distinct [OF assms(2,3)])
  have fetch: "run_state (UserRepo_GetByLiqPayOrderID (cb_OrderID cb)) d = (Inr (userFromRow r), d)"
    unfolding assms(5) by (rule run_fetch_order) (use assms in auto)
  have pay: "run_state (PaymentRepo_Create (be_pgnum env) ?q) d =
      (Inr (paymentEventFromRow (be_pgnum env) (new_payment d (create_params ?q n) amount)), ?d)"
    by (rule run_payment_create [where r = r]) (use assms here in \<open>simp_all add: callback_payment_def\<close>)
  have "run_state (apply_status (userFromRow r) flow p (cb_Status cb)) ?d =
      (Inr (), user_upd (ur_id r) (notified flow p (cb_Status cb)) ?d)"
    by (rule run_apply_status) (use assms here in \<open>simp_all add: bump_def user_get_def\<close>)
  moreover have "notified flow p (cb_Status cb) = (\<lambda>u.
         if cb_Status cb = ''subscribed''
         then u\<lparr>ur_plan := p, ur_subscription_status := (if flow = ''direct'' then ''active'' else ''trialing''),
                ur_trial_ends_at := NullTimeFromGo (time_Time (ur_trial_ends_at u))\<rparr>
         else if cb_Status cb = ''success''
         then u\<lparr>ur_plan := p, ur_subscription_status := ''active'', ur_trial_ends_at := None\<rparr>
         else if cb_Status cb \<in> {''failure'', ''unsubscribed'', ''error''}
         then u\<lparr>ur_plan := ''free'', ur_subscription_status := ''canceled'', ur_trial_ends_at := None\<rparr>
         else u)"
    by (rule ext) (auto simp: notified_def set_subscription_def liqpay_statuses plan_Free_def)
  ultimately show ?thesis
    using fetch pay assms(4,5,7) by (simp add: HandleCallback_def callback_payment_def)
qed

lemma sample_verified:
  "VerifyAndDecode sample_client (base64_EncodeToString (sample_callback ''success''))
     (Sign sample_client (base64_EncodeToString (sample_callback ''success''))) =
   Inr (Callback0\<lparr>cb_Status := ''success'', cb_OrderID := sample_order\<rparr>)"
proof -
  have "unmarshal_callback (sample_callback ''success'') =
      Inr (Callback0\<lparr>cb_Status := ''success'', cb_OrderID := sample_order\<rparr>)"
    by code_simp
  then show ?thesis by (simp add: VerifyAndDecode_encoded)
qed

theorem callback_effect_witness:
  "ur_plan (hd (db_users (exec (HandleCallback sample_env sample_billing
      (base64_EncodeToString (sample_callback ''success''))
      (Sign sample_client (base64_EncodeToString (sample_callback ''success'')))) pending_db))) = ''max''"
proof -
  let ?r = "(sample_user 1)\<lparr>ur_subscription_status := ''pending'', ur_liqpay_order_id := sample_order\<rparr>"
  have "parseOrderID sample_order = Some (''trial'', ''max'')" by code_simp
  moreover have "numeric_col 12 (Num 0 0) = Inr (Num 0 (-2))" by code_simp
  moreover have "NumericFromFloat64 sample_pgnum (cb_Amount Callback0) = Inr (Num 0 0)" by code_simp
  moreover have "distinct (map ur_id (db_users pending_db))" by code_simp
  moreover have "sample_order \<noteq> []" by code_simp
  ultimately show ?thesis
    by (subst callback_effect [where r = ?r and flow = "''trial''" and p = "''max''" and n = "Num 0 0"
          and amount = "Num 0 (-2)" and cb = "Callback0\<lparr>cb_Status := ''success'', cb_OrderID := sample_order\<rparr>"])
      (auto simp: pending_db_def empty_db_def sample_user_def sample_env_def sample_billing_def sample_verified
        user_upd_def bump_def)
qed

text \<open>
  \<open>StartTrial\<close>, completely: an unknown user and an account that has or had a subscription
  are refused without effect; otherwise the account is marked \<open>pending\<close> with a fresh trial
  order and the end of its trial seven days away, and the form that comes back is signed by the
  merchant.
\<close>

theorem StartTrial_spec:
  assumes "db_faults d = []"
  shows "case user_get userID d of
      None \<Rightarrow> run_state (StartTrial env s now1 now2 userID) d = (Inl (Wrap ''look up user'' [] ErrNoRows), d)
    | Some r \<Rightarrow>
        if ur_subscription_status r \<noteq> [] then run_state (StartTrial env s now1 now2 userID) d = (Inl already_exists, d)
        else exec (StartTrial env s now1 now2 userID) d =
               user_upd userID (\<lambda>u. u\<lparr>ur_liqpay_order_id := orderID (be_uuid_String env) now1 ''trial'' ''max'' userID,
                 ur_subscription_status := ''pending'',
                 ur_trial_ends_at := NullTimeFromGo (now2 + 604800000000000)\<rparr>) d
           \<and> (\<forall>co. result (StartTrial env s now1 now2 userID) d = Inr co \<longrightarrow>
                co_URL co = ''https://www.liqpay.ua/api/3/checkout'' \<and> co_Signature co = Sign (bs_liqpay s) (co_Data co))"
  using assms
  by (auto simp: run_StartTrial Let_def begin_checkout_def [abs_def] plan_Max_def trialDuration_def durations
      build_checkout_def CheckoutURL_def apiBaseURL_def dest!: CheckoutFields_signed split: option.splits sum.splits)

theorem StartTrial_spec_witness:
  "ur_subscription_status (hd (db_users (exec (StartTrial sample_env sample_billing 5 6 1) sample_db))) = ''pending''"
proof -
  have "user_get 1 sample_db = Some (sample_user 1)" by code_simp
  with StartTrial_spec [where d = sample_db and userID = 1 and env = sample_env and s = sample_billing and ?now1.0 = 5 and ?now2.0 = 6] show ?thesis
    by (simp add: sample_user_def user_upd_def)
qed

text \<open>
  C8. \<open>Cancel\<close>, completely: without an order it fails and changes nothing; when LiqPay does
  not confirm the unsubscription it fails and changes nothing; when it does, the account is
  free and canceled at once.
\<close>

theorem Cancel_spec:
  assumes "db_faults d = []" and "user_get userID d = Some r"
  shows "run_state (Cancel env s userID) d =
    (if ur_liqpay_order_id r = [] then (Inl (Errorf ''no active subscription to cancel'' []), d)
     else (case liqpay_Request (be_network env) (bs_liqpay s)
                  [(''action'', AStr ''unsubscribe''), (''order_id'', AStr (ur_liqpay_order_id r))] of
             Inl e \<Rightarrow> (Inl (Wrap ''unsubscribe via liqpay'' [] e), d)
           | Inr _ \<Rightarrow> (Inr (), user_upd userID (\<lambda>u. u\<lparr>ur_plan := ''free'', ur_subscription_status := ''canceled'',
                                                   ur_trial_ends_at := None\<rparr>) d)))"
  using assms
  by (simp add: run_Cancel unsubscribe_params_def ActionUnsub_def plan_Free_def set_subscription_def [abs_def]
      split: sum.split)

theorem Cancel_spec_witness:
  "run_state (Cancel sample_env sample_billing 2) pending_db =
    (Inl (Errorf ''no active subscription to cancel'' []), pending_db)"
proof -
  have "user_get 2 pending_db = Some (sample_user 2)" by code_simp
  with Cancel_spec [where d = pending_db and userID = 2 and env = sample_env and s = sample_billing] show ?thesis
    by (simp add: sample_user_def)
qed

section \<open>All reachable databases\<close>

text \<open>
  C5. Every billing operation refines the account machine: with any arguments and any
  failures, an account that changes makes one step of \<open>sub_step\<close>, only its four billing
  columns change, and no account appears or disappears.
\<close>

theorem billing_refinement:
  assumes "distinct (map ur_id (db_users d))"
    and "inj (be_uuid_String env)" and "\<forall>j. CHR ''.'' \<notin> set (be_uuid_String env j)"
    and "m = StartTrial env s t1 t2 i \<bind> (\<lambda>_. ret ()) \<or> m = Subscribe env s t1 t2 i p \<bind> (\<lambda>_. ret ()) \<or>
      m = HandleCallback env s data sg \<bind> (\<lambda>_. ret ()) \<or> m = Cancel env s i \<bind> (\<lambda>_. ret ())"
  shows "rel_option (\<lambda>r r'. r' = r \<or> (\<exists>ev. sub_step (sub_of r) ev (sub_of r')) \<and>
           r' = r\<lparr>ur_plan := ur_plan r', ur_subscription_status := ur_subscription_status r',
                  ur_trial_ends_at := ur_trial_ends_at r', ur_liqpay_order_id := ur_liqpay_order_id r'\<rparr>)
         (user_get j d) (user_get j (exec m d))"
proof -
  have u: "uuid_text (be_uuid_String env)" using assms(2,3) by (simp add: uuid_text_def)
  have "hoare (users_are (db_users d)) m (\<lambda>_ d'. follows (db_users d) (db_users d'))"
    using assms(4)
    by (elim disjE) (simp_all add: hoare_ignore StartTrial_follows [OF u] Subscribe_follows [OF u]
        HandleCallback_follows [OF assms(1)] Cancel_follows)
  then have "follows (db_users d) (db_users (exec m d))" by (auto dest: hoareD [where s = d])
  then show ?thesis
    by (auto simp: follows_def user_get_def account_step_def billing_columns_def elim!: option.rel_mono_strong)
qed

theorem billing_refinement_witness:
  "rel_option (\<lambda>r r'. r' = r \<or> (\<exists>ev. sub_step (sub_of r) ev (sub_of r')) \<and>
           r' = r\<lparr>ur_plan := ur_plan r', ur_subscription_status := ur_subscription_status r',
                  ur_trial_ends_at := ur_trial_ends_at r', ur_liqpay_order_id := ur_liqpay_order_id r'\<rparr>)
     (user_get 1 sample_db)
     (user_get 1 (exec (StartTrial sample_env sample_billing 5 6 1 \<bind> (\<lambda>_. ret ())) sample_db))"
  by (rule billing_refinement [where env = sample_env])
    (use uuid_hex_text in \<open>auto simp: uuid_text_def sample_env_def sample_user_def\<close>)



text \<open>
  C6. Callbacks reach the right account: in every reachable database no two accounts hold the
  same order, so the lookup by order that starts \<open>HandleCallback\<close> has at most one answer.
\<close>

theorem reachable_orders_unique:
  assumes "inj (be_uuid_String env)" and "\<forall>j. CHR ''.'' \<notin> set (be_uuid_String env j)"
    and "billing_reach env s d" and "r \<in> set (db_users d)" and "r' \<in> set (db_users d)"
    and "ur_liqpay_order_id r = ur_liqpay_order_id r'" and "ur_liqpay_order_id r \<noteq> []"
  shows "r = r'"
proof -
  have u: "uuid_text (be_uuid_String env)" using assms(1,2) by (simp add: uuid_text_def)
  with assms(3) have inv: "billing_inv env d" by (intro billing_reach_inv)
  then have "ur_id r = ur_id r'"
    using assms(4-7) owned_unique [OF u] by (auto simp: billing_inv_def orders_owned_def)
  then show ?thesis
    using inv assms(4,5) by (auto simp: billing_inv_def users_wf_def distinct_map inj_on_def)
qed

theorem reachable_orders_unique_witness:
  "\<exists>d. billing_reach sample_env sample_billing d \<and> db_users d \<noteq> [] \<and>
     (\<forall>r \<in> set (db_users d). ur_liqpay_order_id r \<noteq> [] \<and> r = hd (db_users d))"
proof -
  define e where "e = exec (UserRepo_CreateWithEmail [] [] ''UAH'') empty_db"
  define d where "d = exec (StartTrial sample_env sample_billing 5 6 1000) e"
  have b: "billing_reach sample_env sample_billing d"
    unfolding d_def e_def by (intro billing_reach.intros) (simp_all add: empty_db_def)
  have "db_faults e = [] \<and> length (db_users e) = 1 \<and> ur_id (hd (db_users e)) = 1000 \<and>
      ur_subscription_status (hd (db_users e)) = []"
    unfolding e_def by code_simp
  then obtain u where u: "db_users e = [u]" "ur_id u = 1000" "ur_subscription_status u = []" "db_faults e = []"
    by (cases "db_users e") auto
  then have "user_get 1000 e = Some u" by (simp add: user_get_def)
  then have d: "db_users d =
      [begin_checkout (orderID uuid_hex 5 ''trial'' plan_Max 1000) (6 + trialDuration) u]"
    unfolding d_def using u
    by (simp add: run_StartTrial Let_def sample_env_def user_upd_def)
  have "r = hd (db_users d)" if "r \<in> set (db_users d)" for r
    by (rule reachable_orders_unique [OF _ _ b that])
      (use that d uuid_hex_text in \<open>auto simp: sample_env_def uuid_text_def orderID_nonempty\<close>)
  with b d show ?thesis by (auto simp: orderID_nonempty intro!: exI [of _ d])
qed

end
