(* ===== verification/Go_Json_Facts.thy ===== *)
theory Go_Json_Facts
  imports Go_Json
begin

text \<open>
  The parser of JSON always has fuel enough: it never reads past its text, every level of nesting
  consumes a character, and a result is the same with any more fuel. So a text it refuses is
  refused for its syntax or its depth alone.
\<close>

section \<open>What is left is no longer\<close>

lemma json_skip_le: "length (json_skip s) \<le> length s"
  by (simp add: json_skip_def length_dropWhile_le)

lemma more_eq_Some: "more p m = Some (t, r) \<longleftrightarrow> (\<exists>u. m = Some (u, r) \<and> t = p @ u)"
  by (auto simp: more_def split: option.splits)

lemma json_str_le: "json_str s = Some (t, r) \<Longrightarrow> length r \<le> length s"
proof (induction "length s" arbitrary: s t r rule: less_induct)
  case less
  have IH: "length r \<le> length s" if "json_str s' = Some (u, r)" "length s' < length s" for s' u
    using less.hyps [OF that(2) that(1)] that(2) by simp
  from less.prems show ?case
    by (cases s) (auto simp: more_eq_Some split: if_splits list.splits option.splits prod.splits
      dest!: IH dest: unicode_escape_shorter)
qed

lemma digits1_le: "digits1 s = Some (d, r) \<Longrightarrow> length r \<le> length s"
  by (auto simp: digits1_def Let_def length_dropWhile_le split: if_splits)

lemma json_int_le: "json_int s = Some (d, r) \<Longrightarrow> length r \<le> length s"
  by (auto simp: json_int_def split: list.splits if_splits dest: digits1_le)

lemma json_frac_le: "json_frac s = Some (d, r) \<Longrightarrow> length r \<le> length s"
  by (auto simp: json_frac_def split: list.splits if_splits option.splits dest!: digits1_le)

lemma json_exp_le: "json_exp s = Some (d, r) \<Longrightarrow> length r \<le> length s"
  by (auto simp: json_exp_def Let_def split: list.splits if_splits option.splits dest!: digits1_le)

lemma json_num_le: "json_num s = Some (v, r) \<Longrightarrow> length r \<le> length s"
  by (fastforce simp: json_num_def Let_def split: list.splits option.splits if_splits
      dest!: json_int_le json_frac_le json_exp_le)

lemma skip_cons_less: "json_skip s = c # r \<Longrightarrow> length r < length s"
  using json_skip_le [of s] by simp

lemma skip_tl_less: "has_prefix (json_skip r) [c] \<Longrightarrow> length (tl (json_skip r)) \<le> length r"
  using json_skip_le [of r] by simp

lemma map_option_apfst_eq: "map_option (apfst f) m = Some (v, r) \<longleftrightarrow> (\<exists>w. m = Some (w, r) \<and> v = f w)"
  by (cases m) auto

lemma json_le:
  "json_val n dep s = Some (v, r) \<Longrightarrow> length r \<le> length s"
  "json_items n dep s = Some (vs, r) \<Longrightarrow> length r \<le> length s"
  "json_members n dep s = Some (ms, r) \<Longrightarrow> length r \<le> length s"
proof (induction n arbitrary: dep s v vs ms r)
  case 0
  { case 1 then show ?case by simp next case 2 then show ?case by simp next case 3 then show ?case by simp }
next
  case (Suc n)
  { case 1
    then obtain c s' where s: "json_skip s = c # s'" by (cases "json_skip s") auto
    have "length r \<le> length (json_skip s)"
      using 1 json_skip_le [of s'] json_str_le [of s'] json_num_le [of "c # s'"] Suc.IH(2) [of "dep - 1" s']
        Suc.IH(3) [of "dep - 1" s']
      by (auto simp: s map_option_apfst_eq split: if_splits)
    then show ?case using json_skip_le [of s] by simp
  next
    case 2
    then show ?case
      by (fastforce simp: map_option_apfst_eq split: option.splits list.splits if_splits
          dest!: Suc.IH(1) Suc.IH(2) skip_cons_less)
  next
    case 3
    then show ?case
      by (fastforce simp: map_option_apfst_eq split: option.splits list.splits if_splits
          dest!: Suc.IH(1) Suc.IH(3) skip_cons_less json_str_le) }
qed

section \<open>Fuel\<close>

lemma json_fuel_Suc:
  "2 * length s + 2 \<le> n \<Longrightarrow> json_val (Suc n) dep s = json_val n dep s"
  "2 * length s + 3 \<le> n \<Longrightarrow> json_items (Suc n) dep s = json_items n dep s"
  "2 * length s + 3 \<le> n \<Longrightarrow> json_members (Suc n) dep s = json_members n dep s"
proof (induction n arbitrary: dep s)
  case 0
  { case 1 then show ?case by simp next case 2 then show ?case by simp next case 3 then show ?case by simp }
next
  case (Suc n)
  { case 1
    have IH: "json_skip s = c # r \<Longrightarrow> json_items (Suc n) (dep - 1) r = json_items n (dep - 1) r"
      "json_skip s = c # r \<Longrightarrow> json_members (Suc n) (dep - 1) r = json_members n (dep - 1) r" for c r
      using Suc.IH(2) [of r "dep - 1"] Suc.IH(3) [of r "dep - 1"] skip_cons_less [of s c r] 1 by simp_all
    show ?case
      unfolding json_val.simps(2) [of "Suc n" dep s] json_val.simps(2) [of n dep s]
      by (cases "json_skip s") (simp_all only: list.case IH)
  next
    case 2
    have IH: "json_val (Suc n) dep s = json_val n dep s" using Suc.IH(1) [of s dep] 2 by simp
    have IH': "json_items (Suc n) dep r' = json_items n dep r'"
      if "json_val n dep s = Some (v, r)" "json_skip r = c # r'" for v r c r'
      using Suc.IH(2) [of r' dep] json_le(1) [OF that(1)] skip_cons_less [OF that(2)] 2 by simp
    show ?case
      unfolding json_items.simps(2) [of "Suc n" dep s] json_items.simps(2) [of n dep s] IH
      by (cases "json_val n dep s") (auto simp del: json_items.simps split: list.split simp: IH')
  next
    case 3
    have IH: "json_val (Suc n) dep r2 = json_val n dep r2"
      if "json_skip s = q # r" "json_str r = Some (k, r1)" "json_skip r1 = c # r2" for q r k r1 c r2
      using Suc.IH(1) [of r2 dep] skip_cons_less [OF that(1)] json_str_le [OF that(2)] skip_cons_less [OF that(3)] 3
      by simp
    have IH': "json_members (Suc n) dep r4 = json_members n dep r4"
      if "json_skip s = q # r" "json_str r = Some (k, r1)" "json_skip r1 = c # r2" "json_val n dep r2 = Some (v, r3)"
        "json_skip r3 = e # r4" for q r k r1 c r2 v r3 e r4
      using Suc.IH(3) [of r4 dep] skip_cons_less [OF that(1)] json_str_le [OF that(2)] skip_cons_less [OF that(3)]
        json_le(1) [OF that(4)] skip_cons_less [OF that(5)] 3
      by simp
    show ?case
      unfolding json_members.simps(2) [of "Suc n" dep s] json_members.simps(2) [of n dep s]
      by (auto simp del: json_members.simps json_val.simps split: list.split option.split simp: IH IH') }
qed

lemma json_fuel_mono:
  "json_val n dep s = Some x \<Longrightarrow> json_val (Suc n) dep s = Some x"
  "json_items n dep s = Some y \<Longrightarrow> json_items (Suc n) dep s = Some y"
  "json_members n dep s = Some z \<Longrightarrow> json_members (Suc n) dep s = Some z"
proof (induction n arbitrary: dep s x y z)
  case 0
  { case 1 then show ?case by simp next case 2 then show ?case by simp next case 3 then show ?case by simp }
next
  case (Suc n)
  { case 1
    show ?case
      using 1 unfolding json_val.simps(2) [of "Suc n" dep s] json_val.simps(2) [of n dep s]
      by (cases "json_skip s") (auto simp del: json_items.simps json_members.simps simp: Suc.IH(2,3) split: if_splits)
  next
    case 2
    then obtain v r where v: "json_val n dep s = Some (v, r)" by (auto split: option.splits)
    show ?case
      using 2 Suc.IH(1) [OF v] v unfolding json_items.simps(2) [of "Suc n" dep s] json_items.simps(2) [of n dep s]
      by (auto simp del: json_items.simps json_val.simps simp: Suc.IH(2) split: list.splits if_splits)
  next
    case 3
    show ?case
      using 3 unfolding json_members.simps(2) [of "Suc n" dep s] json_members.simps(2) [of n dep s]
      by (auto simp del: json_members.simps json_val.simps simp: Suc.IH(1,3) split: list.splits option.splits if_splits) }
qed

lemma json_fuel_enough: "json_val (2 * length s + 2 + k) dep s = json_val (2 * length s + 2) dep s"
  by (induction k) (use json_fuel_Suc(1) in simp_all)

lemma json_fuel_more: "json_val n dep s = Some x \<Longrightarrow> json_val (n + k) dep s = Some x"
  by (induction k) (use json_fuel_mono(1) in simp_all)

text \<open>What any amount of fuel reads, the parser reads.\<close>

lemma json_first_any_fuel: "json_first s = Some x \<longleftrightarrow> (\<exists>n. json_val n 10000 s = Some x)"
proof
  assume "\<exists>n. json_val n 10000 s = Some x"
  then obtain n where "json_val n 10000 s = Some x" ..
  from json_fuel_more [OF this, of "2 * length s + 2"] json_fuel_enough [of s n 10000]
  show "json_first s = Some x" by (simp add: json_first_def add.commute)
qed (unfold json_first_def, rule exI)

end
