(* ===== verification/LiqPay_Properties.thy ===== *)
theory LiqPay_Properties
  imports LiqPay Go_Json_Facts
begin



end
