(* ===== verification/Monobank.thy ===== *)
theory Monobank
  imports Users LiqPay "HOL-Library.Signed_Division"
begin

text \<open>
  The bank connection: the client of Monobank's personal API and its types
  (\<open>pkg/monobank\<close>), the merchant codes (\<open>pkg/mcc\<close>), the encryption of the stored token
  (\<open>pkg/cryptobox\<close>), the statements of \<open>pkg/dbq/monobank.sql.go\<close> and the repository of
  \<open>internal/repository/monobank.go\<close>. The network and the AEAD cipher (a Go interface) are
  parameters.
\<close>

section \<open>Currencies and merchant codes\<close>

definition currencyByISONumeric :: "(int \<times> string) list" where
  "currencyByISONumeric =
     [(980, ''UAH''), (840, ''USD''), (978, ''EUR''), (826, ''GBP''), (985, ''PLN'')]"

definition CurrencyCode :: "int \<Rightarrow> string" where
  "CurrencyCode isoNumeric =
     (case map_of currencyByISONumeric isoNumeric of Some code \<Rightarrow> code | None \<Rightarrow> ''UAH'')"

text \<open>The category names are Ukrainian; here by their code points.\<close>

definition cat_groceries :: string where "cat_groceries = utf8 [1055, 1088, 1086, 1076, 1091, 1082, 1090, 1080]"
definition cat_fun :: string where "cat_fun = utf8 [1056, 1086, 1079, 1074, 1072, 1075, 1080]"
definition cat_transport :: string where "cat_transport = utf8 [1058, 1088, 1072, 1085, 1089, 1087, 1086, 1088, 1090]"
definition cat_clothes :: string where "cat_clothes = utf8 [1054, 1076, 1103, 1075]"
definition cat_health :: string where "cat_health = utf8 [1047, 1076, 1086, 1088, 1086, 1074, 39, 1103]"
definition cat_education :: string where "cat_education = utf8 [1054, 1089, 1074, 1110, 1090, 1072]"
definition cat_housing :: string where "cat_housing = utf8 [1046, 1080, 1090, 1083, 1086]"
definition cat_other :: string where "cat_other = utf8 [1030, 1085, 1096, 1077]"

definition categoryByMCC :: "(int \<times> string) list" where
  "categoryByMCC =
     map (\<lambda>c. (c, cat_groceries)) [5411, 5422, 5441, 5451, 5462, 5499, 5300, 5333] @
     map (\<lambda>c. (c, cat_fun)) [5812, 5813, 5814, 7832, 7922, 7994, 7996, 7998, 7999, 5815, 5816, 5817, 5818] @
     map (\<lambda>c. (c, cat_transport)) [4111, 4121, 4131, 4112, 5541, 5542, 7523, 7512, 4784] @
     map (\<lambda>c. (c, cat_clothes)) [5651, 5661, 5691, 5699, 5137, 5611, 5621, 5631] @
     map (\<lambda>c. (c, cat_health)) [5912, 8011, 8021, 8062, 8031, 8042, 8049, 5122] @
     map (\<lambda>c. (c, cat_education)) [8220, 8241, 8299, 8211] @
     map (\<lambda>c. (c, cat_housing))
       [4900, 4814, 4816, 4899, 5968, 1520, 1711, 1731, 5200, 5211, 5231, 5251, 5712, 5719, 5722, 5732, 5734]"

definition CategoryName :: "int \<Rightarrow> string" where
  "CategoryName code = (case map_of categoryByMCC code of None \<Rightarrow> [] | Some n \<Rightarrow> n)"

section \<open>The types of the API and their decoding\<close>

record Account =
  ba_ID :: string
  ba_CurrencyCode :: int
  ba_MaskedPan :: "string slice"
  ba_Type :: string

record ClientInfo =
  bi_ClientID :: string
  bi_Name :: string
  bi_WebHookURL :: string
  bi_Accounts :: "Account slice"

record StatementItem =
  si_ID :: string
  si_Time :: int
  si_Description :: string
  si_MCC :: int
  si_Amount :: "64 word"
  si_CurrencyCode :: int
  si_OperationAmount :: "64 word"
  si_OperationCurrencyCode :: int

record WebhookPayload =
  wp_Type :: string
  wp_Account :: string
  wp_StatementItem :: StatementItem

definition Account0 :: Account where
  "Account0 = \<lparr>ba_ID = [], ba_CurrencyCode = 0, ba_MaskedPan = None, ba_Type = []\<rparr>"

definition ClientInfo0 :: ClientInfo where
  "ClientInfo0 = \<lparr>bi_ClientID = [], bi_Name = [], bi_WebHookURL = [], bi_Accounts = None\<rparr>"

definition StatementItem0 :: StatementItem where
  "StatementItem0 =
     \<lparr>si_ID = [], si_Time = 0, si_Description = [], si_MCC = 0, si_Amount = 0, si_CurrencyCode = 0,
      si_OperationAmount = 0, si_OperationCurrencyCode = 0\<rparr>"

definition WebhookPayload0 :: WebhookPayload where
  "WebhookPayload0 = \<lparr>wp_Type = [], wp_Account = [], wp_StatementItem = StatementItem0\<rparr>"

definition account_fields :: "(string \<times> Account setter) list" where
  "account_fields =
     [(''id'', set_string (\<lambda>v s. s\<lparr>ba_ID := v\<rparr>)),
      (''currencyCode'', set_int (\<lambda>v s. s\<lparr>ba_CurrencyCode := v\<rparr>)),
      (''maskedPan'', set_strings ba_MaskedPan (\<lambda>v s. s\<lparr>ba_MaskedPan := v\<rparr>)),
      (''type'', set_string (\<lambda>v s. s\<lparr>ba_Type := v\<rparr>))]"

definition info_fields :: "(string \<times> ClientInfo setter) list" where
  "info_fields =
     [(''clientId'', set_string (\<lambda>v s. s\<lparr>bi_ClientID := v\<rparr>)),
      (''name'', set_string (\<lambda>v s. s\<lparr>bi_Name := v\<rparr>)),
      (''webHookUrl'', set_string (\<lambda>v s. s\<lparr>bi_WebHookURL := v\<rparr>)),
      (''accounts'', set_slice bi_Accounts (\<lambda>v s. s\<lparr>bi_Accounts := v\<rparr>) (decode_fields account_fields) Account0)]"

definition item_fields :: "(string \<times> StatementItem setter) list" where
  "item_fields =
     [(''id'', set_string (\<lambda>v s. s\<lparr>si_ID := v\<rparr>)),
      (''time'', set_int (\<lambda>v s. s\<lparr>si_Time := v\<rparr>)),
      (''description'', set_string (\<lambda>v s. s\<lparr>si_Description := v\<rparr>)),
      (''mcc'', set_int (\<lambda>v s. s\<lparr>si_MCC := v\<rparr>)),
      (''amount'', set_int (\<lambda>v s. s\<lparr>si_Amount := word_of_int v\<rparr>)),
      (''currencyCode'', set_int (\<lambda>v s. s\<lparr>si_CurrencyCode := v\<rparr>)),
      (''operationAmount'', set_int (\<lambda>v s. s\<lparr>si_OperationAmount := word_of_int v\<rparr>)),
      (''operationCurrencyCode'', set_int (\<lambda>v s. s\<lparr>si_OperationCurrencyCode := v\<rparr>))]"

definition data_fields :: "(string \<times> WebhookPayload setter) list" where
  "data_fields =
     [(''account'', set_string (\<lambda>v s. s\<lparr>wp_Account := v\<rparr>)),
      (''statementItem'', set_struct wp_StatementItem (\<lambda>v s. s\<lparr>wp_StatementItem := v\<rparr>) item_fields)]"

definition payload_fields :: "(string \<times> WebhookPayload setter) list" where
  "payload_fields =
     [(''type'', set_string (\<lambda>v s. s\<lparr>wp_Type := v\<rparr>)), (''data'', decode_fields data_fields)]"

section \<open>The client\<close>

record mono_req =
  nq_method :: string
  nq_url :: string
  nq_token :: string
  nq_body :: string

type_synonym mono_net = "mono_req \<Rightarrow> http_resp res"

definition mono_baseURL :: string where "mono_baseURL = ''https://api.monobank.ua''"

text \<open>
  Building a request fails when its URL does not parse: a control byte before the fragment, or
  a \<open>%\<close> without two hexadecimal digits in the path or the fragment (the scheme and the host
  are constant).
\<close>

fun escapes_ok :: "string \<Rightarrow> bool" where
  "escapes_ok [] \<longleftrightarrow> True"
| "escapes_ok (c # s) \<longleftrightarrow>
     (if c = CHR ''%'' then (case s of a # b # _ \<Rightarrow> hex_val a \<noteq> None \<and> hex_val b \<noteq> None | _ \<Rightarrow> False) else True) \<and>
     escapes_ok s"

definition url_ok :: "string \<Rightarrow> bool" where
  "url_ok u \<longleftrightarrow>
     (let main = takeWhile (\<lambda>c. c \<noteq> CHR ''#'') u; frag = drop (length main + 1) u
      in list_all (\<lambda>c. 32 \<le> (of_char c :: nat) \<and> (of_char c :: nat) \<noteq> 127) main \<and>
         escapes_ok (takeWhile (\<lambda>c. c \<noteq> CHR ''?'') main) \<and> escapes_ok frag)"

definition mono_status :: "http_resp \<Rightarrow> goerr option" where
  "mono_status resp =
     (if hp_status resp \<noteq> 200
      then Some (Errorf ''monobank returned status %d: %s'' [fmt_d (hp_status resp), hp_body resp]) else None)"

definition mono_ClientInfo :: "mono_net \<Rightarrow> string \<Rightarrow> ClientInfo res" where
  "mono_ClientInfo net personalToken =
     (case net \<lparr>nq_method = ''GET'', nq_url = mono_baseURL @ ''/personal/client-info'',
                nq_token = personalToken, nq_body = []\<rparr> of
        Inl e \<Rightarrow> Inl (Wrap ''call monobank'' [] e)
      | Inr resp \<Rightarrow>
          (case mono_status resp of
             Some e \<Rightarrow> Inl e
           | None \<Rightarrow>
               (case Decode (decode_fields info_fields) ClientInfo0 (hp_body resp) of
                  Inl e \<Rightarrow> Inl (Wrap ''decode client-info'' [] e)
                | Inr info \<Rightarrow> Inr info)))"

definition statement_url :: "string \<Rightarrow> gotime \<Rightarrow> gotime \<Rightarrow> string" where
  "statement_url accountID from to =
     mono_baseURL @ ''/personal/statement/'' @ accountID @ ''/'' @ fmt_d (time_Unix from) @ ''/'' @ fmt_d (time_Unix to)"

definition mono_Statement :: "mono_net \<Rightarrow> string \<Rightarrow> string \<Rightarrow> gotime \<Rightarrow> gotime \<Rightarrow> StatementItem list res" where
  "mono_Statement net personalToken accountID from to =
     (let url = statement_url accountID from to in
      if \<not> url_ok url then Inl (Wrap ''build request'' [] (Errorf ''parse'' [url]))
      else (case net \<lparr>nq_method = ''GET'', nq_url = url, nq_token = personalToken, nq_body = []\<rparr> of
              Inl e \<Rightarrow> Inl (Wrap ''call monobank'' [] e)
            | Inr resp \<Rightarrow>
                (case mono_status resp of
                   Some e \<Rightarrow> Inl e
                 | None \<Rightarrow>
                     (case Decode (decode_slice (decode_fields item_fields) StatementItem0) None (hp_body resp) of
                        Inl e \<Rightarrow> Inl (Wrap ''decode statement'' [] e)
                      | Inr items \<Rightarrow> Inr (slice_list items)))))"

definition mono_SetWebHook :: "mono_net \<Rightarrow> string \<Rightarrow> string \<Rightarrow> unit res" where
  "mono_SetWebHook net personalToken webhookURL =
     (case json_Marshal [(''webHookUrl'', AStr webhookURL)] of
        Inl e \<Rightarrow> Inl (Wrap ''encode payload'' [] e)
      | Inr payload \<Rightarrow>
          (case net \<lparr>nq_method = ''POST'', nq_url = mono_baseURL @ ''/personal/webhook'',
                     nq_token = personalToken, nq_body = payload\<rparr> of
             Inl e \<Rightarrow> Inl (Wrap ''call monobank'' [] e)
           | Inr resp \<Rightarrow> (case mono_status resp of Some e \<Rightarrow> Inl e | None \<Rightarrow> Inr ())))"

section \<open>The encryption of the token (pkg/cryptobox)\<close>

text \<open>\<open>cipher.AEAD\<close> is an interface: the size of the nonce, \<open>Seal\<close> and \<open>Open\<close>.\<close>

record aead =
  ae_NonceSize :: nat
  ae_Seal :: "string \<Rightarrow> string \<Rightarrow> string"
  ae_Open :: "string \<Rightarrow> string \<Rightarrow> string res"

text \<open>\<open>New\<close>; \<open>newGCM\<close> is AES in Galois counter mode under a 32-byte key.\<close>

definition Box_New :: "(string \<Rightarrow> aead) \<Rightarrow> string \<Rightarrow> aead res" where
  "Box_New newGCM passphrase =
     (if passphrase = [] then Inl (Errorf ''passphrase must not be empty'' [])
      else Inr (newGCM (sha256_Sum passphrase)))"

text \<open>The nonce is read from \<open>crypto/rand\<close>: its \<open>NonceSize\<close> bytes, or an error.\<close>

definition Box_Encrypt :: "aead \<Rightarrow> string res \<Rightarrow> string \<Rightarrow> string res" where
  "Box_Encrypt b random plaintext =
     (case random of
        Inl e \<Rightarrow> Inl (Wrap ''generate nonce'' [] e)
      | Inr nonce \<Rightarrow> Inr (nonce @ ae_Seal b nonce plaintext))"

definition Box_Decrypt :: "aead \<Rightarrow> string \<Rightarrow> string res" where
  "Box_Decrypt b blob =
     (if length blob < ae_NonceSize b then Inl (Errorf ''ciphertext too short'' [])
      else (case ae_Open b (take (ae_NonceSize b) blob) (drop (ae_NonceSize b) blob) of
              Inl e \<Rightarrow> Inl (Wrap ''decrypt'' [] e)
            | Inr plaintext \<Rightarrow> Inr plaintext))"

section \<open>Statements\<close>

definition mono_get :: "uuid \<Rightarrow> db \<Rightarrow> monobank_row option" where
  "mono_get i d = row_by mr_user_id i (db_monobank d)"

definition mono_upd :: "uuid \<Rightarrow> (monobank_row \<Rightarrow> monobank_row) \<Rightarrow> db \<Rightarrow> db" where
  "mono_upd i f d = d\<lparr>db_monobank := update_by mr_user_id i f (db_monobank d)\<rparr>"

interpretation connections: row_store mr_user_id mono_get mono_upd
  by unfold_locales
    (auto simp: mono_get_def mono_upd_def row_by_update_same row_by_update_other dest: row_by_Some)

definition not_null_violation :: "string \<Rightarrow> goerr" where
  "not_null_violation c = PgError ''23502'' c"

text \<open>A nil slice is sent as NULL; the first column of the row that is NULL but may not be.\<close>

definition null_column :: "(string \<times> string slice) list \<Rightarrow> string option" where
  "null_column cols = map_option fst (List.find (\<lambda>c. snd c = None) cols)"

record UpsertMonobankConnectionParams =
  um_UserID :: uuid
  um_EncryptedToken :: string
  um_WebhookSecret :: string
  um_MaskedPans :: "string slice"
  um_AccountIDs :: "string slice"
  um_AccountTypes :: "string slice"
  um_AccountCurrencies :: "string slice"

definition upserted :: "gotime \<Rightarrow> UpsertMonobankConnectionParams \<Rightarrow> monobank_row" where
  "upserted now p =
     \<lparr>mr_user_id = um_UserID p, mr_encrypted_token = um_EncryptedToken p, mr_webhook_secret = um_WebhookSecret p,
      mr_connected_at = now, mr_last_synced_at = None, mr_account_ids = slice_list (um_AccountIDs p),
      mr_masked_pans = slice_list (um_MaskedPans p), mr_account_types = slice_list (um_AccountTypes p),
      mr_account_currencies = slice_list (um_AccountCurrencies p)\<rparr>"

text \<open>\<open>connected_at\<close> is \<open>now()\<close> and \<open>last_synced_at\<close> NULL on both paths of the upsert.\<close>

definition MonobankConnectionUpsert :: "UpsertMonobankConnectionParams \<Rightarrow> monobank_row dbop" where
  "MonobankConnectionUpsert p = stmt (\<lambda>d.
     case null_column [(''account_ids'', um_AccountIDs p), (''masked_pans'', um_MaskedPans p),
                       (''account_types'', um_AccountTypes p), (''account_currencies'', um_AccountCurrencies p)] of
       Some c \<Rightarrow> (Inl (not_null_violation c), d)
     | None \<Rightarrow>
         (let row = upserted (db_clock d) p in
          if \<exists>r \<in> set (db_monobank d). mr_webhook_secret r = um_WebhookSecret p \<and> mr_user_id r \<noteq> um_UserID p
          then (Inl (unique_violation ''monobank_connections_webhook_secret_key''), d)
          else if mono_get (um_UserID p) d \<noteq> None then (Inr row, mono_upd (um_UserID p) (\<lambda>_. row) d)
          else if user_get (um_UserID p) d = None
          then (Inl (fk_violation ''monobank_connections_user_id_fkey''), d)
          else (Inr row, d\<lparr>db_monobank := db_monobank d @ [row]\<rparr>)))"

definition MonobankConnectionGetByUserID :: "uuid \<Rightarrow> monobank_row dbop" where
  "MonobankConnectionGetByUserID i = read_stmt (\<lambda>d. query_one (\<lambda>r. mr_user_id r = i) (db_monobank d))"

definition MonobankConnectionGetByWebhookSecret :: "string \<Rightarrow> monobank_row dbop" where
  "MonobankConnectionGetByWebhookSecret s =
     read_stmt (\<lambda>d. query_one (\<lambda>r. mr_webhook_secret r = s) (db_monobank d))"

definition MonobankConnectionDelete :: "uuid \<Rightarrow> unit dbop" where
  "MonobankConnectionDelete i = stmt (\<lambda>d.
     (Inr (), d\<lparr>db_monobank := filter (\<lambda>r. mr_user_id r \<noteq> i) (db_monobank d)\<rparr>))"

definition MonobankConnectionTouchSync :: "uuid \<Rightarrow> unit dbop" where
  "MonobankConnectionTouchSync i = stmt (\<lambda>d.
     (Inr (), mono_upd i (\<lambda>r. r\<lparr>mr_last_synced_at := Some (db_clock d)\<rparr>) d))"

definition MonobankConnectionUpdateAccounts ::
  "uuid \<Rightarrow> string slice \<Rightarrow> string slice \<Rightarrow> string slice \<Rightarrow> string slice \<Rightarrow> monobank_row dbop" where
  "MonobankConnectionUpdateAccounts i ids pans types currencies = stmt (\<lambda>d.
     case mono_get i d of
       None \<Rightarrow> (Inl ErrNoRows, d)
     | Some r \<Rightarrow>
         (case null_column [(''account_ids'', ids), (''masked_pans'', pans), (''account_types'', types),
                            (''account_currencies'', currencies)] of
            Some c \<Rightarrow> (Inl (not_null_violation c), d)
          | None \<Rightarrow>
              (let f = (\<lambda>r. r\<lparr>mr_account_ids := slice_list ids, mr_masked_pans := slice_list pans,
                              mr_account_types := slice_list types, mr_account_currencies := slice_list currencies\<rparr>)
               in (Inr (f r), mono_upd i f d))))"

section \<open>The repository\<close>

record MonobankConnection =
  mc_UserID :: uuid
  mc_EncryptedToken :: string
  mc_WebhookSecret :: string
  mc_MaskedPans :: "string list"
  mc_AccountIDs :: "string list"
  mc_ConnectedAt :: gotime
  mc_LastSyncedAt :: gotime
  mc_AccountTypes :: "string list"
  mc_AccountCurrencies :: "string list"

definition connectionFromRow :: "monobank_row \<Rightarrow> MonobankConnection" where
  "connectionFromRow row =
     \<lparr>mc_UserID = mr_user_id row, mc_EncryptedToken = mr_encrypted_token row,
      mc_WebhookSecret = mr_webhook_secret row, mc_MaskedPans = mr_masked_pans row,
      mc_AccountIDs = mr_account_ids row, mc_ConnectedAt = mr_connected_at row,
      mc_LastSyncedAt = optionalTime (mr_last_synced_at row), mc_AccountTypes = mr_account_types row,
      mc_AccountCurrencies = mr_account_currencies row\<rparr>"

definition as_connection :: "monobank_row dbop \<Rightarrow> MonobankConnection dbop" where
  "as_connection q =
     do { r \<leftarrow> q; ret (case r of Inl e \<Rightarrow> Inl e | Inr row \<Rightarrow> Inr (connectionFromRow row)) }"

definition MonobankRepo_Upsert :: "UpsertMonobankConnectionParams \<Rightarrow> MonobankConnection dbop" where
  "MonobankRepo_Upsert p = as_connection (MonobankConnectionUpsert p)"

definition MonobankRepo_GetByUserID :: "uuid \<Rightarrow> MonobankConnection dbop" where
  "MonobankRepo_GetByUserID i = as_connection (MonobankConnectionGetByUserID i)"

definition MonobankRepo_GetByWebhookSecret :: "string \<Rightarrow> MonobankConnection dbop" where
  "MonobankRepo_GetByWebhookSecret s = as_connection (MonobankConnectionGetByWebhookSecret s)"

definition MonobankRepo_UpdateAccounts ::
  "uuid \<Rightarrow> string slice \<Rightarrow> string slice \<Rightarrow> string slice \<Rightarrow> string slice \<Rightarrow> MonobankConnection dbop" where
  "MonobankRepo_UpdateAccounts i ids pans types currencies =
     as_connection (MonobankConnectionUpdateAccounts i ids pans types currencies)"

definition MonobankRepo_Delete :: "uuid \<Rightarrow> unit dbop" where
  "MonobankRepo_Delete i = MonobankConnectionDelete i"

definition MonobankRepo_TouchSync :: "uuid \<Rightarrow> unit dbop" where
  "MonobankRepo_TouchSync i = MonobankConnectionTouchSync i"

section \<open>What the statements keep\<close>

text \<open>A predicate that does not look at the connections is kept by every operation on them.\<close>

definition blind_monobank :: "(db \<Rightarrow> bool) \<Rightarrow> bool" where
  "blind_monobank P \<longleftrightarrow> fault_free P \<and> (\<forall>d ms. P (d\<lparr>db_monobank := ms\<rparr>) = P d)"

lemmas monobank_statements =
  MonobankConnectionUpsert_def MonobankConnectionGetByUserID_def MonobankConnectionGetByWebhookSecret_def
  MonobankConnectionDelete_def MonobankConnectionTouchSync_def MonobankConnectionUpdateAccounts_def

lemmas monobank_repo =
  MonobankRepo_Upsert_def MonobankRepo_GetByUserID_def MonobankRepo_GetByWebhookSecret_def
  MonobankRepo_UpdateAccounts_def MonobankRepo_Delete_def MonobankRepo_TouchSync_def as_connection_def

lemma blind_monobank_ff: "blind_monobank P \<Longrightarrow> fault_free P"
  by (simp add: blind_monobank_def)

lemma blind_monobank_upd: "blind_monobank P \<Longrightarrow> P (mono_upd i f d) = P d"
  by (simp add: blind_monobank_def mono_upd_def)

lemma blind_monobank_set: "blind_monobank P \<Longrightarrow> P (d\<lparr>db_monobank := ms\<rparr>) = P d"
  by (simp add: blind_monobank_def)

lemma monobank_statements_blind [blind_rules]:
  "blind_monobank P \<Longrightarrow> keeps P (MonobankConnectionUpsert p)"
  "blind_monobank P \<Longrightarrow> keeps P (MonobankConnectionGetByUserID i)"
  "blind_monobank P \<Longrightarrow> keeps P (MonobankConnectionGetByWebhookSecret s)"
  "blind_monobank P \<Longrightarrow> keeps P (MonobankConnectionDelete i)"
  "blind_monobank P \<Longrightarrow> keeps P (MonobankConnectionTouchSync i)"
  "blind_monobank P \<Longrightarrow> keeps P (MonobankConnectionUpdateAccounts i a b c e)"
  unfolding monobank_statements
  by (auto intro!: keeps_stmt keeps_read blind_monobank_ff simp: blind_monobank_upd blind_monobank_set Let_def
      split: option.splits)

lemma monobank_repo_blind [blind_rules]:
  "blind_monobank P \<Longrightarrow> keeps P (MonobankRepo_Upsert p)" "blind_monobank P \<Longrightarrow> keeps P (MonobankRepo_GetByUserID i)"
  "blind_monobank P \<Longrightarrow> keeps P (MonobankRepo_GetByWebhookSecret s)" "blind_monobank P \<Longrightarrow> keeps P (MonobankRepo_Delete i)"
  "blind_monobank P \<Longrightarrow> keeps P (MonobankRepo_TouchSync i)" "blind_monobank P \<Longrightarrow> keeps P (MonobankRepo_UpdateAccounts i a b c e)"
  by (auto simp: monobank_repo intro!: hr blind_rules)

text \<open>One connection per user, and a webhook secret leads to one of them.\<close>

definition monobank_wf :: "db \<Rightarrow> bool" where
  "monobank_wf d \<longleftrightarrow>
     distinct (map mr_user_id (db_monobank d)) \<and> distinct (map mr_webhook_secret (db_monobank d)) \<and>
     (\<forall>r \<in> set (db_monobank d). mr_user_id r \<in> ur_id ` set (db_users d))"

lemma fault_free_monobank_wf [simp]: "fault_free monobank_wf"
  by (simp add: fault_free_def monobank_wf_def)

lemma monobank_wf_upd:
  "monobank_wf d \<Longrightarrow> (\<And>r. mr_user_id (f r) = mr_user_id r) \<Longrightarrow> (\<And>r. mr_webhook_secret (f r) = mr_webhook_secret r) \<Longrightarrow>
    monobank_wf (mono_upd i f d)"
  unfolding monobank_wf_def mono_upd_def by (auto simp: map_update_by dest: set_update_by)

lemma distinct_update_by:
  "distinct (map g rs) \<Longrightarrow> distinct (map key rs) \<Longrightarrow> \<forall>r \<in> set rs. key r \<noteq> k \<longrightarrow> g r \<noteq> g new \<Longrightarrow>
    distinct (map g (update_by key k (\<lambda>_. new) rs))"
proof (induction rs)
  case (Cons r rs)
  have out: "x \<in> set (update_by key k (\<lambda>_. new) rs) \<Longrightarrow> x = new \<or> x \<in> set rs" for x
    by (auto dest: set_update_by)
  show ?case
  proof (cases "key r = k")
    case True
    with Cons.prems(2) have "\<forall>x \<in> set rs. key x \<noteq> k" by (metis distinct.simps(2) image_eqI list.set_map list.simps(9))
    with Cons True show ?thesis by (auto simp: update_by_absent image_iff)
  next
    case False
    have "g r \<notin> g ` set (update_by key k (\<lambda>_. new) rs)"
      using Cons.prems False out by (auto simp: image_iff)
    with Cons False show ?thesis by auto
  qed
qed simp

lemma monobank_wf_replace:
  assumes "monobank_wf d" "mono_get (mr_user_id row) d \<noteq> None"
    and "\<forall>r \<in> set (db_monobank d). mr_webhook_secret r = mr_webhook_secret row \<longrightarrow> mr_user_id r = mr_user_id row"
  shows "monobank_wf (mono_upd (mr_user_id row) (\<lambda>_. row) d)"
proof -
  have "mr_user_id row \<in> ur_id ` set (db_users d)"
    using assms(1,2) by (auto simp: mono_get_def monobank_wf_def dest!: row_by_Some) metis
  with assms show ?thesis
    by (auto simp: monobank_wf_def mono_upd_def intro!: distinct_update_by dest!: set_update_by)
qed

lemma monobank_statements_keep [hr]:
  "keeps monobank_wf (MonobankConnectionUpsert p)" "keeps monobank_wf (MonobankConnectionGetByUserID i)"
  "keeps monobank_wf (MonobankConnectionGetByWebhookSecret s)" "keeps monobank_wf (MonobankConnectionDelete i)"
  "keeps monobank_wf (MonobankConnectionTouchSync i)" "keeps monobank_wf (MonobankConnectionUpdateAccounts i a b c e)"
proof -
  have insert: "monobank_wf (d\<lparr>db_monobank := db_monobank d @ [row]\<rparr>)"
    if "monobank_wf d" "mono_get (mr_user_id row) d = None" "user_get (mr_user_id row) d \<noteq> None"
      "\<forall>r \<in> set (db_monobank d). mr_webhook_secret r = mr_webhook_secret row \<longrightarrow> mr_user_id r = mr_user_id row" for d row
    using that by (fastforce simp: monobank_wf_def mono_get_def row_by_None dest!: user_get_set)
  have row: "mr_user_id (upserted t p) = um_UserID p" "mr_webhook_secret (upserted t p) = um_WebhookSecret p" for t
    by (simp_all add: upserted_def)
  show "keeps monobank_wf (MonobankConnectionUpsert p)"
    unfolding MonobankConnectionUpsert_def Let_def
    by (rule keeps_stmt)
      (auto simp: row intro!: insert monobank_wf_replace [where row = "upserted t p" for t, unfolded row] split: option.splits)
  show "keeps monobank_wf (MonobankConnectionGetByUserID i)" "keeps monobank_wf (MonobankConnectionGetByWebhookSecret s)"
    "keeps monobank_wf (MonobankConnectionDelete i)" "keeps monobank_wf (MonobankConnectionTouchSync i)"
    "keeps monobank_wf (MonobankConnectionUpdateAccounts i a b c e)"
    unfolding monobank_statements
    by (auto intro!: keeps_stmt keeps_read monobank_wf_upd simp: Let_def split: option.splits)
      (auto simp: monobank_wf_def distinct_map_filter)
qed

lemma monobank_repo_keep [hr]:
  "keeps monobank_wf (MonobankRepo_Upsert p)" "keeps monobank_wf (MonobankRepo_GetByUserID i)"
  "keeps monobank_wf (MonobankRepo_GetByWebhookSecret s)" "keeps monobank_wf (MonobankRepo_Delete i)"
  "keeps monobank_wf (MonobankRepo_TouchSync i)" "keeps monobank_wf (MonobankRepo_UpdateAccounts i a b c e)"
  by (auto simp: monobank_repo intro!: hr)

end
