(* ===== verification/Ledger.thy ===== *)
theory Ledger
  imports Transactions Payments
begin

text \<open>
  The invariants of the categories and transactions: keys and import keys are unique, every
  reference resolves, amounts are ones their column holds (\<open>ledger_wf\<close>, kept by every single
  statement), and a transaction's category is a default or its user's own
  (\<open>categories_owned\<close>, which needs the check the service makes before it writes).
\<close>

named_theorems ledger_defs \<open>the services and repositories of the ledger, unfolded\<close>

lemmas category_statements =
  CategoryCreate_def CategoryGetByID_def CategoryListForUser_def CategoryDeleteForUser_def
  CategoryUpdateTranslations_def

lemmas transaction_statements =
  TransactionCreate_def TransactionCreateWithExternalID_def TransactionListForUser_def
  TransactionUpdateForUser_def TransactionCountForUser_def TransactionDeleteForUser_def
  TransactionDeleteExpiredForPlan_def

lemmas [ledger_defs] =
  CategoryRepo_ListForUser_def CategoryRepo_Create_def CategoryRepo_GetByID_def
  CategoryRepo_UpdateTranslations_def CategoryRepo_DeleteForUser_def
  TransactionRepo_Create_def TransactionRepo_CreateWithExternalID_def TransactionRepo_ListForUser_def
  TransactionRepo_UpdateForUser_def TransactionRepo_CountForUser_def TransactionRepo_DeleteForUser_def
  TransactionRepo_DeleteExpiredForPlan_def
  category_List_def category_Create_def category_Delete_def
  transaction_List_def transaction_Create_def transaction_Update_def transaction_Delete_def check_category_def

section \<open>Every statement keeps the tables well formed\<close>

definition transaction_ok :: "db \<Rightarrow> transaction_row \<Rightarrow> bool" where
  "transaction_ok d r \<longleftrightarrow>
     transaction_type_ok (tr_type r) \<and> stored_numeric 14 (tr_amount r) \<and>
     tr_user_id r \<in> ur_id ` set (db_users d) \<and>
     (\<forall>c. tr_category_id r = Some c \<longrightarrow> c \<in> cr_id ` set (db_categories d))"

definition category_ok :: "db \<Rightarrow> category_row \<Rightarrow> bool" where
  "category_ok d r \<longleftrightarrow>
     transaction_type_ok (cr_type r) \<and> (\<forall>u. cr_user_id r = Some u \<longrightarrow> u \<in> ur_id ` set (db_users d)) \<and>
     (cr_is_default r \<longrightarrow> cr_user_id r = None)"

definition transactions_wf :: "db \<Rightarrow> bool" where
  "transactions_wf d \<longleftrightarrow>
     distinct (map tr_id (db_transactions d)) \<and>
     distinct (map external_key (filter (\<lambda>r. tr_external_id r \<noteq> []) (db_transactions d))) \<and>
     (\<forall>r \<in> set (db_transactions d). transaction_ok d r)"

definition categories_wf :: "db \<Rightarrow> bool" where
  "categories_wf d \<longleftrightarrow>
     distinct (map cr_id (db_categories d)) \<and> (\<forall>r \<in> set (db_categories d). category_ok d r)"

definition ledger_wf :: "db \<Rightarrow> bool" where
  "ledger_wf d \<longleftrightarrow> transactions_wf d \<and> categories_wf d"

lemmas ledger_unfold = ledger_wf_def transactions_wf_def categories_wf_def transaction_ok_def category_ok_def

lemma fault_free_ledger [simp]: "fault_free ledger_wf"
  by (simp add: fault_free_def ledger_unfold)

lemma user_get_Some: "user_get i d = Some r \<Longrightarrow> i \<in> ur_id ` set (db_users d)"
  by (rule user_get_set)

lemma category_get_Some: "category_get i d = Some r \<Longrightarrow> r \<in> set (db_categories d) \<and> cr_id r = i"
  by (auto simp: category_get_def dest: row_by_Some)

lemma checks_ok:
  "transaction_checks row d = None \<Longrightarrow> stored_numeric 14 (tr_amount row) \<Longrightarrow> transaction_ok d row"
  by (auto simp: transaction_checks_def transaction_ok_def split: if_splits option.splits
      dest: user_get_Some category_get_Some)

lemma transaction_category:
  "ledger_wf d \<Longrightarrow> r \<in> set (db_transactions d) \<Longrightarrow> tr_category_id r = Some c \<Longrightarrow> c \<in> cr_id ` set (db_categories d)"
  by (simp add: ledger_wf_def transactions_wf_def transaction_ok_def)

lemma ledger_row_ok: "ledger_wf d \<Longrightarrow> r \<in> set (db_transactions d) \<Longrightarrow> transaction_ok d r"
  by (simp add: ledger_wf_def transactions_wf_def)

lemma external_key_eq: "tr_external_id r \<noteq> [] \<Longrightarrow> external_key r = external_key s \<longleftrightarrow>
    tr_user_id s = tr_user_id r \<and> tr_external_id s = tr_external_id r"
  by (auto simp: external_key_def)

lemma ledger_insert:
  assumes "ledger_wf d" "stored_numeric 14 (tr_amount row)" "\<not> imported (tr_user_id row) (tr_external_id row) d"
  shows "ledger_wf (snd (transaction_insert row d))"
proof (cases "tr_id row \<in> set (map tr_id (db_transactions d)) \<or> transaction_checks row d \<noteq> None")
  case True
  with assms(1) show ?thesis by (auto simp: transaction_insert_def split: option.splits)
next
  case False
  then have "transaction_ok d row" using checks_ok assms(2) by blast
  moreover have "external_key row \<notin> external_key ` {r \<in> set (db_transactions d). tr_external_id r \<noteq> []}"
    if "tr_external_id row \<noteq> []"
    using assms(3) that by (auto simp: imported_def external_key_eq)
  ultimately show ?thesis
    using False assms(1) by (auto simp: transaction_insert_def bump_def ledger_unfold)
qed

lemma distinct_map_filter_and:
  "distinct (map f (filter Q xs)) \<Longrightarrow> distinct (map f (filter (\<lambda>x. P x \<and> Q x) xs))"
  by (induction xs) (auto split: if_splits)

lemma ledger_filter:
  assumes "ledger_wf d" shows "ledger_wf (d\<lparr>db_transactions := filter P (db_transactions d)\<rparr>)"
  using assms distinct_map_filter_and [of external_key "\<lambda>r. tr_external_id r \<noteq> []" "db_transactions d" P]
  by (auto simp: ledger_wf_def transactions_wf_def categories_wf_def category_ok_def transaction_ok_def
      distinct_map_filter)

lemma ledger_map:
  assumes "ledger_wf d" and "\<And>r. tr_id (f r) = tr_id r" "\<And>r. external_key (f r) = external_key r"
    and "\<And>r. r \<in> set (db_transactions d) \<Longrightarrow> transaction_ok d r \<Longrightarrow> transaction_ok d (f r)"
  shows "ledger_wf (d\<lparr>db_transactions := map f (db_transactions d)\<rparr>)"
proof -
  have ne: "tr_external_id (f r) \<noteq> [] \<longleftrightarrow> tr_external_id r \<noteq> []" for r
    using assms(3) [of r] by (auto simp: external_key_def split: if_splits)
  have ok: "transaction_ok (d\<lparr>db_transactions := ts\<rparr>) r = transaction_ok d r" for ts r
    by (simp add: transaction_ok_def)
  have ck: "category_ok (d\<lparr>db_transactions := ts\<rparr>) r = category_ok d r" for ts r
    by (simp add: category_ok_def)
  show ?thesis
    using assms by (auto simp: ledger_wf_def transactions_wf_def categories_wf_def ok ck filter_map comp_def ne)
qed

lemma ledger_update:
  assumes "ledger_wf d" "transaction_ok d (transaction_set d p a r)"
    "List.find (\<lambda>r. tr_id r = i \<and> tr_user_id r = u) (db_transactions d) = Some r" "stored_numeric 14 a"
  shows "ledger_wf (d\<lparr>db_transactions := map (\<lambda>x. if tr_id x = i \<and> tr_user_id x = u
      then transaction_set d p a x else x) (db_transactions d)\<rparr>)"
  by (rule ledger_map [OF assms(1)])
    (use assms(2-4) in \<open>auto simp: transaction_set_def external_key_def transaction_ok_def dest!: find_Some_iff\<close>)

lemma uncategorise_keys:
  "tr_id (uncategorise g r) = tr_id r" "external_key (uncategorise g r) = external_key r"
  "tr_user_id (uncategorise g r) = tr_user_id r"
  by (simp_all add: uncategorise_def external_key_def split: option.splits)

lemma uncategorise_ok: "transaction_ok d r \<Longrightarrow> transaction_ok d (uncategorise g r)"
  by (auto simp: uncategorise_def transaction_ok_def split: option.splits)

lemma uncategorise_Some:
  "tr_category_id (uncategorise g r) = Some c \<longleftrightarrow> tr_category_id r = Some c \<and> c \<notin> g"
  by (auto simp: uncategorise_def split: option.splits)

definition without_category :: "uuid \<Rightarrow> uuid \<Rightarrow> db \<Rightarrow> db" where
  "without_category i u d =
     d\<lparr>db_categories := filter (\<lambda>r. \<not> deletable i u r) (db_categories d),
       db_transactions := map (uncategorise (cr_id ` set (filter (deletable i u) (db_categories d)))) (db_transactions d)\<rparr>"

lemma ledger_category_delete:
  assumes "ledger_wf d" shows "ledger_wf (without_category i u d)"
proof -
  let ?g = "cr_id ` set (filter (deletable i u) (db_categories d))"
  let ?d = "d\<lparr>db_transactions := map (uncategorise ?g) (db_transactions d)\<rparr>"
  have wf: "ledger_wf ?d"
    by (rule ledger_map [OF assms uncategorise_keys(1,2)]) (rule uncategorise_ok)
  have ok: "transaction_ok (without_category i u d) r" if r: "r \<in> set (db_transactions ?d)" for r
  proof -
    have "c \<in> cr_id ` set (db_categories (without_category i u d))" if "tr_category_id r = Some c" for c
    proof -
      from r that obtain x where "x \<in> set (db_transactions d)" "tr_category_id x = Some c" and new: "c \<notin> ?g"
        by (auto simp: uncategorise_Some)
      then obtain k where "k \<in> set (db_categories d)" "cr_id k = c"
        using transaction_category [OF assms] by blast
      with new show ?thesis by (auto simp: without_category_def)
    qed
    moreover have "transaction_ok ?d r" using ledger_row_ok [OF wf r] .
    ultimately show ?thesis by (simp add: transaction_ok_def without_category_def)
  qed
  moreover have "categories_wf (without_category i u d)"
    using assms by (auto simp: ledger_wf_def categories_wf_def category_ok_def without_category_def distinct_map_filter)
  ultimately show ?thesis
    using wf by (simp add: ledger_wf_def transactions_wf_def without_category_def)
qed

lemma ledger_category_insert:
  assumes "ledger_wf d" shows "ledger_wf (snd (category_insert (new_category d p) d))"
proof -
  have "transaction_ok (bump (d\<lparr>db_categories := db_categories d @ [row]\<rparr>)) r" if "transaction_ok d r" for r row
    using that by (auto simp: transaction_ok_def bump_def)
  with assms show ?thesis
    by (auto simp: category_insert_def new_category_def bump_def ledger_wf_def transactions_wf_def
        categories_wf_def category_ok_def dest!: user_get_Some)
qed

lemma ledger_category_upd:
  assumes "ledger_wf d" shows "ledger_wf (category_upd i (\<lambda>r. r\<lparr>cr_name_uk := a, cr_name_en := b\<rparr>) d)"
proof -
  let ?f = "\<lambda>r. r\<lparr>cr_name_uk := a, cr_name_en := b\<rparr>"
  let ?d = "category_upd i ?f d"
  have ids: "map cr_id (db_categories ?d) = map cr_id (db_categories d)"
    by (simp add: category_upd_def map_update_by)
  then have "cr_id ` set (db_categories ?d) = cr_id ` set (db_categories d)" by (metis list.set_map)
  then have tok: "transaction_ok ?d r = transaction_ok d r" for r
    by (simp add: transaction_ok_def) (simp add: category_upd_def)
  have cok: "category_ok ?d r = category_ok d r" "category_ok d (?f r) = category_ok d r" for r
    by (simp_all add: category_ok_def category_upd_def)
  have "\<forall>r \<in> set (db_categories ?d). category_ok d r"
    using assms unfolding category_upd_def
    by (simp add: ledger_wf_def categories_wf_def) (rule ball_update_by, simp_all add: cok)
  with assms ids show ?thesis
    by (simp add: ledger_wf_def transactions_wf_def categories_wf_def tok cok) (simp add: category_upd_def)
qed

lemma CategoryDeleteForUser_without:
  "CategoryDeleteForUser i u = stmt (\<lambda>d. (Inr (int (length (filter (deletable i u) (db_categories d)))), without_category i u d))"
  by (simp add: CategoryDeleteForUser_def without_category_def Let_def)

lemma category_statements_keep [hr]:
  "keeps ledger_wf (CategoryCreate p)" "keeps ledger_wf (CategoryGetByID i)"
  "keeps ledger_wf (CategoryListForUser le u)" "keeps ledger_wf (CategoryDeleteForUser i u)"
  "keeps ledger_wf (CategoryUpdateTranslations i a b)"
  by (auto simp: CategoryCreate_def CategoryGetByID_def CategoryListForUser_def CategoryDeleteForUser_without
      CategoryUpdateTranslations_def ledger_category_insert ledger_category_delete ledger_category_upd
      intro!: keeps_stmt keeps_read)

lemma new_transaction_fields [simp]:
  "tr_amount (new_transaction d p a x oa oc) = a" "tr_user_id (new_transaction d p a x oa oc) = xp_user_id p"
  "tr_external_id (new_transaction d p a x oa oc) = x" "tr_category_id (new_transaction d p a x oa oc) = xp_category_id p"
  "tr_id (new_transaction d p a x oa oc) = next_id d" "tr_type (new_transaction d p a x oa oc) = xp_type p"
  by (simp_all add: new_transaction_def)

lemma not_imported_blank [simp]: "\<not> imported u [] d"
  by (simp add: imported_def)

lemma transaction_statements_keep [hr]:
  "keeps ledger_wf (TransactionCreate q)" "keeps ledger_wf (TransactionCreateWithExternalID q x oa oc)"
  "keeps ledger_wf (TransactionListForUser u f t)" "keeps ledger_wf (TransactionUpdateForUser i u y)"
  "keeps ledger_wf (TransactionCountForUser u)" "keeps ledger_wf (TransactionDeleteForUser i u)"
  "keeps ledger_wf (TransactionDeleteExpiredForPlan c s)"
  unfolding transaction_statements
  by (auto intro!: keeps_stmt keeps_read ledger_insert ledger_update checks_ok ledger_filter
      simp: numeric_col_idem delete_where_def transaction_set_def split: sum.splits option.splits)

section \<open>The services keep them\<close>

lemma ledger_repo_keep [hr]:
  "keeps ledger_wf (CategoryRepo_ListForUser le u)" "keeps ledger_wf (CategoryRepo_Create u a b c e f g)"
  "keeps ledger_wf (CategoryRepo_GetByID i)" "keeps ledger_wf (CategoryRepo_UpdateTranslations i a b)"
  "keeps ledger_wf (CategoryRepo_DeleteForUser i u)"
  "keeps ledger_wf (TransactionRepo_Create pg q)" "keeps ledger_wf (TransactionRepo_CreateWithExternalID pg q x oa oc)"
  "keeps ledger_wf (TransactionRepo_ListForUser pg u ta tb)" "keeps ledger_wf (TransactionRepo_UpdateForUser pg y)"
  "keeps ledger_wf (TransactionRepo_CountForUser u)" "keeps ledger_wf (TransactionRepo_DeleteForUser i u)"
  "keeps ledger_wf (TransactionRepo_DeleteExpiredForPlan s tc)"
  by (auto simp: ledger_defs intro!: hr)

lemma keeps_heal: "(\<And>i a b. keeps P (CategoryRepo_UpdateTranslations i a b)) \<Longrightarrow> keeps P (healTranslations tr n cs)"
  by (induction cs arbitrary: n) (auto intro!: hr split: prod.splits)

lemma keeps_sweep_plans:
  "(\<And>s c. keeps P (TransactionRepo_DeleteExpiredForPlan s c)) \<Longrightarrow> keeps P (sweep_plans now ps)"
  by (induction ps) (auto intro!: hr)

lemma ledger_services_keep [hr]:
  "keeps ledger_wf (category_List le u)" "keeps ledger_wf (category_Create tr u a b c e)"
  "keeps ledger_wf (category_Delete u i)" "keeps ledger_wf (healTranslations tr n cs)"
  "keeps ledger_wf (transaction_List pg u f t)" "keeps ledger_wf (transaction_Create pg q)"
  "keeps ledger_wf (transaction_Update pg y)" "keeps ledger_wf (transaction_Delete u i)"
  "keeps ledger_wf (sweepOnce now)"
  by (auto simp: category_List_def category_Create_def category_Delete_def transaction_List_def
      transaction_Create_def transaction_Update_def transaction_Delete_def check_category_def sweepOnce_def
      intro!: hr keeps_heal keeps_sweep_plans)

section \<open>Whose category a transaction may have\<close>

definition usable :: "db \<Rightarrow> uuid \<Rightarrow> uuid \<Rightarrow> bool" where
  "usable d u c \<longleftrightarrow>
     (\<exists>k \<in> set (db_categories d). cr_id k = c \<and> UUIDToGoogle (cr_user_id k) \<in> {uuid_Nil, u})"

definition categories_owned :: "db \<Rightarrow> bool" where
  "categories_owned d \<longleftrightarrow>
     (\<forall>r \<in> set (db_transactions d). \<forall>c. tr_category_id r = Some c \<longrightarrow> usable d (tr_user_id r) c)"

lemma fault_free_usable [simp]: "fault_free (\<lambda>d. usable d u c)" "fault_free categories_owned"
  by (simp_all add: fault_free_def usable_def categories_owned_def)

text \<open>What is known after the service's check: the category may be used, and nothing changed.\<close>

definition may_use :: "uuid \<Rightarrow> uuid \<Rightarrow> db \<Rightarrow> bool" where
  "may_use u c d \<longleftrightarrow> categories_owned d \<and> (c \<noteq> uuid_Nil \<longrightarrow> usable d u c)"

lemma fault_free_may_use [simp]: "fault_free (may_use u c)"
  by (simp add: fault_free_def may_use_def usable_def categories_owned_def)

lemma category_lookup:
  "hoare categories_owned (CategoryRepo_GetByID c)
     (\<lambda>r d. categories_owned d \<and> (\<forall>k. r = Inr k \<longrightarrow> ca_UserID k \<in> {uuid_Nil, u} \<longrightarrow> usable d u c))"
proof -
  have "hoare categories_owned (CategoryGetByID c)
      (\<lambda>r d. categories_owned d \<and> (\<forall>k. r = Inr k \<longrightarrow> UUIDToGoogle (cr_user_id k) \<in> {uuid_Nil, u} \<longrightarrow> usable d u c))"
    unfolding CategoryGetByID_def read_stmt_def
    by (rule hoare_stmt [where P' = categories_owned]) (auto simp: usable_def dest!: query_one_Inr)
  then show ?thesis
    unfolding CategoryRepo_GetByID_def
    by (rule hoare_bind) (auto simp: hoare_def categoryFromRow_def split: sum.splits)
qed

lemma check_category_ok:
  "hoare categories_owned (check_category c u) (\<lambda>r d. categories_owned d \<and> (\<forall>x. r = Inr x \<longrightarrow> may_use u c d))"
  unfolding check_category_def
  by (rule hoare_if, simp add: hoare_def may_use_def, rule hoare_bind [OF category_lookup [of c u]])
    (auto simp: hoare_def may_use_def split: sum.splits)

text \<open>Writing a transaction of \<open>u\<close> with a category that may be used.\<close>

lemma owned_insert:
  assumes "may_use (tr_user_id row) c d" "tr_category_id row = NullUUIDFromGoogle c"
  shows "categories_owned (snd (transaction_insert row d))"
  using assms
  by (auto simp: transaction_insert_def bump_def categories_owned_def may_use_def usable_def
      NullUUIDFromGoogle_def UUIDFromGoogle_def split: option.splits if_splits)

lemma owned_create: "hoare (may_use (ct_UserID p) (ct_CategoryID p)) (TransactionRepo_Create pg p) (\<lambda>_. categories_owned)"
proof -
  have "hoare (may_use (ct_UserID p) (ct_CategoryID p)) (TransactionCreate (create_columns p a)) (\<lambda>_. categories_owned)" for a
    unfolding TransactionCreate_def
    by (rule hoare_stmt [where P' = "may_use (ct_UserID p) (ct_CategoryID p)"])
      (auto simp: create_columns_def may_use_def intro!: owned_insert split: sum.splits)
  then show ?thesis
    unfolding TransactionRepo_Create_def
    by (intro hoare_sum hoare_return hoare_bind) (auto simp: may_use_def hoare_def split: sum.splits)
qed

lemma owned_import:
  "hoare (may_use (ct_UserID p) (ct_CategoryID p)) (TransactionRepo_CreateWithExternalID pg p x oa oc) (\<lambda>_. categories_owned)"
proof -
  have "hoare (may_use (ct_UserID p) (ct_CategoryID p))
      (TransactionCreateWithExternalID (create_columns p a) x oa oc') (\<lambda>_. categories_owned)" for a oc'
    unfolding TransactionCreateWithExternalID_def
    by (rule hoare_stmt [where P' = "may_use (ct_UserID p) (ct_CategoryID p)"])
      (auto simp: create_columns_def may_use_def intro!: owned_insert split: sum.splits)
  then show ?thesis
    unfolding TransactionRepo_CreateWithExternalID_def
    by (intro hoare_sum hoare_return hoare_bind) (auto simp: may_use_def hoare_def split: sum.splits)
qed

lemma owned_update:
  "hoare (may_use (ut_UserID p) (ut_CategoryID p)) (TransactionRepo_UpdateForUser pg p) (\<lambda>_. categories_owned)"
proof -
  have "hoare (may_use (ut_UserID p) (ut_CategoryID p))
      (TransactionUpdateForUser (ut_ID p) (ut_UserID p) (update_columns p a)) (\<lambda>_. categories_owned)" for a
    unfolding TransactionUpdateForUser_def
    by (rule hoare_stmt [where P' = "may_use (ut_UserID p) (ut_CategoryID p)"])
      (auto simp: update_columns_def transaction_set_def may_use_def categories_owned_def usable_def
        NullUUIDFromGoogle_def UUIDFromGoogle_def split: sum.splits option.splits if_splits)
  then show ?thesis
    unfolding TransactionRepo_UpdateForUser_def
    by (intro hoare_sum hoare_return hoare_bind) (auto simp: may_use_def hoare_def split: sum.splits)
qed

end
