(* ===== verification/Monobank_Import.thy ===== *)
theory Monobank_Import
  imports Monobank Ledger
begin

text \<open>
  The import of bank transactions: one statement item (\<open>internal/monobankimport/import.go\<close>),
  the service behind the connection screen (\<open>internal/service/monobank/monobank.go\<close>) and the
  webhook Monobank posts to (\<open>internal/webhook/monobank.go\<close>). Amounts are 64-bit words, as
  in the source.
\<close>

section \<open>The importer\<close>

text \<open>The collation of the category list, Unicode case folding and pgtype's numerics.\<close>

record import_env =
  im_name_le :: "string \<Rightarrow> string \<Rightarrow> bool"
  im_fold :: "string \<Rightarrow> string"
  im_pgnum :: pgnum

definition findCategory :: "import_env \<Rightarrow> uuid \<Rightarrow> string \<Rightarrow> string \<Rightarrow> (db, uuid option) state" where
  "findCategory env userID name transactionType = do {
     r \<leftarrow> CategoryRepo_ListForUser (im_name_le env) userID;
     case r of
       Inl _ \<Rightarrow> ret None
     | Inr categories \<Rightarrow>
         ret (map_option ca_ID (List.find (\<lambda>c. EqualFold (im_fold env) (TrimSpace (ca_Name c)) name \<and>
                                          ca_Type c = transactionType) categories)) }"

text \<open>\<open>amount\<close> after the sign is taken off: the negation of the least word is that word again.\<close>

definition item_type :: "64 word \<Rightarrow> string" where
  "item_type amount = (if sint amount < 0 then ''expense'' else ''income'')"

definition item_magnitude :: "64 word \<Rightarrow> 64 word" where
  "item_magnitude amount = (if sint amount < 0 then - amount else amount)"

definition amount_text :: "64 word \<Rightarrow> string" where
  "amount_text amount = fmt_d (sint amount sdiv 100) @ ''.'' @ fmt_02d (sint amount smod 100)"

definition item_currency :: "int \<Rightarrow> string \<Rightarrow> string" where
  "item_currency code accountCurrency =
     (let currency = CurrencyCode code in
      if accountCurrency \<noteq> [] \<and> currency \<noteq> accountCurrency then accountCurrency else currency)"

definition item_category :: "int \<Rightarrow> string \<Rightarrow> string" where
  "item_category code transactionType =
     (let name = CategoryName code in if name = [] \<and> transactionType = ''expense'' then cat_other else name)"

definition Item :: "import_env \<Rightarrow> uuid \<Rightarrow> StatementItem \<Rightarrow> string \<Rightarrow> bool dbop" where
  "Item env userID item accountCurrency =
     (if si_Amount item = 0 then ret (Inr False)
      else
        (let transactionType = item_type (si_Amount item);
             amount = item_magnitude (si_Amount item);
             currency = item_currency (si_CurrencyCode item) accountCurrency;
             name = item_category (si_MCC item) transactionType
         in do {
              category \<leftarrow> (if name \<noteq> [] then findCategory env userID name transactionType else ret None);
              r \<leftarrow> TransactionRepo_CreateWithExternalID (im_pgnum env)
                     \<lparr>ct_UserID = userID, ct_CategoryID = (case category of None \<Rightarrow> uuid_Nil | Some c \<Rightarrow> c),
                      ct_Amount = amount_text amount, ct_Currency = currency, ct_Type = transactionType,
                      ct_Date = time_of_unix (si_Time item), ct_Note = si_Description item\<rparr>
                     (si_ID item) (si_OperationAmount item) (si_OperationCurrencyCode item);
              case r of
                Inl e \<Rightarrow> ret (Inl (Wrap ''create transaction'' [] e))
              | Inr created \<Rightarrow> ret (Inr (created \<noteq> None)) }))"

section \<open>The service\<close>

record MonobankService =
  ms_box :: aead
  ms_webhookBaseURL :: string

record mono_env =
  me_net :: mono_net
  me_import :: import_env

record MonobankStatus =
  mt_IsConnected :: bool
  mt_MaskedPans :: "string list"
  mt_ConnectedAt :: gotime
  mt_LastSyncedAt :: gotime

record AccountOption =
  ao_ID :: string
  ao_MaskedPan :: string
  ao_Currency :: string
  ao_Type :: string
  ao_Selected :: bool

definition statusFromConnection :: "MonobankConnection \<Rightarrow> MonobankStatus" where
  "statusFromConnection conn =
     \<lparr>mt_IsConnected = True, mt_MaskedPans = mc_MaskedPans conn, mt_ConnectedAt = mc_ConnectedAt conn,
      mt_LastSyncedAt = mc_LastSyncedAt conn\<rparr>"

definition randomSecret :: "string res \<Rightarrow> string res" where
  "randomSecret random = (case random of Inl e \<Rightarrow> Inl e | Inr buf \<Rightarrow> Inr (hex_EncodeToString buf))"

definition account_option :: "Account \<Rightarrow> AccountOption" where
  "account_option a =
     \<lparr>ao_ID = ba_ID a, ao_MaskedPan = (case slice_list (ba_MaskedPan a) of [] \<Rightarrow> [] | p # _ \<Rightarrow> p),
      ao_Currency = CurrencyCode (ba_CurrencyCode a), ao_Type = ba_Type a, ao_Selected = False\<rparr>"

definition ListAccounts :: "mono_net \<Rightarrow> string \<Rightarrow> AccountOption list res" where
  "ListAccounts net personalToken =
     (if personalToken = [] then Inl (Errorf ''personal_token is required'' [])
      else (case mono_ClientInfo net personalToken of
              Inl e \<Rightarrow> Inl (Wrap ''validate token with monobank'' [] e)
            | Inr info \<Rightarrow> Inr (map account_option (slice_list (bi_Accounts info)))))"

definition Connect ::
  "mono_env \<Rightarrow> MonobankService \<Rightarrow> string res \<Rightarrow> string res \<Rightarrow> uuid \<Rightarrow> string \<Rightarrow>
     string slice \<Rightarrow> string slice \<Rightarrow> string slice \<Rightarrow> string slice \<Rightarrow> MonobankStatus dbop" where
  "Connect env s random nonce userID personalToken accountIDs maskedPans accountTypes accountCurrencies =
     (if personalToken = [] then ret (Inl (Errorf ''personal_token is required'' []))
      else if slice_list accountIDs = [] then ret (Inl (Errorf ''at least one account_id is required'' []))
      else if ms_webhookBaseURL s = []
      then ret (Inl (Errorf ''PUBLIC_BASE_URL is not configured on the server; Monobank needs a public HTTPS URL to send transactions to'' []))
      else (case randomSecret random of
              Inl e \<Rightarrow> ret (Inl (Wrap ''generate webhook secret'' [] e))
            | Inr secret \<Rightarrow>
                (case Box_Encrypt (ms_box s) nonce personalToken of
                   Inl e \<Rightarrow> ret (Inl (Wrap ''encrypt token'' [] e))
                 | Inr encrypted \<Rightarrow>
                     (case mono_SetWebHook (me_net env) personalToken
                             (ms_webhookBaseURL s @ ''/webhooks/monobank/'' @ secret) of
                        Inl e \<Rightarrow> ret (Inl (Wrap ''register webhook'' [] e))
                      | Inr _ \<Rightarrow> do {
                          r \<leftarrow> MonobankRepo_Upsert
                            \<lparr>um_UserID = userID, um_EncryptedToken = encrypted, um_WebhookSecret = secret,
                             um_MaskedPans = maskedPans, um_AccountIDs = accountIDs, um_AccountTypes = accountTypes,
                             um_AccountCurrencies = accountCurrencies\<rparr>;
                          case r of
                            Inl e \<Rightarrow> ret (Inl (Wrap ''save connection'' [] e))
                          | Inr conn \<Rightarrow> ret (Inr (statusFromConnection conn)) }))))"

definition not_connected :: "goerr \<Rightarrow> goerr" where
  "not_connected e =
     (if errors_is e ErrNoRows then Errorf ''monobank is not connected'' [] else Wrap ''lookup connection'' [] e)"

definition ListMyAccounts :: "mono_env \<Rightarrow> MonobankService \<Rightarrow> uuid \<Rightarrow> AccountOption list dbop" where
  "ListMyAccounts env s userID = do {
     r \<leftarrow> MonobankRepo_GetByUserID userID;
     case r of
       Inl e \<Rightarrow> ret (Inl (not_connected e))
     | Inr conn \<Rightarrow>
         ret (case Box_Decrypt (ms_box s) (mc_EncryptedToken conn) of
                Inl e \<Rightarrow> Inl (Wrap ''decrypt token'' [] e)
              | Inr token \<Rightarrow>
                  (case ListAccounts (me_net env) token of
                     Inl e \<Rightarrow> Inl e
                   | Inr options \<Rightarrow>
                       Inr (map (\<lambda>o1. o1\<lparr>ao_Selected := ao_ID o1 \<in> set (mc_AccountIDs conn)\<rparr>) options))) }"

definition UpdateAccounts ::
  "uuid \<Rightarrow> string slice \<Rightarrow> string slice \<Rightarrow> string slice \<Rightarrow> string slice \<Rightarrow> MonobankStatus dbop" where
  "UpdateAccounts userID accountIDs maskedPans accountTypes accountCurrencies =
     (if slice_list accountIDs = [] then ret (Inl (Errorf ''at least one account_id is required'' []))
      else do {
        r \<leftarrow> MonobankRepo_UpdateAccounts userID accountIDs maskedPans accountTypes accountCurrencies;
        case r of
          Inl e \<Rightarrow> ret (Inl (Wrap ''update tracked accounts'' [] e))
        | Inr conn \<Rightarrow> ret (Inr (statusFromConnection conn)) })"

text \<open>
  The result of \<open>SyncNow\<close> is the count and the error: an error in the middle still reports the
  transactions imported before it.
\<close>

fun sync_items :: "import_env \<Rightarrow> uuid \<Rightarrow> string \<Rightarrow> StatementItem list \<Rightarrow> int \<Rightarrow> (db, int \<times> goerr option) state" where
  "sync_items env userID accountCurrency [] count = ret (count, None)"
| "sync_items env userID accountCurrency (item # items) count = do {
     r \<leftarrow> Item env userID item accountCurrency;
     case r of
       Inl e \<Rightarrow> ret (count, Some (Wrap ''import transaction'' [] e))
     | Inr created \<Rightarrow>
         sync_items env userID accountCurrency items (if created then count + 1 else count) }"

definition SyncNow :: "mono_env \<Rightarrow> MonobankService \<Rightarrow> gotime \<Rightarrow> uuid \<Rightarrow> (db, int \<times> goerr option) state" where
  "SyncNow env s now userID = do {
     r \<leftarrow> MonobankRepo_GetByUserID userID;
     case r of
       Inl e \<Rightarrow> ret (0, Some (not_connected e))
     | Inr conn \<Rightarrow>
         (case mc_AccountIDs conn of
            [] \<Rightarrow> ret (0, Some (Errorf ''no accounts are being tracked'' []))
          | accountID # _ \<Rightarrow>
              (case Box_Decrypt (ms_box s) (mc_EncryptedToken conn) of
                 Inl e \<Rightarrow> ret (0, Some (Wrap ''decrypt token'' [] e))
               | Inr token \<Rightarrow>
                   (case mono_Statement (me_net env) token accountID (add_days now (- 31)) now of
                      Inl e \<Rightarrow> ret (0, Some (Wrap ''fetch statement'' [] e))
                    | Inr items \<Rightarrow> do {
                        (count, err) \<leftarrow> sync_items (me_import env) userID
                           (case mc_AccountCurrencies conn of [] \<Rightarrow> [] | c # _ \<Rightarrow> c) items 0;
                        case err of
                          Some e \<Rightarrow> ret (count, Some e)
                        | None \<Rightarrow> do {
                            t \<leftarrow> MonobankRepo_TouchSync userID;
                            ret (case t of Inl e \<Rightarrow> (count, Some (Wrap ''touch sync'' [] e)) | Inr _ \<Rightarrow> (count, None)) } }))) }"

definition Status :: "uuid \<Rightarrow> MonobankStatus dbop" where
  "Status userID = do {
     r \<leftarrow> MonobankRepo_GetByUserID userID;
     ret (case r of
            Inl e \<Rightarrow> if errors_is e ErrNoRows
                     then Inr \<lparr>mt_IsConnected = False, mt_MaskedPans = [], mt_ConnectedAt = 0, mt_LastSyncedAt = 0\<rparr>
                     else Inl (Wrap ''lookup connection'' [] e)
          | Inr conn \<Rightarrow> Inr (statusFromConnection conn)) }"

definition Disconnect :: "uuid \<Rightarrow> unit dbop" where
  "Disconnect userID = MonobankRepo_Delete userID"

section \<open>The webhook\<close>

definition webhook_process :: "import_env \<Rightarrow> string \<Rightarrow> WebhookPayload \<Rightarrow> unit dbop" where
  "webhook_process env secret payload = do {
     r \<leftarrow> MonobankRepo_GetByWebhookSecret secret;
     case r of
       Inl e \<Rightarrow> ret (Inl (if errors_is e ErrNoRows then Errorf ''unknown webhook secret'' []
                          else Wrap ''lookup connection'' [] e))
     | Inr conn \<Rightarrow>
         (let i = length (takeWhile (\<lambda>a. a \<noteq> wp_Account payload) (mc_AccountIDs conn)) in
          if i = length (mc_AccountIDs conn) then ret (Inr ())
          else do {
            c \<leftarrow> Item env (mc_UserID conn) (wp_StatementItem payload)
                   (if i < length (mc_AccountCurrencies conn) then mc_AccountCurrencies conn ! i else []);
            case c of
              Inl e \<Rightarrow> ret (Inl e)
            | Inr _ \<Rightarrow> MonobankRepo_TouchSync (mc_UserID conn) }) }"

text \<open>The status code of the reply, for a request's method, path and body.\<close>

definition Monobank_ServeHTTP :: "import_env \<Rightarrow> string \<Rightarrow> string \<Rightarrow> string \<Rightarrow> (db, int) state" where
  "Monobank_ServeHTTP env meth path body =
     (if meth \<noteq> ''POST'' then ret 405
      else
        (let secret = trim_prefix path ''/webhooks/monobank/'' in
         if secret = [] then ret 404
         else (case Decode (decode_fields payload_fields) WebhookPayload0 body of
                 Inl _ \<Rightarrow> ret 400
               | Inr payload \<Rightarrow>
                   if wp_Type payload \<noteq> ''StatementItem'' then ret 200
                   else do {
                     _ \<leftarrow> webhook_process env secret payload;
                     ret 200 })))"

section \<open>What they keep\<close>

lemmas monobank_service =
  Connect_def ListMyAccounts_def UpdateAccounts_def SyncNow_def Status_def Disconnect_def webhook_process_def
  Monobank_ServeHTTP_def

lemma keeps_sync_items: "(\<And>x. keeps P (Item env u x c)) \<Longrightarrow> keeps P (sync_items env u c items n)"
  by (induction items arbitrary: n) (auto intro!: hr)

lemma keeps_monobank_services:
  assumes "\<And>env u x c. keeps P (Item env u x c)" "\<And>i. keeps P (MonobankRepo_GetByUserID i)"
    and "\<And>s. keeps P (MonobankRepo_GetByWebhookSecret s)" "\<And>p. keeps P (MonobankRepo_Upsert p)"
    and "\<And>i a b c e. keeps P (MonobankRepo_UpdateAccounts i a b c e)" "\<And>i. keeps P (MonobankRepo_Delete i)"
    and "\<And>i. keeps P (MonobankRepo_TouchSync i)"
  shows "keeps P (Connect env s r n u t a b c e)" "keeps P (ListMyAccounts env s u)" "keeps P (UpdateAccounts u a b c e)"
    "keeps P (SyncNow env s now u)" "keeps P (Status u)" "keeps P (Disconnect u)" "keeps P (webhook_process ie sec pay)"
    "keeps P (Monobank_ServeHTTP ie m path body)"
  using assms
  by (auto simp: monobank_service Let_def intro!: hr keeps_sync_items split: list.splits)

lemma blind_ledger [simp]: "blind_monobank ledger_wf" "blind_monobank categories_owned"
  "blind_monobank users_wf" "blind_monobank payments_wf"
  by (simp_all add: blind_monobank_def ledger_unfold categories_owned_def usable_def users_wf_def
      payments_wf_def)

section \<open>The category of an imported transaction\<close>

text \<open>What \<open>findCategory\<close> returns: a category of the right type that the user may use.\<close>

definition owned_ledger :: "db \<Rightarrow> bool" where
  "owned_ledger d \<longleftrightarrow> categories_owned d \<and> categories_wf d"

lemma fault_free_owned_ledger [simp]: "fault_free owned_ledger"
  by (simp add: fault_free_def owned_ledger_def categories_owned_def usable_def categories_wf_def category_ok_def)

lemma listed_usable:
  "categories_wf d \<Longrightarrow> k \<in> set (db_categories d) \<Longrightarrow> cr_user_id k = Some u \<or> cr_is_default k \<Longrightarrow> usable d u (cr_id k)"
  by (force simp: usable_def categories_wf_def category_ok_def)

lemma categoryFromRow_simps [simp]:
  "ca_ID (categoryFromRow r) = cr_id r" "ca_Name (categoryFromRow r) = cr_name r" "ca_Type (categoryFromRow r) = cr_type r"
  by (simp_all add: categoryFromRow_def)

lemma list_usable:
  "hoare owned_ledger (CategoryRepo_ListForUser le u)
     (\<lambda>r d. owned_ledger d \<and> (\<forall>cs. r = Inr cs \<longrightarrow> (\<forall>c \<in> set cs. usable d u (ca_ID c))))"
proof -
  have "hoare owned_ledger (CategoryListForUser le u)
      (\<lambda>r d. owned_ledger d \<and> (\<forall>rows. r = Inr rows \<longrightarrow> (\<forall>k \<in> set rows. usable d u (cr_id k))))"
    unfolding CategoryListForUser_def read_stmt_def
    by (rule hoare_stmt [where P' = owned_ledger]) (auto simp: owned_ledger_def intro: listed_usable)
  then show ?thesis
    unfolding CategoryRepo_ListForUser_def
    by (rule hoare_bind) (auto simp: hoare_def split: sum.splits)
qed

lemma findCategory_usable:
  "hoare owned_ledger (findCategory env u name ty) (\<lambda>r d. owned_ledger d \<and> (\<forall>c. r = Some c \<longrightarrow> usable d u c))"
  unfolding findCategory_def
  by (rule hoare_bind [OF list_usable]) (auto simp: hoare_def dest: find_Some_iff split: sum.splits)

lemma categories_wf_import: "keeps categories_wf (TransactionRepo_CreateWithExternalID pg p x oa oc)"
proof -
  have "keeps categories_wf (TransactionCreateWithExternalID q x oa oc')" for q oc'
    unfolding TransactionCreateWithExternalID_def
    by (rule keeps_stmt) (auto simp: fault_free_def categories_wf_def category_ok_def transaction_insert_def bump_def
        split: sum.splits option.splits)
  then show ?thesis by (auto simp: TransactionRepo_CreateWithExternalID_def intro!: hr)
qed

lemma Item_owned [hr]: "keeps owned_ledger (Item env u item cur)"
proof -
  have import: "hoare (\<lambda>d. owned_ledger d \<and> (\<forall>c. k = Some c \<longrightarrow> usable d u c))
      (TransactionRepo_CreateWithExternalID pg \<lparr>ct_UserID = u, ct_CategoryID = (case k of None \<Rightarrow> uuid_Nil | Some c \<Rightarrow> c),
         ct_Amount = a, ct_Currency = cu, ct_Type = ty, ct_Date = t, ct_Note = n\<rparr> x oa oc) (\<lambda>_. owned_ledger)"
    for pg k a cu ty t n x oa oc
    unfolding hoare_def owned_ledger_def
    by (auto simp: may_use_def split: option.splits intro!: hoareD [OF categories_wf_import]
        intro: hoareD [OF owned_import])
  have find: "hoare owned_ledger (if b then findCategory env u name ty else ret None)
      (\<lambda>r d. owned_ledger d \<and> (\<forall>c. r = Some c \<longrightarrow> usable d u c))" for b name ty
    by (auto simp: findCategory_usable intro!: hr)
  show ?thesis
    unfolding Item_def Let_def
    by (intro hoare_if hoare_return hoare_bind [OF find] hoare_bind [OF import])
      (auto intro!: hr)
qed

lemma Item_ledger [hr]: "keeps ledger_wf (Item env u item cur)"
  by (auto simp: Item_def findCategory_def Let_def intro!: hr)

end
