(* ===== verification/Ledger_Properties.thy ===== *)
theory Ledger_Properties
  imports Ledger Samples
begin

text \<open>
  The properties of the ledger: importing once, isolation of the users from each other, what
  deleting a category and sweeping expired transactions do, and the exactness of amounts.
\<close>

section \<open>Ownership under every operation\<close>

lemma usable_simps [simp]:
  "usable (d\<lparr>db_transactions := ts\<rparr>) u c = usable d u c" "usable (d\<lparr>db_faults := fs\<rparr>) u c = usable d u c"
  "usable (bump d) u c = usable d u c"
  by (simp_all add: usable_def bump_def)

lemma usable_pairs:
  "usable d u c \<longleftrightarrow> (\<exists>p \<in> set (map (\<lambda>k. (cr_id k, cr_user_id k)) (db_categories d)).
      fst p = c \<and> UUIDToGoogle (snd p) \<in> {uuid_Nil, u})"
  by (auto simp: usable_def)

lemma owned_category_insert: "categories_owned d \<Longrightarrow> categories_owned (snd (category_insert row d))"
  by (auto simp: category_insert_def bump_def categories_owned_def usable_def split: option.splits)

lemma owned_delete_where: "categories_owned d \<Longrightarrow> categories_owned (snd (delete_where P d))"
  by (simp add: delete_where_def categories_owned_def)

lemma owned_without_category: "categories_owned d \<Longrightarrow> categories_owned (without_category i u d)"
proof -
  assume own: "categories_owned d"
  let ?g = "cr_id ` set (filter (deletable i u) (db_categories d))"
  have "usable (without_category i u d) v c" if "usable d v c" "c \<notin> ?g" for v c
    using that by (auto simp: usable_def without_category_def)
  with own show ?thesis
    by (auto simp: categories_owned_def without_category_def uncategorise_Some uncategorise_keys)
qed

lemma owned_translations:
  "categories_owned d \<Longrightarrow> categories_owned (category_upd i (\<lambda>r. r\<lparr>cr_name_uk := a, cr_name_en := b\<rparr>) d)"
proof -
  have "usable (category_upd i (\<lambda>r. r\<lparr>cr_name_uk := a, cr_name_en := b\<rparr>) d) u c = usable d u c" for u c
    by (simp add: usable_pairs category_upd_def map_update_by)
  then show "categories_owned d \<Longrightarrow> ?thesis" by (simp add: categories_owned_def category_upd_def)
qed

lemma owned_statements [hr]:
  "keeps categories_owned (CategoryCreate p)" "keeps categories_owned (CategoryGetByID i)"
  "keeps categories_owned (CategoryListForUser le u)" "keeps categories_owned (CategoryDeleteForUser i u)"
  "keeps categories_owned (CategoryUpdateTranslations i a b)" "keeps categories_owned (TransactionListForUser u ta tb)"
  "keeps categories_owned (TransactionCountForUser u)" "keeps categories_owned (TransactionDeleteForUser i u)"
  "keeps categories_owned (TransactionDeleteExpiredForPlan c s)"
  unfolding category_statements(1,2,3,5) CategoryDeleteForUser_without TransactionListForUser_def
    TransactionCountForUser_def TransactionDeleteForUser_def TransactionDeleteExpiredForPlan_def
  by (auto intro!: keeps_stmt keeps_read owned_without_category owned_translations owned_category_insert
      owned_delete_where)

lemma owned_services [hr]:
  "keeps categories_owned (category_List le u)" "keeps categories_owned (category_Create tr u a b c e)"
  "keeps categories_owned (category_Delete u i)" "keeps categories_owned (healTranslations tr n cs)"
  "keeps categories_owned (transaction_List pg u ta tb)" "keeps categories_owned (transaction_Delete u i)"
  "keeps categories_owned (sweepOnce now)"
  by (auto simp: ledger_defs sweepOnce_def intro!: hr keeps_heal keeps_sweep_plans)

lemma owned_service_writes [hr]:
  "keeps categories_owned (transaction_Create pg p)" "keeps categories_owned (transaction_Update pg q)"
proof -
  have create: "hoare (\<lambda>d. categories_owned d \<and> (\<forall>x. r = Inr x \<longrightarrow> may_use (ct_UserID p) (ct_CategoryID p) d))
      (case r of Inl e \<Rightarrow> ret (Inl e) | Inr _ \<Rightarrow> TransactionRepo_Create pg p) (\<lambda>_. categories_owned)" for r :: "unit res"
    by (cases r) (auto simp: hoare_def dest: hoareD [OF owned_create])
  have update: "hoare (\<lambda>d. categories_owned d \<and> (\<forall>x. r = Inr x \<longrightarrow> may_use (ut_UserID q) (ut_CategoryID q) d))
      (case r of Inl e \<Rightarrow> ret (Inl e) | Inr _ \<Rightarrow> TransactionRepo_UpdateForUser pg q) (\<lambda>_. categories_owned)" for r :: "unit res"
    by (cases r) (auto simp: hoare_def dest: hoareD [OF owned_update])
  show "keeps categories_owned (transaction_Create pg p)" "keeps categories_owned (transaction_Update pg q)"
    unfolding transaction_Create_def transaction_Update_def
    by (intro hoare_if hoare_return hoare_bind [OF check_category_ok] create update; assumption)+
qed

section \<open>Importing\<close>

lemma imported_insert:
  "transaction_insert row d = (Inr r, d') \<Longrightarrow> tr_external_id row \<noteq> [] \<Longrightarrow> imported (tr_user_id row) (tr_external_id row) d'"
  by (auto simp: transaction_insert_def imported_def bump_def split: if_splits option.splits)

lemma numeric_col_not_norows: "numeric_col p n = Inl e \<Longrightarrow> \<not> errors_is e ErrNoRows"
  by (auto simp: numeric_col_def Let_def split: numeric.splits if_splits)

lemma violations_not_norows [simp]:
  "\<not> errors_is (check_violation c) ErrNoRows" "\<not> errors_is (fk_violation c) ErrNoRows"
  "\<not> errors_is (unique_violation c) ErrNoRows"
  by (simp_all add: check_violation_def fk_violation_def unique_violation_def)

lemma run_import:
  assumes "db_faults d = []" "pn_Scan pg (ct_Amount p) = Inr n"
  shows "run_state (TransactionRepo_CreateWithExternalID pg p x oa oc) d =
    (case numeric_col 14 n of
       Inl e \<Rightarrow> (Inl e, d)
     | Inr amount \<Rightarrow>
         if \<not> transaction_type_ok (ct_Type p) then (Inl (check_violation ''transactions_type_check''), d)
         else if imported (ct_UserID p) x d then (Inr None, d)
         else (case transaction_insert (new_transaction d (create_columns p n) amount x oa (to_int32 oc)) d of
                 (Inl e, d') \<Rightarrow> (if errors_is e ErrNoRows then Inr None else Inl e, d')
               | (Inr row, d') \<Rightarrow> (Inr (Some (transactionFromRow pg row)), d')))"
  using assms
  by (auto simp: TransactionRepo_CreateWithExternalID_def TransactionCreateWithExternalID_def NumericFromString_def
      create_columns_def dest: numeric_col_not_norows split: sum.splits prod.splits)

lemma insert_errors: "transaction_insert row d = (Inl e, d') \<Longrightarrow> \<not> errors_is e ErrNoRows"
  by (auto simp: transaction_insert_def transaction_checks_def split: if_splits option.splits)

lemma insert_grows:
  "transaction_insert row d = (r, d') \<Longrightarrow> db_faults d' = db_faults d \<and> set (db_transactions d) \<subseteq> set (db_transactions d')"
  by (auto simp: transaction_insert_def bump_def split: if_splits option.splits)

lemma import_result:
  assumes "db_faults d = []" and "run_state (TransactionRepo_CreateWithExternalID pg p x oa oc) d = (Inr c, d')" and "x \<noteq> []"
  obtains n a where "pn_Scan pg (ct_Amount p) = Inr n" "numeric_col 14 n = Inr a" "transaction_type_ok (ct_Type p)"
    "imported (ct_UserID p) x d'" "db_faults d' = []" "set (db_transactions d) \<subseteq> set (db_transactions d')"
proof -
  obtain n where scan: "pn_Scan pg (ct_Amount p) = Inr n"
    using assms(2) by (cases "pn_Scan pg (ct_Amount p)")
      (auto simp: TransactionRepo_CreateWithExternalID_def NumericFromString_def)
  note run = assms(2) [unfolded run_import [OF assms(1) scan]]
  from run obtain a where a: "numeric_col 14 n = Inr a" and ty: "transaction_type_ok (ct_Type p)"
    by (auto split: sum.splits if_splits)
  show thesis
  proof (cases "imported (ct_UserID p) x d")
    case True
    with run a ty have "d' = d" by simp
    with True that [OF scan a ty] assms(1) show thesis by simp
  next
    case False
    let ?row = "new_transaction d (create_columns p n) a x oa (to_int32 oc)"
    from run a ty False obtain row where ins: "transaction_insert ?row d = (Inr row, d')"
      by (auto dest: insert_errors split: prod.splits sum.splits if_splits)
    from imported_insert [OF this] assms(3) have "imported (ct_UserID p) x d'"
      by (simp add: create_columns_def)
    with that [OF scan a ty] insert_grows [OF ins] assms(1) show thesis by simp
  qed
qed

lemma imported_mono: "imported u x d \<Longrightarrow> set (db_transactions d) \<subseteq> set (db_transactions d2) \<Longrightarrow> imported u x d2"
  by (auto simp: imported_def)

lemma import_again:
  assumes "db_faults d = []" and "run_state (TransactionRepo_CreateWithExternalID pg p x oa oc) d = (Inr c, d')" and "x \<noteq> []"
    and "db_faults d2 = []" "set (db_transactions d') \<subseteq> set (db_transactions d2)"
    and "ct_UserID q = ct_UserID p" "ct_Amount q = ct_Amount p" "ct_Type q = ct_Type p"
  shows "run_state (TransactionRepo_CreateWithExternalID pg q x oa' oc') d2 = (Inr None, d2)"
proof -
  obtain n a where *: "pn_Scan pg (ct_Amount q) = Inr n" "numeric_col 14 n = Inr a" "transaction_type_ok (ct_Type q)"
    and imp: "imported (ct_UserID q) x d'"
    using import_result [OF assms(1-3)] assms(6-8) by metis
  from imported_mono [OF imp assms(5)] * show ?thesis
    by (simp add: run_import [OF assms(4) *(1)])
qed

text \<open>
  Importing the same bank item twice makes one transaction. If an import of an item
  succeeded, importing it again for that user -- also with other details, at any later moment
  while the transaction is there -- reports \<open>created = false\<close> without an error and changes
  nothing, or is refused for its amount or type as a first import would be.
\<close>

theorem import_once:
  assumes "db_faults d = []" and "run_state (TransactionRepo_CreateWithExternalID pg p x oa oc) d = (Inr (Some t), d')"
    and "x \<noteq> []" and "db_faults d2 = []" and "set (db_transactions d') \<subseteq> set (db_transactions d2)"
    and "ct_UserID q = ct_UserID p"
  shows "run_state (TransactionRepo_CreateWithExternalID pg p x oa oc) d2 = (Inr None, d2) \<and>
      run_state (TransactionRepo_CreateWithExternalID pg q x oa' oc') d2 \<in> insert (Inr None, d2) (range (\<lambda>e. (Inl e, d2)))"
proof
  show "run_state (TransactionRepo_CreateWithExternalID pg p x oa oc) d2 = (Inr None, d2)"
    by (rule import_again [OF assms(1-5)]) simp_all
  have imp: "imported (ct_UserID q) x d2"
    using import_result [OF assms(1-3)] imported_mono [OF _ assms(5)] assms(6) by metis
  show "run_state (TransactionRepo_CreateWithExternalID pg q x oa' oc') d2 \<in> insert (Inr None, d2) (range (\<lambda>e. (Inl e, d2)))"
  proof (cases "pn_Scan pg (ct_Amount q)")
    case (Inl e)
    then show ?thesis by (simp add: TransactionRepo_CreateWithExternalID_def NumericFromString_def)
  next
    case (Inr m)
    with imp show ?thesis by (simp add: run_import [OF assms(4) Inr] split: sum.splits)
  qed
qed

section \<open>Writing and deleting\<close>

lemma run_check_category:
  assumes "db_faults d = []"
  shows "run_state (check_category c u) d =
    (if c = uuid_Nil then Inr ()
     else case category_get c d of
            None \<Rightarrow> Inl (Wrap ''lookup category'' [] ErrNoRows)
          | Some k \<Rightarrow> if UUIDToGoogle (cr_user_id k) \<noteq> uuid_Nil \<and> UUIDToGoogle (cr_user_id k) \<noteq> u
                      then Inl (Errorf ''category does not belong to user'' []) else Inr (), d)"
  using assms
  by (auto simp: check_category_def CategoryRepo_GetByID_def CategoryGetByID_def query_one_row_by category_get_def
      categoryFromRow_def split: option.splits)

text \<open>
  C15. A change of someone else's transaction is refused exactly as one of a transaction that
  does not exist. If the user has no transaction with the identifier, updating or deleting it
  fails and changes nothing, and the error is the one an empty ledger would give: nothing of
  another user's row can be learnt from it.
\<close>

theorem foreign_transaction_refused:
  assumes "db_faults d = []" and "\<And>r. r \<in> set (db_transactions d) \<Longrightarrow> tr_id r = ut_ID p \<Longrightarrow> tr_user_id r \<noteq> ut_UserID p"
  shows "(\<exists>e. run_state (transaction_Update pg p) d = (Inl e, d) \<and>
              result (transaction_Update pg p) (d\<lparr>db_transactions := []\<rparr>) = Inl e) \<and>
         run_state (transaction_Delete (ut_UserID p) (ut_ID p)) d = (Inl (Errorf ''transaction not found'' []), d)"
proof
  have none: "List.find (\<lambda>r. tr_id r = ut_ID p \<and> tr_user_id r = ut_UserID p) (db_transactions d) = None"
    using assms(2) by (auto simp: find_None_iff)
  have get: "category_get c (d\<lparr>db_transactions := []\<rparr>) = category_get c d" for c
    by (simp add: category_get_def)
  note run = run_check_category [OF assms(1)] run_check_category [of "d\<lparr>db_transactions := []\<rparr>", unfolded get]
  show "\<exists>e. run_state (transaction_Update pg p) d = (Inl e, d) \<and>
             result (transaction_Update pg p) (d\<lparr>db_transactions := []\<rparr>) = Inl e"
    using assms(1) none
    by (auto simp: transaction_Update_def run TransactionRepo_UpdateForUser_def TransactionUpdateForUser_def
        split: sum.splits option.splits)
  have "filter (\<lambda>r. tr_id r = ut_ID p \<and> tr_user_id r = ut_UserID p) (db_transactions d) = []"
    "filter (\<lambda>r. tr_id r = ut_ID p \<longrightarrow> tr_user_id r \<noteq> ut_UserID p) (db_transactions d) = db_transactions d"
    using assms(2) by (auto simp: filter_empty_conv filter_id_conv)
  with assms(1) show "run_state (transaction_Delete (ut_UserID p) (ut_ID p)) d = (Inl (Errorf ''transaction not found'' []), d)"
    by (simp add: transaction_Delete_def TransactionRepo_DeleteForUser_def TransactionDeleteForUser_def delete_where_def)
qed


text \<open>
  C17. Deleting a category. Someone else's category, a default and an unknown identifier are
  refused alike, and nothing changes; the user's own is removed, its transactions are kept and
  become uncategorised, and nothing else changes.
\<close>

theorem category_delete_effect:
  assumes "db_faults d = []" and "categories_wf d"
  shows "run_state (category_Delete u c) d =
    (case category_get c d of
       Some k \<Rightarrow>
         if cr_user_id k = Some u \<and> \<not> cr_is_default k
         then (Inr (), d\<lparr>db_categories := filter (\<lambda>k. cr_id k \<noteq> c) (db_categories d),
                        db_transactions := map (\<lambda>r. if tr_category_id r = Some c then r\<lparr>tr_category_id := None\<rparr> else r)
                                               (db_transactions d)\<rparr>)
         else (Inl (Errorf ''category not found or not deletable'' []), d)
     | None \<Rightarrow> (Inl (Errorf ''category not found or not deletable'' []), d))"
proof -
  let ?gone = "filter (deletable c u) (db_categories d)"
  have dist: "distinct (map cr_id (db_categories d))" using assms(2) by (simp add: categories_wf_def)
  have run: "run_state (category_Delete u c) d =
      (if ?gone = [] then Inl (Errorf ''category not found or not deletable'' []) else Inr (), without_category c u d)"
    using assms(1)
    by (simp add: category_Delete_def CategoryRepo_DeleteForUser_def CategoryDeleteForUser_without)
  have unc: "uncategorise {} = (\<lambda>r. r)"
    "uncategorise {c} = (\<lambda>r. if tr_category_id r = Some c then r\<lparr>tr_category_id := None\<rparr> else r)"
    by (auto simp: uncategorise_def fun_eq_iff split: option.splits)
  show ?thesis
  proof (cases "\<exists>k. category_get c d = Some k \<and> cr_user_id k = Some u \<and> \<not> cr_is_default k")
    case True
    then obtain k where k: "category_get c d = Some k" "cr_user_id k = Some u" "\<not> cr_is_default k" by blast
    then have mem: "k \<in> set (db_categories d)" "cr_id k = c" by (auto dest: category_get_Some)
    have del: "deletable c u x \<longleftrightarrow> cr_id x = c" if "x \<in> set (db_categories d)" for x
      using that mem k dist by (auto simp: deletable_def distinct_map dest: inj_onD)
    have "set ?gone = {x \<in> set (db_categories d). cr_id x = c}" using del by auto
    with mem have gone: "?gone \<noteq> []" "cr_id ` set ?gone = {c}" by force+
    have rest: "filter (\<lambda>r. \<not> deletable c u r) (db_categories d) = filter (\<lambda>k. cr_id k \<noteq> c) (db_categories d)"
      by (rule filter_cong) (simp_all add: del)
    from k show ?thesis by (simp only: run without_category_def gone rest unc) simp
  next
    case False
    have "\<not> deletable c u x" if "x \<in> set (db_categories d)" for x
      using False row_by_distinct [OF dist that] by (auto simp: deletable_def category_get_def)
    then have gone: "?gone = []" "filter (\<lambda>r. \<not> deletable c u r) (db_categories d) = db_categories d"
      by (auto simp: filter_empty_conv filter_id_conv)
    show ?thesis
      using False by (auto simp: run without_category_def gone unc split: option.splits)
  qed
qed

section \<open>Isolation\<close>

definition others :: "uuid \<Rightarrow> db \<Rightarrow> transaction_row list" where
  "others u d = filter (\<lambda>r. tr_user_id r \<noteq> u) (db_transactions d)"

lemma fault_free_others [simp]: "fault_free (\<lambda>d. others u d = ts)"
  by (simp add: fault_free_def others_def)

lemma others_insert: "tr_user_id row = u \<Longrightarrow> others u (snd (transaction_insert row d)) = others u d"
  by (simp add: transaction_insert_def bump_def others_def split: option.splits)

lemma others_map:
  "(\<And>r. r \<in> set (db_transactions d) \<Longrightarrow> tr_user_id r \<noteq> u \<Longrightarrow> f r = r) \<Longrightarrow>
   (\<And>r. tr_user_id (f r) = tr_user_id r) \<Longrightarrow>
    filter (\<lambda>r. tr_user_id r \<noteq> u) (map f (db_transactions d)) = filter (\<lambda>r. tr_user_id r \<noteq> u) (db_transactions d)"
  by (induction "db_transactions d" arbitrary: d rule: rev_induct)
    (auto simp: filter_map comp_def intro!: map_filter_eq_self)

lemma others_statements [hr]:
  "xp_user_id q = u \<Longrightarrow> keeps (\<lambda>d. others u d = ts) (TransactionCreate q)"
  "keeps (\<lambda>d. others u d = ts) (TransactionUpdateForUser i u y)"
  "keeps (\<lambda>d. others u d = ts) (TransactionDeleteForUser i u)"
  "keeps (\<lambda>d. others u d = ts) (CategoryGetByID c)"
proof -
  have upd: "filter (\<lambda>r. tr_user_id r \<noteq> u) (map (\<lambda>x. if tr_id x = i \<and> tr_user_id x = u then transaction_set e y a x else x) rs)
      = filter (\<lambda>r. tr_user_id r \<noteq> u) rs" for e a rs
    by (induction rs) (auto simp: transaction_set_def)
  have "filter (\<lambda>r. tr_user_id r \<noteq> u) (filter (\<lambda>r. \<not> (tr_id r = i \<and> tr_user_id r = u)) rs) =
      filter (\<lambda>r. tr_user_id r \<noteq> u) rs" for rs
    by (induction rs) auto
  then have del: "others u (snd (delete_where (\<lambda>r. tr_id r = i \<and> tr_user_id r = u) e)) = others u e" for e
    unfolding others_def delete_where_def by simp
  show "xp_user_id q = u \<Longrightarrow> keeps (\<lambda>d. others u d = ts) (TransactionCreate q)"
    unfolding TransactionCreate_def by (rule keeps_stmt) (simp_all add: others_insert split: sum.splits)
  show "keeps (\<lambda>d. others u d = ts) (TransactionUpdateForUser i u y)"
    unfolding TransactionUpdateForUser_def
    by (rule keeps_stmt, rule fault_free_others) (simp add: others_def upd split: sum.splits option.splits)
  show "keeps (\<lambda>d. others u d = ts) (TransactionDeleteForUser i u)"
    unfolding TransactionDeleteForUser_def
    by (rule keeps_stmt) (simp_all only: fault_free_others del)
  show "keeps (\<lambda>d. others u d = ts) (CategoryGetByID c)"
    unfolding CategoryGetByID_def by (rule keeps_read) simp
qed

lemma others_category_delete:
  assumes "u \<noteq> uuid_Nil" "categories_owned d" "categories_wf d"
  shows "others u (without_category c u d) = others u d"
proof -
  let ?g = "cr_id ` set (filter (deletable c u) (db_categories d))"
  have keep: "uncategorise ?g r = r" if r: "r \<in> set (db_transactions d)" "tr_user_id r \<noteq> u" for r
  proof (cases "tr_category_id r")
    case (Some k)
    have "k \<notin> ?g"
    proof
      assume "k \<in> ?g"
      then obtain x where x: "x \<in> set (db_categories d)" "cr_id x = k" "cr_user_id x = Some u"
        by (auto simp: deletable_def)
      obtain y where y: "y \<in> set (db_categories d)" "cr_id y = k" "UUIDToGoogle (cr_user_id y) \<in> {uuid_Nil, tr_user_id r}"
        using assms(2) r(1) Some by (auto simp: categories_owned_def usable_def)
      with x assms(3) have "y = x" by (auto simp: categories_wf_def distinct_map dest: inj_onD)
      with x y r(2) assms(1) show False by auto
    qed
    with Some show ?thesis by (simp add: uncategorise_def)
  qed (simp add: uncategorise_def)
  show ?thesis
    unfolding others_def without_category_def
    by simp (rule others_map [where f = "uncategorise ?g", simplified], use keep uncategorise_keys in auto)
qed

text \<open>
  C18. Users are isolated from each other. Under any failures, what a user does -- creating,
  editing and deleting transactions, deleting categories -- leaves the transactions of every
  other user exactly as they were; for categories because nobody else's transaction can be in
  a category that the user owns (the invariants assumed are those every operation keeps).
\<close>

theorem ledger_isolation:
  assumes "ct_UserID p = u" and "ut_UserID q = u" and "u \<noteq> uuid_Nil" and "categories_owned d" and "categories_wf d"
  shows "others u (exec (transaction_Create pg p) d) = others u d \<and>
         others u (exec (transaction_Update pg q) d) = others u d \<and>
         others u (exec (transaction_Delete u i) d) = others u d \<and>
         others u (exec (category_Delete u c) d) = others u d"
proof (intro conjI)
  let ?P = "\<lambda>e. others u e = others u d"
  note D = hoareD [of ?P _ "\<lambda>_. ?P" d, OF _ refl]
  have "keeps ?P (transaction_Create pg p)" "keeps ?P (transaction_Update pg q)" "keeps ?P (transaction_Delete u i)"
    using assms(1,2) by (auto simp: ledger_defs create_columns_def intro!: hr)
  then show "others u (exec (transaction_Create pg p) d) = others u d"
    and "others u (exec (transaction_Update pg q) d) = others u d"
    and "others u (exec (transaction_Delete u i) d) = others u d"
    by (blast dest: D)+
  let ?Q = "\<lambda>e. ?P e \<and> categories_owned e \<and> categories_wf e"
  have ff: "fault_free ?Q"
    by (simp add: fault_free_def others_def categories_owned_def usable_def categories_wf_def category_ok_def)
  have "hoare ?Q (CategoryDeleteForUser c u) (\<lambda>_. ?P)"
    unfolding CategoryDeleteForUser_without
    by (rule hoare_stmt [OF ff ff]) (use assms(3) others_category_delete in auto)
  then have "hoare ?Q (category_Delete u c) (\<lambda>_. ?P)"
    unfolding category_Delete_def CategoryRepo_DeleteForUser_def
    by (intro hoare_bind [where Q = "\<lambda>_. ?P"]) (auto intro!: hr)
  with assms show "others u (exec (category_Delete u c) d) = others u d" by (auto dest: hoareD [where s = d])
qed

section \<open>Retention\<close>

lemma run_delete_expired:
  "db_faults d = [] \<Longrightarrow> exec (TransactionRepo_DeleteExpiredForPlan p c) d =
    d\<lparr>db_transactions := filter (\<lambda>r. \<not> expired d (pg_instant c) p r) (db_transactions d)\<rparr>"
  by (simp add: TransactionRepo_DeleteExpiredForPlan_def TransactionDeleteExpiredForPlan_def delete_where_def)

lemma expired_by_user:
  "users_wf d \<Longrightarrow> expired d t p r \<longleftrightarrow> tr_date r < t \<and> (\<exists>u. user_get (tr_user_id r) d = Some u \<and> ur_plan u = p)"
  by (auto simp: expired_def users_wf_def user_get_def dest: row_by_distinct row_by_Some)

lemma expired_transactions [simp]: "expired (d\<lparr>db_transactions := ts\<rparr>) t p r = expired d t p r"
  by (simp add: expired_def)

text \<open>Whether a sweep at the given clock readings keeps a transaction.\<close>

definition retained :: "(string \<Rightarrow> gotime) \<Rightarrow> db \<Rightarrow> transaction_row \<Rightarrow> bool" where
  "retained now d r \<longleftrightarrow>
     (case user_get (tr_user_id r) d of
        None \<Rightarrow> True
      | Some u \<Rightarrow>
          (case RetentionDays (ur_plan u) of
             None \<Rightarrow> True
           | Some days \<Rightarrow> pg_instant (add_days (now (ur_plan u)) (- days)) \<le> tr_date r))"

text \<open>
  C19. The sweep, which runs a deletion per limited plan, is one filter: it deletes exactly the
  transactions that are older than the retention window of their own user's plan. Accounts on a
  plan without a limit lose nothing, whatever the age; no other table changes.
\<close>

theorem sweep_is_filter:
  assumes "db_faults d = []" and "users_wf d"
  shows "run_state (sweepOnce now) d = ((), d\<lparr>db_transactions := filter (retained now d) (db_transactions d)\<rparr>)"
proof -
  have run: "run_state (sweepOnce now) d =
      ((), d\<lparr>db_transactions := filter (\<lambda>r. \<not> expired d (pg_instant (add_days (now plan_Free) (- 30))) plan_Free r \<and>
                \<not> expired d (pg_instant (add_days (now plan_Pro) (- 365))) plan_Pro r) (db_transactions d)\<rparr>)"
    using assms(1)
    by (simp add: sweepOnce_def plansWithLimitedRetention_def RetentionDays_def run_delete_expired split_def
        plan_names conj_commute)
  have "(\<not> expired d (pg_instant (add_days (now plan_Free) (- 30))) plan_Free r \<and>
         \<not> expired d (pg_instant (add_days (now plan_Pro) (- 365))) plan_Pro r) = retained now d r" for r
    by (cases "user_get (tr_user_id r) d")
      (auto simp: expired_by_user [OF assms(2)] retained_def RetentionDays_def plan_names)
  then show ?thesis unfolding run by simp
qed

section \<open>Sample data and witnesses\<close>

definition food :: category_row where
  "food =
     \<lparr>cr_id = 30, cr_user_id = None, cr_name = ''Food'', cr_icon_name = ''cart'', cr_color_hex = ''#34C759'',
      cr_type = ''expense'', cr_is_default = True, cr_created_at = 5, cr_name_uk = None, cr_name_en = None\<rparr>"

definition pets :: category_row where
  "pets = food\<lparr>cr_id := 31, cr_user_id := Some 1, cr_name := ''Pets'', cr_is_default := False\<rparr>"

definition entry :: "uuid \<Rightarrow> uuid \<Rightarrow> uuid option \<Rightarrow> gotime \<Rightarrow> transaction_row" where
  "entry i u c t =
     \<lparr>tr_id = i, tr_user_id = u, tr_category_id = c, tr_amount = Num 100 (-2), tr_currency = ''UAH'',
      tr_type = ''expense'', tr_date = t, tr_note = [], tr_created_at = 5, tr_external_id = [],
      tr_is_internal_transfer = False, tr_operation_amount = 0, tr_operation_currency_code = 0, tr_updated_at = None\<rparr>"

definition ledger_db :: db where
  "ledger_db = sample_db\<lparr>db_categories := [food, pets],
     db_transactions := [entry 40 1 (Some 31) 0, entry 41 1 (Some 30) (time_of_unix 1700000000), entry 42 2 (Some 30) 0]\<rparr>"

lemmas ledger_samples = ledger_db_def food_def pets_def entry_def sample_user_def empty_db_def sample_db_def

lemma ledger_db_simps [simp]: "db_faults ledger_db = []" "users_wf ledger_db"
  by (simp_all add: ledger_samples users_wf_def indexed_email_def)

lemma ledger_db_owned: "categories_owned ledger_db" "categories_wf ledger_db"
  by (simp_all add: ledger_samples categories_owned_def usable_def UUIDToGoogle_def categories_wf_def category_ok_def
      transaction_type_ok_def)

definition sample_create :: CreateTransactionParams where
  "sample_create =
     \<lparr>ct_UserID = 1, ct_CategoryID = 31, ct_Amount = ''5'', ct_Currency = ''UAH'', ct_Type = ''expense'',
      ct_Date = 7000, ct_Note = ''tea''\<rparr>"

definition sample_update :: UpdateTransactionParams where
  "sample_update =
     \<lparr>ut_ID = 42, ut_UserID = 1, ut_CategoryID = 30, ut_Amount = ''5'', ut_Currency = ''UAH'', ut_Type = ''expense'',
      ut_Date = 7000, ut_Note = ''tea'', ut_IsInternalTransfer = False\<rparr>"

lemmas ledger_eval = sample_pgnum_def sample_create_def val_dec_def digit_val_def
  numeric_col_def hundredths_def transaction_type_ok_def imported_def ledger_samples transaction_insert_def
  new_transaction_def create_columns_def transaction_checks_def next_id_def user_get_def category_get_def
  NullUUIDFromGoogle_def UUIDFromGoogle_def uuid_Nil_def bump_def

lemma sample_import:
  "\<exists>t. result (TransactionRepo_CreateWithExternalID sample_pgnum sample_create ''x1'' 0 980) ledger_db = Inr (Some t)"
  "db_faults (exec (TransactionRepo_CreateWithExternalID sample_pgnum sample_create ''x1'' 0 980) ledger_db) = []"
  by (simp_all add: run_import [where n = "Num 5 0"] ledger_eval)

theorem import_once_witness:
  "let m = TransactionRepo_CreateWithExternalID sample_pgnum sample_create ''x1'' 0 980; d' = exec m ledger_db in
   run_state m d' = (Inr None, d') \<and>
   run_state (TransactionRepo_CreateWithExternalID sample_pgnum (sample_create\<lparr>ct_Amount := ''7''\<rparr>) ''x1'' 0 980) d'
     \<in> insert (Inr None, d') (range (\<lambda>e. (Inl e, d')))"
proof -
  let ?m = "TransactionRepo_CreateWithExternalID sample_pgnum sample_create ''x1'' 0 980"
  obtain t where "result ?m ledger_db = Inr (Some t)" using sample_import(1) by blast
  then have "run_state ?m ledger_db = (Inr (Some t), exec ?m ledger_db)" by (simp add: prod_eq_iff)
  from import_once [OF _ this _ sample_import(2)] show ?thesis by (simp add: Let_def)
qed

theorem foreign_transaction_refused_witness:
  "(\<exists>e. run_state (transaction_Update sample_pgnum sample_update) ledger_db = (Inl e, ledger_db) \<and>
        result (transaction_Update sample_pgnum sample_update) (ledger_db\<lparr>db_transactions := []\<rparr>) = Inl e) \<and>
   run_state (transaction_Delete (ut_UserID sample_update) (ut_ID sample_update)) ledger_db =
     (Inl (Errorf ''transaction not found'' []), ledger_db)"
  by (rule foreign_transaction_refused) (auto simp: ledger_samples sample_update_def)


theorem category_delete_effect_witness:
  "db_categories (exec (category_Delete 1 31) ledger_db) = [food]"
  by (subst category_delete_effect [OF _ ledger_db_owned(2)]) (simp_all add: ledger_samples category_get_def)

theorem ledger_isolation_witness:
  "others 1 (exec (transaction_Create sample_pgnum sample_create) ledger_db) = others 1 ledger_db \<and>
   others 1 (exec (transaction_Update sample_pgnum sample_update) ledger_db) = others 1 ledger_db \<and>
   others 1 (exec (transaction_Delete 1 40) ledger_db) = others 1 ledger_db \<and>
   others 1 (exec (category_Delete 1 31) ledger_db) = others 1 ledger_db"
  by (rule ledger_isolation) (simp_all add: sample_create_def sample_update_def uuid_Nil_def ledger_db_owned)

theorem sweep_is_filter_witness:
  "db_transactions (exec (sweepOnce (\<lambda>_. time_of_unix 1700000000)) ledger_db) =
     [entry 41 1 (Some 30) (time_of_unix 1700000000)]"
  by (subst sweep_is_filter [OF ledger_db_simps])
    (simp add: ledger_samples retained_def user_get_def RetentionDays_def plan_names time_of_unix_def
      unix_epoch_def durations add_days_def day_ns_def pg_instant_def)

end
