(* ===== verification/Monobank_Properties.thy ===== *)
theory Monobank_Properties
  imports Monobank_Import Ledger_Properties
begin

text \<open>
  The properties of the bank import: what is stored of an item, that a synchronisation may be
  repeated, what a webhook can touch, the encryption of the token, and a connection that
  cannot be saved.
\<close>

section \<open>Amounts\<close>

text \<open>The documented reading of a decimal with two digits after the point.\<close>

definition scans_decimals :: "pgnum \<Rightarrow> bool" where
  "scans_decimals pg \<longleftrightarrow>
     (\<forall>q r. r < 100 \<longrightarrow> pn_Scan pg (dec_nat q @ ''.'' @ fmt_02d (int r)) = Inr (Num (int (100 * q + r)) (-2)))"

lemma sint_negate:
  fixes a :: "64 word" assumes "sint a \<noteq> - (2 ^ 63)" shows "sint (- a) = - sint a"
proof -
  have "- (2 ^ 63) \<le> sint a" "sint a < 2 ^ 63"
    using sint_greater_eq [of a] sint_less [of a] by simp_all
  then have r: "- (2 ^ 63) \<le> - sint a" "- sint a < 2 ^ 63" using assms by simp_all
  have "sint (- a) = sint (word_of_int (- sint a) :: 64 word)" by simp
  also have "\<dots> = signed_take_bit 63 (- sint a)" by (subst sint_sbintrunc') simp
  also have "\<dots> = - sint a" using r by (intro signed_take_bit_int_eq_self) simp_all
  finally show ?thesis .
qed

lemma magnitude: "sint a \<noteq> - (2 ^ 63) \<Longrightarrow> sint (item_magnitude a) = \<bar>sint a\<bar>"
  by (simp add: item_magnitude_def sint_negate)

lemma amount_text_nonneg:
  assumes "sint m = int n"
  shows "amount_text m = dec_nat (n div 100) @ ''.'' @ fmt_02d (int (n mod 100))"
  using assms by (cases "n = 0") (simp_all add: amount_text_def signed_divide_int_def signed_modulo_int_def sgn_if
      fmt_d_def nat_div_distrib zmod_int flip: zdiv_int)

lemma scan_amount_text:
  assumes "scans_decimals pg" "sint a \<noteq> - (2 ^ 63)"
  shows "pn_Scan pg (amount_text (item_magnitude a)) = Inr (Num \<bar>sint a\<bar> (-2))"
proof -
  define n where "n = nat \<bar>sint a\<bar>"
  have "sint (item_magnitude a) = int n" using magnitude [OF assms(2)] by (simp add: n_def)
  then have "amount_text (item_magnitude a) = dec_nat (n div 100) @ ''.'' @ fmt_02d (int (n mod 100))"
    by (rule amount_text_nonneg)
  moreover have "pn_Scan pg (dec_nat (n div 100) @ ''.'' @ fmt_02d (int (n mod 100))) = Inr (Num (int n) (-2))"
    using assms(1) [unfolded scans_decimals_def, rule_format, of "n mod 100" "n div 100"] by simp
  ultimately show ?thesis by (simp add: n_def)
qed

lemma digit_chars:
  "digit_char 0 = CHR ''0''" "digit_char (Suc 0) = CHR ''1''" "digit_char 1 = CHR ''1''" "digit_char 2 = CHR ''2''"
  "digit_char 3 = CHR ''3''" "digit_char 4 = CHR ''4''" "digit_char 5 = CHR ''5''" "digit_char 6 = CHR ''6''"
  "digit_char 7 = CHR ''7''" "digit_char 8 = CHR ''8''" "digit_char 9 = CHR ''9''"
  by code_simp+

text \<open>
  C20. The text handed to the database for a bank amount. For every 64-bit amount but the least,
  it is the decimal of the magnitude, with exactly two digits after the point; the least
  amount has no magnitude in 64 bits, its negation wraps to itself, and the text is not a
  number.
\<close>

theorem amount_text_law:
  "(sint a \<noteq> - (2 ^ 63) \<longrightarrow>
      (\<exists>n. \<bar>sint a\<bar> = int n \<and> amount_text (item_magnitude a) = dec_nat (n div 100) @ ''.'' @ fmt_02d (int (n mod 100)) \<and>
           length (fmt_02d (int (n mod 100))) = 2)) \<and>
   (sint a = - (2 ^ 63) \<longrightarrow> item_magnitude a = a \<and> amount_text (item_magnitude a) = ''-92233720368547758.-8'')"
proof (intro conjI impI)
  assume *: "sint a \<noteq> - (2 ^ 63)"
  let ?n = "nat \<bar>sint a\<bar>"
  have "length (fmt_02d (int k)) = 2" if "k < 100" for k
  proof (cases "k < 10")
    case True
    then show ?thesis by (simp add: fmt_02d_def fmt_d_def dec_nat.simps)
  next
    case False
    with that have "k div 10 < 10" by simp
    with False show ?thesis by (simp add: fmt_02d_def fmt_d_def dec_nat.simps [of k] dec_nat.simps [of "k div 10"])
  qed
  then show "\<exists>n. \<bar>sint a\<bar> = int n \<and> amount_text (item_magnitude a) = dec_nat (n div 100) @ ''.'' @ fmt_02d (int (n mod 100)) \<and>
           length (fmt_02d (int (n mod 100))) = 2"
    using amount_text_nonneg [of "item_magnitude a" ?n] magnitude [OF *] by (intro exI [of _ ?n]) simp
next
  assume *: "sint a = - (2 ^ 63)"
  have "a = word_of_int (sint a)" by simp
  then have "a = word_of_int (- (2 ^ 63))" unfolding * .
  then show same: "item_magnitude a = a" by (simp add: item_magnitude_def)
  show "amount_text (item_magnitude a) = ''-92233720368547758.-8''"
    unfolding same amount_text_def *
    by (simp add: signed_divide_int_def signed_modulo_int_def fmt_02d_def fmt_d_def dec_nat.simps digit_chars)
qed

theorem amount_text_law_witness:
  "amount_text (item_magnitude (- 5)) = dec_nat 0 @ ''.'' @ fmt_02d 5 \<and>
   item_magnitude (- (2 ^ 63)) = - (2 ^ 63) \<and> amount_text (item_magnitude (- (2 ^ 63))) = ''-92233720368547758.-8''"
proof (intro conjI)
  have five: "sint (- 5 :: 64 word) = - 5" and least: "sint (- (2 ^ 63) :: 64 word) = - (2 ^ 63)" by simp_all
  show "amount_text (item_magnitude (- 5)) = dec_nat 0 @ ''.'' @ fmt_02d 5"
    using amount_text_law [of "- 5"] unfolding five by simp
  show "item_magnitude (- (2 ^ 63)) = - (2 ^ 63)"
    "amount_text (item_magnitude (- (2 ^ 63))) = ''-92233720368547758.-8''"
    using amount_text_law [of "- (2 ^ 63)"] least by blast+
qed

section \<open>One item\<close>

definition item_params :: "uuid \<Rightarrow> StatementItem \<Rightarrow> string \<Rightarrow> uuid option \<Rightarrow> CreateTransactionParams" where
  "item_params u item cur k =
     \<lparr>ct_UserID = u, ct_CategoryID = (case k of None \<Rightarrow> uuid_Nil | Some c \<Rightarrow> c),
      ct_Amount = amount_text (item_magnitude (si_Amount item)), ct_Currency = item_currency (si_CurrencyCode item) cur,
      ct_Type = item_type (si_Amount item), ct_Date = time_of_unix (si_Time item), ct_Note = si_Description item\<rparr>"

lemma item_params_fields [simp]:
  "ct_UserID (item_params u item cur k) = u" "ct_Type (item_params u item cur k) = item_type (si_Amount item)"
  "ct_Amount (item_params u item cur k) = amount_text (item_magnitude (si_Amount item))"
  by (simp_all add: item_params_def)

lemma run_findCategory:
  assumes "db_faults d = []"
  obtains k where "run_state (findCategory env u name ty) d = (k, d)" "\<And>c. k = Some c \<Longrightarrow> c \<in> cr_id ` set (db_categories d)"
proof -
  let ?rows = "sort_by (category_before (im_name_le env)) (filter (\<lambda>r. cr_user_id r = Some u \<or> cr_is_default r) (db_categories d))"
  let ?k = "map_option ca_ID (List.find (\<lambda>c. EqualFold (im_fold env) (TrimSpace (ca_Name c)) name \<and> ca_Type c = ty)
              (map categoryFromRow ?rows))"
  have "run_state (findCategory env u name ty) d = (?k, d)"
    using assms by (simp add: findCategory_def CategoryRepo_ListForUser_def CategoryListForUser_def)
  moreover have "c \<in> cr_id ` set (db_categories d)" if "?k = Some c" for c
    using that by (auto dest!: find_Some_iff)
  ultimately show thesis using that by blast
qed

lemma run_Item:
  assumes "db_faults d = []" "si_Amount item \<noteq> 0"
  obtains k where "\<And>c. k = Some c \<Longrightarrow> c \<in> cr_id ` set (db_categories d)"
    "run_state (Item env u item cur) d =
      (case run_state (TransactionRepo_CreateWithExternalID (im_pgnum env) (item_params u item cur k) (si_ID item)
               (si_OperationAmount item) (si_OperationCurrencyCode item)) d of
         (Inl e, d') \<Rightarrow> (Inl (Wrap ''create transaction'' [] e), d')
       | (Inr created, d') \<Rightarrow> (Inr (created \<noteq> None), d'))"
proof -
  let ?name = "item_category (si_MCC item) (item_type (si_Amount item))"
  obtain k where k: "run_state (if ?name \<noteq> [] then findCategory env u ?name (item_type (si_Amount item)) else ret None) d = (k, d)"
      "\<And>c. k = Some c \<Longrightarrow> c \<in> cr_id ` set (db_categories d)"
  proof (cases "?name = []")
    case True
    then show ?thesis using that [of None] by simp
  next
    case False
    obtain k where "run_state (findCategory env u ?name (item_type (si_Amount item))) d = (k, d)"
      "\<And>c. k = Some c \<Longrightarrow> c \<in> cr_id ` set (db_categories d)"
      using run_findCategory [OF assms(1)] by blast
    with False that [of k] show ?thesis by simp
  qed
  show thesis
    by (rule that [OF k(2)], assumption)
      (use assms(2) k(1) in \<open>auto simp: Item_def Let_def item_params_def split: prod.splits sum.splits\<close>)
qed

lemma pg_instant_unix [simp]: "pg_instant (time_of_unix s) = time_of_unix s"
proof -
  have "time_of_unix s = (unix_epoch div 1000 + s * 1000000) * 1000"
    by (simp add: time_of_unix_def unix_epoch_def time_Second_def)
  then show ?thesis unfolding pg_instant_def by (metis nonzero_mult_div_cancel_right zero_neq_numeral)
qed

lemma item_type_ok [simp]: "transaction_type_ok (item_type a)"
  by (simp add: item_type_def transaction_type_ok_def)

definition imported_row :: "db \<Rightarrow> uuid \<Rightarrow> StatementItem \<Rightarrow> string \<Rightarrow> uuid option \<Rightarrow> transaction_row" where
  "imported_row d u item cur k =
     (let n = Num \<bar>sint (si_Amount item)\<bar> (-2) in
      new_transaction d (create_columns (item_params u item cur k) n) n (si_ID item) (si_OperationAmount item)
        (to_int32 (si_OperationCurrencyCode item)))"

lemma run_Item_new:
  assumes "db_faults d = []" and "scans_decimals (im_pgnum env)" and "user_get u d \<noteq> None"
    and "next_id d \<notin> set (map tr_id (db_transactions d))"
    and "si_Amount item \<noteq> 0" and "\<bar>sint (si_Amount item)\<bar> < 10 ^ 14" and "\<not> imported u (si_ID item) d"
  shows "\<exists>k. run_state (Item env u item cur) d =
    (Inr True, bump (d\<lparr>db_transactions := db_transactions d @ [imported_row d u item cur k]\<rparr>))"
proof -
  let ?n = "Num \<bar>sint (si_Amount item)\<bar> (-2)"
  obtain k where k: "\<And>c. k = Some c \<Longrightarrow> c \<in> cr_id ` set (db_categories d)"
    and run: "run_state (Item env u item cur) d =
      (case run_state (TransactionRepo_CreateWithExternalID (im_pgnum env) (item_params u item cur k) (si_ID item)
               (si_OperationAmount item) (si_OperationCurrencyCode item)) d of
         (Inl e, d') \<Rightarrow> (Inl (Wrap ''create transaction'' [] e), d')
       | (Inr created, d') \<Rightarrow> (Inr (created \<noteq> None), d'))"
    by (rule run_Item [OF assms(1,5), of env u cur]) (rule that, assumption+)
  have "sint (si_Amount item) \<noteq> - (2 ^ 63)" using assms(6) by auto
  then have scan: "pn_Scan (im_pgnum env) (ct_Amount (item_params u item cur k)) = Inr ?n"
    using scan_amount_text [OF assms(2)] by simp
  let ?row = "new_transaction d (create_columns (item_params u item cur k) ?n) ?n (si_ID item) (si_OperationAmount item)
      (to_int32 (si_OperationCurrencyCode item))"
  have "category_get c d \<noteq> None" if "NullUUIDFromGoogle (case k of None \<Rightarrow> uuid_Nil | Some c \<Rightarrow> c) = Some c" for c
    using that k by (auto simp: NullUUIDFromGoogle_def UUIDFromGoogle_def category_get_def row_by_None split: option.splits if_splits)
  then have "transaction_checks ?row d = None"
    using assms(3) by (auto simp: transaction_checks_def create_columns_def item_params_def new_transaction_def split: option.splits)
  then have "transaction_insert ?row d = (Inr ?row, bump (d\<lparr>db_transactions := db_transactions d @ [?row]\<rparr>))"
    using assms(4) by (simp add: transaction_insert_def)
  moreover have "numeric_col 14 ?n = Inr ?n" by (rule numeric_col_exact) (simp only: abs_idempotent, rule assms(6))
  moreover have "\<not> imported (ct_UserID (item_params u item cur k)) (si_ID item) d" using assms(7) by simp
  moreover have "transaction_type_ok (ct_Type (item_params u item cur k))" by simp
  ultimately have "run_state (Item env u item cur) d = (Inr True, bump (d\<lparr>db_transactions := db_transactions d @ [?row]\<rparr>))"
    unfolding run run_import [OF assms(1) scan] by (simp only: sum.case prod.case if_False not_True_eq_False option.simps simp_thms)
  then show ?thesis unfolding imported_row_def Let_def by blast
qed

text \<open>
  C21. What is stored of a bank item. A new item of a non-zero amount below \<open>10 ^ 12\<close> units becomes
  one transaction of that user: its amount is the magnitude to the cent, its type the sign, its
  currency the item's, or the account's own where that is known and differs, its date the second
  the bank gave; nothing else changes.
\<close>

theorem import_item_exact:
  assumes "db_faults d = []" and "scans_decimals (im_pgnum env)" and "user_get u d \<noteq> None"
    and "next_id d \<notin> set (map tr_id (db_transactions d))"
    and "si_Amount item \<noteq> 0" and "\<bar>sint (si_Amount item)\<bar> < 10 ^ 14" and "\<not> imported u (si_ID item) d"
  shows "\<exists>row. run_state (Item env u item cur) d = (Inr True, bump (d\<lparr>db_transactions := db_transactions d @ [row]\<rparr>)) \<and>
           tr_user_id row = u \<and> tr_external_id row = si_ID item \<and>
           tr_amount row = Num \<bar>sint (si_Amount item)\<bar> (-2) \<and>
           tr_type row = (if sint (si_Amount item) < 0 then ''expense'' else ''income'') \<and>
           tr_currency row = (if cur = [] then CurrencyCode (si_CurrencyCode item) else cur) \<and>
           tr_date row = time_of_unix (si_Time item) \<and> tr_note row = si_Description item"
proof -
  obtain k where "run_state (Item env u item cur) d =
      (Inr True, bump (d\<lparr>db_transactions := db_transactions d @ [imported_row d u item cur k]\<rparr>))"
    using run_Item_new [OF assms] by blast
  then show ?thesis
    by (intro exI [of _ "imported_row d u item cur k"])
      (simp add: imported_row_def new_transaction_def create_columns_def item_params_def item_type_def item_currency_def Let_def)
qed

section \<open>Synchronising again\<close>

lemma Item_again:
  assumes "db_faults d = []" "run_state (Item env u item cur) d = (Inr b, d')" "si_ID item \<noteq> []"
  shows "db_faults d' = [] \<and> set (db_transactions d) \<subseteq> set (db_transactions d') \<and>
    (\<forall>d2. db_faults d2 = [] \<longrightarrow> set (db_transactions d') \<subseteq> set (db_transactions d2) \<longrightarrow>
          run_state (Item env u item cur) d2 = (Inr False, d2))"
proof (cases "si_Amount item = 0")
  case True
  then have "\<And>d. run_state (Item env u item cur) d = (Inr False, d)" by (simp add: Item_def)
  with assms(1,2) show ?thesis by simp
next
  case False
  obtain k where run: "run_state (Item env u item cur) d =
      (case run_state (TransactionRepo_CreateWithExternalID (im_pgnum env) (item_params u item cur k) (si_ID item)
               (si_OperationAmount item) (si_OperationCurrencyCode item)) d of
         (Inl e, d') \<Rightarrow> (Inl (Wrap ''create transaction'' [] e), d')
       | (Inr created, d') \<Rightarrow> (Inr (created \<noteq> None), d'))"
    by (rule run_Item [OF assms(1) False, of env u cur]) (rule that, assumption+)
  obtain c where c: "run_state (TransactionRepo_CreateWithExternalID (im_pgnum env) (item_params u item cur k) (si_ID item)
      (si_OperationAmount item) (si_OperationCurrencyCode item)) d = (Inr c, d')"
    using assms(2) unfolding run by (auto split: prod.splits sum.splits)
  have "run_state (Item env u item cur) d2 = (Inr False, d2)"
    if d2: "db_faults d2 = []" "set (db_transactions d') \<subseteq> set (db_transactions d2)" for d2
  proof -
    obtain k2 where "run_state (Item env u item cur) d2 =
        (case run_state (TransactionRepo_CreateWithExternalID (im_pgnum env) (item_params u item cur k2) (si_ID item)
               (si_OperationAmount item) (si_OperationCurrencyCode item)) d2 of
         (Inl e, d') \<Rightarrow> (Inl (Wrap ''create transaction'' [] e), d')
       | (Inr created, d') \<Rightarrow> (Inr (created \<noteq> None), d'))"
      by (rule run_Item [OF d2(1) False, of env u cur]) (rule that, assumption+)
    then show ?thesis
      using import_again [OF assms(1) c assms(3) d2, of "item_params u item cur k2"] by simp
  qed
  moreover have "db_faults d' = [] \<and> set (db_transactions d) \<subseteq> set (db_transactions d')"
    using import_result [OF assms(1) c assms(3)] by metis
  ultimately show ?thesis by blast
qed

lemma sync_again:
  assumes "db_faults d = []" "run_state (sync_items env u cur items n) d = ((m, None), d')"
    and "\<forall>x \<in> set items. si_ID x \<noteq> []"
  shows "db_faults d' = [] \<and> set (db_transactions d) \<subseteq> set (db_transactions d') \<and>
    (\<forall>d2 n2. db_faults d2 = [] \<longrightarrow> set (db_transactions d') \<subseteq> set (db_transactions d2) \<longrightarrow>
          run_state (sync_items env u cur items n2) d2 = ((n2, None), d2))"
  using assms
proof (induction items arbitrary: d n)
  case (Cons x xs)
  obtain b e where x: "run_state (Item env u x cur) d = (Inr b, e)"
    and rest: "run_state (sync_items env u cur xs (if b then n + 1 else n)) e = ((m, None), d')"
    using Cons.prems(2) by (cases "run_state (Item env u x cur) d"; cases "fst (run_state (Item env u x cur) d)") auto
  have ix: "si_ID x \<noteq> []" "\<forall>x \<in> set xs. si_ID x \<noteq> []" using Cons.prems(3) by simp_all
  note I = Item_again [OF Cons.prems(1) x ix(1)]
  note R = Cons.IH [OF _ rest ix(2)]
  from I R show ?case by auto
qed simp

lemma keeps_table_monobank [hr]: "keeps (\<lambda>d. db_monobank d = ms) (Item env u item cur)"
proof -
  have "keeps (\<lambda>d. db_monobank d = ms) (TransactionCreateWithExternalID q x oa oc)" for q x oa oc
    unfolding TransactionCreateWithExternalID_def
    by (rule keeps_stmt) (auto simp: fault_free_def transaction_insert_def bump_def split: sum.splits option.splits)
  moreover have "keeps (\<lambda>d. db_monobank d = ms) (CategoryListForUser le v)" for le v
    unfolding CategoryListForUser_def by (rule keeps_read) (simp add: fault_free_def)
  ultimately show ?thesis
    by (auto simp: Item_def findCategory_def CategoryRepo_ListForUser_def TransactionRepo_CreateWithExternalID_def Let_def
        intro!: hr)
qed

lemma run_connection:
  "db_faults d = [] \<Longrightarrow> run_state (MonobankRepo_GetByUserID u) d =
    (case mono_get u d of None \<Rightarrow> Inl ErrNoRows | Some r \<Rightarrow> Inr (connectionFromRow r), d)"
  by (auto simp: monobank_repo MonobankConnectionGetByUserID_def query_one_row_by mono_get_def split: option.splits)

lemma run_TouchSync:
  "db_faults d = [] \<Longrightarrow> run_state (MonobankRepo_TouchSync u) d =
    (Inr (), mono_upd u (\<lambda>r. r\<lparr>mr_last_synced_at := Some (db_clock d)\<rparr>) d)"
  by (simp add: MonobankRepo_TouchSync_def MonobankConnectionTouchSync_def)

lemma run_SyncNow:
  assumes "db_faults d = []" "mono_get u d = Some r" "mr_account_ids r = a # as"
    and "Box_Decrypt (ms_box s) (mr_encrypted_token r) = Inr token"
    and "mono_Statement (me_net env) token a (add_days now (- 31)) now = Inr items"
    and "run_state (sync_items (me_import env) u (case mr_account_currencies r of [] \<Rightarrow> [] | c # _ \<Rightarrow> c) items 0) d = ((n, None), d1)"
    and "db_faults d1 = []"
  shows "run_state (SyncNow env s now u) d = ((n, None), mono_upd u (\<lambda>r. r\<lparr>mr_last_synced_at := Some (db_clock d1)\<rparr>) d1)"
  using assms
  by (simp add: SyncNow_def run_connection connectionFromRow_def run_TouchSync)

lemma SyncNow_success:
  assumes "db_faults d = []" "run_state (SyncNow env s now u) d = ((n, None), d')"
  obtains r a as token items d1 t where "mono_get u d = Some r" "mr_account_ids r = a # as"
    "Box_Decrypt (ms_box s) (mr_encrypted_token r) = Inr token"
    "mono_Statement (me_net env) token a (add_days now (- 31)) now = Inr items"
    "run_state (sync_items (me_import env) u (case mr_account_currencies r of [] \<Rightarrow> [] | c # _ \<Rightarrow> c) items 0) d = ((n, None), d1)"
    "exec (MonobankRepo_TouchSync u) d1 = d'"
proof -
  obtain r where r: "mono_get u d = Some r"
    using assms by (cases "mono_get u d") (auto simp: SyncNow_def run_connection)
  obtain a as where a: "mr_account_ids r = a # as"
    using assms r by (cases "mr_account_ids r") (auto simp: SyncNow_def run_connection connectionFromRow_def)
  obtain token where t: "Box_Decrypt (ms_box s) (mr_encrypted_token r) = Inr token"
    using assms r a by (cases "Box_Decrypt (ms_box s) (mr_encrypted_token r)")
      (auto simp: SyncNow_def run_connection connectionFromRow_def)
  obtain items where i: "mono_Statement (me_net env) token a (add_days now (- 31)) now = Inr items"
    using assms r a t by (cases "mono_Statement (me_net env) token a (add_days now (- 31)) now")
      (auto simp: SyncNow_def run_connection connectionFromRow_def)
  obtain m err d1 where run: "run_state (sync_items (me_import env) u
      (case mr_account_currencies r of [] \<Rightarrow> [] | c # _ \<Rightarrow> c) items 0) d = ((m, err), d1)"
    by (metis prod.exhaust)
  have "m = n \<and> err = None \<and> exec (MonobankRepo_TouchSync u) d1 = d'"
    using assms r a t i run
    by (auto simp: SyncNow_def run_connection connectionFromRow_def split: option.splits prod.splits sum.splits)
  with that [OF r a t i] run show thesis by blast
qed

text \<open>
  C22. \<open>Sync now\<close> may be pressed again. After a synchronisation without an error, one that gets the
  same statement from the bank imports nothing, reports no error and leaves the transactions as
  they are -- also when the statement lists an item twice.
\<close>

theorem sync_repeatable:
  assumes "db_faults d = []" and "run_state (SyncNow env s now u) d = ((n, None), d')"
    and "\<And>token a. mono_Statement (me_net env) token a (add_days now2 (- 31)) now2 =
                 mono_Statement (me_net env) token a (add_days now (- 31)) now"
    and "\<And>token a items. mono_Statement (me_net env) token a (add_days now (- 31)) now = Inr items \<Longrightarrow>
                 \<forall>x \<in> set items. si_ID x \<noteq> []"
  shows "result (SyncNow env s now2 u) d' = (0, None) \<and>
         db_transactions (exec (SyncNow env s now2 u) d') = db_transactions d'"
proof -
  obtain r a as token items d1 where r: "mono_get u d = Some r" "mr_account_ids r = a # as"
      "Box_Decrypt (ms_box s) (mr_encrypted_token r) = Inr token"
    and items: "mono_Statement (me_net env) token a (add_days now (- 31)) now = Inr items"
    and run: "run_state (sync_items (me_import env) u (case mr_account_currencies r of [] \<Rightarrow> [] | c # _ \<Rightarrow> c) items 0) d = ((n, None), d1)"
    and touch: "exec (MonobankRepo_TouchSync u) d1 = d'"
    by (rule SyncNow_success [OF assms(1,2)]) (rule that, assumption+)
  note again = sync_again [OF assms(1) run assms(4) [OF items]]
  let ?f = "\<lambda>r. r\<lparr>mr_last_synced_at := Some (db_clock d1)\<rparr>"
  have d': "d' = mono_upd u ?f d1"
    using touch again by (simp add: run_TouchSync)
  with again have calm: "db_faults d' = []" by (simp add: mono_upd_def)
  have "db_monobank d1 = db_monobank d"
    using hoare_runD [OF keeps_sync_items [OF keeps_table_monobank] refl run] .
  with r(1) have "mono_get u d1 = Some r" by (simp add: mono_get_def)
  then have r': "mono_get u d' = Some (?f r)" by (simp add: d' connections.get_upd_same)
  have fixed: "run_state (sync_items (me_import env) u (case mr_account_currencies r of [] \<Rightarrow> [] | c # _ \<Rightarrow> c) items 0) d' = ((0, None), d')"
    using again calm by (simp add: d' mono_upd_def)
  have "run_state (SyncNow env s now2 u) d' = ((0, None), mono_upd u (\<lambda>r. r\<lparr>mr_last_synced_at := Some (db_clock d')\<rparr>) d')"
    by (rule run_SyncNow [OF calm r']) (use r items calm assms(3) fixed in simp_all)
  then show ?thesis by (simp add: mono_upd_def)
qed

section \<open>What a webhook can touch\<close>

text \<open>At most one transaction added to those of \<open>d0\<close>, of a user in \<open>us\<close>; the other tables untouched.\<close>

definition same_rest :: "db \<Rightarrow> db \<Rightarrow> bool" where
  "same_rest d0 d \<longleftrightarrow>
     db_users d = db_users d0 \<and> db_sessions d = db_sessions d0 \<and> db_categories d = db_categories d0 \<and>
     db_payments d = db_payments d0"

definition one_more :: "db \<Rightarrow> uuid set \<Rightarrow> db \<Rightarrow> bool" where
  "one_more d0 us d \<longleftrightarrow>
     same_rest d0 d \<and>
     (db_transactions d = db_transactions d0 \<or>
      (\<exists>row. db_transactions d = db_transactions d0 @ [row] \<and> tr_user_id row \<in> us))"

definition untouched :: "db \<Rightarrow> db \<Rightarrow> bool" where
  "untouched d0 d \<longleftrightarrow> same_rest d0 d \<and> db_transactions d = db_transactions d0"

lemma fault_free_untouched [simp]: "fault_free (untouched d0)" "fault_free (one_more d0 us)"
  by (simp_all add: fault_free_def untouched_def one_more_def same_rest_def)

lemma blind_one_more [simp]: "blind_monobank (one_more d0 us)" "blind_monobank (untouched d0)"
  by (simp_all add: blind_monobank_def) (simp_all add: untouched_def one_more_def same_rest_def)


lemma untouched_find [hr]: "keeps (untouched d0) (findCategory env u name ty)"
  by (auto simp: findCategory_def CategoryRepo_ListForUser_def CategoryListForUser_def intro!: hr)




section \<open>Connecting\<close>

lemma run_upsert_null:
  "um_AccountTypes p = None \<Longrightarrow>
    \<exists>e. result (MonobankRepo_Upsert p) d = Inl e \<and> db_monobank (exec (MonobankRepo_Upsert p) d) = db_monobank d"
  by (simp add: MonobankRepo_Upsert_def as_connection_def MonobankConnectionUpsert_def stmt_def null_column_def
      split: list.splits option.splits)

text \<open>
  C24. A connection without account types is never saved. The gRPC controller passes \<open>nil\<close> for the
  account types and currencies (\<open>internal/grpc/controllers/monobank.go\<close>), and a nil slice is the
  NULL its column refuses: whatever the request and the state, \<open>Connect\<close> then returns an error
  and stores nothing -- after it has registered the webhook with the bank.
\<close>

theorem connect_nil_types_fails:
  "\<exists>e. result (Connect env s random nonce u token ids pans None None) d = Inl e \<and>
       db_monobank (exec (Connect env s random nonce u token ids pans None None) d) = db_monobank d"
proof -
  have "\<forall>p. \<exists>e d'. um_AccountTypes p = None \<longrightarrow>
      run_state (MonobankRepo_Upsert p) d = (Inl e, d') \<and> db_monobank d' = db_monobank d"
    using run_upsert_null [of _ d] by (metis prod.collapse)
  then obtain err d' where save: "\<And>p. um_AccountTypes p = None \<Longrightarrow>
      run_state (MonobankRepo_Upsert p) d = (Inl (err p), d' p) \<and> db_monobank (d' p) = db_monobank d"
    by metis
  show ?thesis by (simp add: Connect_def save split: sum.splits)
qed

text \<open>What a cipher promises: \<open>Open\<close> undoes \<open>Seal\<close> under the same nonce.\<close>

definition aead_contract :: "aead \<Rightarrow> bool" where
  "aead_contract b \<longleftrightarrow>
     (\<forall>nonce p. length nonce = ae_NonceSize b \<longrightarrow> ae_Open b nonce (ae_Seal b nonce p) = Inr p)"

lemma box_roundtrip:
  "aead_contract b \<Longrightarrow> length nonce = ae_NonceSize b \<Longrightarrow> Box_Encrypt b (Inr nonce) p = Inr blob \<Longrightarrow> Box_Decrypt b blob = Inr p"
  by (auto simp: Box_Encrypt_def Box_Decrypt_def aead_contract_def)

lemma mono_get_append: "mono_get (mr_user_id row) d = None \<Longrightarrow>
    mono_get (mr_user_id row) (d\<lparr>db_monobank := db_monobank d @ [row]\<rparr>) = Some row"
  by (simp add: mono_get_def row_by_append)

lemma mono_get_replace: "mono_get (mr_user_id row) d \<noteq> None \<Longrightarrow>
    mono_get (mr_user_id row) (mono_upd (mr_user_id row) (\<lambda>_. row) d) = Some row"
proof -
  have "row_by mr_user_id (mr_user_id row) (update_by mr_user_id (mr_user_id row) (\<lambda>_. row) rs) = Some row"
    if "row_by mr_user_id (mr_user_id row) rs \<noteq> None" for rs
    using that by (induction rs) (auto split: if_splits)
  then show "mono_get (mr_user_id row) d \<noteq> None \<Longrightarrow> ?thesis" by (simp add: mono_get_def mono_upd_def)
qed

lemma upsert_stores:
  assumes "db_faults d = []" "run_state (MonobankRepo_Upsert p) d = (Inr conn, d')"
  shows "db_faults d' = [] \<and> mono_get (um_UserID p) d' = Some (upserted (db_clock d) p) \<and>
    conn = connectionFromRow (upserted (db_clock d) p)"
proof -
  let ?row = "upserted (db_clock d) p"
  have [simp]: "mr_user_id ?row = um_UserID p" by (simp add: upserted_def)
  from assms have "conn = connectionFromRow ?row \<and>
      ((mono_get (um_UserID p) d \<noteq> None \<and> d' = mono_upd (um_UserID p) (\<lambda>_. ?row) d) \<or>
       (mono_get (um_UserID p) d = None \<and> d' = d\<lparr>db_monobank := db_monobank d @ [?row]\<rparr>))"
    by (auto simp: MonobankRepo_Upsert_def as_connection_def MonobankConnectionUpsert_def Let_def
        split: option.splits if_splits prod.splits sum.splits)
  with assms(1) mono_get_append [of ?row d] mono_get_replace [of ?row d] show ?thesis
    by (auto simp: mono_upd_def)
qed

lemma Connect_success:
  assumes "run_state (Connect env s random nonce u token ids pans types curs) d = (Inr st, d')"
  obtains secret blob conn where "token \<noteq> []" "Box_Encrypt (ms_box s) nonce token = Inr blob"
    "run_state (MonobankRepo_Upsert \<lparr>um_UserID = u, um_EncryptedToken = blob, um_WebhookSecret = secret,
        um_MaskedPans = pans, um_AccountIDs = ids, um_AccountTypes = types, um_AccountCurrencies = curs\<rparr>) d = (Inr conn, d')"
    "st = statusFromConnection conn"
  using assms by (auto simp: Connect_def split: if_splits sum.splits prod.splits)

text \<open>
  C25. What is stored is what was given. After a successful \<open>Connect\<close>, the stored connection holds
  the chosen accounts, its stored token decrypts to the personal token, and \<open>Status\<close> reports the
  connection \<open>Connect\<close> returned, never synchronised.
\<close>

theorem connect_roundtrip:
  assumes "db_faults d = []" and "aead_contract (ms_box s)" and "length bytes = ae_NonceSize (ms_box s)"
    and "run_state (Connect env s random (Inr bytes) u token ids pans types curs) d = (Inr st, d')"
  shows "\<exists>r. mono_get u d' = Some r \<and> Box_Decrypt (ms_box s) (mr_encrypted_token r) = Inr token \<and>
             mr_account_ids r = slice_list ids \<and> mr_masked_pans r = slice_list pans \<and> mt_LastSyncedAt st = 0 \<and>
             run_state (Status u) d' = (Inr st, d') \<and> mt_IsConnected st"
proof -
  obtain secret blob conn where enc: "Box_Encrypt (ms_box s) (Inr bytes) token = Inr blob"
    and up: "run_state (MonobankRepo_Upsert \<lparr>um_UserID = u, um_EncryptedToken = blob, um_WebhookSecret = secret,
        um_MaskedPans = pans, um_AccountIDs = ids, um_AccountTypes = types, um_AccountCurrencies = curs\<rparr>) d = (Inr conn, d')"
    and st: "st = statusFromConnection conn"
    by (rule Connect_success [OF assms(4)]) (rule that, assumption+)
  note stored = upsert_stores [OF assms(1) up, simplified]
  from stored st box_roundtrip [OF assms(2,3) enc] show ?thesis
    by (simp add: Status_def run_connection statusFromConnection_def connectionFromRow_def upserted_def optionalTime_def)
qed

section \<open>Sample data and witnesses\<close>

lemma val_dec_append: "val_dec (s @ t) = val_dec s * 10 ^ length t + val_dec t"
  by (induction t rule: rev_induct) (simp_all add: val_dec_def algebra_simps flip: append_assoc)

lemma zero_digit: "is_digit (CHR ''0'')" "digit_val (CHR ''0'') = 0"
  by code_simp+

lemma fmt_02d_value:
  assumes "r < 100"
  shows "length (fmt_02d (int r)) = 2 \<and> val_dec (fmt_02d (int r)) = r \<and> (\<forall>c \<in> set (fmt_02d (int r)). is_digit c)"
proof (cases "r < 10")
  case True
  then show ?thesis
    by (simp add: fmt_02d_def fmt_d_def dec_nat.simps digit_char_props zero_digit) (simp add: val_dec_def digit_char_props zero_digit)
next
  case False
  with assms have "dec_nat r = [digit_char (r div 10), digit_char (r mod 10)]"
    by (simp add: dec_nat.simps [of r] dec_nat.simps [of "r div 10"])
  with False assms show ?thesis
    by (simp add: fmt_02d_def fmt_d_def digit_char_props val_dec_def)
qed

definition decimal_pgnum :: pgnum where
  "decimal_pgnum =
     \<lparr>pn_Scan = (\<lambda>s. Inr (Num (int (val_dec (filter is_digit s))) (-2))), pn_Value = (\<lambda>n. Some ''0''), pn_Float64 = (\<lambda>n. None)\<rparr>"

lemma decimal_pgnum_scans: "scans_decimals decimal_pgnum"
proof -
  have "filter is_digit (dec_nat q) = dec_nat q" for q using dec_nat_digits [of q] by (simp add: filter_id_conv)
  moreover have "filter is_digit (fmt_02d (int r)) = fmt_02d (int r)" if "r < 100" for r
    using fmt_02d_value [OF that] by (simp add: filter_id_conv)
  ultimately show ?thesis
    using fmt_02d_value by (simp add: scans_decimals_def decimal_pgnum_def val_dec_append algebra_simps)
qed

definition sample_import_env :: import_env where
  "sample_import_env = \<lparr>im_name_le = (\<lambda>_ _. True), im_fold = (\<lambda>s. s), im_pgnum = decimal_pgnum\<rparr>"

lemma sample_import_pgnum [simp]: "im_pgnum sample_import_env = decimal_pgnum"
  by (simp add: sample_import_env_def)

definition sample_item :: StatementItem where
  "sample_item = StatementItem0\<lparr>si_ID := ''b1'', si_Amount := - 1050, si_CurrencyCode := 840, si_MCC := 5411\<rparr>"

lemma sample_item_fields [simp]:
  "si_ID sample_item = ''b1''" "si_Amount sample_item = - 1050" "si_CurrencyCode sample_item = 840"
  by (simp_all add: sample_item_def)

definition sample_box :: aead where
  "sample_box = \<lparr>ae_NonceSize = 1, ae_Seal = (\<lambda>n p. p), ae_Open = (\<lambda>n c. Inr c)\<rparr>"

definition sample_monobank :: MonobankService where
  "sample_monobank = \<lparr>ms_box = sample_box, ms_webhookBaseURL = ''https://b''\<rparr>"

lemma sample_box_ok: "aead_contract (ms_box sample_monobank)" "length ''n'' = ae_NonceSize (ms_box sample_monobank)"
  "ms_box sample_monobank = sample_box"
  by (simp_all add: sample_monobank_def sample_box_def aead_contract_def)

definition statement_body :: string where
  "statement_body = ''[{'' @ quoted ''id'' @ '':'' @ quoted ''b1'' @ '','' @ quoted ''amount'' @ '':-1050,'' @
     quoted ''currencyCode'' @ '':840,'' @ quoted ''mcc'' @ '':5411}]''"

definition sample_mono_env :: mono_env where
  "sample_mono_env = \<lparr>me_net = (\<lambda>_. Inr \<lparr>hp_status = 200, hp_body = statement_body\<rparr>), me_import = sample_import_env\<rparr>"

definition bank_db :: db where
  "bank_db = ledger_db\<lparr>db_monobank :=
     [\<lparr>mr_user_id = 1, mr_encrypted_token = ''ntok'', mr_webhook_secret = ''s'', mr_connected_at = 5, mr_last_synced_at = None,
       mr_account_ids = [''acc''], mr_masked_pans = [''4444''], mr_account_types = [''black''], mr_account_currencies = [''EUR'']\<rparr>]\<rparr>"

lemma bank_db_simps [simp]:
  "db_faults bank_db = []" "user_get 1 bank_db \<noteq> None" "next_id bank_db \<notin> set (map tr_id (db_transactions bank_db))"
  "\<not> imported 1 ''b1'' bank_db"
  by (simp_all add: bank_db_def ledger_samples user_get_def next_id_def imported_def)

theorem import_item_exact_witness:
  "\<exists>row. run_state (Item sample_import_env 1 sample_item ''EUR'') bank_db =
       (Inr True, bump (bank_db\<lparr>db_transactions := db_transactions bank_db @ [row]\<rparr>)) \<and>
     tr_user_id row = 1 \<and> tr_external_id row = si_ID sample_item \<and>
     tr_amount row = Num \<bar>sint (si_Amount sample_item)\<bar> (-2) \<and>
     tr_type row = (if sint (si_Amount sample_item) < 0 then ''expense'' else ''income'') \<and>
     tr_currency row = (if ''EUR'' = [] then CurrencyCode (si_CurrencyCode sample_item) else ''EUR'') \<and>
     tr_date row = time_of_unix (si_Time sample_item) \<and> tr_note row = si_Description sample_item"
  by (rule import_item_exact) (simp_all add: decimal_pgnum_scans, simp add: bank_db_def ledger_samples next_id_def)

lemma decode_statement:
  "Decode (decode_slice (decode_fields item_fields) StatementItem0) None statement_body = Inr (Some [sample_item])"
  by code_simp

lemma sample_statement: "mono_Statement (me_net sample_mono_env) token a f t =
    (if url_ok (statement_url a f t) then Inr [sample_item] else Inl (Wrap ''build request'' [] (Errorf ''parse'' [statement_url a f t])))"
  by (simp add: mono_Statement_def Let_def sample_mono_env_def mono_status_def decode_statement slice_list_def)

text \<open>An address without control bytes, percent and number signs parses.\<close>

definition plain_byte :: "char \<Rightarrow> bool" where
  "plain_byte c \<longleftrightarrow> 32 \<le> (of_char c :: nat) \<and> (of_char c :: nat) \<noteq> 127 \<and> c \<noteq> CHR ''#'' \<and> c \<noteq> CHR ''%''"

lemma plain_escapes: "CHR ''%'' \<notin> set u \<Longrightarrow> escapes_ok u"
  by (induction u) auto

lemma plain_url: "\<forall>c \<in> set u. plain_byte c \<Longrightarrow> url_ok u"
proof -
  assume *: "\<forall>c \<in> set u. plain_byte c"
  then have main: "takeWhile (\<lambda>c. c \<noteq> CHR ''#'') u = u" by (auto simp: takeWhile_eq_all_conv plain_byte_def)
  have path: "escapes_ok (takeWhile P u)" for P
    by (rule plain_escapes) (use * in \<open>auto simp: plain_byte_def dest: set_takeWhileD\<close>)
  have "list_all (\<lambda>c. 32 \<le> (of_char c :: nat) \<and> (of_char c :: nat) \<noteq> 127) u"
    unfolding list_all_iff using * by (simp add: plain_byte_def)
  then show ?thesis by (simp add: url_ok_def main path)
qed

lemma plain_number: "c \<in> set (fmt_d i) \<Longrightarrow> plain_byte c"
proof -
  have "is_digit c \<Longrightarrow> plain_byte c" for c
    by (cases "c = CHR ''#'' \<or> c = CHR ''%''") (auto simp: is_digit_def plain_byte_def)
  then show "c \<in> set (fmt_d i) \<Longrightarrow> plain_byte c"
    using dec_nat_digits by (auto simp: fmt_d_def plain_byte_def split: if_splits)
qed

lemma sample_url: "url_ok (statement_url ''acc'' f t)"
  by (rule plain_url) (auto simp: statement_url_def mono_baseURL_def plain_number, auto simp: plain_byte_def)

theorem sync_repeatable_witness:
  "\<exists>d'. run_state (SyncNow sample_mono_env sample_monobank 9 1) bank_db = ((1, None), d') \<and>
     result (SyncNow sample_mono_env sample_monobank 9 1) d' = (0, None) \<and>
     db_transactions (exec (SyncNow sample_mono_env sample_monobank 9 1) d') = db_transactions d'"
proof -
  obtain k where item: "run_state (Item sample_import_env 1 sample_item ''EUR'') bank_db =
      (Inr True, bump (bank_db\<lparr>db_transactions := db_transactions bank_db @ [imported_row bank_db 1 sample_item ''EUR'' k]\<rparr>))"
    using run_Item_new [OF bank_db_simps(1) _ bank_db_simps(2,3), where env = sample_import_env and item = sample_item and cur = "''EUR''"]
    by (auto simp: decimal_pgnum_scans)
  let ?d1 = "bump (bank_db\<lparr>db_transactions := db_transactions bank_db @ [imported_row bank_db 1 sample_item ''EUR'' k]\<rparr>)"
  have row1: "mono_get 1 bank_db = Some \<lparr>mr_user_id = 1, mr_encrypted_token = ''ntok'', mr_webhook_secret = ''s'',
      mr_connected_at = 5, mr_last_synced_at = None, mr_account_ids = [''acc''], mr_masked_pans = [''4444''],
      mr_account_types = [''black''], mr_account_currencies = [''EUR'']\<rparr>"
    by (simp add: bank_db_def mono_get_def)
  have sync: "run_state (SyncNow sample_mono_env sample_monobank 9 1) bank_db =
      ((1, None), mono_upd 1 (\<lambda>r. r\<lparr>mr_last_synced_at := Some (db_clock ?d1)\<rparr>) ?d1)"
    by (rule run_SyncNow [OF _ row1, where token = "''tok''" and a = "''acc''" and as = "[]" and items = "[sample_item]"])
      (simp_all add: sample_monobank_def sample_box_def Box_Decrypt_def sample_statement sample_url item bump_def,
       simp_all add: sample_mono_env_def item bump_def)
  have again: "result (SyncNow sample_mono_env sample_monobank 9 1) (mono_upd 1 (\<lambda>r. r\<lparr>mr_last_synced_at := Some (db_clock ?d1)\<rparr>) ?d1) = (0, None) \<and>
      db_transactions (exec (SyncNow sample_mono_env sample_monobank 9 1) (mono_upd 1 (\<lambda>r. r\<lparr>mr_last_synced_at := Some (db_clock ?d1)\<rparr>) ?d1)) =
      db_transactions (mono_upd 1 (\<lambda>r. r\<lparr>mr_last_synced_at := Some (db_clock ?d1)\<rparr>) ?d1)"
    by (rule sync_repeatable [OF _ sync]) (auto simp: sample_statement split: if_splits)
  from sync again show ?thesis by blast
qed

theorem connect_roundtrip_witness:
  "\<exists>st d' r. run_state (Connect sample_mono_env sample_monobank (Inr ''rnd'') (Inr ''n'') 2 ''tok'' (Some [''acc'']) (Some [])
       (Some []) (Some [])) bank_db = (Inr st, d') \<and> mono_get 2 d' = Some r \<and>
     Box_Decrypt sample_box (mr_encrypted_token r) = Inr ''tok'' \<and> run_state (Status 2) d' = (Inr st, d')"
proof -
  let ?m = "Connect sample_mono_env sample_monobank (Inr ''rnd'') (Inr ''n'') 2 ''tok'' (Some [''acc'']) (Some []) (Some []) (Some [])"
  have "\<exists>st. result ?m bank_db = Inr st"
    by (simp add: Connect_def sample_mono_env_def sample_monobank_def slice_list_def randomSecret_def Box_Encrypt_def
        mono_SetWebHook_def mono_status_def json_Marshal_def sort_members_def member_text_def json_any_def
        MonobankRepo_Upsert_def as_connection_def MonobankConnectionUpsert_def null_column_def Let_def
        bank_db_def ledger_samples mono_get_def user_get_def hex_EncodeToString_def hex_digit_def)
  then obtain st where "run_state ?m bank_db = (Inr st, exec ?m bank_db)" by (auto simp: prod_eq_iff)
  from connect_roundtrip [OF _ sample_box_ok(1,2) this, unfolded sample_box_ok(3)] this show ?thesis by fastforce
qed

end
