(* ===== verification/Sessions.thy ===== *)
theory Sessions
  imports Users Jwt Go_Base64 Go_Crypto
begin

text \<open>
  Web sessions: the statements of \<open>pkg/dbq/sessions.sql.go\<close>, the repository of
  \<open>internal/repository/session.go\<close>, the tokens of \<open>pkg/sessiontoken\<close> and the service of
  \<open>internal/service/session/session.go\<close>. A session is found by the hash of its refresh token
  and is \<^emph>\<open>spent\<close> once it carries a revocation time.
\<close>

section \<open>Statements\<close>

text \<open>\<open>refresh_hash\<close> is UNIQUE, \<open>user_id\<close> references \<open>users\<close>.\<close>

definition new_session :: "db \<Rightarrow> uuid \<Rightarrow> string \<Rightarrow> gotime option \<Rightarrow> string \<Rightarrow> session_row" where
  "new_session d userID refreshHash expiresAt userAgent =
     \<lparr>sr_id = next_id d, sr_user_id = userID, sr_refresh_hash = refreshHash, sr_created_at = db_clock d,
      sr_expires_at = time_Time expiresAt, sr_revoked_at = None, sr_user_agent = userAgent\<rparr>"

definition session_insert :: "session_row \<Rightarrow> db \<Rightarrow> session_row res \<times> db" where
  "session_insert row d =
     (if sr_id row \<in> set (map sr_id (db_sessions d)) then (Inl (unique_violation ''sessions_pkey''), d)
      else if sr_refresh_hash row \<in> set (map sr_refresh_hash (db_sessions d))
      then (Inl (unique_violation ''sessions_refresh_hash_key''), d)
      else if user_get (sr_user_id row) d = None then (Inl (fk_violation ''sessions_user_id_fkey''), d)
      else (Inr row, bump (d\<lparr>db_sessions := db_sessions d @ [row]\<rparr>)))"

definition SessionCreate :: "uuid \<Rightarrow> string \<Rightarrow> gotime option \<Rightarrow> string \<Rightarrow> session_row dbop" where
  "SessionCreate userID refreshHash expiresAt userAgent = stmt (\<lambda>d.
     if expiresAt = None then (Inl (PgError ''23502'' ''expires_at''), d)
     else session_insert (new_session d userID refreshHash expiresAt userAgent) d)"

definition SessionGetByRefreshHash :: "string \<Rightarrow> session_row dbop" where
  "SessionGetByRefreshHash h = read_stmt (\<lambda>d. query_one (\<lambda>r. sr_refresh_hash r = h) (db_sessions d))"

definition SessionListActiveForUser :: "uuid \<Rightarrow> session_row list dbop" where
  "SessionListActiveForUser userID = read_stmt (\<lambda>d.
     Inr (sort_key (\<lambda>r. - sr_created_at r)
       (filter (\<lambda>r. sr_user_id r = userID \<and> sr_revoked_at r = None \<and> db_clock d < sr_expires_at r)
         (db_sessions d))))"

text \<open>The three revocations set \<open>revoked_at = now()\<close> on the rows their WHERE clause selects.\<close>

definition revoke_where :: "(session_row \<Rightarrow> bool) \<Rightarrow> db \<Rightarrow> db" where
  "revoke_where P d =
     d\<lparr>db_sessions := map (\<lambda>r. if P r then r\<lparr>sr_revoked_at := Some (db_clock d)\<rparr> else r) (db_sessions d)\<rparr>"

definition SessionRevokeByID :: "uuid \<Rightarrow> unit dbop" where
  "SessionRevokeByID i = stmt (\<lambda>d. (Inr (), revoke_where (\<lambda>r. sr_id r = i) d))"

definition SessionRevokeByRefreshHash :: "string \<Rightarrow> unit dbop" where
  "SessionRevokeByRefreshHash h = stmt (\<lambda>d. (Inr (), revoke_where (\<lambda>r. sr_refresh_hash r = h) d))"

definition SessionRevokeForUser :: "uuid \<Rightarrow> uuid \<Rightarrow> int dbop" where
  "SessionRevokeForUser i userID = stmt (\<lambda>d.
     let P = (\<lambda>r. sr_id r = i \<and> sr_user_id r = userID \<and> sr_revoked_at r = None) in
     (Inr (int (length (filter P (db_sessions d)))), revoke_where P d))"

section \<open>The repository\<close>

record Session =
  ss_ID :: uuid
  ss_UserID :: uuid
  ss_RefreshHash :: string
  ss_CreatedAt :: gotime
  ss_ExpiresAt :: gotime
  ss_RevokedAt :: gotime
  ss_UserAgent :: string

definition sessionFromRow :: "session_row \<Rightarrow> Session" where
  "sessionFromRow r =
     \<lparr>ss_ID = sr_id r, ss_UserID = sr_user_id r, ss_RefreshHash = sr_refresh_hash r,
      ss_CreatedAt = sr_created_at r, ss_ExpiresAt = sr_expires_at r,
      ss_RevokedAt = time_Time (sr_revoked_at r), ss_UserAgent = sr_user_agent r\<rparr>"

definition SessionRepo_Create :: "uuid \<Rightarrow> string \<Rightarrow> gotime \<Rightarrow> string \<Rightarrow> Session dbop" where
  "SessionRepo_Create userID refreshHash expiresAt userAgent = do {
     r \<leftarrow> SessionCreate userID refreshHash (TimeFromGo expiresAt) userAgent;
     case r of Inl e \<Rightarrow> ret (Inl e) | Inr row \<Rightarrow> ret (Inr (sessionFromRow row)) }"

definition SessionRepo_ListActiveForUser :: "uuid \<Rightarrow> Session list dbop" where
  "SessionRepo_ListActiveForUser userID = do {
     r \<leftarrow> SessionListActiveForUser userID;
     case r of Inl e \<Rightarrow> ret (Inl e) | Inr rows \<Rightarrow> ret (Inr (map sessionFromRow rows)) }"

definition SessionRepo_RevokeForUser :: "uuid \<Rightarrow> uuid \<Rightarrow> bool dbop" where
  "SessionRepo_RevokeForUser i userID = do {
     r \<leftarrow> SessionRevokeForUser i userID;
     case r of Inl e \<Rightarrow> ret (Inl e) | Inr rows \<Rightarrow> ret (Inr (rows > 0)) }"

definition SessionRepo_GetByRefreshHash :: "string \<Rightarrow> Session dbop" where
  "SessionRepo_GetByRefreshHash h = do {
     r \<leftarrow> SessionGetByRefreshHash h;
     case r of Inl e \<Rightarrow> ret (Inl e) | Inr row \<Rightarrow> ret (Inr (sessionFromRow row)) }"

definition SessionRepo_RevokeByID :: "uuid \<Rightarrow> unit dbop" where
  "SessionRepo_RevokeByID i = SessionRevokeByID i"

definition SessionRepo_RevokeByRefreshHash :: "string \<Rightarrow> unit dbop" where
  "SessionRepo_RevokeByRefreshHash h = SessionRevokeByRefreshHash h"

section \<open>Refresh tokens (pkg/sessiontoken)\<close>

definition token_Hash :: "string \<Rightarrow> string" where
  "token_Hash raw = hex_EncodeToString (sha256_Sum raw)"

text \<open>\<open>rand.Read\<close> into 32 bytes is the argument: the bytes, or its error.\<close>

definition token_New :: "string res \<Rightarrow> (string \<times> string) res" where
  "token_New rnd =
     (case rnd of
        Inl e \<Rightarrow> Inl (Wrap ''generate random token'' [] e)
      | Inr buf \<Rightarrow> (let raw = base64_RawURL buf in Inr (raw, token_Hash raw)))"

section \<open>The service\<close>

record SessionService =
  sv_jwt :: jwtManager
  sv_refreshDuration :: duration

record Pair =
  pa_AccessToken :: string
  pa_RefreshToken :: string

text \<open>What one request draws from outside: its clock readings in order, and random bytes.\<close>

record issue_world =
  iw_now1 :: gotime
  iw_now2 :: gotime
  iw_now3 :: gotime
  iw_rand :: "string res"

definition Issue :: "jwt_lib \<Rightarrow> SessionService \<Rightarrow> issue_world \<Rightarrow> uuid \<Rightarrow> string \<Rightarrow> Pair dbop" where
  "Issue lib s w userID userAgent =
     (case jwt_Generate lib (sv_jwt s) (iw_now1 w) (iw_now2 w) userID of
        Inl e \<Rightarrow> ret (Inl (Wrap ''generate access token'' [] e))
      | Inr access \<Rightarrow>
          (case token_New (iw_rand w) of
             Inl e \<Rightarrow> ret (Inl (Wrap ''generate refresh token'' [] e))
           | Inr (raw, h) \<Rightarrow> do {
               r \<leftarrow> SessionRepo_Create userID h (iw_now3 w + sv_refreshDuration s) userAgent;
               case r of
                 Inl e \<Rightarrow> ret (Inl (Wrap ''store session'' [] e))
               | Inr _ \<Rightarrow> ret (Inr \<lparr>pa_AccessToken = access, pa_RefreshToken = raw\<rparr>) }))"

text \<open>\<open>Refresh\<close>: the look-up and its checks, then the rotation.\<close>

definition refresh_check :: "gotime \<Rightarrow> string \<Rightarrow> Session dbop" where
  "refresh_check now rawRefreshToken = do {
     r \<leftarrow> SessionRepo_GetByRefreshHash (token_Hash rawRefreshToken);
     case r of
       Inl e \<Rightarrow> ret (Inl (if errors_is e ErrNoRows then ErrInvalidRefreshToken else Wrap ''lookup session'' [] e))
     | Inr sess \<Rightarrow>
         ret (if ss_RevokedAt sess \<noteq> 0 \<or> ss_ExpiresAt sess < now then Inl ErrInvalidRefreshToken else Inr sess) }"

definition refresh_rotate :: "jwt_lib \<Rightarrow> SessionService \<Rightarrow> issue_world \<Rightarrow> Session \<Rightarrow> Pair dbop" where
  "refresh_rotate lib s w sess = do {
     r \<leftarrow> SessionRepo_RevokeByID (ss_ID sess);
     case r of
       Inl e \<Rightarrow> ret (Inl (Wrap ''revoke old session'' [] e))
     | Inr _ \<Rightarrow> Issue lib s w (ss_UserID sess) (ss_UserAgent sess) }"

definition Refresh :: "jwt_lib \<Rightarrow> SessionService \<Rightarrow> gotime \<Rightarrow> issue_world \<Rightarrow> string \<Rightarrow> Pair dbop" where
  "Refresh lib s now w rawRefreshToken = do {
     r \<leftarrow> refresh_check now rawRefreshToken;
     case r of Inl e \<Rightarrow> ret (Inl e) | Inr sess \<Rightarrow> refresh_rotate lib s w sess }"

definition Revoke :: "string \<Rightarrow> unit dbop" where
  "Revoke rawRefreshToken = SessionRepo_RevokeByRefreshHash (token_Hash rawRefreshToken)"

record Active =
  ac_ID :: uuid
  ac_UserAgent :: string
  ac_CreatedAt :: gotime
  ac_ExpiresAt :: gotime
  ac_Current :: bool

definition ListActive :: "uuid \<Rightarrow> string \<Rightarrow> Active list dbop" where
  "ListActive userID rawRefreshToken = do {
     r \<leftarrow> SessionRepo_ListActiveForUser userID;
     case r of
       Inl e \<Rightarrow> ret (Inl e)
     | Inr sessions \<Rightarrow>
         (let currentHash = (if rawRefreshToken \<noteq> [] then token_Hash rawRefreshToken else []) in
          ret (Inr (map (\<lambda>sess.
            \<lparr>ac_ID = ss_ID sess, ac_UserAgent = ss_UserAgent sess, ac_CreatedAt = ss_CreatedAt sess,
             ac_ExpiresAt = ss_ExpiresAt sess,
             ac_Current = (currentHash \<noteq> [] \<and> ss_RefreshHash sess = currentHash)\<rparr>) sessions))) }"

definition RevokeForUser :: "uuid \<Rightarrow> uuid \<Rightarrow> unit dbop" where
  "RevokeForUser userID sessionID = do {
     r \<leftarrow> SessionRepo_RevokeForUser sessionID userID;
     case r of
       Inl e \<Rightarrow> ret (Inl e)
     | Inr ok \<Rightarrow> ret (if \<not> ok then Inl (Errorf ''session not found'' []) else Inr ()) }"

section \<open>The invariant of the table\<close>

definition spent :: "session_row \<Rightarrow> bool" where
  "spent r \<longleftrightarrow> (\<exists>t. sr_revoked_at r = Some t \<and> t \<noteq> 0)"

definition session_by_hash :: "string \<Rightarrow> db \<Rightarrow> session_row option" where
  "session_by_hash h d = row_by sr_refresh_hash h (db_sessions d)"

text \<open>
  Identifiers and hashes are unique, every session belongs to a user, and no clock reading is
  Go's zero time (which the repository could not tell from \<open>not revoked\<close>).
\<close>

definition sessions_wf :: "db \<Rightarrow> bool" where
  "sessions_wf d \<longleftrightarrow>
     db_clock d \<noteq> 0 \<and> distinct (map sr_id (db_sessions d)) \<and> distinct (map sr_refresh_hash (db_sessions d)) \<and>
     (\<forall>r \<in> set (db_sessions d). sr_revoked_at r \<noteq> Some 0 \<and> sr_user_id r \<in> ur_id ` set (db_users d))"

lemma fault_free_sessions_wf [simp]: "fault_free sessions_wf"
  by (simp add: fault_free_def sessions_wf_def)

lemma new_session_fields [simp]:
  "sr_id (new_session d u h e a) = next_id d" "sr_user_id (new_session d u h e a) = u"
  "sr_refresh_hash (new_session d u h e a) = h" "sr_revoked_at (new_session d u h e a) = None"
  "sr_expires_at (new_session d u h e a) = time_Time e" "sr_user_agent (new_session d u h e a) = a"
  "sr_created_at (new_session d u h e a) = db_clock d"
  by (simp_all add: new_session_def)

lemma sessions_wf_insert:
  "sessions_wf d \<Longrightarrow> sr_revoked_at row = None \<Longrightarrow> sessions_wf (snd (session_insert row d))"
  by (auto simp: session_insert_def sessions_wf_def bump_def dest: user_get_set)

lemma revoke_where_maps:
  "map sr_id (db_sessions (revoke_where P d)) = map sr_id (db_sessions d)"
  "map sr_refresh_hash (db_sessions (revoke_where P d)) = map sr_refresh_hash (db_sessions d)"
  by (simp_all add: revoke_where_def comp_def if_distrib cong: if_cong)

lemma revoke_where_same [simp]:
  "db_users (revoke_where P d) = db_users d" "db_clock (revoke_where P d) = db_clock d"
  "db_faults (revoke_where P d) = db_faults d"
  by (simp_all add: revoke_where_def)

lemma sessions_wf_revoke: "sessions_wf d \<Longrightarrow> sessions_wf (revoke_where P d)"
  unfolding sessions_wf_def revoke_where_maps revoke_where_same
  by (auto simp: revoke_where_def)

lemma session_statements_keep [hr]:
  "keeps sessions_wf (SessionCreate u h e a)" "keeps sessions_wf (SessionGetByRefreshHash h)"
  "keeps sessions_wf (SessionListActiveForUser u)" "keeps sessions_wf (SessionRevokeByID i)"
  "keeps sessions_wf (SessionRevokeByRefreshHash h)" "keeps sessions_wf (SessionRevokeForUser i u)"
  by (auto simp: SessionCreate_def SessionGetByRefreshHash_def SessionListActiveForUser_def
      SessionRevokeByID_def SessionRevokeByRefreshHash_def SessionRevokeForUser_def Let_def
      intro!: keeps_read keeps_stmt sessions_wf_insert sessions_wf_revoke)

text \<open>A spent session stays spent under every statement.\<close>

definition spent_at :: "string \<Rightarrow> db \<Rightarrow> bool" where
  "spent_at h d \<longleftrightarrow> db_clock d \<noteq> 0 \<and> (\<exists>r. session_by_hash h d = Some r \<and> spent r)"

lemma fault_free_spent_at [simp]: "fault_free (spent_at h)"
  by (simp add: fault_free_def spent_at_def session_by_hash_def)

lemma session_by_hash_revoke:
  "session_by_hash h (revoke_where P d) =
    map_option (\<lambda>r. if P r then r\<lparr>sr_revoked_at := Some (db_clock d)\<rparr> else r) (session_by_hash h d)"
  by (simp add: session_by_hash_def revoke_where_def row_by_map)

lemma spent_at_revoke: "spent_at h d \<Longrightarrow> spent_at h (revoke_where P d)"
proof -
  assume "spent_at h d"
  then obtain r where "db_clock d \<noteq> 0" "session_by_hash h d = Some r" "spent r"
    by (auto simp: spent_at_def)
  then show ?thesis
    by (cases "P r") (simp_all add: spent_at_def session_by_hash_revoke spent_def)
qed

lemma spent_at_insert: "spent_at h d \<Longrightarrow> spent_at h (snd (session_insert row d))"
  by (auto simp: spent_at_def session_by_hash_def session_insert_def bump_def row_by_append)

lemma spent_statements [hr]:
  "keeps (spent_at h) (SessionCreate u k e a)" "keeps (spent_at h) (SessionGetByRefreshHash k)"
  "keeps (spent_at h) (SessionListActiveForUser u)" "keeps (spent_at h) (SessionRevokeByID i)"
  "keeps (spent_at h) (SessionRevokeByRefreshHash k)" "keeps (spent_at h) (SessionRevokeForUser i u)"
  by (auto simp: SessionCreate_def SessionGetByRefreshHash_def SessionListActiveForUser_def
      SessionRevokeByID_def SessionRevokeByRefreshHash_def SessionRevokeForUser_def Let_def
      intro!: keeps_read keeps_stmt spent_at_insert spent_at_revoke)

lemmas session_repo =
  SessionRepo_Create_def SessionRepo_ListActiveForUser_def SessionRepo_RevokeForUser_def
  SessionRepo_GetByRefreshHash_def SessionRepo_RevokeByID_def SessionRepo_RevokeByRefreshHash_def

lemmas session_service =
  Issue_def refresh_check_def refresh_rotate_def Refresh_def Revoke_def ListActive_def RevokeForUser_def

lemma session_services_keep [hr]:
  "keeps sessions_wf (Issue lib s w u a)" "keeps sessions_wf (refresh_check t raw)"
  "keeps sessions_wf (refresh_rotate lib s w x)" "keeps sessions_wf (Refresh lib s t w raw)"
  "keeps sessions_wf (Revoke raw)" "keeps sessions_wf (ListActive u raw)" "keeps sessions_wf (RevokeForUser u i)"
  by (auto simp: session_service session_repo Let_def intro!: hr)

lemma session_services_spent [hr]:
  "keeps (spent_at h) (Issue lib s w u a)" "keeps (spent_at h) (refresh_check t raw)"
  "keeps (spent_at h) (refresh_rotate lib s w x)" "keeps (spent_at h) (Refresh lib s t w raw)"
  "keeps (spent_at h) (Revoke raw)" "keeps (spent_at h) (ListActive u raw)" "keeps (spent_at h) (RevokeForUser u i)"
  by (auto simp: session_service session_repo Let_def intro!: hr)

section \<open>The steps of concurrent requests\<close>

text \<open>
  What can happen to the sessions between two moments: time passes and failures come, and any
  request runs a part of its work -- \<open>Refresh\<close> in its two parts, so that two requests with
  the same token may interleave, the second part with any session it may have read before.
\<close>

inductive session_step :: "jwt_lib \<Rightarrow> SessionService \<Rightarrow> db \<Rightarrow> db \<Rightarrow> bool" for lib s where
  world: "t \<noteq> 0 \<Longrightarrow> session_step lib s d (d\<lparr>db_faults := fs, db_clock := t\<rparr>)"
| issue: "session_step lib s d (exec (Issue lib s w u a) d)"
| check: "session_step lib s d (exec (refresh_check t raw) d)"
| rotate: "session_step lib s d (exec (refresh_rotate lib s w x) d)"
| revoke: "session_step lib s d (exec (Revoke raw) d)"
| list: "session_step lib s d (exec (ListActive u raw) d)"
| revoke_own: "session_step lib s d (exec (RevokeForUser u i) d)"

lemma session_step_wf: "session_step lib s d d' \<Longrightarrow> sessions_wf d \<Longrightarrow> sessions_wf d'"
proof (induction rule: session_step.induct)
  case (world t d fs)
  then show ?case by (simp add: sessions_wf_def)
qed (rule hoareD, rule hr, assumption)+

lemma session_step_spent: "session_step lib s d d' \<Longrightarrow> spent_at h d \<Longrightarrow> spent_at h d'"
proof (induction rule: session_step.induct)
  case (world t d fs)
  then show ?case by (simp add: spent_at_def session_by_hash_def)
qed (rule hoareD, rule hr, assumption)+

interpretation tokens: token_registry session_by_hash spent sessions_wf "session_step lib s" for lib s
proof
  show "sessions_wf d'" if "sessions_wf d" "session_step lib s d d'" for d d'
    using that by (blast intro: session_step_wf)
  show "\<exists>r'. session_by_hash h d' = Some r' \<and> spent r'"
    if "sessions_wf d" "session_step lib s d d'" "session_by_hash h d = Some r" "spent r" for h r d d'
    using session_step_spent [OF that(2), of h] that by (auto simp: spent_at_def sessions_wf_def)
qed

section \<open>Results on a database that answers\<close>

lemma find_by_hash:
  "query_one (\<lambda>r. sr_refresh_hash r = h) (db_sessions d) =
    (case session_by_hash h d of None \<Rightarrow> Inl ErrNoRows | Some r \<Rightarrow> Inr r)"
  by (simp add: query_one_row_by session_by_hash_def)

lemma run_refresh_check:
  assumes "db_faults d = []"
  shows "run_state (refresh_check now raw) d =
    (case session_by_hash (token_Hash raw) d of
       None \<Rightarrow> Inl ErrInvalidRefreshToken
     | Some r \<Rightarrow> if time_Time (sr_revoked_at r) \<noteq> 0 \<or> sr_expires_at r < now then Inl ErrInvalidRefreshToken
                 else Inr (sessionFromRow r), d)"
  using assms
  by (auto simp: refresh_check_def SessionRepo_GetByRefreshHash_def SessionGetByRefreshHash_def find_by_hash
      sessionFromRow_def split: option.splits)

lemma run_refresh_spent:
  assumes "db_faults d = []" "session_by_hash (token_Hash raw) d = Some r" "spent r"
  shows "run_state (Refresh lib s now w raw) d = (Inl ErrInvalidRefreshToken, d)"
  using assms by (auto simp: Refresh_def run_refresh_check spent_def)

lemma run_session_create:
  assumes "db_faults d = []" "next_id d \<notin> set (map sr_id (db_sessions d))"
    and "h \<notin> set (map sr_refresh_hash (db_sessions d))" "user_get u d \<noteq> None"
  shows "run_state (SessionRepo_Create u h e a) d =
    (Inr (sessionFromRow (new_session d u h (TimeFromGo e) a)),
     bump (d\<lparr>db_sessions := db_sessions d @ [new_session d u h (TimeFromGo e) a]\<rparr>))"
  using assms by (simp add: SessionRepo_Create_def SessionCreate_def session_insert_def TimeFromGo_def)

lemma hash_of_id:
  "sessions_wf d \<Longrightarrow> session_by_hash h d = Some r \<Longrightarrow> x \<in> set (db_sessions d) \<Longrightarrow> sr_id x = sr_id r \<Longrightarrow> x = r"
  using row_by_Some [of sr_refresh_hash h "db_sessions d" r]
  by (auto simp: sessions_wf_def session_by_hash_def distinct_map inj_on_def)

text \<open>
  A refresh that reaches the issuing of the new pair -- whether that succeeds or not -- has
  spent the token, under any failures.
\<close>

definition rotated :: "'a res \<Rightarrow> bool" where
  "rotated r \<longleftrightarrow>
     (case r of
        Inr _ \<Rightarrow> True
      | Inl (Wrap f as e) \<Rightarrow> f \<in> {''store session'', ''generate access token'', ''generate refresh token''}
      | Inl _ \<Rightarrow> False)"

lemma rotated_simps [simp]:
  "rotated (Inr p)" "\<not> rotated (Inl ErrInvalidRefreshToken)" "\<not> rotated (Inl (Wrap ''lookup session'' [] e))"
  "\<not> rotated (Inl (Wrap ''revoke old session'' [] e))" "rotated (Inl (Wrap ''store session'' [] e))"
  by (simp_all add: rotated_def)

lemma refresh_spends:
  "hoare sessions_wf (Refresh lib s now w raw)
     (\<lambda>r d. rotated r \<longrightarrow> sessions_wf d \<and> spent_at (token_Hash raw) d)"
proof -
  let ?h = "token_Hash raw"
  let ?found = "\<lambda>i d. sessions_wf d \<and> (\<exists>row. session_by_hash ?h d = Some row \<and> sr_id row = i)"
  have get: "hoare sessions_wf (SessionGetByRefreshHash ?h)
      (\<lambda>r d. sessions_wf d \<and> (\<forall>row. r = Inr row \<longrightarrow> ?found (sr_id row) d))"
    unfolding SessionGetByRefreshHash_def read_stmt_def
    by (rule hoare_stmt [where P' = sessions_wf]) (auto simp: find_by_hash split: option.splits)
  have fetch: "hoare sessions_wf (SessionRepo_GetByRefreshHash ?h)
      (\<lambda>r d. sessions_wf d \<and> (\<forall>x. r = Inr x \<longrightarrow> ?found (ss_ID x) d))"
    unfolding SessionRepo_GetByRefreshHash_def
    by (rule hoare_bind [OF get]) (auto simp: hoare_def sessionFromRow_def split: sum.splits)
  have check: "hoare sessions_wf (refresh_check now raw)
      (\<lambda>r d. case r of Inl e \<Rightarrow> \<not> rotated (Inl e :: Pair res) | Inr x \<Rightarrow> ?found (ss_ID x) d)"
    unfolding refresh_check_def
    by (rule hoare_bind [OF fetch]) (auto simp: hoare_def split: sum.splits if_splits)
  have ff: "fault_free (?found i)" for i
    by (simp add: fault_free_def sessions_wf_def session_by_hash_def)
  have revoke: "hoare (?found i) (SessionRepo_RevokeByID i)
      (\<lambda>r d. \<forall>u. r = Inr u \<longrightarrow> sessions_wf d \<and> spent_at ?h d)" for i
    unfolding SessionRepo_RevokeByID_def SessionRevokeByID_def
  proof (rule hoare_stmt [where P' = "?found i"])
    fix d assume f: "?found i d"
    then have "db_clock d \<noteq> 0" by (simp add: sessions_wf_def)
    with f show "\<forall>u. fst (Inr (), revoke_where (\<lambda>r. sr_id r = i) d) = Inr u \<longrightarrow>
        sessions_wf (snd (Inr (), revoke_where (\<lambda>r. sr_id r = i) d)) \<and>
        spent_at ?h (snd (Inr (), revoke_where (\<lambda>r. sr_id r = i) d))"
      by (auto simp: sessions_wf_revoke spent_at_def session_by_hash_revoke spent_def)
  qed (use ff in auto)
  have rotate: "hoare (?found (ss_ID x)) (refresh_rotate lib s w x)
      (\<lambda>r d. rotated r \<longrightarrow> sessions_wf d \<and> spent_at ?h d)" for x
    unfolding refresh_rotate_def
    by (rule hoare_bind [OF revoke])
      (auto simp: hoare_def dest: hoareD [OF session_services_keep(1)] hoareD [OF session_services_spent(1)]
        split: sum.splits)
  show ?thesis
    unfolding Refresh_def
    by (rule hoare_bind [OF check]) (use rotate in \<open>auto simp: hoare_def split: sum.splits\<close>)
qed

end
