(* ===== verification/Go_Server.thy ===== *)
theory Go_Server
  imports Go_Http Go_Calendar
begin

text \<open>
  \<open>net/http\<close> as a server, with what the handlers use of \<open>encoding/json\<close>, \<open>time\<close>,
  \<open>strconv\<close> and \<open>fmt\<close>: an incoming request, the response a handler leaves, the encoder of
  values, the routes of a \<open>ServeMux\<close>, the instant \<open>time.Parse\<close> reads from an RFC 3339 text
  and the text of an error.
\<close>

section \<open>Requests and responses\<close>

text \<open>
  A request as the server hands it over: the path split at its slashes (a clean path; the
  redirect of other paths is the server's), the header fields, the cookies and the query values
  in order, the body, and the values of the wildcards once the request is routed.
\<close>

record request =
  rq_method :: string
  rq_path :: "string list"
  rq_headers :: "(string \<times> string) list"
  rq_cookies :: "(string \<times> string) list"
  rq_query :: "(string \<times> string) list"
  rq_body :: string
  rq_wild :: "string list"

definition first_value :: "(string \<times> string) list \<Rightarrow> string \<Rightarrow> string" where
  "first_value kvs k = (case map_of kvs k of None \<Rightarrow> [] | Some v \<Rightarrow> v)"

abbreviation header_Get :: "request \<Rightarrow> string \<Rightarrow> string" where
  "header_Get r \<equiv> first_value (rq_headers r)"

abbreviation query_Get :: "request \<Rightarrow> string \<Rightarrow> string" where
  "query_Get r \<equiv> first_value (rq_query r)"

abbreviation request_Cookie :: "request \<Rightarrow> string \<Rightarrow> string option" where
  "request_Cookie r \<equiv> map_of (rq_cookies r)"

definition PathValue :: "request \<Rightarrow> string" where
  "PathValue r = (case rq_wild r of [] \<Rightarrow> [] | v # _ \<Rightarrow> v)"

record cookie =
  ck_Name :: string
  ck_Value :: string
  ck_Path :: string
  ck_HttpOnly :: bool
  ck_Secure :: bool
  ck_SameSiteLax :: bool
  ck_MaxAge :: int

record response =
  rp_status :: int
  rp_headers :: "(string \<times> string) list"
  rp_cookies :: "cookie list"
  rp_body :: string

definition status_only :: "int \<Rightarrow> response" where
  "status_only st = \<lparr>rp_status = st, rp_headers = [], rp_cookies = [], rp_body = []\<rparr>"

definition with_cookies :: "cookie list \<Rightarrow> response \<Rightarrow> response" where
  "with_cookies cs r = r\<lparr>rp_cookies := cs @ rp_cookies r\<rparr>"

definition with_headers :: "(string \<times> string) list \<Rightarrow> response \<Rightarrow> response" where
  "with_headers hs r = r\<lparr>rp_headers := hs @ rp_headers r\<rparr>"

lemma response_simps [simp]:
  "rp_status (status_only st) = st" "rp_body (status_only st) = []" "rp_cookies (status_only st) = []"
  "rp_status (with_cookies cs r) = rp_status r" "rp_body (with_cookies cs r) = rp_body r"
  "rp_cookies (with_cookies cs r) = cs @ rp_cookies r"
  "rp_status (with_headers hs r) = rp_status r" "rp_body (with_headers hs r) = rp_body r"
  "rp_cookies (with_headers hs r) = rp_cookies r"
  by (simp_all add: status_only_def with_cookies_def with_headers_def)

section \<open>The JSON encoder\<close>

text \<open>
  The values the handlers encode: a struct keeps the order of its fields, a map comes out sorted
  by its keys, a nil slice is \<open>null\<close>. A NaN or an infinity cannot be encoded.
\<close>

datatype jval =
    VNull
  | VBool bool
  | VInt int
  | VFloat float64
  | VStr string
  | VArr "jval list"
  | VStruct "(string \<times> jval) list"
  | VMap "(string \<times> jval) list"

definition members_text :: "(string \<times> string) list \<Rightarrow> string" where
  "members_text ms = ''{'' @ join_with '','' (map (\<lambda>m. json_quote (fst m) @ '':'' @ snd m) ms) @ ''}''"

fun jval_text :: "jval \<Rightarrow> string option" where
  "jval_text VNull = Some ''null''"
| "jval_text (VBool b) = Some (if b then ''true'' else ''false'')"
| "jval_text (VInt i) = Some (fmt_d i)"
| "jval_text (VFloat f) = json_float f"
| "jval_text (VStr s) = Some (json_quote s)"
| "jval_text (VArr vs) =
     map_option (\<lambda>ts. ''['' @ join_with '','' ts @ '']'') (those (map jval_text vs))"
| "jval_text (VStruct ms) =
     map_option members_text (those (map (\<lambda>m. map_option (Pair (fst m)) (jval_text (snd m))) ms))"
| "jval_text (VMap ms) =
     map_option (\<lambda>ts. members_text (sort_members ts))
       (those (map (\<lambda>m. map_option (Pair (fst m)) (jval_text (snd m))) ms))"

text \<open>A field tagged \<open>omitempty\<close>, and a slice that may be nil.\<close>

definition omit_empty :: "string \<Rightarrow> string \<Rightarrow> (string \<times> jval) list" where
  "omit_empty k s = (if s = [] then [] else [(k, VStr s)])"

definition omit_false :: "string \<Rightarrow> bool \<Rightarrow> (string \<times> jval) list" where
  "omit_false k b = (if b then [(k, VBool True)] else [])"

definition slice_jval :: "('a \<Rightarrow> jval) \<Rightarrow> 'a slice \<Rightarrow> jval" where
  "slice_jval f xs = (case xs of None \<Rightarrow> VNull | Some ys \<Rightarrow> VArr (map f ys))"

text \<open>
  \<open>writeJSON\<close> and \<open>writeError\<close> (internal/rest/json.go). The status is written before the
  encoder runs and its error is dropped: a value that cannot be encoded leaves an empty body.
\<close>

definition json_newline :: string where "json_newline = [CHR 0x0A]"

definition writeJSON :: "int \<Rightarrow> jval \<Rightarrow> response" where
  "writeJSON st v =
     \<lparr>rp_status = st, rp_headers = [(''Content-Type'', ''application/json'')], rp_cookies = [],
      rp_body = (case jval_text v of None \<Rightarrow> [] | Some t \<Rightarrow> t @ json_newline)\<rparr>"

definition writeError :: "int \<Rightarrow> string \<Rightarrow> response" where
  "writeError st message = writeJSON st (VMap [(''error'', VStr message)])"

lemma written_simps [simp]:
  "rp_status (writeJSON st v) = st" "rp_cookies (writeJSON st v) = []"
  "rp_status (writeError st m) = st" "rp_cookies (writeError st m) = []"
  by (simp_all add: writeJSON_def writeError_def)

section \<open>Routes\<close>

text \<open>
  A pattern is a method and segments, of which some are wildcards; a wildcard takes one
  non-empty segment. A \<open>GET\<close> pattern also takes \<open>HEAD\<close>. A path that only other methods
  have is answered 405, one that no pattern has 404. No two patterns of the program take the same
  request, so the first one that matches is the most specific.
\<close>

datatype segment = Seg string | Param

fun match_path :: "segment list \<Rightarrow> string list \<Rightarrow> string list option" where
  "match_path [] [] = Some []"
| "match_path (Seg s # ps) (x # xs) = (if s = x then match_path ps xs else None)"
| "match_path (Param # ps) (x # xs) = (if x = [] then None else map_option (Cons x) (match_path ps xs))"
| "match_path _ _ = None"

record 'h route =
  rt_method :: string
  rt_pattern :: "segment list"
  rt_handler :: 'h

definition method_matches :: "string \<Rightarrow> string \<Rightarrow> bool" where
  "method_matches pat meth \<longleftrightarrow> meth = pat \<or> (pat = ''GET'' \<and> meth = ''HEAD'')"

fun find_route :: "'h route list \<Rightarrow> string \<Rightarrow> string list \<Rightarrow> ('h \<times> string list) option" where
  "find_route [] meth path = None"
| "find_route (r # rs) meth path =
     (case (if method_matches (rt_method r) meth then match_path (rt_pattern r) path else None) of
        Some ws \<Rightarrow> Some (rt_handler r, ws)
      | None \<Rightarrow> find_route rs meth path)"

definition allowed_methods :: "'h route list \<Rightarrow> string list \<Rightarrow> string list" where
  "allowed_methods rs path =
     filter (\<lambda>m. \<exists>r \<in> set rs. method_matches (rt_method r) m \<and> match_path (rt_pattern r) path \<noteq> None)
       [''DELETE'', ''GET'', ''HEAD'', ''PATCH'', ''POST'', ''PUT'']"

definition plain_text :: "(string \<times> string) list" where
  "plain_text = [(''Content-Type'', ''text/plain; charset=utf-8''), (''X-Content-Type-Options'', ''nosniff'')]"

definition not_routed :: "'h route list \<Rightarrow> string list \<Rightarrow> response" where
  "not_routed rs path =
     (let ms = allowed_methods rs path in
      if ms = [] then
        \<lparr>rp_status = 404, rp_headers = plain_text, rp_cookies = [], rp_body = ''404 page not found'' @ json_newline\<rparr>
      else
        \<lparr>rp_status = 405, rp_headers = (''Allow'', join_with '', '' ms) # plain_text, rp_cookies = [],
         rp_body = ''Method Not Allowed'' @ json_newline\<rparr>)"

lemma find_route_in: "find_route rs m p = Some (h, ws) \<Longrightarrow> \<exists>r \<in> set rs. rt_handler r = h"
  by (induction rs) (auto split: option.splits if_splits)

section \<open>Texts read by handlers\<close>

text \<open>\<open>strconv.Atoi\<close> on a 64-bit machine.\<close>

definition Atoi :: "string \<Rightarrow> int option" where
  "Atoi s =
     (let neg = (case s of c # _ \<Rightarrow> c = CHR ''-'' | [] \<Rightarrow> False);
          ds = (case s of c # r \<Rightarrow> if c = CHR ''-'' \<or> c = CHR ''+'' then r else s | [] \<Rightarrow> []);
          i = (if neg then - int (val_dec ds) else int (val_dec ds))
      in if ds = [] \<or> \<not> list_all is_digit ds \<or> i < - (2 ^ 63) \<or> 2 ^ 63 \<le> i then None else Some i)"

text \<open>
  \<open>time.Parse("2006-01-02T15:04:05Z07:00", s)\<close>. The hour may have one digit; a fraction of a
  second is read although the layout has none, to nanoseconds; the zone is \<open>Z\<close> or an offset
  of at most 24 hours and 60 minutes.
\<close>

definition getnum :: "bool \<Rightarrow> string \<Rightarrow> (int \<times> string) option" where
  "getnum fixed s =
     (case s of
        a # r \<Rightarrow>
          if \<not> is_digit a then None
          else (case r of
                  b # r' \<Rightarrow> if is_digit b then Some (int (10 * digit_val a + digit_val b), r')
                            else if fixed then None else Some (int (digit_val a), r)
                | [] \<Rightarrow> if fixed then None else Some (int (digit_val a), r))
      | [] \<Rightarrow> None)"

definition literal :: "char \<Rightarrow> string \<Rightarrow> string option" where
  "literal c s = (case s of x # r \<Rightarrow> if x = c then Some r else None | [] \<Rightarrow> None)"

definition getnum_in :: "bool \<Rightarrow> int \<Rightarrow> int \<Rightarrow> string \<Rightarrow> (int \<times> string) option" where
  "getnum_in fixed lo hi s =
     (case getnum fixed s of None \<Rightarrow> None | Some (n, r) \<Rightarrow> if lo \<le> n \<and> n \<le> hi then Some (n, r) else None)"

definition parse_fraction :: "string \<Rightarrow> int \<times> string" where
  "parse_fraction s =
     (case s of
        c # d # r \<Rightarrow>
          if (c = CHR ''.'' \<or> c = CHR '','') \<and> is_digit d then
            (let ds = takeWhile is_digit (d # r); ns = take 9 ds
             in (int (val_dec ns) * 10 ^ (9 - length ns), drop (length ds) (d # r)))
          else (0, s)
      | _ \<Rightarrow> (0, s))"

definition parse_zone :: "string \<Rightarrow> (int \<times> string) option" where
  "parse_zone s =
     (case s of
        [] \<Rightarrow> None
      | z # r \<Rightarrow>
          if z = CHR ''Z'' then Some (0, r)
          else
            (if length s < 6 \<or> s ! 3 \<noteq> CHR '':'' then None
             else (case (getnum_in True 0 24 (take 2 r), getnum_in True 0 60 (take 2 (drop 3 r))) of
                     (Some (hh, _), Some (mm, _)) \<Rightarrow>
                       if z = CHR ''+'' then Some (3600 * hh + 60 * mm, drop 6 s)
                       else if z = CHR ''-'' then Some (- (3600 * hh + 60 * mm), drop 6 s) else None
                   | _ \<Rightarrow> None)))"

definition Parse_rfc3339 :: "string \<Rightarrow> gotime option" where
  "Parse_rfc3339 s = do {
     (y, s) \<leftarrow> take_num 4 s;
     s \<leftarrow> literal CHR ''-'' s;
     (m, s) \<leftarrow> getnum_in True 1 12 s;
     s \<leftarrow> literal CHR ''-'' s;
     (d, s) \<leftarrow> getnum True s;
     s \<leftarrow> literal CHR ''T'' s;
     (hh, s) \<leftarrow> getnum_in False 0 23 s;
     s \<leftarrow> literal CHR '':'' s;
     (mm, s) \<leftarrow> getnum_in True 0 59 s;
     s \<leftarrow> literal CHR '':'' s;
     (ss, s) \<leftarrow> getnum_in True 0 59 s;
     (let (ns, s) = parse_fraction s in do {
        (off, s) \<leftarrow> parse_zone s;
        if s \<noteq> [] \<or> \<not> valid_date (Date y m d) then None
        else Some (instant_of_date (Date y m d) + (3600 * hh + 60 * mm + ss - off) * time_Second + ns) }) }"

section \<open>The text of an error\<close>

text \<open>
  \<open>strconv.Quote\<close>, given \<open>unicode.IsPrint\<close> of the runes beyond ASCII.
\<close>

definition hex_digits :: "nat \<Rightarrow> nat \<Rightarrow> string" where
  "hex_digits w n = map (\<lambda>i. hex_digit (n div 16 ^ i mod 16)) (rev [0..<w])"

definition quote_rune :: "(nat \<Rightarrow> bool) \<Rightarrow> nat \<Rightarrow> string" where
  "quote_rune isprint u =
     (if u = 34 \<or> u = 92 then [CHR 0x5C, char_of u]
      else if (32 \<le> u \<and> u < 127) \<or> (128 \<le> u \<and> isprint u) then utf8 [u]
      else if u = 7 then CHR 0x5C # ''a'' else if u = 8 then CHR 0x5C # ''b''
      else if u = 12 then CHR 0x5C # ''f'' else if u = 10 then CHR 0x5C # ''n''
      else if u = 13 then CHR 0x5C # ''r'' else if u = 9 then CHR 0x5C # ''t''
      else if u = 11 then CHR 0x5C # ''v''
      else if u < 32 \<or> u = 127 then CHR 0x5C # ''x'' @ hex_digits 2 u
      else if u < 65536 then CHR 0x5C # ''u'' @ hex_digits 4 u
      else CHR 0x5C # ''U'' @ hex_digits 8 u)"

function quote_bytes :: "(nat \<Rightarrow> bool) \<Rightarrow> nat list \<Rightarrow> string" where
  "quote_bytes isprint bs =
     (if bs = [] then []
      else (case DecodeRune bs of
              (u, w) \<Rightarrow>
                (if w = 1 \<and> u = rune_error then CHR 0x5C # ''x'' @ hex_digits 2 (hd bs)
                 else quote_rune isprint u) @ quote_bytes isprint (drop w bs)))"
  by pat_completeness auto
termination
  by (relation "measure (\<lambda>(_, bs). length bs)") (auto intro: DecodeRune_progress)

declare quote_bytes.simps [simp del]

definition Quote :: "(nat \<Rightarrow> bool) \<Rightarrow> string \<Rightarrow> string" where
  "Quote isprint s = CHR 0x22 # quote_bytes isprint (bytes_of s) @ [CHR 0x22]"

text \<open>
  The verbs \<open>%s\<close>, \<open>%d\<close>, \<open>%v\<close> (whose arguments are kept as text) and \<open>%q\<close>; a \<open>%v\<close>
  whose argument the model does not keep prints nothing.
\<close>

fun fmt_verbs :: "(nat \<Rightarrow> bool) \<Rightarrow> string \<Rightarrow> string list \<Rightarrow> string" where
  "fmt_verbs isprint [] as = []"
| "fmt_verbs isprint [c] as = [c]"
| "fmt_verbs isprint (c # v # r) as =
     (if c = CHR ''%'' then
        (case as of
           [] \<Rightarrow> fmt_verbs isprint r []
         | a # as' \<Rightarrow> (if v = CHR ''q'' then Quote isprint a else a) @ fmt_verbs isprint r as')
      else c # fmt_verbs isprint (v # r) as)"

text \<open>\<open>err.Error()\<close>; the texts of errors made by other packages are a parameter.\<close>

record err_lib =
  el_other :: "goerr \<Rightarrow> string"
  el_isprint :: "nat \<Rightarrow> bool"

fun Error :: "err_lib \<Rightarrow> goerr \<Rightarrow> string" where
  "Error lib ErrNoRows = ''no rows in result set''"
| "Error lib ErrInvalidRefreshToken = ''invalid or expired refresh token''"
| "Error lib (Errorf f as) = fmt_verbs (el_isprint lib) f as"
| "Error lib (Wrap f as e) = fmt_verbs (el_isprint lib) f as @ '': '' @ Error lib e"
| "Error lib e = el_other lib e"

section \<open>What is read back\<close>

lemma getnum_pad2:
  assumes "n < 100"
  shows "getnum fixed (pad0 2 n @ r) = Some (int n, r)"
proof -
  have "length (pad0 2 n) = 2" and d: "list_all is_digit (pad0 2 n)" and v: "val_dec (pad0 2 n) = n"
    using pad0_props [of 2 n] assms by simp_all
  then obtain a b where ab: "pad0 2 n = [a, b]" by (auto simp: length_Suc_conv numeral_2_eq_2)
  with d v show ?thesis by (auto simp: getnum_def val_dec_def)
qed

lemma getnum_in_pad2:
  "n < 100 \<Longrightarrow> lo \<le> int n \<Longrightarrow> int n \<le> hi \<Longrightarrow> getnum_in fixed lo hi (pad0 2 n @ r) = Some (int n, r)"
  by (simp add: getnum_in_def getnum_pad2)

lemma parse_fraction_Z [simp]: "parse_fraction (CHR ''Z'' # r) = (0, CHR ''Z'' # r)"
  by (simp add: parse_fraction_def split: list.splits)

lemma Parse_Format_rfc3339:
  assumes "0 \<le> d_year (civil t)" "d_year (civil t) \<le> 9999"
  shows "Parse_rfc3339 (Format_rfc3339 t) = Some (t div time_Second * time_Second)"
proof -
  define D s where "D = civil t" and "s = secs_of_day t"
  have V: "valid_date D" and day: "days_of_date D = t div day_ns"
    using date_of_days_correct [of "t div day_ns"] by (simp_all add: D_def civil_def)
  have Y: "nat (d_year D) < 10 ^ 4" using assms by (simp add: D_def)
  have M: "1 \<le> d_month D" "d_month D \<le> 12" "1 \<le> d_day D" "d_day D \<le> 31"
    using V month_len_bound [OF V] by (simp_all add: valid_date_def)
  have S: "0 \<le> s" "s < 86400"
    by (simp_all add: s_def secs_of_day_def day_ns_def durations)
  define h m c where "h = s div 3600" and "m = s div 60 mod 60" and "c = s mod 60"
  have hmc: "0 \<le> h" "h \<le> 23" "0 \<le> m" "m \<le> 59" "0 \<le> c" "c \<le> 59"
    using S by (simp_all add: h_def m_def c_def)
  have sum: "3600 * h + 60 * m + c = s"
  proof -
    have "h = s div 60 div 60" by (simp add: h_def zdiv_zmult2_eq [symmetric])
    then have "s div 60 = 60 * h + m" unfolding m_def by simp
    moreover have "s = 60 * (s div 60) + c" unfolding c_def by simp
    ultimately show ?thesis by simp
  qed
  have clock: "fmt_clock t = pad0 2 (nat h) @ '':'' @ pad0 2 (nat m) @ '':'' @ pad0 2 (nat c)"
    by (simp add: fmt_clock_def h_def m_def c_def s_def Let_def)
  have eq: "instant_of_date D + s * time_Second = t div time_Second * time_Second"
  proof -
    have "t = t mod day_ns + (t div day_ns * 86400) * time_Second"
      using mod_div_mult_eq [of t day_ns] by (simp add: day_ns_def durations)
    then have "t div time_Second = (t mod day_ns + (t div day_ns * 86400) * time_Second) div time_Second"
      by (rule arg_cong)
    then have "t div time_Second = t div day_ns * 86400 + s"
      by (simp add: s_def secs_of_day_def durations)
    then show ?thesis
      unfolding instant_of_date_def day by (simp add: day_ns_def durations)
  qed
  have num: "take_num 4 (pad0 4 (nat (d_year D)) @ r) = Some (d_year D, r)" for r
    using take_num_pad0 [of 4 "nat (d_year D)" r] Y assms by (simp add: D_def del: take_num.simps)
  have pads: "getnum_in True 1 12 (pad0 2 (nat (d_month D)) @ r) = Some (d_month D, r)"
    "getnum True (pad0 2 (nat (d_day D)) @ r) = Some (d_day D, r)"
    "getnum_in False 0 23 (pad0 2 (nat h) @ r) = Some (h, r)"
    "getnum_in True 0 59 (pad0 2 (nat m) @ r) = Some (m, r)"
    "getnum_in True 0 59 (pad0 2 (nat c) @ r) = Some (c, r)" for r
    using M hmc getnum_in_pad2 [of "nat (d_month D)" 1 12 True r] getnum_pad2 [of "nat (d_day D)" True r]
      getnum_in_pad2 [of "nat h" 0 23 False r] getnum_in_pad2 [of "nat m" 0 59 True r]
      getnum_in_pad2 [of "nat c" 0 59 True r]
    by simp_all
  have date: "fmt_date (civil t) = pad0 4 (nat (d_year D)) @ ''-'' @ pad0 2 (nat (d_month D)) @ ''-'' @ pad0 2 (nat (d_day D))"
    using assms(1) by (simp add: fmt_date_def fmt_year_def D_def)
  have D: "Date (d_year D) (d_month D) (d_day D) = D" by simp
  show ?thesis
    unfolding Parse_rfc3339_def Format_rfc3339_def clock date append_assoc num pads
    by (simp add: literal_def num pads parse_zone_def V sum eq del: take_num.simps)
qed

end
