(* ===== verification/Rest_Auth.thy ===== *)
theory Rest_Auth
  imports Auth Sessions Go_Server "HOL-Library.Signed_Division"
begin

text \<open>
  The JSON of accounts and sessions (\<open>internal/rest/models.go\<close>), the middleware that
  authenticates a request (\<open>internal/rest/middleware.go\<close> and \<open>withAdminAuth\<close> of
  \<open>internal/rest/admin.go\<close>) and the handlers of \<open>internal/rest/auth.go\<close>. A handler behind
  \<open>withAuth\<close> takes the identifier the middleware put in the request's context.
\<close>

section \<open>What a request draws from outside\<close>

text \<open>The clock readings of a request in order, its random bytes, and what it is sent with.\<close>

record draws =
  dw_now :: "nat \<Rightarrow> gotime"
  dw_rand :: "nat \<Rightarrow> string res"

definition issue_draws :: "draws \<Rightarrow> nat \<Rightarrow> issue_world" where
  "issue_draws w k =
     \<lparr>iw_now1 = dw_now w k, iw_now2 = dw_now w (k + 1), iw_now3 = dw_now w (k + 2), iw_rand = dw_rand w 0\<rparr>"

section \<open>Models\<close>

definition formatOptionalTime :: "gotime \<Rightarrow> string" where
  "formatOptionalTime t = (if t = 0 then [] else Format_rfc3339 t)"

definition userToJSON :: "(uuid \<Rightarrow> string) \<Rightarrow> User \<Rightarrow> jval" where
  "userToJSON str u = VStruct
     ([(''id'', VStr (str (u_ID u))), (''email'', VStr (u_Email u)), (''name'', VStr (u_Name u))] @
      omit_empty ''avatar'' (u_Avatar u) @
      [(''baseCurrency'', VStr (u_BaseCurrency u)), (''theme'', VStr (u_Theme u)),
       (''gradientColor'', VStr (u_GradientColor u)), (''plan'', VStr (u_Plan u)), (''goals'', VStr (u_Goals u))] @
      omit_empty ''subscriptionStatus'' (u_SubscriptionStatus u) @
      omit_empty ''trialEndsAt'' (formatOptionalTime (u_TrialEndsAt u)) @
      [(''createdAt'', VStr (Format_rfc3339 (u_CreatedAt u)))])"

definition sessionToJSON :: "(uuid \<Rightarrow> string) \<Rightarrow> Active \<Rightarrow> jval" where
  "sessionToJSON str s = VStruct
     [(''id'', VStr (str (ac_ID s))), (''userAgent'', VStr (ac_UserAgent s)),
      (''createdAt'', VStr (Format_rfc3339 (ac_CreatedAt s))),
      (''expiresAt'', VStr (Format_rfc3339 (ac_ExpiresAt s))), (''current'', VBool (ac_Current s))]"

definition status_ok :: response where
  "status_ok = writeJSON 200 (VMap [(''status'', VStr ''ok'')])"

section \<open>Middleware\<close>

definition accessCookieName :: string where "accessCookieName = ''access_token''"
definition refreshCookieName :: string where "refreshCookieName = ''refresh_token''"

definition bearer_prefix :: string where "bearer_prefix = ''Bearer ''"

definition bearerToken :: "request \<Rightarrow> string" where
  "bearerToken r =
     (let h = header_Get r ''Authorization'' in
      if length h > length bearer_prefix \<and> take (length bearer_prefix) h = bearer_prefix
      then drop (length bearer_prefix) h else [])"

definition accessToken :: "request \<Rightarrow> string" where
  "accessToken r =
     (let token = bearerToken r in
      if token = [] then (case request_Cookie r accessCookieName of Some v \<Rightarrow> v | None \<Rightarrow> []) else token)"

definition withAuth ::
  "jwt_lib \<Rightarrow> jwtManager \<Rightarrow> gotime \<Rightarrow> (uuid \<Rightarrow> request \<Rightarrow> ('s, response) state) \<Rightarrow> request \<Rightarrow> ('s, response) state" where
  "withAuth lib jwtManager now next r =
     (let token = accessToken r in
      if token = [] then ret (writeError 401 ''missing access token'')
      else (case jwt_Verify lib jwtManager now token of
              Inl _ \<Rightarrow> ret (writeError 401 ''invalid or expired token'')
            | Inr userID \<Rightarrow> next userID r))"

definition withAdminAuth ::
  "jwt_lib \<Rightarrow> string \<Rightarrow> gotime \<Rightarrow> (request \<Rightarrow> ('s, response) state) \<Rightarrow> request \<Rightarrow> ('s, response) state" where
  "withAdminAuth lib secret now next r =
     (let token = bearerToken r in
      if token = [] \<or> is_err (admin_Verify lib secret now token)
      then ret (writeError 401 ''invalid or missing admin token'') else next r)"

text \<open>An origin of the list is echoed back; a preflight request is answered here.\<close>

fun cors_origin :: "string list \<Rightarrow> string \<Rightarrow> (string \<times> string) list" where
  "cors_origin [] origin = []"
| "cors_origin (allowed # rest) origin =
     (if origin \<noteq> [] \<and> origin = allowed
      then [(''Access-Control-Allow-Origin'', origin), (''Access-Control-Allow-Credentials'', ''true'')]
      else cors_origin rest origin)"

definition cors_fixed :: "(string \<times> string) list" where
  "cors_fixed =
     [(''Access-Control-Allow-Methods'', ''GET, POST, PUT, PATCH, DELETE, OPTIONS''),
      (''Access-Control-Allow-Headers'', ''Content-Type, Authorization'')]"

definition withCORS ::
  "string list \<Rightarrow> (request \<Rightarrow> ('s, response) state) \<Rightarrow> request \<Rightarrow> ('s, response) state" where
  "withCORS allowedOrigins next r =
     (let hs = cors_origin allowedOrigins (header_Get r ''Origin'') @ cors_fixed in
      if rq_method r = ''OPTIONS'' then ret (with_headers hs (status_only 204))
      else do { resp \<leftarrow> next r; ret (with_headers hs resp) })"

section \<open>The handlers of internal/rest/auth.go\<close>

record authHandler =
  ah_env :: auth_env
  ah_auth :: AuthService
  ah_sessions :: SessionService
  ah_corsOrigin :: string
  ah_accessMaxAge :: duration
  ah_refreshMaxAge :: duration
  ah_errors :: err_lib

abbreviation ah_lib :: "authHandler \<Rightarrow> jwt_lib" where
  "ah_lib h \<equiv> ae_jwt (ah_env h)"

abbreviation ah_user :: "authHandler \<Rightarrow> User \<Rightarrow> jval" where
  "ah_user h u \<equiv> VMap [(''user'', userToJSON (jl_uuid_String (ah_lib h)) u)]"

definition secureCookies :: "authHandler \<Rightarrow> bool" where
  "secureCookies h = has_prefix (ah_corsOrigin h) ''https://''"

text \<open>\<open>int(d.Seconds())\<close>\<close>

definition max_age :: "duration \<Rightarrow> int" where
  "max_age d =
     int_of_float (fadd (float_of_int (d sdiv time_Second))
                        (fdiv (float_of_int (d smod time_Second)) (float_of_int 1000000000)))"

definition setCookies :: "authHandler \<Rightarrow> Pair \<Rightarrow> cookie list" where
  "setCookies h pair =
     [\<lparr>ck_Name = accessCookieName, ck_Value = pa_AccessToken pair, ck_Path = ''/'', ck_HttpOnly = True,
       ck_Secure = secureCookies h, ck_SameSiteLax = True, ck_MaxAge = max_age (ah_accessMaxAge h)\<rparr>,
      \<lparr>ck_Name = refreshCookieName, ck_Value = pa_RefreshToken pair, ck_Path = ''/api/auth'', ck_HttpOnly = True,
       ck_Secure = secureCookies h, ck_SameSiteLax = True, ck_MaxAge = max_age (ah_refreshMaxAge h)\<rparr>]"

definition clearCookies :: "cookie list" where
  "clearCookies =
     [\<lparr>ck_Name = accessCookieName, ck_Value = [], ck_Path = ''/'', ck_HttpOnly = False, ck_Secure = False,
       ck_SameSiteLax = False, ck_MaxAge = -1\<rparr>,
      \<lparr>ck_Name = refreshCookieName, ck_Value = [], ck_Path = ''/api/auth'', ck_HttpOnly = False,
       ck_Secure = False, ck_SameSiteLax = False, ck_MaxAge = -1\<rparr>]"

definition issueAndRespond :: "authHandler \<Rightarrow> issue_world \<Rightarrow> request \<Rightarrow> SignInResult \<Rightarrow> (db, response) state" where
  "issueAndRespond h w r res = do {
     p \<leftarrow> Issue (ah_lib h) (ah_sessions h) w (u_ID (si_User res)) (header_Get r ''User-Agent'');
     case p of
       Inl _ \<Rightarrow> ret (writeError 500 ''failed to create session'')
     | Inr pair \<Rightarrow> ret (with_cookies (setCookies h pair) (writeJSON 200 (ah_user h (si_User res)))) }"

text \<open>Two strings read from the body; \<open>Decode\<close> gives an error for a body that is not JSON.\<close>

definition decode_string2 :: "string \<Rightarrow> string \<Rightarrow> request \<Rightarrow> (string \<times> string) res" where
  "decode_string2 k1 k2 r =
     Decode (decode_fields [(k1, set_string (\<lambda>t. apfst (\<lambda>_. t))), (k2, set_string (\<lambda>t. apsnd (\<lambda>_. t)))])
       ([], []) (rq_body r)"

definition decode_string1 :: "string \<Rightarrow> request \<Rightarrow> string res" where
  "decode_string1 k r = Decode (decode_fields [(k, set_string (\<lambda>t _. t))]) [] (rq_body r)"

definition bad_body :: response where "bad_body = writeError 400 ''invalid request body''"

definition signup :: "authHandler \<Rightarrow> draws \<Rightarrow> request \<Rightarrow> (db, response) state" where
  "signup h w r =
     (case decode_string2 ''email'' ''password'' r of
        Inl _ \<Rightarrow> ret bad_body
      | Inr (email, password) \<Rightarrow> do {
          res \<leftarrow> SignUpWithEmail (ah_env h) (ah_auth h) (dw_now w 0) (dw_now w 1) email password;
          case res of
            Inl e \<Rightarrow> ret (writeError 409 (Error (ah_errors h) e))
          | Inr x \<Rightarrow> issueAndRespond h (issue_draws w 2) r x })"

definition login :: "authHandler \<Rightarrow> draws \<Rightarrow> request \<Rightarrow> (db, response) state" where
  "login h w r =
     (case decode_string2 ''email'' ''password'' r of
        Inl _ \<Rightarrow> ret bad_body
      | Inr (email, password) \<Rightarrow> do {
          res \<leftarrow> SignInWithEmail (ah_env h) (ah_auth h) (dw_now w 0) (dw_now w 1) email password;
          case res of
            Inl e \<Rightarrow> ret (writeError 401 (Error (ah_errors h) e))
          | Inr x \<Rightarrow> issueAndRespond h (issue_draws w 2) r x })"

definition google :: "authHandler \<Rightarrow> draws \<Rightarrow> request \<Rightarrow> (db, response) state" where
  "google h w r =
     (case decode_string1 ''id_token'' r of
        Inl _ \<Rightarrow> ret bad_body
      | Inr idToken \<Rightarrow> do {
          res \<leftarrow> SignInWithGoogle (ah_env h) (ah_auth h) (dw_now w 0) (dw_now w 1) idToken;
          case res of
            Inl e \<Rightarrow> ret (writeError 401 (Error (ah_errors h) e))
          | Inr x \<Rightarrow> issueAndRespond h (issue_draws w 2) r x })"

definition me :: "authHandler \<Rightarrow> uuid \<Rightarrow> request \<Rightarrow> (db, response) state" where
  "me h userID r = do {
     res \<leftarrow> Me userID;
     case res of
       Inl _ \<Rightarrow> ret (writeError 401 ''not signed in'')
     | Inr user \<Rightarrow> ret (writeJSON 200 (ah_user h user)) }"

text \<open>How the four settings handlers answer.\<close>

definition settings_answer :: "authHandler \<Rightarrow> User dbop \<Rightarrow> (db, response) state" where
  "settings_answer h m = do {
     res \<leftarrow> m;
     case res of
       Inl e \<Rightarrow> ret (writeError 400 (Error (ah_errors h) e))
     | Inr user \<Rightarrow> ret (writeJSON 200 (ah_user h user)) }"

definition updatePreferences :: "authHandler \<Rightarrow> uuid \<Rightarrow> request \<Rightarrow> (db, response) state" where
  "updatePreferences h userID r =
     (case decode_string2 ''theme'' ''gradientColor'' r of
        Inl _ \<Rightarrow> ret bad_body
      | Inr (theme, color) \<Rightarrow> settings_answer h (UpdatePreferences userID theme color))"

definition updateProfile :: "authHandler \<Rightarrow> uuid \<Rightarrow> request \<Rightarrow> (db, response) state" where
  "updateProfile h userID r =
     (case decode_string2 ''name'' ''avatar'' r of
        Inl _ \<Rightarrow> ret bad_body
      | Inr (name, avatar) \<Rightarrow> settings_answer h (UpdateProfile userID name avatar))"

definition updateGoals :: "authHandler \<Rightarrow> uuid \<Rightarrow> request \<Rightarrow> (db, response) state" where
  "updateGoals h userID r =
     (case decode_string1 ''goals'' r of
        Inl _ \<Rightarrow> ret bad_body
      | Inr goals \<Rightarrow> settings_answer h (UpdateGoals userID goals))"

definition updateCurrency :: "authHandler \<Rightarrow> uuid \<Rightarrow> request \<Rightarrow> (db, response) state" where
  "updateCurrency h userID r =
     (case decode_string1 ''currency'' r of
        Inl _ \<Rightarrow> ret bad_body
      | Inr currency \<Rightarrow> settings_answer h (UpdateBaseCurrency userID currency))"

definition refresh :: "authHandler \<Rightarrow> draws \<Rightarrow> request \<Rightarrow> (db, response) state" where
  "refresh h w r =
     (case request_Cookie r refreshCookieName of
        None \<Rightarrow> ret (writeError 401 ''missing refresh token'')
      | Some raw \<Rightarrow> do {
          p \<leftarrow> Refresh (ah_lib h) (ah_sessions h) (dw_now w 0) (issue_draws w 1) raw;
          case p of
            Inl e \<Rightarrow>
              ret (if errors_is e ErrInvalidRefreshToken
                   then with_cookies clearCookies (writeError 401 ''session expired, please log in again'')
                   else writeError 500 ''failed to refresh session'')
          | Inr pair \<Rightarrow> ret (with_cookies (setCookies h pair) status_ok) })"

definition listSessions :: "authHandler \<Rightarrow> uuid \<Rightarrow> request \<Rightarrow> (db, response) state" where
  "listSessions h userID r =
     (let rawRefresh = (case request_Cookie r refreshCookieName of Some v \<Rightarrow> v | None \<Rightarrow> []) in do {
        res \<leftarrow> ListActive userID rawRefresh;
        case res of
          Inl _ \<Rightarrow> ret (writeError 500 ''failed to load sessions'')
        | Inr ss \<Rightarrow>
            ret (writeJSON 200 (VMap [(''sessions'', VArr (map (sessionToJSON (jl_uuid_String (ah_lib h))) ss))])) })"

definition revokeSession :: "authHandler \<Rightarrow> uuid \<Rightarrow> request \<Rightarrow> (db, response) state" where
  "revokeSession h userID r =
     (case jl_uuid_Parse (ah_lib h) (PathValue r) of
        Inl _ \<Rightarrow> ret (writeError 400 ''invalid session id'')
      | Inr sessionID \<Rightarrow> do {
          res \<leftarrow> RevokeForUser userID sessionID;
          case res of
            Inl e \<Rightarrow> ret (writeError 404 (Error (ah_errors h) e))
          | Inr _ \<Rightarrow> ret status_ok })"

definition logout :: "authHandler \<Rightarrow> request \<Rightarrow> (db, response) state" where
  "logout h r = do {
     _ \<leftarrow> (case request_Cookie r refreshCookieName of
             Some raw \<Rightarrow> do { _ \<leftarrow> Revoke raw; ret () }
           | None \<Rightarrow> ret ());
     ret (with_cookies clearCookies status_ok) }"

lemmas rest_auth_defs =
  issueAndRespond_def signup_def login_def google_def me_def settings_answer_def updatePreferences_def
  updateProfile_def updateGoals_def updateCurrency_def refresh_def listSessions_def revokeSession_def logout_def

end
