(* ===== verification/Go_Csv.thy ===== *)
theory Go_Csv
  imports Go_Base
begin

text \<open>
  \<open>encoding/csv\<close>: the writer, and the reader with \<open>TrimLeadingSpace\<close> set and any number of
  fields in a record, as \<open>internal/service/reports/reports.go\<close> uses them.
\<close>

section \<open>The writer\<close>

definition starts_with_space :: "string \<Rightarrow> bool" where
  "starts_with_space s \<longleftrightarrow> lead_space space_seqs (bytes_of s) \<noteq> 0"

definition fieldNeedsQuotes :: "string \<Rightarrow> bool" where
  "fieldNeedsQuotes f \<longleftrightarrow>
     f \<noteq> [] \<and> (f = [CHR 0x5C, CHR ''.''] \<or>
        (\<exists>c \<in> set f. c \<in> {CHR 0x0A, CHR 0x0D, CHR 0x22, CHR '',''}) \<or> starts_with_space f)"

definition quoted_body :: "string \<Rightarrow> string" where
  "quoted_body f = concat (map (\<lambda>c. if c = CHR 0x22 then [CHR 0x22, CHR 0x22] else [c]) f)"

definition write_field :: "string \<Rightarrow> string" where
  "write_field f = (if fieldNeedsQuotes f then CHR 0x22 # quoted_body f @ [CHR 0x22] else f)"

definition write_record :: "string list \<Rightarrow> string" where
  "write_record row = join_with '','' (map write_field row) @ [CHR 0x0A]"

definition write_records :: "string list list \<Rightarrow> string" where
  "write_records rows = concat (map write_record rows)"

section \<open>The reader\<close>

text \<open>
  The lines of a text, each with its line feed; a carriage return before a line feed is
  dropped, and one that ends a last line without a line feed.
\<close>

fun raw_lines :: "string \<Rightarrow> string list" where
  "raw_lines [] = []"
| "raw_lines (c # s) =
     (if c = CHR 0x0A then [c] # raw_lines s
      else (case raw_lines s of [] \<Rightarrow> [[c]] | l # ls \<Rightarrow> (c # l) # ls))"

definition normal_line :: "string \<Rightarrow> string" where
  "normal_line l =
     (let n = length l in
      if n \<ge> 2 \<and> l ! (n - 2) = CHR 0x0D \<and> l ! (n - 1) = CHR 0x0A then take (n - 2) l @ [CHR 0x0A]
      else if n \<ge> 1 \<and> l ! (n - 1) = CHR 0x0D then take (n - 1) l else l)"

definition csv_lines :: "string \<Rightarrow> string list" where
  "csv_lines text = map normal_line (raw_lines text)"

definition drop_newline :: "string \<Rightarrow> string" where
  "drop_newline s = (if s \<noteq> [] \<and> last s = CHR 0x0A then butlast s else s)"

definition trim_left :: "string \<Rightarrow> string" where
  "trim_left s = string_of_bytes (strip_left space_seqs (bytes_of s))"

lemma length_trim_left: "length (trim_left s) \<le> length s"
proof -
  have "length (strip_left space_seqs bs) \<le> length bs" for bs
    by (induction "space_seqs" bs rule: strip_left.induct) (subst strip_left.simps, auto intro: le_trans)
  then show ?thesis by (metis bytes_of_def length_map string_of_bytes_def trim_left_def)
qed

datatype csv_error = BareQuote | QuoteError

text \<open>
  The rest of a quoted field: its text, and what follows it in the line (\<open>None\<close> when the
  record ends with it), with the lines still to read. A field may go on in the next lines.
\<close>

fun quoted_field :: "string \<Rightarrow> string list \<Rightarrow> string \<Rightarrow> csv_error + string \<times> string option \<times> string list" where
  "quoted_field [] [] buf = Inl QuoteError"
| "quoted_field [] (l # ls) buf = quoted_field l ls buf"
| "quoted_field (c # line) ls buf =
     (if c \<noteq> CHR 0x22 then quoted_field line ls (buf @ [c])
      else (case line of
              [] \<Rightarrow> Inr (buf, None, ls)
            | d # r \<Rightarrow>
                if d = CHR 0x22 then quoted_field r ls (buf @ [CHR 0x22])
                else if d = CHR '','' then Inr (buf, Some r, ls)
                else if line = [CHR 0x0A] then Inr (buf, None, ls)
                else Inl QuoteError))"

definition text_left :: "string \<Rightarrow> string list \<Rightarrow> nat" where
  "text_left line ls = length line + sum_list (map length ls)"

lemma quoted_field_left:
  "quoted_field line ls buf = Inr (f, Some r, ls') \<Longrightarrow> text_left r ls' < text_left line ls"
  by (induction line ls buf rule: quoted_field.induct)
    (fastforce simp: text_left_def split: if_splits list.splits)+

lemma quoted_field_lines: "quoted_field line ls buf = Inr (f, r, ls') \<Longrightarrow> length ls' \<le> length ls"
  by (induction line ls buf rule: quoted_field.induct) (fastforce split: if_splits list.splits)+

definition read_field :: "string \<Rightarrow> string list \<Rightarrow> csv_error + string \<times> string option \<times> string list" where
  "read_field line0 ls =
     (let line = trim_left line0 in
      if line \<noteq> [] \<and> hd line = CHR 0x22 then quoted_field (tl line) ls []
      else
        (let more = CHR '','' \<in> set line;
             f = (if more then takeWhile (\<lambda>c. c \<noteq> CHR '','') line else drop_newline line)
         in if CHR 0x22 \<in> set f then Inl BareQuote
            else Inr (f, if more then Some (tl (dropWhile (\<lambda>c. c \<noteq> CHR '','') line)) else None, ls)))"

lemma read_field_left:
  assumes "read_field line ls = Inr (f, Some r, ls')" shows "text_left r ls' < text_left line ls"
proof (cases "trim_left line \<noteq> [] \<and> hd (trim_left line) = CHR 0x22")
  case True
  with assms have "text_left r ls' < text_left (tl (trim_left line)) ls"
    by (auto simp: read_field_def Let_def dest: quoted_field_left)
  with length_trim_left [of line] show ?thesis by (simp add: text_left_def)
next
  case False
  with assms have r: "r = tl (dropWhile (\<lambda>c. c \<noteq> CHR '','') (trim_left line))" "ls' = ls"
    and c: "CHR '','' \<in> set (trim_left line)"
    by (auto simp: read_field_def Let_def split: if_splits)
  from c have "dropWhile (\<lambda>c. c \<noteq> CHR '','') (trim_left line) \<noteq> []" by (auto simp: dropWhile_eq_Nil_conv)
  then have "length r < length (dropWhile (\<lambda>c. c \<noteq> CHR '','') (trim_left line))" using r by simp
  with length_dropWhile_le [of "\<lambda>c. c \<noteq> CHR '',''" "trim_left line"] length_trim_left [of line]
  show ?thesis by (simp add: r(2) text_left_def)
qed

lemma read_field_lines: "read_field line ls = Inr (f, r, ls') \<Longrightarrow> length ls' \<le> length ls"
  by (auto simp: read_field_def Let_def split: if_splits dest: quoted_field_lines)

text \<open>The fields of a record from a line on, with the lines after it.\<close>

function read_fields :: "string \<Rightarrow> string list \<Rightarrow> csv_error + string list \<times> string list" where
  "read_fields line ls =
     (case read_field line ls of
        Inl e \<Rightarrow> Inl e
      | Inr (f, None, ls') \<Rightarrow> Inr ([f], ls')
      | Inr (f, Some r, ls') \<Rightarrow>
          (case read_fields r ls' of Inl e \<Rightarrow> Inl e | Inr (fs, ls'') \<Rightarrow> Inr (f # fs, ls'')))"
  by pat_completeness auto
termination
  by (relation "measure (\<lambda>(line, ls). text_left line ls)") (auto intro: read_field_left)

declare read_fields.simps [simp del]

lemma read_fields_lines: "read_fields line ls = Inr (fs, ls') \<Longrightarrow> length ls' \<le> length ls"
proof (induction line ls arbitrary: fs ls' rule: read_fields.induct)
  case (1 line ls)
  show ?case
  proof (cases "read_field line ls")
    case (Inr q)
    obtain f o' ls1 where q: "q = (f, o', ls1)" by (cases q)
    have "length ls1 \<le> length ls" using read_field_lines Inr q by blast
    moreover have "length ls' \<le> length ls1" if "o' = Some r" for r
      using 1 Inr q that by (auto simp: read_fields.simps [of line] split: sum.splits prod.splits)
    ultimately show ?thesis
      using 1(2) Inr q by (cases o') (fastforce simp: read_fields.simps [of line])+
  qed (use 1(2) in \<open>simp add: read_fields.simps [of line]\<close>)
qed

text \<open>\<open>ReadAll\<close>: lines that are empty between records are skipped.\<close>

function read_records :: "string list \<Rightarrow> csv_error + string list list" where
  "read_records [] = Inr []"
| "read_records (l # ls) =
     (if l = [] \<or> l = [CHR 0x0A] then read_records ls
      else (case read_fields l ls of
              Inl e \<Rightarrow> Inl e
            | Inr (row, ls') \<Rightarrow> (case read_records ls' of Inl e \<Rightarrow> Inl e | Inr rows \<Rightarrow> Inr (row # rows))))"
  by pat_completeness auto
termination by (relation "measure length") (auto dest: read_fields_lines)

definition csv_ReadAll :: "string \<Rightarrow> csv_error + string list list" where
  "csv_ReadAll text = read_records (csv_lines text)"

section \<open>Reading back what was written\<close>

definition line_cut :: "string \<Rightarrow> string \<times> string list" where
  "line_cut t = (case raw_lines t of [] \<Rightarrow> ([], []) | l # ls \<Rightarrow> (l, ls))"

lemma raw_lines_cut: "t \<noteq> [] \<Longrightarrow> raw_lines t = fst (line_cut t) # snd (line_cut t)"
  by (cases t) (auto simp: line_cut_def split: list.splits)

lemma cut_newline [simp]: "line_cut (CHR 0x0A # t) = ([CHR 0x0A], raw_lines t)"
  by (simp add: line_cut_def)

lemma cut_char [simp]: "c \<noteq> CHR 0x0A \<Longrightarrow> line_cut (c # t) = (c # fst (line_cut t), snd (line_cut t))"
  by (simp add: line_cut_def split: list.splits)

lemma cut_append: "CHR 0x0A \<notin> set f \<Longrightarrow> line_cut (f @ t) = (f @ fst (line_cut t), snd (line_cut t))"
  by (induction f) auto

lemma cut_last [simp]: "fst (line_cut (CHR 0x0A # t)) = [CHR 0x0A]"
  by simp

lemma quoted_body_Cons:
  "quoted_body (c # f) = (if c = CHR 0x22 then [CHR 0x22, CHR 0x22] else [c]) @ quoted_body f"
  by (simp add: quoted_body_def)

lemma quoted_body_read:
  "quoted_field (fst (line_cut (quoted_body f @ CHR 0x22 # t))) (snd (line_cut (quoted_body f @ CHR 0x22 # t))) buf =
   quoted_field (CHR 0x22 # fst (line_cut t)) (snd (line_cut t)) (buf @ f)"
proof (induction f arbitrary: buf)
  case Nil
  then show ?case by (simp add: quoted_body_def)
next
  case (Cons c f)
  let ?t = "quoted_body f @ CHR 0x22 # t"
  have "raw_lines ?t = fst (line_cut ?t) # snd (line_cut ?t)" by (rule raw_lines_cut) simp
  with Cons [of "buf @ [c]"] show ?case
    by (cases "c = CHR 0x22"; cases "c = CHR 0x0A") (simp_all add: quoted_body_Cons)
qed

definition after :: "char \<Rightarrow> string \<Rightarrow> string option \<times> string list" where
  "after sep t = (if sep = CHR '','' then (Some (fst (line_cut t)), snd (line_cut t)) else (None, raw_lines t))"

lemma quoted_close:
  "sep \<in> {CHR '','', CHR 0x0A} \<Longrightarrow>
    quoted_field (CHR 0x22 # fst (line_cut (sep # t))) (snd (line_cut (sep # t))) buf = Inr (buf, after sep t)"
  by (auto simp: after_def)

lemma trim_left_id: "lead_space space_seqs (bytes_of s) = 0 \<Longrightarrow> trim_left s = s"
  by (simp add: trim_left_def strip_left.simps [of space_seqs] string_of_bytes_def bytes_of_def)

lemma lead_space_0: "lead_space seqs bs = 0 \<longleftrightarrow> (\<forall>q \<in> set seqs. q \<noteq> [] \<longrightarrow> take (length q) bs \<noteq> q) \<or>
    (\<exists>q. List.find (\<lambda>q. take (length q) bs = q) seqs = Some q \<and> q = [])"
  by (auto simp: lead_space_def find_None_iff split: option.splits dest: find_Some_iff)

lemma no_empty_seq: "[] \<notin> set space_seqs"
  by (simp add: space_seqs_def)

lemma not_spaced: "lead_space space_seqs bs = 0 \<longleftrightarrow> (\<forall>q \<in> set space_seqs. take (length q) bs \<noteq> q)"
  using no_empty_seq by (auto simp: lead_space_0 dest!: find_Some_iff)

lemma lead_space_first:
  assumes "b \<notin> hd ` set space_seqs" shows "lead_space space_seqs (b # bs) = 0"
  unfolding not_spaced
proof (intro ballI notI)
  fix q assume q: "q \<in> set space_seqs" "take (length q) (b # bs) = q"
  with no_empty_seq obtain x xs where "q = x # xs" by (cases q) auto
  with q assms show False by force
qed

text \<open>The bytes of a longer space sequence are all above ASCII, so none ends in a separator.\<close>

lemma space_seqs_high: "q \<in> set space_seqs \<Longrightarrow> 2 \<le> length q \<Longrightarrow> \<forall>b \<in> set q. 128 \<le> b"
  by (auto simp: space_seqs_def)

lemma lead_space_append:
  assumes "lead_space space_seqs (a # as) = 0" "sep < 128"
  shows "lead_space space_seqs (a # as @ sep # bs) = 0"
  unfolding not_spaced
proof (intro ballI notI)
  fix q assume q: "q \<in> set space_seqs" "take (length q) (a # as @ sep # bs) = q"
  show False
  proof (cases "length q \<le> length (a # as)")
    case True
    with q(2) have "take (length q) (a # as) = q" by (simp add: take_Cons' split: if_splits)
    with assms(1) q(1) show False by (auto simp: not_spaced)
  next
    case False
    then have "q = a # as @ take (length q - length (a # as)) (sep # bs)"
      using q(2) by (simp add: take_Cons' split: if_splits)
    moreover have "length q - length (a # as) \<noteq> 0" using False by simp
    ultimately have "sep \<in> set q" by (metis in_set_conv_decomp list.set_intros(1) set_ConsD set_append Un_iff take_Suc_Cons not0_implies_Suc list.set_intros(2))
    moreover have "2 \<le> length q" using False by simp
    ultimately show False using space_seqs_high [OF q(1)] assms(2) by fastforce
  qed
qed

lemma fieldNeedsQuotes_False:
  assumes "\<not> fieldNeedsQuotes f" "f \<noteq> []"
  shows "CHR 0x0A \<notin> set f" "CHR 0x22 \<notin> set f" "CHR '','' \<notin> set f" "lead_space space_seqs (bytes_of f) = 0"
  using assms by (auto simp: fieldNeedsQuotes_def starts_with_space_def)

lemma byte_consts [simp]:
  "bytes_of (CHR 0x22 # s) = 34 # bytes_of s" "bytes_of (CHR '','' # s) = 44 # bytes_of s"
  "bytes_of (CHR 0x0A # s) = 10 # bytes_of s"
  by (simp_all add: bytes_of_def)

lemma trim_sep: "trim_left (CHR 0x22 # s) = CHR 0x22 # s" "trim_left (CHR '','' # s) = CHR '','' # s"
  by (rule trim_left_id, simp, rule lead_space_first, simp add: space_seqs_def)+

lemma trim_newline: "trim_left [CHR 0x0A] = []"
  by code_simp

lemma trim_plain:
  assumes "lead_space space_seqs (bytes_of f) = 0" "f \<noteq> []" "sep \<in> {CHR '','', CHR 0x0A}"
  shows "trim_left (f @ sep # t) = f @ sep # t"
proof (rule trim_left_id)
  obtain a as where f: "f = a # as" using assms(2) by (cases f) auto
  have "lead_space space_seqs (of_char a # bytes_of as @ of_char sep # bytes_of t) = 0"
    by (rule lead_space_append) (use assms in \<open>auto simp: f bytes_of_def\<close>)
  then show "lead_space space_seqs (bytes_of (f @ sep # t)) = 0" by (simp add: f bytes_of_def)
qed

lemma takeWhile_sep: "CHR '','' \<notin> set f \<Longrightarrow> takeWhile (\<lambda>c. c \<noteq> CHR '','') (f @ CHR '','' # t) = f"
  "CHR '','' \<notin> set f \<Longrightarrow> dropWhile (\<lambda>c. c \<noteq> CHR '','') (f @ CHR '','' # t) = CHR '','' # t"
  by (induction f) auto

text \<open>A field written in front of a separator is read back, and the reading goes on after it.\<close>

lemma read_written_field:
  assumes "sep \<in> {CHR '','', CHR 0x0A}"
  shows "read_field (fst (line_cut (write_field f @ sep # t))) (snd (line_cut (write_field f @ sep # t))) =
    Inr (f, after sep t)"
proof (cases "fieldNeedsQuotes f")
  case True
  have "quoted_field (fst (line_cut (quoted_body f @ CHR 0x22 # sep # t)))
      (snd (line_cut (quoted_body f @ CHR 0x22 # sep # t))) [] = Inr (f, after sep t)"
    using quoted_close [OF assms, of t f] by (simp add: quoted_body_read)
  with True show ?thesis
    by (simp add: write_field_def read_field_def trim_sep)
next
  case plain: False
  show ?thesis
  proof (cases "f = []")
    case True
    with plain assms show ?thesis
      by (auto simp: write_field_def read_field_def trim_sep trim_newline after_def drop_newline_def)
  next
    case False
    note f = fieldNeedsQuotes_False [OF plain False]
    have line_cut: "line_cut (f @ sep # t) = (f @ fst (line_cut (sep # t)), snd (line_cut (sep # t)))"
      by (rule cut_append [OF f(1)])
    have hd: "hd (f @ r) \<noteq> CHR 0x22" for r using False f(2) by (cases f) auto
    show ?thesis
    proof (cases "sep = CHR '',''")
      case True
      then show ?thesis
        using plain f(2,3) False hd trim_plain [OF f(4) False, of sep "fst (line_cut t)"]
        by (simp add: write_field_def read_field_def line_cut [unfolded True] takeWhile_sep after_def)
    next
      case nl: False
      with assms have "sep = CHR 0x0A" by simp
      then show ?thesis
        using plain f(2,3) False hd trim_plain [OF f(4) False, of sep "[]"]
        by (simp add: write_field_def read_field_def line_cut [unfolded \<open>sep = CHR 0x0A\<close>] after_def drop_newline_def)
    qed
  qed
qed

lemma read_written_record:
  "row \<noteq> [] \<Longrightarrow> read_fields (fst (line_cut (write_record row @ t))) (snd (line_cut (write_record row @ t))) = Inr (row, raw_lines t)"
proof (induction row rule: induct_list012)
  case (2 f)
  show ?case
    using read_written_field [of "CHR 0x0A" f t]
    by (simp add: write_record_def read_fields.simps [of "fst _"] after_def)
next
  case (3 f g row)
  have w: "write_record (f # g # row) @ t = write_field f @ CHR '','' # write_record (g # row) @ t"
    by (simp add: write_record_def)
  from 3(2) show ?case
    unfolding w using read_written_field [of "CHR '',''" f "write_record (g # row) @ t"]
    by (subst read_fields.simps) (simp add: after_def)
qed simp

definition csv_rows_ok :: "string list list \<Rightarrow> bool" where
  "csv_rows_ok rows \<longleftrightarrow> (\<forall>row \<in> set rows. row \<noteq> [] \<and> row \<noteq> [[]] \<and> (\<forall>f \<in> set row. CHR 0x0D \<notin> set f))"

lemma first_not_blank:
  assumes "row \<noteq> []" "row \<noteq> [[]]"
  shows "fst (line_cut (write_record row @ t)) \<noteq> []" "fst (line_cut (write_record row @ t)) \<noteq> [CHR 0x0A]"
proof -
  have *: "\<exists>c r. write_record row @ t = c # r \<and> c \<noteq> CHR 0x0A"
  proof (cases row)
    case (Cons f fs)
    have ne: "write_field f = c # r \<Longrightarrow> c \<noteq> CHR 0x0A" for c r
      by (auto simp: write_field_def fieldNeedsQuotes_def split: if_splits)
    show ?thesis
    proof (cases "write_field f")
      case Nil
      then have "f = []" by (simp add: write_field_def split: if_splits)
      with assms Cons obtain g gs where "fs = g # gs" by (cases fs) auto
      with Cons Nil show ?thesis by (simp add: write_record_def)
    next
      case (Cons c r)
      with ne \<open>row = f # fs\<close> show ?thesis by (cases fs) (auto simp: write_record_def)
    qed
  qed (use assms in simp)
  then show "fst (line_cut (write_record row @ t)) \<noteq> []" "fst (line_cut (write_record row @ t)) \<noteq> [CHR 0x0A]"
    by auto
qed

lemma read_written_records:
  "\<forall>row \<in> set rows. row \<noteq> [] \<and> row \<noteq> [[]] \<Longrightarrow> read_records (raw_lines (write_records rows)) = Inr rows"
proof (induction rows)
  case (Cons row rows)
  let ?t = "write_record row @ write_records rows"
  have "?t \<noteq> []" by (simp add: write_record_def)
  note l = raw_lines_cut [OF this]
  have "read_fields (fst (line_cut ?t)) (snd (line_cut ?t)) = Inr (row, raw_lines (write_records rows))"
    using Cons.prems by (intro read_written_record) simp
  with Cons first_not_blank [of row "write_records rows"] l show ?case
    by (simp add: write_records_def)
qed (simp add: write_records_def)

lemma set_write_record: "set (write_record row) \<subseteq> \<Union> (set ` set row) \<union> {CHR 0x22, CHR '','', CHR 0x0A}"
proof -
  have q: "set (quoted_body f) \<subseteq> set f \<union> {CHR 0x22}" for f by (induction f) (auto simp: quoted_body_Cons quoted_body_def)
  then have f: "set (write_field f) \<subseteq> set f \<union> {CHR 0x22}" for f by (auto simp: write_field_def)
  have "set (join_with '','' (map write_field row)) \<subseteq> \<Union> (set ` set row) \<union> {CHR 0x22, CHR '',''}"
    by (induction row rule: induct_list012) (use f in fastforce)+
  then show ?thesis by (auto simp: write_record_def)
qed

lemma set_raw_lines: "l \<in> set (raw_lines s) \<Longrightarrow> set l \<subseteq> set s"
  by (induction s arbitrary: l) (fastforce split: if_splits list.splits)+

lemma normal_line_id: "CHR 0x0D \<notin> set l \<Longrightarrow> normal_line l = l"
  by (auto simp: normal_line_def Let_def in_set_conv_nth)

text \<open>A table written and read back is the same table, whatever its fields hold but for carriage returns.\<close>

lemma csv_read_write:
  assumes "csv_rows_ok rows" shows "csv_ReadAll (write_records rows) = Inr rows"
proof -
  have "CHR 0x0D \<notin> set (write_records rows)"
    using assms set_write_record by (fastforce simp: csv_rows_ok_def write_records_def)
  then have "map normal_line (raw_lines (write_records rows)) = raw_lines (write_records rows)"
    by (intro map_idI normal_line_id) (use set_raw_lines in blast)
  with assms show ?thesis
    by (simp add: csv_ReadAll_def csv_lines_def csv_rows_ok_def read_written_records)
qed

end
