(* ===== verification/Go_Strconv.thy ===== *)
theory Go_Strconv
  imports Go_Json
begin

text \<open>
  \<open>strconv.ParseFloat\<close> with all it reads -- signs, underscores between digits, decimal and
  hexadecimal literals, infinities and NaN -- and \<open>fmt.Sscanf\<close> with the single verb \<open>%f\<close>.
\<close>

section \<open>strconv.ParseFloat\<close>

definition lower_text :: "string \<Rightarrow> string" where
  "lower_text s = map ascii_lower s"

definition is_hex_digit :: "char \<Rightarrow> bool" where
  "is_hex_digit c \<longleftrightarrow> hex_val c \<noteq> None"

text \<open>\<open>underscoreOK\<close>: an underscore stands between digits, the base prefix counting as one.\<close>

fun underscores_ok :: "bool \<Rightarrow> char \<Rightarrow> string \<Rightarrow> bool" where
  "underscores_ok hex saw [] \<longleftrightarrow> saw \<noteq> CHR ''_''"
| "underscores_ok hex saw (c # s) \<longleftrightarrow>
     (if is_digit c \<or> (hex \<and> is_hex_digit c) then underscores_ok hex CHR ''0'' s
      else if c = CHR ''_'' then saw = CHR ''0'' \<and> underscores_ok hex CHR ''_'' s
      else saw \<noteq> CHR ''_'' \<and> underscores_ok hex CHR ''!'' s)"

definition has_base_prefix :: "string \<Rightarrow> bool" where
  "has_base_prefix s \<longleftrightarrow>
     (case s of a # b # _ \<Rightarrow> a = CHR ''0'' \<and> ascii_lower b \<in> {CHR ''b'', CHR ''o'', CHR ''x''} | _ \<Rightarrow> False)"

definition underscoreOK :: "string \<Rightarrow> bool" where
  "underscoreOK s \<longleftrightarrow>
     (if has_base_prefix s then underscores_ok (ascii_lower (s ! 1) = CHR ''x'') CHR ''0'' (drop 2 s)
      else underscores_ok False CHR ''^'' s)"

text \<open>The value of an exponent, which stops growing once it is five digits long.\<close>

definition exp_val :: "string \<Rightarrow> int" where
  "exp_val s = foldl (\<lambda>e c. if e < 10000 then 10 * e + int (digit_val c) else e) 0 s"

definition split_sign :: "string \<Rightarrow> bool \<times> string" where
  "split_sign s =
     (case s of c # r \<Rightarrow> if c = CHR ''-'' then (True, r) else if c = CHR ''+'' then (False, r) else (False, s)
      | [] \<Rightarrow> (False, []))"

text \<open>Digits, then perhaps a point and digits: the digits before and after it, and the rest.\<close>

definition mantissa :: "(char \<Rightarrow> bool) \<Rightarrow> string \<Rightarrow> string \<times> string \<times> string" where
  "mantissa dig s =
     (let ip = takeWhile dig s; r = dropWhile dig s in
      case r of
        c # r' \<Rightarrow> if c = CHR ''.'' then (ip, takeWhile dig r', dropWhile dig r') else (ip, [], r)
      | [] \<Rightarrow> (ip, [], []))"

text \<open>An exponent after one of the two letters: absent, or a sign and digits that end the text.\<close>

definition exponent :: "char \<Rightarrow> string \<Rightarrow> int option option" where
  "exponent letter s =
     (case s of
        [] \<Rightarrow> Some None
      | c # r \<Rightarrow>
          if ascii_lower c \<noteq> letter then None
          else (case split_sign r of
                  (neg, ds) \<Rightarrow>
                    if ds = [] \<or> \<not> list_all is_digit ds then None
                    else Some (Some (if neg then - exp_val ds else exp_val ds))))"

definition hex_nat :: "string \<Rightarrow> int" where
  "hex_nat s = foldl (\<lambda>v c. 16 * v + (case hex_val c of None \<Rightarrow> 0 | Some d \<Rightarrow> int d)) 0 s"

text \<open>A value, \<open>None\<close> when it overflows; a zero keeps its sign.\<close>

definition finite_or_error :: "bool \<Rightarrow> float64 \<Rightarrow> float64 option" where
  "finite_or_error neg f = (case f of FInf _ \<Rightarrow> None | FFin _ m e \<Rightarrow> Some (FFin neg m e) | FNaN \<Rightarrow> None)"

definition parse_decimal :: "bool \<Rightarrow> string \<Rightarrow> float64 option" where
  "parse_decimal neg s =
     (case mantissa is_digit s of
        (ip, fp, r) \<Rightarrow>
          if ip = [] \<and> fp = [] then None
          else (case exponent CHR ''e'' r of
                  None \<Rightarrow> None
                | Some ex \<Rightarrow>
                    (let e = (case ex of None \<Rightarrow> 0 | Some i \<Rightarrow> i) - int (length fp)
                     in finite_or_error neg (round64 neg (int (val_dec (ip @ fp)) * p10 e) (p10 (- e))))))"

definition parse_hex :: "bool \<Rightarrow> string \<Rightarrow> float64 option" where
  "parse_hex neg s =
     (case mantissa is_hex_digit s of
        (ip, fp, r) \<Rightarrow>
          if ip = [] \<and> fp = [] then None
          else (case exponent CHR ''p'' r of
                  Some (Some i) \<Rightarrow>
                    (let e = i - 4 * int (length fp)
                     in finite_or_error neg (round64 neg (hex_nat (ip @ fp) * p2 e) (p2 (- e))))
                | _ \<Rightarrow> None))"

definition ParseFloat :: "string \<Rightarrow> float64 option" where
  "ParseFloat s =
     (case split_sign s of
        (neg, r) \<Rightarrow>
          if lower_text r = ''inf'' \<or> lower_text r = ''infinity'' then Some (FInf neg)
          else if lower_text s = ''nan'' then Some FNaN
          else if CHR ''_'' \<in> set r \<and> \<not> underscoreOK r then None
          else
            (let t = filter (\<lambda>c. c \<noteq> CHR ''_'') r in
             if has_base_prefix t \<and> ascii_lower (t ! 1) = CHR ''x'' then parse_hex neg (drop 2 t)
             else parse_decimal neg t))"

section \<open>fmt.Sscanf(s, "%f", &f)\<close>

text \<open>\<open>accept\<close> takes one character of a set and keeps it.\<close>

definition accept :: "(char \<Rightarrow> bool) \<Rightarrow> string \<times> string \<Rightarrow> bool \<times> string \<times> string" where
  "accept P t =
     (case snd t of c # r \<Rightarrow> if P c then (True, fst t @ [c], r) else (False, t) | [] \<Rightarrow> (False, t))"

definition accept_all :: "(char \<Rightarrow> bool) \<Rightarrow> string \<times> string \<Rightarrow> string \<times> string" where
  "accept_all P t = (fst t @ takeWhile P (snd t), dropWhile P (snd t))"

fun accept_word :: "string \<Rightarrow> string \<times> string \<Rightarrow> bool \<times> string \<times> string" where
  "accept_word [] t = (True, t)"
| "accept_word (w # ws) t =
     (case accept (\<lambda>c. ascii_lower c = w) t of (True, t') \<Rightarrow> accept_word ws t' | (False, t') \<Rightarrow> (False, t'))"

definition digit_or_us :: "char \<Rightarrow> bool" where
  "digit_or_us c \<longleftrightarrow> is_digit c \<or> c = CHR ''_''"

definition hex_or_us :: "char \<Rightarrow> bool" where
  "hex_or_us c \<longleftrightarrow> is_hex_digit c \<or> c = CHR ''_''"

definition is_sign :: "char \<Rightarrow> bool" where
  "is_sign c \<longleftrightarrow> c = CHR ''+'' \<or> c = CHR ''-''"

definition number_token :: "string \<times> string \<Rightarrow> string" where
  "number_token t0 =
     (let (zero, t1) = accept (\<lambda>c. c = CHR ''0'') t0;
          (hex, t2) = (if zero then accept (\<lambda>c. ascii_lower c = CHR ''x'') t1 else (False, t1));
          dig = (if hex then hex_or_us else digit_or_us);
          t3 = accept_all dig t2;
          (point, t4) = accept (\<lambda>c. c = CHR ''.'') t3;
          t5 = (if point then accept_all dig t4 else t4);
          (ex, t6) = accept (\<lambda>c. ascii_lower c = CHR ''p'' \<or> (\<not> hex \<and> ascii_lower c = CHR ''e'')) t5
      in if ex then fst (accept_all digit_or_us (snd (accept is_sign t6))) else fst t6)"

definition floatToken :: "string \<Rightarrow> string" where
  "floatToken s =
     (let (nan, t1) = accept_word ''nan'' ([], s) in
      if nan then fst t1
      else (let t2 = snd (accept is_sign t1); (inf, t3) = accept_word ''inf'' t2 in
            if inf then fst t3 else number_token t3))"

text \<open>\<open>Ldexp\<close>, for the power-of-two exponent of a decimal number.\<close>

definition Ldexp :: "float64 \<Rightarrow> int \<Rightarrow> float64" where
  "Ldexp f k = (case f of FFin s m e \<Rightarrow> round64 s (m * p2 (e + k)) (p2 (- (e + k))) | _ \<Rightarrow> f)"

definition scan_int :: "string \<Rightarrow> int option" where
  "scan_int s =
     (case split_sign s of
        (neg, ds) \<Rightarrow>
          let i = (if neg then - int (val_dec ds) else int (val_dec ds)) in
          if ds = [] \<or> \<not> list_all is_digit ds \<or> i < - (2 ^ 63) \<or> 2 ^ 63 \<le> i then None else Some i)"

definition convertFloat :: "string \<Rightarrow> float64 option" where
  "convertFloat s =
     (if CHR ''p'' \<in> set s \<and> CHR ''x'' \<notin> set s \<and> CHR ''X'' \<notin> set s then
        (case (ParseFloat (takeWhile (\<lambda>c. c \<noteq> CHR ''p'') s), scan_int (tl (dropWhile (\<lambda>c. c \<noteq> CHR ''p'') s))) of
           (Some f, Some m) \<Rightarrow> Some (Ldexp f m)
         | _ \<Rightarrow> None)
      else ParseFloat s)"

text \<open>Leading white space is skipped, but a new line or the end of the text is an error.\<close>

definition Sscanf_f :: "string \<Rightarrow> float64 option" where
  "Sscanf_f s =
     (let r = string_of_bytes (strip_left (filter (\<lambda>q. q \<noteq> [10]) space_seqs) (bytes_of s)) in
      case r of [] \<Rightarrow> None | c # _ \<Rightarrow> if c = CHR 0x0A then None else convertFloat (floatToken r))"

end
