(* ===== verification/Reports.thy ===== *)
theory Reports
  imports Rest_Auth Ledger Go_Csv Go_Strconv
begin

text \<open>
  The CSV export and import of \<open>internal/service/reports/reports.go\<close> and the handlers of
  \<open>internal/rest/reports.go\<close>. The collation of the category list, Unicode's case mappings,
  pgtype's numerics and the texts of foreign errors are parameters; the translator of a new
  category is one per row of the file.
\<close>

record reports_env =
  re_name_le :: "string \<Rightarrow> string \<Rightarrow> bool"
  re_pgnum :: pgnum
  re_translator :: "nat \<Rightarrow> translator"
  re_lower :: "string \<Rightarrow> string"
  re_upper :: "string \<Rightarrow> string"
  re_errors :: err_lib

section \<open>Export\<close>

definition csvHeader :: "string list" where
  "csvHeader = [''date'', ''type'', ''category'', ''amount'', ''currency'', ''note'']"

text \<open>The name of a category: the last of the list with the identifier, empty when there is none.\<close>

definition category_name :: "Category list \<Rightarrow> uuid \<Rightarrow> string" where
  "category_name cats i =
     (case map_of (rev (map (\<lambda>c. (ca_ID c, ca_Name c)) cats)) i of None \<Rightarrow> [] | Some n \<Rightarrow> n)"

definition export_row :: "Category list \<Rightarrow> Transaction \<Rightarrow> string list" where
  "export_row cats tx =
     [Format_date (tx_Date tx), tx_Type tx, category_name cats (tx_CategoryID tx), tx_Amount tx, tx_Currency tx,
      tx_Note tx]"

definition Export :: "reports_env \<Rightarrow> uuid \<Rightarrow> gotime \<Rightarrow> gotime \<Rightarrow> string dbop" where
  "Export env userID from to = do {
     r \<leftarrow> transaction_List (re_pgnum env) userID from to;
     case r of
       Inl e \<Rightarrow> ret (Inl (Wrap ''list transactions'' [] e))
     | Inr txs \<Rightarrow> do {
         r2 \<leftarrow> category_List (re_name_le env) userID;
         case r2 of
           Inl e \<Rightarrow> ret (Inl (Wrap ''list categories'' [] e))
         | Inr cats \<Rightarrow> ret (Inr (write_records (csvHeader # map (export_row cats) txs))) } }"

section \<open>The fields of a row\<close>

definition row_field :: "string list \<Rightarrow> nat \<Rightarrow> string" where
  "row_field row i = (if length row \<le> i then [] else row ! i)"

text \<open>The Ukrainian words and messages, as code points.\<close>

definition word_date :: string where "word_date = utf8 [1076, 1072, 1090, 1072]"

definition expense_words :: "string list" where
  "expense_words =
     [''expense'', utf8 [1074, 1080, 1090, 1088, 1072, 1090, 1072], utf8 [1074, 1080, 1090, 1088, 1072, 1090, 1080],
      utf8 [1074, 1080, 1076, 1072, 1090, 1086, 1082], utf8 [1074, 1080, 1076, 1072, 1090, 1082, 1080]]"

definition income_words :: "string list" where
  "income_words =
     [''income'', utf8 [1076, 1086, 1093, 1110, 1076], utf8 [1076, 1086, 1093, 1086, 1076],
      utf8 [1087, 1088, 1080, 1073, 1091, 1090, 1086, 1082]]"

definition msg_row :: string where "msg_row = utf8 [1088, 1103, 1076, 1086, 1082]"
definition msg_type :: string where
  "msg_type = utf8 [1085, 1077, 1074, 1110, 1076, 1086, 1084, 1080, 1081, 32, 1090, 1080, 1087, 32, 1086, 1087, 1077, 1088,
                    1072, 1094, 1110, 1111] @ '' %q ('' @ utf8 [1086, 1095, 1110, 1082, 1091, 1108, 1090, 1100, 1089, 1103] @
              '' expense/income)''"
definition msg_date :: string where
  "msg_date = utf8 [1085, 1077, 1074, 1110, 1088, 1085, 1072, 32, 1076, 1072, 1090, 1072] @ '' %q''"
definition msg_amount :: string where
  "msg_amount = utf8 [1085, 1077, 1074, 1110, 1088, 1085, 1072, 32, 1089, 1091, 1084, 1072] @ '' %q''"
definition msg_category :: string where
  "msg_category = utf8 [1085, 1077, 32, 1074, 1076, 1072, 1083, 1086, 1089, 1100, 32, 1089, 1090, 1074, 1086, 1088, 1080,
                        1090, 1080, 32, 1082, 1072, 1090, 1077, 1075, 1086, 1088, 1110, 1102] @ '' %q''"

definition looksLikeHeader :: "reports_env \<Rightarrow> string list \<Rightarrow> bool" where
  "looksLikeHeader env row \<longleftrightarrow>
     (let first = ToLower (re_lower env) (TrimSpace (row_field row 0)) in first = ''date'' \<or> first = word_date)"

definition cacheKey :: "reports_env \<Rightarrow> string \<Rightarrow> string \<Rightarrow> string" where
  "cacheKey env transactionType name =
     ToLower (re_lower env) transactionType @ ''|'' @ ToLower (re_lower env) (TrimSpace name)"

definition normalizeType :: "reports_env \<Rightarrow> string \<Rightarrow> string option" where
  "normalizeType env s =
     (let t = ToLower (re_lower env) (TrimSpace s) in
      if t \<in> set expense_words then Some ''expense'' else if t \<in> set income_words then Some ''income'' else None)"

definition dateLayouts :: "layout_tok list list" where
  "dateLayouts =
     [layout_iso, [D2, Lit CHR ''.'', M2, Lit CHR ''.'', Y4], [Y4, Lit CHR ''/'', M2, Lit CHR ''/'', D2],
      [D2, Lit CHR ''/'', M2, Lit CHR ''/'', Y4]]"

fun first_layout :: "layout_tok list list \<Rightarrow> string \<Rightarrow> gotime option" where
  "first_layout [] s = None"
| "first_layout (l # ls) s = (case parse_layout l s of Some t \<Rightarrow> Some t | None \<Rightarrow> first_layout ls s)"

definition parseDate :: "string \<Rightarrow> gotime option" where
  "parseDate s = first_layout dateLayouts (TrimSpace s)"

text \<open>\<open>ReplaceAll(s, "\\u00a0", "")\<close>, the two bytes of a non-breaking space.\<close>

fun drop_nbsp :: "string \<Rightarrow> string" where
  "drop_nbsp (a # b # s) = (if a = CHR 0xC2 \<and> b = CHR 0xA0 then drop_nbsp s else a # drop_nbsp (b # s))"
| "drop_nbsp s = s"

definition clean_amount :: "string \<Rightarrow> string" where
  "clean_amount s =
     (let s = drop_nbsp (filter (\<lambda>c. c \<noteq> CHR '' '') (TrimSpace s));
          s = (if CHR '','' \<in> set s \<and> CHR ''.'' \<notin> set s then map (\<lambda>c. if c = CHR '','' then CHR ''.'' else c) s
               else filter (\<lambda>c. c \<noteq> CHR '','') s)
      in dropWhile (\<lambda>c. c = CHR ''+'') s)"

definition normalizeAmount :: "string \<Rightarrow> string option" where
  "normalizeAmount s =
     (case ParseFloat (clean_amount s) of
        None \<Rightarrow> None
      | Some v \<Rightarrow> Some (FormatFloat_prec 2 (if fless v (float_of_int 0) then fneg v else v)))"

text \<open>\<open>strings.ToUpper\<close>, with Unicode's mapping of non-ASCII text.\<close>

definition ascii_upper :: "char \<Rightarrow> char" where
  "ascii_upper c = (let n = (of_char c :: nat) in if 97 \<le> n \<and> n \<le> 122 then char_of (n - 32) else c)"

definition ToUpper :: "(string \<Rightarrow> string) \<Rightarrow> string \<Rightarrow> string" where
  "ToUpper uni s = (if is_ascii s then map ascii_upper s else uni s)"

record import_row =
  ir_Type :: string
  ir_Date :: gotime
  ir_Amount :: string
  ir_Currency :: string
  ir_Category :: string
  ir_Note :: string

text \<open>A row read, or the message it is skipped with (a format and its argument).\<close>

definition parse_row :: "reports_env \<Rightarrow> string \<Rightarrow> string list \<Rightarrow> (string \<times> string) + import_row" where
  "parse_row env defaultCurrency row =
     (case normalizeType env (row_field row 1) of
        None \<Rightarrow> Inl (msg_type, row_field row 1)
      | Some txType \<Rightarrow>
          (case parseDate (row_field row 0) of
             None \<Rightarrow> Inl (msg_date, row_field row 0)
           | Some date \<Rightarrow>
               (case normalizeAmount (row_field row 3) of
                  None \<Rightarrow> Inl (msg_amount, row_field row 3)
                | Some amount \<Rightarrow>
                    (let cur = ToUpper (re_upper env) (TrimSpace (row_field row 4)) in
                     Inr \<lparr>ir_Type = txType, ir_Date = date, ir_Amount = amount,
                          ir_Currency = (if cur = [] then defaultCurrency else cur),
                          ir_Category = TrimSpace (row_field row 2), ir_Note = row_field row 5\<rparr>))))"

section \<open>Import\<close>

record ImportResult =
  ix_Imported :: int
  ix_Skipped :: int
  ix_Errors :: "string slice"

definition maxImportErrors :: nat where "maxImportErrors = 20"

type_synonym category_cache = "(string \<times> uuid) list"

definition addError :: "string \<Rightarrow> nat \<Rightarrow> ImportResult \<Rightarrow> ImportResult" where
  "addError msg rowNum res =
     res\<lparr>ix_Skipped := ix_Skipped res + 1,
         ix_Errors := (if length (slice_list (ix_Errors res)) < maxImportErrors
                       then Some (slice_list (ix_Errors res) @ [msg_row @ '' '' @ fmt_d (int rowNum) @ '': '' @ msg])
                       else ix_Errors res)\<rparr>"

text \<open>The category of a row: cached, else created; \<open>None\<close> when it cannot be created.\<close>

definition row_category ::
  "reports_env \<Rightarrow> uuid \<Rightarrow> nat \<Rightarrow> category_cache \<Rightarrow> string \<Rightarrow> string \<Rightarrow> (db, (uuid \<times> category_cache) option) state" where
  "row_category env userID rowNum cache txType name =
     (if name = [] then ret (Some (uuid_Nil, cache))
      else (let key = cacheKey env txType name in
            case map_of cache key of
              Some i \<Rightarrow> ret (Some (i, cache))
            | None \<Rightarrow> do {
                r \<leftarrow> category_Create (re_translator env rowNum) userID name ''circle'' ''8E8E93'' txType;
                ret (case r of Inl _ \<Rightarrow> None | Inr c \<Rightarrow> Some (ca_ID c, map_put key (ca_ID c) cache)) }))"

fun import_rows ::
  "reports_env \<Rightarrow> uuid \<Rightarrow> string \<Rightarrow> nat \<Rightarrow> string list list \<Rightarrow> category_cache \<Rightarrow> ImportResult \<Rightarrow> (db, ImportResult) state" where
  "import_rows env userID defaultCurrency rowNum [] cache res = ret res"
| "import_rows env userID defaultCurrency rowNum (row # rows) cache res =
     (if TrimSpace (concat row) = [] then import_rows env userID defaultCurrency (rowNum + 1) rows cache res
      else (case parse_row env defaultCurrency row of
              Inl (f, arg) \<Rightarrow>
                import_rows env userID defaultCurrency (rowNum + 1) rows cache
                  (addError (fmt_verbs (el_isprint (re_errors env)) f [arg]) rowNum res)
            | Inr q \<Rightarrow> do {
                c \<leftarrow> row_category env userID rowNum cache (ir_Type q) (ir_Category q);
                case c of
                  None \<Rightarrow>
                    import_rows env userID defaultCurrency (rowNum + 1) rows cache
                      (addError (fmt_verbs (el_isprint (re_errors env)) msg_category [ir_Category q]) rowNum res)
                | Some (categoryID, cache') \<Rightarrow> do {
                    r \<leftarrow> transaction_Create (re_pgnum env)
                      \<lparr>ct_UserID = userID, ct_CategoryID = categoryID, ct_Amount = ir_Amount q,
                       ct_Currency = ir_Currency q, ct_Type = ir_Type q, ct_Date = ir_Date q, ct_Note = ir_Note q\<rparr>;
                    import_rows env userID defaultCurrency (rowNum + 1) rows cache'
                      (case r of
                         Inl e \<Rightarrow> addError (Error (re_errors env) e) rowNum res
                       | Inr _ \<Rightarrow> res\<lparr>ix_Imported := ix_Imported res + 1\<rparr>) } }))"

definition Import :: "reports_env \<Rightarrow> uuid \<Rightarrow> string \<Rightarrow> string \<Rightarrow> ImportResult dbop" where
  "Import env userID defaultCurrency data =
     (case csv_ReadAll data of
        Inl _ \<Rightarrow> ret (Inl (Wrap ''parse csv'' [] (Foreign ''encoding/csv'')))
      | Inr [] \<Rightarrow> ret (Inl (Errorf ''file is empty'' []))
      | Inr (row # rows) \<Rightarrow> do {
          r \<leftarrow> category_List (re_name_le env) userID;
          case r of
            Inl e \<Rightarrow> ret (Inl (Wrap ''list categories'' [] e))
          | Inr cats \<Rightarrow> do {
              res \<leftarrow> (let cache = rev (map (\<lambda>c. (cacheKey env (ca_Type c) (ca_Name c), ca_ID c)) cats);
                        zero = \<lparr>ix_Imported = 0, ix_Skipped = 0, ix_Errors = None\<rparr>
                    in if looksLikeHeader env row then import_rows env userID defaultCurrency 2 rows cache zero
                       else import_rows env userID defaultCurrency 1 (row # rows) cache zero);
              ret (Inr res) } })"

section \<open>The handlers\<close>

record reportsHandler =
  ph_env :: reports_env
  ph_errors :: err_lib

definition start_of_month :: "gotime \<Rightarrow> gotime" where
  "start_of_month t = instant_of_date (Date (d_year (civil t)) (d_month (civil t)) 1)"

definition query_date :: "request \<Rightarrow> string \<Rightarrow> gotime option" where
  "query_date r k = (if query_Get r k \<noteq> [] then parse_layout layout_iso (query_Get r k) else None)"

definition reports_export :: "reportsHandler \<Rightarrow> draws \<Rightarrow> uuid \<Rightarrow> request \<Rightarrow> (db, response) state" where
  "reports_export h w userID r =
     (let now = dw_now w 0;
          from = (case query_date r ''from'' of Some d \<Rightarrow> d | None \<Rightarrow> start_of_month now);
          to = (case query_date r ''to'' of Some d \<Rightarrow> d + (24 * time_Hour - time_Second) | None \<Rightarrow> now)
      in do {
        res \<leftarrow> Export (ph_env h) userID from to;
        case res of
          Inl _ \<Rightarrow> ret (writeError 500 ''failed to build export'')
        | Inr data \<Rightarrow>
            ret \<lparr>rp_status = 200,
                 rp_headers =
                   [(''Content-Type'', ''text/csv; charset=utf-8''),
                    (''Content-Disposition'',
                       ''attachment; filename='' @ [CHR 0x22] @ ''vaultly-'' @ Format_date from @ ''_'' @ Format_date to @
                       ''.csv'' @ [CHR 0x22])],
                 rp_cookies = [], rp_body = data\<rparr> })"

text \<open>
  The upload, as \<open>ParseMultipartForm\<close> and \<open>FormFile\<close> give it: \<open>None\<close> when the form does not
  parse, then the part named \<open>file\<close> when there is one. Bytes beyond 5 MB are not read.
\<close>

definition maxUploadSize :: nat where "maxUploadSize = 5 * 1048576"

definition reports_importCSV ::
  "reportsHandler \<Rightarrow> string option option \<Rightarrow> uuid \<Rightarrow> request \<Rightarrow> (db, response) state" where
  "reports_importCSV h upload userID r =
     (case upload of
        None \<Rightarrow> ret (writeError 400 ''file too large or invalid upload'')
      | Some None \<Rightarrow> ret (writeError 400 ''missing file'')
      | Some (Some file) \<Rightarrow> do {
          u \<leftarrow> Me userID;
          case u of
            Inl _ \<Rightarrow> ret (writeError 401 ''not signed in'')
          | Inr user \<Rightarrow> do {
              res \<leftarrow> Import (ph_env h) userID (u_BaseCurrency user) (take maxUploadSize file);
              case res of
                Inl e \<Rightarrow> ret (writeError 400 (Error (ph_errors h) e))
              | Inr x \<Rightarrow>
                  ret (writeJSON 200 (VStruct
                    [(''imported'', VInt (ix_Imported x)), (''skipped'', VInt (ix_Skipped x)),
                     (''errors'', slice_jval VStr (ix_Errors x))])) } })"

end
