(* ===== verification/Report_Properties.thy ===== *)
theory Report_Properties
  imports Reports Go_Float_Facts Ledger_Properties
begin

text \<open>
  The table \<open>Export\<close> writes, read back by \<open>Import\<close>: every row comes back with its type,
  day, amount, currency, category and note. The amount goes through a float and two decimals,
  which loses nothing below 10^14 hundredths.
\<close>

section \<open>Amounts\<close>

definition money :: "nat \<Rightarrow> string" where
  "money n = dec_nat (n div 100) @ ''.'' @ pad0 2 (n mod 100)"

lemma dec_nat_step: "10 \<le> n \<Longrightarrow> dec_nat n = dec_nat (n div 10) @ [digit_char (n mod 10)]"
  by (subst dec_nat.simps) simp

lemma dec_nat_small: "n < 10 \<Longrightarrow> dec_nat n = [digit_char n]"
  by (subst dec_nat.simps) simp

lemma digit_char_0: "CHR ''0'' = digit_char 0"
  by code_simp

lemma pad0_2: "k < 100 \<Longrightarrow> pad0 2 k = [digit_char (k div 10), digit_char (k mod 10)]"
  by (cases "k < 10") (simp_all add: pad0_def dec_nat_small dec_nat_step digit_char_0)

lemma dec_nat_100: "100 \<le> n \<Longrightarrow> dec_nat n = dec_nat (n div 100) @ pad0 2 (n mod 100)"
proof -
  assume n: "100 \<le> n"
  have "n mod 100 div 10 = n div 10 mod 10" "n mod 100 mod 10 = n mod 10" "n div 10 div 10 = n div 100"
    using mod_mult2_eq [of n 10 10] div_mult2_eq [of n 10 10] by simp_all
  moreover have "10 \<le> n" "10 \<le> n div 10" "n mod 100 < 100" using n by simp_all
  ultimately show ?thesis
    by (simp only: dec_nat_step [of n] dec_nat_step [of "n div 10"] pad0_2 append_assoc append.simps)
qed

lemma fixed_money: "fixed_text (int n) (-2) = money n"
proof (cases "100 \<le> n")
  case True
  then have len: "3 \<le> length (dec_nat n)"
    using dec_nat_nonempty [of "n div 100"] by (cases "dec_nat (n div 100)") (simp_all add: dec_nat_100 [OF True] pad0_2)
  have "length (dec_nat n) - 2 = length (dec_nat (n div 100))" by (simp add: dec_nat_100 [OF True] pad0_2)
  with len show ?thesis by (simp add: fixed_text_def money_def Let_def) (simp add: dec_nat_100 [OF True])
next
  case False
  then show ?thesis
    by (cases "n < 10")
      (simp_all add: fixed_text_def money_def pad0_2 dec_nat_small dec_nat_step digit_char_0 numeral_3_eq_3)
qed

lemma digits_takeWhile:
  "list_all is_digit s \<Longrightarrow> \<not> is_digit c \<Longrightarrow> takeWhile is_digit (s @ c # r) = s \<and> dropWhile is_digit (s @ c # r) = c # r"
  by (induction s) auto

lemma digits_only:
  "list_all is_digit (dec_nat n)" "list_all is_digit (pad0 2 (n mod 100))"
  "takeWhile is_digit (pad0 2 (n mod 100)) = pad0 2 (n mod 100)" "dropWhile is_digit (pad0 2 (n mod 100)) = []"
  using dec_nat_digits [of n] pad0_props(2) [of 2 "n mod 100"] by (auto simp: list_all_iff)

lemma mantissa_money: "mantissa is_digit (money n) = (dec_nat (n div 100), pad0 2 (n mod 100), [])"
  by (simp add: mantissa_def money_def Let_def digits_takeWhile digits_only)

lemma val_dec_money: "val_dec (dec_nat (n div 100) @ pad0 2 (n mod 100)) = n"
proof (cases "100 \<le> n")
  case True
  then show ?thesis using val_dec_nat [of n] by (simp add: dec_nat_100 [OF True])
next
  case False
  then have "dec_nat (n div 100) @ pad0 2 (n mod 100) = replicate 1 (CHR ''0'') @ pad0 2 n"
    by (simp add: dec_nat_small digit_char_0)
  then show ?thesis using pad0_props(3) [of 2 n] False by (simp add: val_dec_zeros del: replicate.simps)
qed

lemma money_chars: "c \<in> set (money n) \<Longrightarrow> is_digit c \<or> c = CHR ''.''"
  using digits_only [of n] digits_only [of "n div 100"] by (auto simp: money_def list_all_iff)

lemma money_first: obtains c r where "money n = c # r" "is_digit c"
  using dec_nat_digits [of "n div 100"] dec_nat_nonempty [of "n div 100"]
  by (cases "dec_nat (n div 100)") (auto simp: money_def)

text \<open>The float nearest to an amount is nearer to it than to any other whole number of hundredths.\<close>

lemma money_float:
  assumes "n < 10 ^ 14"
  obtains m e where "round64 False (int n) 100 = FFin False m e" "0 \<le> m"
    "round_even (m * 10 ^ 2 * p2 e) (p2 (- e)) = int n"
proof -
  define x where "x = real n / 100"
  have n: "real n < 10 ^ 14" using of_nat_less_iff [where 'a = real, of n "10 ^ 14"] assms by simp
  have small: "pw (- 1075) \<le> pw (- 9)" by (rule pw_mono) simp
  have "10 ^ 12 \<le> pw 1023"
    using pw_mono [of 40 1023] by (simp add: pw_nat [of 40])
  then have "real_of_int (int n) / real_of_int 100 < pw 1023" using n by simp
  then have r: "rounds_to x (round64 False (int n) 100)"
    using round64_rounds [of "int n" 100 False] by (simp add: x_def)
  obtain m e where f: "round64 False (int n) 100 = FFin False m e"
    using rounds_toD(1) [OF r] by (auto simp: round64_def Let_def finite64_def split: if_splits)
  have m: "0 \<le> m" using rounds_toD(1) [OF r] by (simp add: f finite64_def)
  have "x * pw (- 53) \<le> 10 ^ 12 * pw (- 53)" by (rule mult_right_mono) (use n in \<open>simp_all add: x_def\<close>)
  also have "\<dots> \<le> pw (- 9)"
    by (simp add: pw_def power_int_minus)
  finally have err: "\<bar>real_of_int m * pw e - x\<bar> \<le> pw (- 9)"
    using rounds_toD(2) [OF r] small by (simp add: f signed_def x_def max_def split: if_splits)
  have q: "real_of_int (m * 10 ^ 2 * p2 e) / real_of_int (p2 (- e)) = 100 * (real_of_int m * pw e)"
    by (simp add: p2_ratio [symmetric])
  have "\<bar>real_of_int (round_even (m * 10 ^ 2 * p2 e) (p2 (- e))) - 100 * (real_of_int m * pw e)\<bar> \<le> 1 / 2"
    using round_even_error [of "p2 (- e)" "m * 10 ^ 2 * p2 e"] unfolding q by simp
  moreover have "\<bar>100 * (real_of_int m * pw e) - real n\<bar> \<le> 100 * pw (- 9)"
    using err by (simp add: x_def abs_le_iff)
  moreover have "100 * pw (- 9) < 1 / 2" by (simp add: pw_def power_int_minus)
  ultimately have "\<bar>real_of_int (round_even (m * 10 ^ 2 * p2 e) (p2 (- e))) - real n\<bar> < 1" by linarith
  then have "round_even (m * 10 ^ 2 * p2 e) (p2 (- e)) = int n" by linarith
  with f m show thesis by (rule that)
qed

section \<open>Fields\<close>

definition printable :: "string \<Rightarrow> bool" where
  "printable s \<longleftrightarrow> (\<forall>c \<in> set s. 33 \<le> (of_char c :: nat) \<and> (of_char c :: nat) < 127)"

lemma lead_space_hd: "[] \<notin> set seqs \<Longrightarrow> b \<notin> hd ` set seqs \<Longrightarrow> lead_space seqs (b # bs) = 0"
proof -
  assume "[] \<notin> set seqs" "b \<notin> hd ` set seqs"
  then have "take (length q) (b # bs) \<noteq> q" if "q \<in> set seqs" for q using that by (cases q) force+
  then show ?thesis by (simp add: lead_space_def find_None_iff split: option.split) (meson find_Some_iff)
qed

lemma strip_left_id: "lead_space seqs bs = 0 \<Longrightarrow> strip_left seqs bs = bs"
  by (subst strip_left.simps) simp

lemma space_heads:
  assumes "33 \<le> b \<and> b < 127"
  shows "b \<notin> hd ` set space_seqs" "b \<notin> hd ` set (map rev space_seqs)" "[] \<notin> set (map rev space_seqs)"
  using assms by (auto simp: space_seqs_def)

lemma strip_printable:
  assumes "\<forall>b \<in> set bs. 33 \<le> b \<and> b < 127"
  shows "strip_left space_seqs bs = bs" "strip_left (map rev space_seqs) bs = bs"
proof -
  have "lead_space seqs bs = 0" if "seqs \<in> {space_seqs, map rev space_seqs}" for seqs
  proof (cases bs)
    case (Cons b r)
    show ?thesis
      unfolding Cons by (rule lead_space_hd) (use that assms Cons space_heads [of b] no_empty_seq in auto)
  qed (use lead_space_le [of seqs "[]"] in simp)
  then show "strip_left space_seqs bs = bs" "strip_left (map rev space_seqs) bs = bs" by (simp_all add: strip_left_id)
qed

lemma TrimSpace_printable: "printable s \<Longrightarrow> TrimSpace s = s"
  by (simp add: TrimSpace_def strip_printable bytes_of_def printable_def string_of_bytes_def rev_map)

lemma printable_simps [simp]:
  "printable []" "printable (c # s) \<longleftrightarrow> (33 \<le> (of_char c :: nat) \<and> (of_char c :: nat) < 127) \<and> printable s"
  "printable (s @ t) \<longleftrightarrow> printable s \<and> printable t"
  by (auto simp: printable_def)

lemma printable_digits: "list_all is_digit s \<Longrightarrow> printable s"
  by (auto simp: printable_def list_all_iff is_digit_def)

lemma pad0_digits: "list_all is_digit (pad0 w n)"
  using dec_nat_digits [of n] by (auto simp: pad0_def list_all_iff is_digit_def)

lemma printable_money: "printable (money n)"
  by (simp add: money_def printable_digits digits_only)

lemma printable_date: "printable (fmt_date D)"
  by (simp add: fmt_date_def fmt_year_def printable_digits pad0_digits)

lemma clean_money: "clean_amount (money n) = money n"
proof -
  have c: "c \<noteq> CHR '' '' \<and> c \<noteq> CHR '','' \<and> c \<noteq> CHR 0xC2 \<and> c \<noteq> CHR ''_''" if "c \<in> set (money n)" for c
    using money_chars [OF that] by (auto simp: is_digit_def)
  have "CHR 0xC2 \<notin> set s \<Longrightarrow> drop_nbsp s = s" for s by (induction s rule: drop_nbsp.induct) auto
  moreover have "filter (\<lambda>c. c \<noteq> CHR '' '') (money n) = money n" "filter (\<lambda>c. c \<noteq> CHR '','') (money n) = money n"
    "CHR 0xC2 \<notin> set (money n)" "CHR '','' \<notin> set (money n)"
    using c by (auto simp: filter_id_conv)
  moreover obtain a r where "money n = a # r" "is_digit a" by (rule money_first)
  then have "dropWhile (\<lambda>c. c = CHR ''+'') (money n) = money n" by (auto simp: is_digit_def)
  ultimately show ?thesis by (simp add: clean_amount_def TrimSpace_printable printable_money)
qed

lemma ParseFloat_money:
  assumes "n < 10 ^ 14"
  shows "ParseFloat (money n) = Some (round64 False (int n) 100)"
proof -
  obtain a r where m: "money n = a # r" "is_digit a" by (rule money_first)
  have c: "c \<noteq> CHR ''_'' \<and> c \<noteq> CHR ''i'' \<and> c \<noteq> CHR ''n'' \<and> ascii_lower c \<noteq> CHR ''x'' \<and> ascii_lower c = c"
    if "c \<in> set (money n)" for c
    using money_chars [OF that] by (auto simp: is_digit_def ascii_lower_def)
  have a: "a \<noteq> CHR ''-''" "a \<noteq> CHR ''+''" using m(2) by (auto simp: is_digit_def)
  have low: "lower_text (money n) = money n" using c by (auto simp: lower_text_def intro: map_idI)
  have "lower_text (money n) \<notin> {''inf'', ''infinity'', ''nan''}"
    using c [of a] low by (auto simp: m(1))
  moreover have "CHR ''_'' \<notin> set (money n)" "filter (\<lambda>c. c \<noteq> CHR ''_'') (money n) = money n"
    using c by (auto simp: filter_id_conv)
  moreover have "\<not> (has_base_prefix (money n) \<and> ascii_lower (money n ! 1) = CHR ''x'')"
    using c [of "money n ! 1"] by (auto simp: has_base_prefix_def m(1) split: list.splits)
  moreover have "split_sign (money n) = (False, money n)" using a by (simp add: split_sign_def m(1))
  moreover have "parse_decimal False (money n) = Some (round64 False (int n) 100)"
  proof -
    obtain m' e where "round64 False (int n) 100 = FFin False m' e" by (rule money_float [OF assms])
    moreover have "length (pad0 2 (n mod 100)) = 2" by (rule pad0_props(1)) simp_all
    ultimately show ?thesis
      by (simp add: parse_decimal_def mantissa_money exponent_def val_dec_money p10_def finite_or_error_def)
  qed
  ultimately show ?thesis by (auto simp: ParseFloat_def Let_def)
qed

lemma normalizeAmount_money:
  assumes "n < 10 ^ 14" shows "normalizeAmount (money n) = Some (money n)"
proof -
  obtain m e where f: "round64 False (int n) 100 = FFin False m e" "0 \<le> m"
    "round_even (m * 10 ^ 2 * p2 e) (p2 (- e)) = int n" by (rule money_float [OF assms])
  have "fval (float_of_int 0) = 0" "finite64 (float_of_int 0)"
    by (simp_all add: float_of_int_def round64_def finite64_def signed_def)
  moreover have "0 \<le> fval (FFin False m e)" "finite64 (FFin False m e)"
    using f(2) by (simp_all add: signed_def finite64_def)
  ultimately have "\<not> fless (FFin False m e) (float_of_int 0)" using fless_val by (metis not_less)
  then show ?thesis
    using f(3) by (simp add: normalizeAmount_def clean_money ParseFloat_money [OF assms] f(1) FormatFloat_prec_def
        sign_text_def fixed_money)
qed

lemma type_words: "printable ''expense''" "printable ''income''" "printable ''date''"
  "ToLower u ''expense'' = ''expense''" "ToLower u ''income'' = ''income''" "ToLower u ''date'' = ''date''"
  by (simp_all add: ToLower_def) code_simp+

lemma kind_words: "''expense'' \<in> set expense_words" "''income'' \<in> set income_words" "''income'' \<notin> set expense_words"
  by (simp_all add: expense_words_def income_words_def utf8_def EncodeRune_def string_of_bytes_def char_of_def)

lemma normalizeType_type: "transaction_type_ok t \<Longrightarrow> normalizeType env t = Some t"
  by (auto simp: transaction_type_ok_def normalizeType_def TrimSpace_printable type_words kind_words Let_def)

lemma header_found: "looksLikeHeader env csvHeader"
  by (simp add: looksLikeHeader_def csvHeader_def row_field_def TrimSpace_printable type_words)

definition upper_code :: "string \<Rightarrow> bool" where
  "upper_code s \<longleftrightarrow> s \<noteq> [] \<and> (\<forall>c \<in> set s. 65 \<le> (of_char c :: nat) \<and> (of_char c :: nat) \<le> 90)"

lemma upper_code_printable: "upper_code s \<Longrightarrow> printable s"
  by (auto simp: upper_code_def printable_def)

lemma upper_code_kept:
  assumes "upper_code s" shows "ToUpper u (TrimSpace s) = s"
proof -
  have "printable s" using assms by (rule upper_code_printable)
  moreover have "is_ascii s" using assms by (auto simp: upper_code_def is_ascii_def list_all_iff)
  moreover have "map ascii_upper s = s" using assms by (auto simp: upper_code_def ascii_upper_def intro!: map_idI)
  ultimately show ?thesis by (simp add: ToUpper_def TrimSpace_printable)
qed

section \<open>Rows and tables\<close>

text \<open>
  What a transaction must be to come back: a type of the program, a year of four digits, an
  amount with two decimals below 10^12, a currency in capital letters, no carriage return.
\<close>

definition portable :: "Category list \<Rightarrow> Transaction \<Rightarrow> bool" where
  "portable cats t \<longleftrightarrow>
     transaction_type_ok (tx_Type t) \<and> 0 \<le> d_year (civil (tx_Date t)) \<and> d_year (civil (tx_Date t)) \<le> 9999 \<and>
     (\<exists>n < 10 ^ 14. tx_Amount t = money n) \<and> upper_code (tx_Currency t) \<and> CHR 0x0D \<notin> set (tx_Note t) \<and>
     CHR 0x0D \<notin> set (category_name cats (tx_CategoryID t))"

definition reread :: "Category list \<Rightarrow> Transaction \<Rightarrow> import_row" where
  "reread cats t =
     \<lparr>ir_Type = tx_Type t, ir_Date = instant_of_date (civil (tx_Date t)), ir_Amount = tx_Amount t,
      ir_Currency = tx_Currency t, ir_Category = TrimSpace (category_name cats (tx_CategoryID t)),
      ir_Note = tx_Note t\<rparr>"

lemma row_roundtrip:
  assumes "portable cats t" shows "parse_row env cur (export_row cats t) = Inr (reread cats t)"
proof -
  have "parseDate (Format_date (tx_Date t)) = Some (instant_of_date (civil (tx_Date t)))"
    using assms parse_fmt_date [of "civil (tx_Date t)"]
    by (simp add: parseDate_def Format_date_def TrimSpace_printable printable_date dateLayouts_def portable_def)
  moreover have "normalizeAmount (tx_Amount t) = Some (tx_Amount t)"
    using assms normalizeAmount_money by (auto simp: portable_def)
  moreover have "tx_Currency t \<noteq> []" using assms by (auto simp: portable_def upper_code_def)
  ultimately show ?thesis
    using assms by (simp add: parse_row_def export_row_def row_field_def normalizeType_type upper_code_kept reread_def
        portable_def)
qed

lemma printable_no_cr: "printable s \<Longrightarrow> CHR 0x0D \<notin> set s"
  by (auto simp: printable_def)

lemma export_rows_ok:
  assumes "\<forall>t \<in> set txs. portable cats t" shows "csv_rows_ok (csvHeader # map (export_row cats) txs)"
proof -
  have "CHR 0x0D \<notin> set f" if "t \<in> set txs" "f \<in> set (export_row cats t)" for t f
    using that assms printable_no_cr [OF printable_date [of "civil (tx_Date t)"]] printable_no_cr [OF printable_money]
      printable_no_cr [OF upper_code_printable]
    by (auto simp: export_row_def portable_def Format_date_def transaction_type_ok_def)
  then show ?thesis by (auto simp: csv_rows_ok_def csvHeader_def export_row_def)
qed

text \<open>
  C36. An exported file read back: \<open>Import\<close> finds the header \<open>Export\<close> wrote and then one row per
  transaction, which it reads as the same type, day, amount, currency, category and note -- for
  whatever the notes and names hold but carriage returns. The time of day is lost.
\<close>

theorem export_reads_back:
  assumes "result (transaction_List (re_pgnum env) userID from to) d = Inr txs"
    and "result (category_List (re_name_le env) userID) (exec (transaction_List (re_pgnum env) userID from to) d) = Inr cats"
    and "\<forall>t \<in> set txs. portable cats t"
  shows "\<exists>data rows. result (Export env userID from to) d = Inr data \<and> csv_ReadAll data = Inr (csvHeader # rows) \<and>
    looksLikeHeader env csvHeader \<and> map (parse_row env cur) rows = map (\<lambda>t. Inr (reread cats t)) txs"
proof (intro exI conjI)
  show "result (Export env userID from to) d = Inr (write_records (csvHeader # map (export_row cats) txs))"
    using assms(1,2) by (simp add: Export_def split_beta)
  show "csv_ReadAll (write_records (csvHeader # map (export_row cats) txs)) = Inr (csvHeader # map (export_row cats) txs)"
    using assms(3) by (intro csv_read_write export_rows_ok)
  show "map (parse_row env cur) (map (export_row cats) txs) = map (\<lambda>t. Inr (reread cats t)) txs"
    using assms(3) row_roundtrip by simp
qed (rule header_found)

definition sample_reports :: reports_env where
  "sample_reports =
     \<lparr>re_name_le = (\<lambda>_ _. True), re_pgnum = sample_pgnum\<lparr>pn_Value := (\<lambda>n. Some ''1.00'')\<rparr>,
      re_translator = (\<lambda>_ _ s _. Inr s), re_lower = id, re_upper = id,
      re_errors = \<lparr>el_other = (\<lambda>_. ''error''), el_isprint = (\<lambda>_. True)\<rparr>\<rparr>"

lemma sample_lists:
  defines "pg \<equiv> re_pgnum sample_reports"
  shows "run_state (transaction_List pg 1 0 0) ledger_db =
      (Inr [transactionFromRow pg (entry 41 1 (Some 30) (time_of_unix 1700000000)), transactionFromRow pg (entry 40 1 (Some 31) 0)],
       ledger_db)"
    and "result (category_List (re_name_le sample_reports) 1) ledger_db = Inr [categoryFromRow food, categoryFromRow pets]"
  by (simp_all add: transaction_List_def TransactionRepo_ListForUser_def TransactionListForUser_def NullTimeFromGo_def
      category_List_def CategoryRepo_ListForUser_def CategoryListForUser_def category_before_def)
    (simp_all add: ledger_samples sample_reports_def time_of_unix_def unix_epoch_def durations sort_by_def category_before_def)

lemma sample_portable:
  "portable [categoryFromRow food, categoryFromRow pets]
     (transactionFromRow (re_pgnum sample_reports) (entry 41 1 (Some 30) (time_of_unix 1700000000)))"
  "portable [categoryFromRow food, categoryFromRow pets]
     (transactionFromRow (re_pgnum sample_reports) (entry 40 1 (Some 31) 0))"
proof -
  have "''1.00'' = money 100" "d_year (civil (time_of_unix 1700000000)) = 2023" "d_year (civil 0) = 1" by code_simp+
  then show "portable [categoryFromRow food, categoryFromRow pets]
     (transactionFromRow (re_pgnum sample_reports) (entry 41 1 (Some 30) (time_of_unix 1700000000)))"
    "portable [categoryFromRow food, categoryFromRow pets]
     (transactionFromRow (re_pgnum sample_reports) (entry 40 1 (Some 31) 0))"
    by (auto simp: portable_def transactionFromRow_def entry_def transaction_type_ok_def upper_code_def category_name_def
        categoryFromRow_def food_def pets_def NumericToString_def sample_reports_def intro: exI [of _ "100 :: nat"])
qed

theorem export_reads_back_witness:
  "\<exists>data a b. result (Export sample_reports 1 0 0) ledger_db = Inr data \<and> csv_ReadAll data = Inr [csvHeader, a, b] \<and>
    (\<exists>q. parse_row sample_reports ''UAH'' a = Inr q \<and> ir_Amount q = ''1.00'')"
proof -
  let ?pg = "re_pgnum sample_reports"
  let ?a = "transactionFromRow ?pg (entry 41 1 (Some 30) (time_of_unix 1700000000))"
  let ?b = "transactionFromRow ?pg (entry 40 1 (Some 31) 0)"
  let ?cats = "[categoryFromRow food, categoryFromRow pets]"
  have "\<exists>data rows. result (Export sample_reports 1 0 0) ledger_db = Inr data \<and> csv_ReadAll data = Inr (csvHeader # rows) \<and>
      looksLikeHeader sample_reports csvHeader \<and>
      map (parse_row sample_reports ''UAH'') rows = map (\<lambda>t. Inr (reread ?cats t)) [?a, ?b]"
    by (rule export_reads_back) (simp_all add: sample_lists sample_portable)
  then show ?thesis
    by (auto simp: reread_def transactionFromRow_def NumericToString_def sample_reports_def map_eq_Cons_conv)
qed

end
