(* ===== verification/Rest_Billing.thy ===== *)
theory Rest_Billing
  imports Rest_Auth Admin
begin

text \<open>
  The handlers of \<open>internal/rest/billing.go\<close> and of \<open>internal/rest/admin.go\<close>. Logging is
  not modelled.
\<close>

section \<open>Billing\<close>

record billingHandler =
  bh_env :: billing_env
  bh_service :: Billing
  bh_errors :: err_lib

definition checkoutToJSON :: "Checkout \<Rightarrow> jval" where
  "checkoutToJSON c =
     VStruct [(''url'', VStr (co_URL c)), (''data'', VStr (co_Data c)), (''signature'', VStr (co_Signature c))]"

definition checkout_answer :: "billingHandler \<Rightarrow> Checkout dbop \<Rightarrow> (db, response) state" where
  "checkout_answer h m = do {
     res \<leftarrow> m;
     case res of
       Inl e \<Rightarrow> ret (writeError 400 (Error (bh_errors h) e))
     | Inr c \<Rightarrow> ret (writeJSON 200 (checkoutToJSON c)) }"

definition billing_startTrial :: "billingHandler \<Rightarrow> draws \<Rightarrow> uuid \<Rightarrow> request \<Rightarrow> (db, response) state" where
  "billing_startTrial h w userID r =
     checkout_answer h (StartTrial (bh_env h) (bh_service h) (dw_now w 0) (dw_now w 1) userID)"

definition billing_subscribe :: "billingHandler \<Rightarrow> draws \<Rightarrow> uuid \<Rightarrow> request \<Rightarrow> (db, response) state" where
  "billing_subscribe h w userID r =
     (case decode_string1 ''plan'' r of
        Inl _ \<Rightarrow> ret bad_body
      | Inr planName \<Rightarrow>
          checkout_answer h (Subscribe (bh_env h) (bh_service h) (dw_now w 0) (dw_now w 1) userID planName))"

definition receiptToJSON :: "PaymentEvent \<Rightarrow> jval" where
  "receiptToJSON e = VStruct
     [(''orderId'', VStr (pe_OrderID e)), (''plan'', VStr (pe_Plan e)), (''status'', VStr (pe_Status e)),
      (''amount'', VFloat (pe_Amount e)), (''currency'', VStr (pe_Currency e)),
      (''errorDescription'', VStr (pe_ErrorDescription e)), (''createdAt'', VStr (Format_rfc3339 (pe_CreatedAt e)))]"

definition billing_receipts :: "billingHandler \<Rightarrow> uuid \<Rightarrow> request \<Rightarrow> (db, response) state" where
  "billing_receipts h userID r = do {
     res \<leftarrow> Receipts (bh_env h) userID;
     case res of
       Inl _ \<Rightarrow> ret (writeError 500 ''failed to load receipts'')
     | Inr es \<Rightarrow> ret (writeJSON 200 (VArr (map receiptToJSON es))) }"

definition billing_cancel :: "billingHandler \<Rightarrow> uuid \<Rightarrow> request \<Rightarrow> (db, response) state" where
  "billing_cancel h userID r = do {
     res \<leftarrow> Cancel (bh_env h) (bh_service h) userID;
     case res of
       Inl e \<Rightarrow> ret (writeError 400 (Error (bh_errors h) e))
     | Inr _ \<Rightarrow> ret status_ok }"

section \<open>Administration\<close>

definition adminTokenDuration :: duration where "adminTokenDuration = 12 * time_Hour"

record adminHandler =
  dh_env :: billing_env
  dh_service :: Billing
  dh_lib :: jwt_lib
  dh_ilike :: "string \<Rightarrow> string \<Rightarrow> bool"
  dh_adminPassword :: string
  dh_jwtSecret :: string
  dh_errors :: err_lib

definition admin_login :: "adminHandler \<Rightarrow> draws \<Rightarrow> request \<Rightarrow> (db, response) state" where
  "admin_login h w r =
     ret (if dh_adminPassword h = [] then writeError 503 ''admin login is not configured''
          else (case decode_string1 ''password'' r of
                  Inl _ \<Rightarrow> bad_body
                | Inr password \<Rightarrow>
                    if password \<noteq> dh_adminPassword h then writeError 401 ''incorrect password''
                    else (case admin_Generate (dh_lib h) (dh_jwtSecret h) adminTokenDuration (dw_now w 0) (dw_now w 1) of
                            Inl _ \<Rightarrow> writeError 500 ''failed to issue admin token''
                          | Inr token \<Rightarrow> writeJSON 200 (VMap [(''token'', VStr token)]))))"

definition userToAdminJSON :: "(uuid \<Rightarrow> string) \<Rightarrow> User \<Rightarrow> jval" where
  "userToAdminJSON str u = VStruct
     ([(''id'', VStr (str (u_ID u))), (''email'', VStr (u_Email u)), (''plan'', VStr (u_Plan u)),
       (''subscriptionStatus'', VStr (u_SubscriptionStatus u))] @
      omit_empty ''trialEndsAt'' (formatOptionalTime (u_TrialEndsAt u)) @
      [(''baseCurrency'', VStr (u_BaseCurrency u)), (''createdAt'', VStr (Format_rfc3339 (u_CreatedAt u)))])"

abbreviation dh_user :: "adminHandler \<Rightarrow> User \<Rightarrow> jval" where
  "dh_user h \<equiv> userToAdminJSON (jl_uuid_String (dh_lib h))"

text \<open>The limit is 50 unless one in 1..200 is given, the offset 0 unless one is given.\<close>

definition parsePagination :: "request \<Rightarrow> int \<times> int" where
  "parsePagination r =
     (case Atoi (query_Get r ''limit'') of Some v \<Rightarrow> if v > 0 \<and> v \<le> 200 then v else 50 | None \<Rightarrow> 50,
      case Atoi (query_Get r ''offset'') of Some v \<Rightarrow> if v \<ge> 0 then v else 0 | None \<Rightarrow> 0)"

definition admin_listUsers :: "adminHandler \<Rightarrow> request \<Rightarrow> (db, response) state" where
  "admin_listUsers h r =
     (case parsePagination r of
        (limit, offset) \<Rightarrow> do {
          res \<leftarrow> ListUsers (dh_ilike h) (query_Get r ''q'') (query_Get r ''plan'') limit offset;
          case res of
            Inl _ \<Rightarrow> ret (writeError 500 ''failed to list users'')
          | Inr l \<Rightarrow>
              ret (writeJSON 200 (VMap [(''users'', VArr (map (dh_user h) (ul_Users l))), (''total'', VInt (ul_Total l))])) })"

definition admin_getUser :: "adminHandler \<Rightarrow> request \<Rightarrow> (db, response) state" where
  "admin_getUser h r =
     (case jl_uuid_Parse (dh_lib h) (PathValue r) of
        Inl _ \<Rightarrow> ret (writeError 400 ''invalid user id'')
      | Inr i \<Rightarrow> do {
          res \<leftarrow> GetUser i;
          case res of
            Inl _ \<Rightarrow> ret (writeError 404 ''user not found'')
          | Inr d \<Rightarrow>
              ret (writeJSON 200 (VMap [(''user'', dh_user h (ud_User d)),
                                        (''transactionCount'', VInt (ud_TransactionCount d))])) })"

definition admin_setPlan :: "adminHandler \<Rightarrow> request \<Rightarrow> (db, response) state" where
  "admin_setPlan h r =
     (case jl_uuid_Parse (dh_lib h) (PathValue r) of
        Inl _ \<Rightarrow> ret (writeError 400 ''invalid user id'')
      | Inr i \<Rightarrow>
          (case decode_string1 ''plan'' r of
             Inl _ \<Rightarrow> ret bad_body
           | Inr planName \<Rightarrow> do {
               res \<leftarrow> SetPlan i planName;
               case res of
                 Inl e \<Rightarrow> ret (writeError 400 (Error (dh_errors h) e))
               | Inr u \<Rightarrow> ret (writeJSON 200 (VMap [(''user'', dh_user h u)])) }))"

definition decode_days :: "request \<Rightarrow> int res" where
  "decode_days r = Decode (decode_fields [(''days'', set_int (\<lambda>i _. i))]) 0 (rq_body r)"

definition admin_extendTrial :: "adminHandler \<Rightarrow> draws \<Rightarrow> request \<Rightarrow> (db, response) state" where
  "admin_extendTrial h w r =
     (case jl_uuid_Parse (dh_lib h) (PathValue r) of
        Inl _ \<Rightarrow> ret (writeError 400 ''invalid user id'')
      | Inr i \<Rightarrow>
          (case decode_days r of
             Inl _ \<Rightarrow> ret bad_body
           | Inr days \<Rightarrow> do {
               res \<leftarrow> ExtendTrial (dw_now w 0) (dw_now w 1) i days;
               case res of
                 Inl e \<Rightarrow> ret (writeError 400 (Error (dh_errors h) e))
               | Inr u \<Rightarrow> ret (writeJSON 200 (VMap [(''user'', dh_user h u)])) }))"

definition admin_cancelSubscription :: "adminHandler \<Rightarrow> request \<Rightarrow> (db, response) state" where
  "admin_cancelSubscription h r =
     (case jl_uuid_Parse (dh_lib h) (PathValue r) of
        Inl _ \<Rightarrow> ret (writeError 400 ''invalid user id'')
      | Inr i \<Rightarrow> do {
          res \<leftarrow> CancelSubscription (dh_env h) (dh_service h) i;
          case res of
            Inl e \<Rightarrow> ret (writeError 400 (Error (dh_errors h) e))
          | Inr _ \<Rightarrow> ret status_ok })"

definition admin_stats :: "adminHandler \<Rightarrow> request \<Rightarrow> (db, response) state" where
  "admin_stats h r = do {
     res \<leftarrow> admin_Stats;
     case res of
       Inl _ \<Rightarrow> ret (writeError 500 ''failed to load stats'')
     | Inr s \<Rightarrow>
         ret (writeJSON 200 (VMap
           [(''totalUsers'', VInt (st_TotalUsers s)), (''byPlan'', VMap (map (apsnd VInt) (st_ByPlan s))),
            (''activeMRR'', VFloat (st_ActiveMRR s)), (''trialCount'', VInt (st_TrialCount s)),
            (''signupsByDay'',
               VArr (map (\<lambda>d. VStruct [(''day'', VStr (Format_date (ds_Day d))), (''signups'', VInt (ds_Signups d))])
                       (st_SignupsByDay s)))])) }"

lemmas rest_billing_defs =
  checkout_answer_def billing_startTrial_def billing_subscribe_def billing_receipts_def billing_cancel_def
lemmas rest_admin_defs =
  admin_login_def admin_listUsers_def admin_getUser_def admin_setPlan_def admin_extendTrial_def
  admin_cancelSubscription_def admin_stats_def

end
