(* ===== verification/Rest_Ledger.thy ===== *)
theory Rest_Ledger
  imports Rest_Auth Ledger
begin

text \<open>
  The handlers of \<open>internal/rest/category.go\<close> and \<open>internal/rest/transaction.go\<close>, and the
  JSON of categories and transactions (\<open>internal/rest/models.go\<close>). The identifiers' text and
  its reading are the token library's \<open>jl_uuid_String\<close> and \<open>jl_uuid_Parse\<close>.
\<close>

record ledgerHandler =
  lh_lib :: jwt_lib
  lh_name_le :: "string \<Rightarrow> string \<Rightarrow> bool"
  lh_pgnum :: pgnum
  lh_translator :: translator
  lh_errors :: err_lib

section \<open>Categories\<close>

definition categoryToJSON :: "(uuid \<Rightarrow> string) \<Rightarrow> Category \<Rightarrow> jval" where
  "categoryToJSON str c = VStruct
     ([(''id'', VStr (str (ca_ID c))), (''name'', VStr (ca_Name c))] @
      omit_empty ''nameUk'' (ca_NameUK c) @ omit_empty ''nameEn'' (ca_NameEN c) @
      [(''iconName'', VStr (ca_IconName c)), (''colorHex'', VStr (ca_ColorHex c)), (''type'', VStr (ca_Type c)),
       (''isDefault'', VBool (ca_IsDefault c))])"

record createCategoryRequest =
  qc_Name :: string
  qc_IconName :: string
  qc_ColorHex :: string
  qc_Type :: string

definition createCategory_fields :: "(string \<times> createCategoryRequest setter) list" where
  "createCategory_fields =
     [(''name'', set_string (\<lambda>t s. s\<lparr>qc_Name := t\<rparr>)), (''iconName'', set_string (\<lambda>t s. s\<lparr>qc_IconName := t\<rparr>)),
      (''colorHex'', set_string (\<lambda>t s. s\<lparr>qc_ColorHex := t\<rparr>)), (''type'', set_string (\<lambda>t s. s\<lparr>qc_Type := t\<rparr>))]"

definition createCategory0 :: createCategoryRequest where
  "createCategory0 = \<lparr>qc_Name = [], qc_IconName = [], qc_ColorHex = [], qc_Type = []\<rparr>"

definition categories_list :: "ledgerHandler \<Rightarrow> uuid \<Rightarrow> request \<Rightarrow> (db, response) state" where
  "categories_list h userID r = do {
     res \<leftarrow> category_List (lh_name_le h) userID;
     case res of
       Inl _ \<Rightarrow> ret (writeError 500 ''failed to list categories'')
     | Inr cs \<Rightarrow> ret (writeJSON 200 (VArr (map (categoryToJSON (jl_uuid_String (lh_lib h))) cs))) }"

definition categories_create :: "ledgerHandler \<Rightarrow> uuid \<Rightarrow> request \<Rightarrow> (db, response) state" where
  "categories_create h userID r =
     (case Decode (decode_fields createCategory_fields) createCategory0 (rq_body r) of
        Inl _ \<Rightarrow> ret bad_body
      | Inr q \<Rightarrow> do {
          res \<leftarrow> category_Create (lh_translator h) userID (qc_Name q) (qc_IconName q) (qc_ColorHex q) (qc_Type q);
          case res of
            Inl e \<Rightarrow> ret (writeError 400 (Error (lh_errors h) e))
          | Inr c \<Rightarrow> ret (writeJSON 201 (categoryToJSON (jl_uuid_String (lh_lib h)) c)) })"

definition categories_delete :: "ledgerHandler \<Rightarrow> uuid \<Rightarrow> request \<Rightarrow> (db, response) state" where
  "categories_delete h userID r =
     (case jl_uuid_Parse (lh_lib h) (PathValue r) of
        Inl _ \<Rightarrow> ret (writeError 400 ''invalid category id'')
      | Inr categoryID \<Rightarrow> do {
          res \<leftarrow> category_Delete userID categoryID;
          case res of
            Inl e \<Rightarrow> ret (writeError 404 (Error (lh_errors h) e))
          | Inr _ \<Rightarrow> ret (status_only 204) })"

section \<open>Transactions\<close>

definition nil_uuid_text :: string where
  "nil_uuid_text = ''00000000-0000-0000-0000-000000000000''"

definition transactionToJSON :: "(uuid \<Rightarrow> string) \<Rightarrow> Transaction \<Rightarrow> jval" where
  "transactionToJSON str t =
     (let categoryID = (if str (tx_CategoryID t) \<noteq> nil_uuid_text then str (tx_CategoryID t) else []) in
      VStruct
        ([(''id'', VStr (str (tx_ID t))), (''amount'', VStr (tx_Amount t)), (''currency'', VStr (tx_Currency t)),
          (''type'', VStr (tx_Type t)), (''date'', VStr (Format_rfc3339 (tx_Date t))), (''note'', VStr (tx_Note t)),
          (''categoryId'', VStr categoryID)] @
         omit_false ''isInternalTransfer'' (tx_IsInternalTransfer t)))"

record createTransactionRequest =
  qt_CategoryID :: string
  qt_Amount :: string
  qt_Currency :: string
  qt_Type :: string
  qt_Date :: string
  qt_Note :: string
  qt_IsInternalTransfer :: bool

definition createTransaction_fields :: "(string \<times> createTransactionRequest setter) list" where
  "createTransaction_fields =
     [(''categoryId'', set_string (\<lambda>t s. s\<lparr>qt_CategoryID := t\<rparr>)), (''amount'', set_string (\<lambda>t s. s\<lparr>qt_Amount := t\<rparr>)),
      (''currency'', set_string (\<lambda>t s. s\<lparr>qt_Currency := t\<rparr>)), (''type'', set_string (\<lambda>t s. s\<lparr>qt_Type := t\<rparr>)),
      (''date'', set_string (\<lambda>t s. s\<lparr>qt_Date := t\<rparr>)), (''note'', set_string (\<lambda>t s. s\<lparr>qt_Note := t\<rparr>)),
      (''isInternalTransfer'', set_bool (\<lambda>b s. s\<lparr>qt_IsInternalTransfer := b\<rparr>))]"

definition createTransaction0 :: createTransactionRequest where
  "createTransaction0 =
     \<lparr>qt_CategoryID = [], qt_Amount = [], qt_Currency = [], qt_Type = [], qt_Date = [], qt_Note = [],
      qt_IsInternalTransfer = False\<rparr>"

definition parseOptionalTime :: "string \<Rightarrow> gotime option" where
  "parseOptionalTime s = (if s = [] then Some 0 else Parse_rfc3339 s)"

text \<open>The category of a request: none when it is empty, else its identifier.\<close>

definition request_category :: "jwt_lib \<Rightarrow> createTransactionRequest \<Rightarrow> uuid res" where
  "request_category lib q =
     (if qt_CategoryID q \<noteq> [] then jl_uuid_Parse lib (qt_CategoryID q) else Inr uuid_Nil)"

definition transactions_list :: "ledgerHandler \<Rightarrow> uuid \<Rightarrow> request \<Rightarrow> (db, response) state" where
  "transactions_list h userID r =
     (case parseOptionalTime (query_Get r ''from'') of
        None \<Rightarrow> ret (writeError 400 ''invalid from'')
      | Some from \<Rightarrow>
          (case parseOptionalTime (query_Get r ''to'') of
             None \<Rightarrow> ret (writeError 400 ''invalid to'')
           | Some to \<Rightarrow> do {
               res \<leftarrow> transaction_List (lh_pgnum h) userID from to;
               case res of
                 Inl _ \<Rightarrow> ret (writeError 500 ''failed to list transactions'')
               | Inr ts \<Rightarrow> ret (writeJSON 200 (VArr (map (transactionToJSON (jl_uuid_String (lh_lib h))) ts))) }))"

definition transactions_create :: "ledgerHandler \<Rightarrow> uuid \<Rightarrow> request \<Rightarrow> (db, response) state" where
  "transactions_create h userID r =
     (case Decode (decode_fields createTransaction_fields) createTransaction0 (rq_body r) of
        Inl _ \<Rightarrow> ret bad_body
      | Inr q \<Rightarrow>
          (case Parse_rfc3339 (qt_Date q) of
             None \<Rightarrow> ret (writeError 400 ''invalid date'')
           | Some date \<Rightarrow>
               (case request_category (lh_lib h) q of
                  Inl _ \<Rightarrow> ret (writeError 400 ''invalid categoryId'')
                | Inr categoryID \<Rightarrow> do {
                    res \<leftarrow> transaction_Create (lh_pgnum h)
                      \<lparr>ct_UserID = userID, ct_CategoryID = categoryID, ct_Amount = qt_Amount q,
                       ct_Currency = qt_Currency q, ct_Type = qt_Type q, ct_Date = date, ct_Note = qt_Note q\<rparr>;
                    case res of
                      Inl e \<Rightarrow> ret (writeError 400 (Error (lh_errors h) e))
                    | Inr t \<Rightarrow> ret (writeJSON 201 (transactionToJSON (jl_uuid_String (lh_lib h)) t)) })))"

definition transactions_update :: "ledgerHandler \<Rightarrow> uuid \<Rightarrow> request \<Rightarrow> (db, response) state" where
  "transactions_update h userID r =
     (case jl_uuid_Parse (lh_lib h) (PathValue r) of
        Inl _ \<Rightarrow> ret (writeError 400 ''invalid transaction id'')
      | Inr transactionID \<Rightarrow>
          (case Decode (decode_fields createTransaction_fields) createTransaction0 (rq_body r) of
             Inl _ \<Rightarrow> ret bad_body
           | Inr q \<Rightarrow>
               (case Parse_rfc3339 (qt_Date q) of
                  None \<Rightarrow> ret (writeError 400 ''invalid date'')
                | Some date \<Rightarrow>
                    (case request_category (lh_lib h) q of
                       Inl _ \<Rightarrow> ret (writeError 400 ''invalid categoryId'')
                     | Inr categoryID \<Rightarrow> do {
                         res \<leftarrow> transaction_Update (lh_pgnum h)
                           \<lparr>ut_ID = transactionID, ut_UserID = userID, ut_CategoryID = categoryID,
                            ut_Amount = qt_Amount q, ut_Currency = qt_Currency q, ut_Type = qt_Type q,
                            ut_Date = date, ut_Note = qt_Note q, ut_IsInternalTransfer = qt_IsInternalTransfer q\<rparr>;
                         case res of
                           Inl e \<Rightarrow> ret (writeError 404 (Error (lh_errors h) e))
                         | Inr t \<Rightarrow> ret (writeJSON 200 (transactionToJSON (jl_uuid_String (lh_lib h)) t)) }))))"

definition transactions_delete :: "ledgerHandler \<Rightarrow> uuid \<Rightarrow> request \<Rightarrow> (db, response) state" where
  "transactions_delete h userID r =
     (case jl_uuid_Parse (lh_lib h) (PathValue r) of
        Inl _ \<Rightarrow> ret (writeError 400 ''invalid transaction id'')
      | Inr transactionID \<Rightarrow> do {
          res \<leftarrow> transaction_Delete userID transactionID;
          case res of
            Inl e \<Rightarrow> ret (writeError 404 (Error (lh_errors h) e))
          | Inr _ \<Rightarrow> ret (status_only 204) })"

lemmas rest_ledger_defs =
  categories_list_def categories_create_def categories_delete_def transactions_list_def transactions_create_def
  transactions_update_def transactions_delete_def

end
