(* ===== verification/Rest_Monobank.thy ===== *)
theory Rest_Monobank
  imports Rest_Auth Monobank_Import
begin

text \<open>
  The handlers of \<open>internal/rest/monobank.go\<close>. Connecting and importing need the plan to
  allow it; the status and the disconnection do not. The random bytes of a request are its
  webhook secret (the first) and the nonce of the token's encryption (the second).
\<close>

record monobankHandler =
  nh_env :: mono_env
  nh_service :: MonobankService
  nh_errors :: err_lib

definition slice_fields ::
  "(string \<times> string slice \<times> string slice \<times> string slice \<times> string slice) setter \<Rightarrow>
   (string \<times> (string \<times> string slice \<times> string slice \<times> string slice \<times> string slice) setter) list" where
  "slice_fields token =
     [(''personalToken'', token),
      (''accountIds'', set_strings (\<lambda>(t, a, b, c, e). a) (\<lambda>x (t, a, b, c, e). (t, x, b, c, e))),
      (''maskedPans'', set_strings (\<lambda>(t, a, b, c, e). b) (\<lambda>x (t, a, b, c, e). (t, a, x, c, e))),
      (''accountTypes'', set_strings (\<lambda>(t, a, b, c, e). c) (\<lambda>x (t, a, b, c, e). (t, a, b, x, e))),
      (''accountCurrencies'', set_strings (\<lambda>(t, a, b, c, e). e) (\<lambda>x (t, a, b, c, e). (t, a, b, c, x)))]"

text \<open>\<open>connectMonobankRequest\<close>, and \<open>updateAccountsMonobankRequest\<close>, which has no token.\<close>

definition decode_connect ::
  "request \<Rightarrow> (string \<times> string slice \<times> string slice \<times> string slice \<times> string slice) res" where
  "decode_connect r =
     Decode (decode_fields (slice_fields (set_string (\<lambda>t. apfst (\<lambda>_. t))))) ([], None, None, None, None) (rq_body r)"

definition decode_accounts ::
  "request \<Rightarrow> (string \<times> string slice \<times> string slice \<times> string slice \<times> string slice) res" where
  "decode_accounts r =
     Decode (decode_fields (tl (slice_fields (\<lambda>_ s. (s, False))))) ([], None, None, None, None) (rq_body r)"

definition accountToJSON :: "AccountOption \<Rightarrow> jval" where
  "accountToJSON a = VStruct
     ([(''id'', VStr (ao_ID a)), (''maskedPan'', VStr (ao_MaskedPan a)), (''currency'', VStr (ao_Currency a)),
       (''type'', VStr (ao_Type a))] @ omit_false ''selected'' (ao_Selected a))"

text \<open>The pans of an account that is not connected are a nil slice.\<close>

definition statusToJSON :: "MonobankStatus \<Rightarrow> jval" where
  "statusToJSON s = VStruct
     ([(''isConnected'', VBool (mt_IsConnected s)),
       (''maskedPans'', slice_jval VStr (if mt_IsConnected s then Some (mt_MaskedPans s) else None))] @
      omit_empty ''connectedAt'' (formatOptionalTime (mt_ConnectedAt s)) @
      omit_empty ''lastSyncedAt'' (formatOptionalTime (mt_LastSyncedAt s)))"

text \<open>The account is looked up and its plan checked before anything else.\<close>

definition max_plan_only :: "uuid \<Rightarrow> (db, response) state \<Rightarrow> (db, response) state" where
  "max_plan_only userID m = do {
     res \<leftarrow> Me userID;
     case res of
       Inl _ \<Rightarrow> ret (writeError 401 ''not signed in'')
     | Inr user \<Rightarrow>
         if \<not> AllowsMonobank (u_Plan user)
         then ret (writeError 403 ''Monobank sync is available on the Max plan'') else m }"

definition monobank_accounts :: "monobankHandler \<Rightarrow> uuid \<Rightarrow> request \<Rightarrow> (db, response) state" where
  "monobank_accounts h userID r = max_plan_only userID
     (ret (case decode_string1 ''personalToken'' r of
             Inl _ \<Rightarrow> bad_body
           | Inr personalToken \<Rightarrow>
               (case ListAccounts (me_net (nh_env h)) personalToken of
                  Inl e \<Rightarrow> writeError 400 (Error (nh_errors h) e)
                | Inr options \<Rightarrow> writeJSON 200 (VArr (map accountToJSON options)))))"

definition monobank_connect :: "monobankHandler \<Rightarrow> draws \<Rightarrow> uuid \<Rightarrow> request \<Rightarrow> (db, response) state" where
  "monobank_connect h w userID r = max_plan_only userID
     (case decode_connect r of
        Inl _ \<Rightarrow> ret bad_body
      | Inr (personalToken, ids, pans, types, currencies) \<Rightarrow> do {
          res \<leftarrow> Connect (nh_env h) (nh_service h) (dw_rand w 0) (dw_rand w 1) userID personalToken ids pans types currencies;
          case res of
            Inl e \<Rightarrow> ret (writeError 400 (Error (nh_errors h) e))
          | Inr s \<Rightarrow> ret (writeJSON 200 (statusToJSON s)) })"

definition monobank_myAccounts :: "monobankHandler \<Rightarrow> uuid \<Rightarrow> request \<Rightarrow> (db, response) state" where
  "monobank_myAccounts h userID r = max_plan_only userID
     (do { res \<leftarrow> ListMyAccounts (nh_env h) (nh_service h) userID;
           case res of
             Inl e \<Rightarrow> ret (writeError 400 (Error (nh_errors h) e))
           | Inr options \<Rightarrow> ret (writeJSON 200 (VArr (map accountToJSON options))) })"

definition monobank_updateAccounts :: "monobankHandler \<Rightarrow> uuid \<Rightarrow> request \<Rightarrow> (db, response) state" where
  "monobank_updateAccounts h userID r = max_plan_only userID
     (case decode_accounts r of
        Inl _ \<Rightarrow> ret bad_body
      | Inr (_, ids, pans, types, currencies) \<Rightarrow> do {
          res \<leftarrow> UpdateAccounts userID ids pans types currencies;
          case res of
            Inl e \<Rightarrow> ret (writeError 400 (Error (nh_errors h) e))
          | Inr s \<Rightarrow> ret (writeJSON 200 (statusToJSON s)) })"

definition monobank_sync :: "monobankHandler \<Rightarrow> draws \<Rightarrow> uuid \<Rightarrow> request \<Rightarrow> (db, response) state" where
  "monobank_sync h w userID r = max_plan_only userID
     (do { (n, err) \<leftarrow> SyncNow (nh_env h) (nh_service h) (dw_now w 0) userID;
           case err of
             Some e \<Rightarrow> ret (writeError 400 (Error (nh_errors h) e))
           | None \<Rightarrow> ret (writeJSON 200 (VMap [(''imported'', VInt n)])) })"

definition monobank_status :: "monobankHandler \<Rightarrow> uuid \<Rightarrow> request \<Rightarrow> (db, response) state" where
  "monobank_status h userID r = do {
     res \<leftarrow> Status userID;
     case res of
       Inl _ \<Rightarrow> ret (writeError 500 ''failed to get monobank status'')
     | Inr s \<Rightarrow> ret (writeJSON 200 (statusToJSON s)) }"

definition monobank_disconnect :: "uuid \<Rightarrow> request \<Rightarrow> (db, response) state" where
  "monobank_disconnect userID r = do {
     res \<leftarrow> Disconnect userID;
     case res of
       Inl _ \<Rightarrow> ret (writeError 500 ''failed to disconnect'')
     | Inr _ \<Rightarrow> ret (status_only 204) }"

lemmas rest_monobank_defs =
  max_plan_only_def monobank_accounts_def monobank_connect_def monobank_myAccounts_def
  monobank_updateAccounts_def monobank_sync_def monobank_status_def monobank_disconnect_def

end
