(* ===== verification/Rates.thy ===== *)
theory Rates
  imports Go_Server Db
begin

text \<open>
  Exchange rates: the repository over Redis (\<open>internal/repository/rate.go\<close>), its service
  (\<open>internal/service/rate/rate.go\<close>), the job that fetches the National Bank's rates
  (\<open>internal/ratesync/ratesync.go\<close>), and the handlers of \<open>internal/rest/rate.go\<close>. The
  ticker around the job is in \<open>Process\<close>.
\<close>

section \<open>Redis\<close>

text \<open>
  What the program keeps in Redis: one hash, and string keys with an optional expiry. A command
  may fail; the failures still to come are listed like the database's.
\<close>

record redis =
  rd_faults :: "string option list"
  rd_clock :: gotime
  rd_hash :: "(string \<times> string) list"
  rd_keys :: "(string \<times> string \<times> gotime option) list"

type_synonym 'a redisop = "(redis, 'a res) state"

definition redis_cmd :: "(redis \<Rightarrow> 'a res \<times> redis) \<Rightarrow> 'a redisop" where
  "redis_cmd f = State (\<lambda>d.
     (case rd_faults d of
        [] \<Rightarrow> f d
      | None # fs \<Rightarrow> f (d\<lparr>rd_faults := fs\<rparr>)
      | Some m # fs \<Rightarrow> (Inl (Foreign m), d\<lparr>rd_faults := fs\<rparr>)))"

definition HGetAll :: "(string \<times> string) list redisop" where
  "HGetAll = redis_cmd (\<lambda>d. (Inr (rd_hash d), d))"

definition HSet :: "string \<Rightarrow> string \<Rightarrow> unit redisop" where
  "HSet field blob = redis_cmd (\<lambda>d. (Inr (), d\<lparr>rd_hash := map_put field blob (rd_hash d)\<rparr>))"

definition redis_Nil :: goerr where "redis_Nil = Foreign ''redis: nil''"

definition live :: "gotime \<Rightarrow> gotime option \<Rightarrow> bool" where
  "live now expiry \<longleftrightarrow> (case expiry of None \<Rightarrow> True | Some t \<Rightarrow> now < t)"

definition redis_Get :: "string \<Rightarrow> string redisop" where
  "redis_Get key = redis_cmd (\<lambda>d.
     (case map_of (rd_keys d) key of
        Some (v, expiry) \<Rightarrow> if live (rd_clock d) expiry then Inr v else Inl redis_Nil
      | None \<Rightarrow> Inl redis_Nil, d))"

text \<open>A time to live of 0 is none.\<close>

definition redis_Set :: "string \<Rightarrow> string \<Rightarrow> duration \<Rightarrow> unit redisop" where
  "redis_Set key v ttl = redis_cmd (\<lambda>d.
     (Inr (), d\<lparr>rd_keys := map_put key (v, if ttl = 0 then None else Some (rd_clock d + ttl)) (rd_keys d)\<rparr>))"

section \<open>Instants in JSON\<close>

text \<open>
  \<open>Time.MarshalJSON\<close> writes nanoseconds without their trailing zeros and refuses years beyond
  four digits; \<open>UnmarshalJSON\<close> is stricter than \<open>time.Parse\<close>: two digits for the hour, a
  point before a fraction, an offset below 24 hours and 60 minutes.
\<close>

definition trim_zeros :: "string \<Rightarrow> string" where
  "trim_zeros s = rev (dropWhile (\<lambda>c. c = CHR ''0'') (rev s))"

definition Format_nano :: "gotime \<Rightarrow> string" where
  "Format_nano t =
     (let ns = nat (t mod time_Second) in
      fmt_date (civil t) @ ''T'' @ fmt_clock t @
      (if ns = 0 then [] else CHR ''.'' # trim_zeros (pad0 9 ns)) @ ''Z'')"

definition time_MarshalJSON :: "gotime \<Rightarrow> string option" where
  "time_MarshalJSON t =
     (if 0 \<le> d_year (civil t) \<and> d_year (civil t) \<le> 9999 then Some (json_quote (Format_nano t)) else None)"

definition strict_zone :: "string \<Rightarrow> bool" where
  "strict_zone s \<longleftrightarrow>
     (let n = length s in
      s ! (n - 1) = CHR ''Z'' \<or> (val_dec (take 2 (drop (n - 5) s)) < 24 \<and> val_dec (drop (n - 2) s) < 60))"

definition set_time :: "(gotime \<Rightarrow> 's \<Rightarrow> 's) \<Rightarrow> 's setter" where
  "set_time upd v s =
     (case v of
        JNull \<Rightarrow> (s, False)
      | JString x \<Rightarrow>
          (case Parse_rfc3339 x of
             None \<Rightarrow> (s, True)
           | Some t \<Rightarrow> if x ! 12 \<noteq> CHR '':'' \<and> x ! 19 \<noteq> CHR '','' \<and> strict_zone x then (upd t s, False) else (s, True))
      | _ \<Rightarrow> (s, True))"

section \<open>The repository\<close>

record Rate =
  ra_Currency :: string
  ra_RateToUAH :: float64
  ra_UpdatedAt :: gotime

record rateValue =
  rv_RateToUAH :: float64
  rv_UpdatedAt :: gotime

definition rateValue_fields :: "(string \<times> rateValue setter) list" where
  "rateValue_fields =
     [(''rateToUah'', set_float (\<lambda>f s. s\<lparr>rv_RateToUAH := f\<rparr>)), (''updatedAt'', set_time (\<lambda>t s. s\<lparr>rv_UpdatedAt := t\<rparr>))]"

definition rateValue0 :: rateValue where
  "rateValue0 = \<lparr>rv_RateToUAH = float_of_int 0, rv_UpdatedAt = 0\<rparr>"

text \<open>\<open>json.Unmarshal\<close>: the whole text is one value.\<close>

definition Unmarshal :: "'s setter \<Rightarrow> 's \<Rightarrow> string \<Rightarrow> 's option" where
  "Unmarshal f zero text =
     (case json_whole text of
        None \<Rightarrow> None
      | Some v \<Rightarrow> (case f v zero of (s, bad) \<Rightarrow> if bad then None else Some s))"

text \<open>An entry that does not decode is skipped; the list comes out sorted by currency.\<close>

definition decode_rate :: "string \<times> string \<Rightarrow> Rate option" where
  "decode_rate p =
     (case Unmarshal (decode_fields rateValue_fields) rateValue0 (snd p) of
        None \<Rightarrow> None
      | Some v \<Rightarrow> Some \<lparr>ra_Currency = fst p, ra_RateToUAH = rv_RateToUAH v, ra_UpdatedAt = rv_UpdatedAt v\<rparr>)"

definition RateRepo_List :: "Rate list redisop" where
  "RateRepo_List = do {
     r \<leftarrow> HGetAll;
     case r of
       Inl e \<Rightarrow> ret (Inl (Wrap ''read exchange rates from redis'' [] e))
     | Inr raw \<Rightarrow> ret (Inr (List.map_filter decode_rate (sort_members raw))) }"

definition rate_blob :: "float64 \<Rightarrow> gotime \<Rightarrow> string option" where
  "rate_blob rateToUAH now =
     (case (json_float rateToUAH, time_MarshalJSON now) of
        (Some f, Some t) \<Rightarrow> Some (members_text [(''rateToUah'', f), (''updatedAt'', t)])
      | _ \<Rightarrow> None)"

definition RateRepo_Upsert :: "gotime \<Rightarrow> string \<Rightarrow> float64 \<Rightarrow> unit redisop" where
  "RateRepo_Upsert now currency rateToUAH =
     (case rate_blob rateToUAH now of
        None \<Rightarrow> ret (Inl (Wrap ''marshal rate'' [] (Errorf ''json: unsupported value'' [])))
      | Some blob \<Rightarrow> do {
          r \<leftarrow> HSet currency blob;
          case r of
            Inl e \<Rightarrow> ret (Inl (Wrap ''write exchange rate to redis'' [] e))
          | Inr _ \<Rightarrow> ret (Inr ()) })"

definition supportedCurrencies :: "string list" where
  "supportedCurrencies = [''USD'', ''EUR'', ''GBP'', ''PLN'']"

type_synonym rate_map = "(string \<times> float64) list"

text \<open>A JSON object read into a \<open>map[string]float64\<close>; \<open>null\<close> is the zero of an entry.\<close>

definition set_rate_map :: "rate_map setter" where
  "set_rate_map v m =
     (case v of
        JNull \<Rightarrow> ([], False)
      | JObj ms \<Rightarrow>
          foldl (\<lambda>(m, bad) (k, w).
                   (case set_float (\<lambda>f _. f) w (float_of_int 0) of (f, b) \<Rightarrow> (map_put k f m, bad \<or> b)))
            (m, False) ms
      | _ \<Rightarrow> (m, True))"

definition rate_map_text :: "rate_map \<Rightarrow> string option" where
  "rate_map_text m = jval_text (VMap (map (apsnd VFloat) m))"

record nbuHistoricalRate =
  nh_CC :: string
  nh_RatePerUnit :: float64

definition nbuHistorical_fields :: "(string \<times> nbuHistoricalRate setter) list" where
  "nbuHistorical_fields =
     [(''cc'', set_string (\<lambda>t s. s\<lparr>nh_CC := t\<rparr>)), (''rate_per_unit'', set_float (\<lambda>f s. s\<lparr>nh_RatePerUnit := f\<rparr>))]"

definition nbuHistorical0 :: nbuHistoricalRate where
  "nbuHistorical0 = \<lparr>nh_CC = [], nh_RatePerUnit = float_of_int 0\<rparr>"

text \<open>\<open>date.Format("20060102")\<close>, and the URL asked for a date.\<close>

definition date_key :: "gotime \<Rightarrow> string" where
  "date_key t = (let D = civil t in fmt_year (d_year D) @ pad0 2 (nat (d_month D)) @ pad0 2 (nat (d_day D)))"

definition history_key :: "gotime \<Rightarrow> string" where
  "history_key date = ''rate_history:'' @ date_key date"

definition nbu_request :: "gotime \<Rightarrow> http_req" where
  "nbu_request date =
     \<lparr>hq_method = ''GET'', hq_url = ''https://bank.gov.ua/NBU_Exchange/exchange_site?date='' @ date_key date @ ''&json'',
      hq_headers = [], hq_body = []\<rparr>"

definition published :: "nbuHistoricalRate list \<Rightarrow> rate_map" where
  "published raw =
     foldl (\<lambda>m r. if nh_CC r \<in> set supportedCurrencies then map_put (nh_CC r) (nh_RatePerUnit r) m else m)
       [(''UAH'', float_of_int 1)] raw"

text \<open>The status of the answer is not looked at. The write to the cache may fail silently.\<close>

definition fetch_history :: "network \<Rightarrow> gotime \<Rightarrow> rate_map redisop" where
  "fetch_history net date =
     (case net (nbu_request date) of
        Inl e \<Rightarrow> ret (Inl (Wrap ''fetch NBU historical rates'' [] e))
      | Inr resp \<Rightarrow>
          (case Decode (decode_slice (decode_fields nbuHistorical_fields) nbuHistorical0) None (hp_body resp) of
             Inl e \<Rightarrow> ret (Inl (Wrap ''decode NBU historical response'' [] e))
           | Inr raw \<Rightarrow> do {
               m \<leftarrow> (let m = published (slice_list raw) in
                     if length m = 1 then do {
                       current \<leftarrow> RateRepo_List;
                       ret (case current of
                              Inl _ \<Rightarrow> m
                            | Inr cs \<Rightarrow> foldl (\<lambda>m c. map_put (ra_Currency c) (ra_RateToUAH c) m) m cs) }
                     else ret m);
               _ \<leftarrow> (case rate_map_text m of
                       Some blob \<Rightarrow> redis_Set (history_key date) blob 0
                     | None \<Rightarrow> ret (Inr ()));
               ret (Inr m) }))"

definition HistoricalRates :: "network \<Rightarrow> gotime \<Rightarrow> rate_map redisop" where
  "HistoricalRates net date = do {
     r \<leftarrow> redis_Get (history_key date);
     case (case r of Inl _ \<Rightarrow> None | Inr cached \<Rightarrow> Unmarshal set_rate_map [] cached) of
       Some m \<Rightarrow> ret (Inr m)
     | None \<Rightarrow> fetch_history net date }"

section \<open>The service\<close>

definition rate_List :: "Rate list redisop" where
  "rate_List = RateRepo_List"

definition rate_HistoryAt :: "network \<Rightarrow> gotime \<Rightarrow> rate_map redisop" where
  "rate_HistoryAt net date = HistoricalRates net date"

section \<open>The job\<close>

record nbuRate =
  nr_CurrencyCodeL :: string
  nr_Units :: float64
  nr_Amount :: float64

definition nbuRate_fields :: "(string \<times> nbuRate setter) list" where
  "nbuRate_fields =
     [(''CurrencyCodeL'', set_string (\<lambda>t s. s\<lparr>nr_CurrencyCodeL := t\<rparr>)), (''Units'', set_float (\<lambda>f s. s\<lparr>nr_Units := f\<rparr>)),
      (''Amount'', set_float (\<lambda>f s. s\<lparr>nr_Amount := f\<rparr>))]"

definition nbuRate0 :: nbuRate where
  "nbuRate0 = \<lparr>nr_CurrencyCodeL = [], nr_Units = float_of_int 0, nr_Amount = float_of_int 0\<rparr>"

fun store_rates :: "(nat \<Rightarrow> gotime) \<Rightarrow> nat \<Rightarrow> nbuRate list \<Rightarrow> unit redisop" where
  "store_rates now k [] = ret (Inr ())"
| "store_rates now k (r # rs) =
     (if nr_CurrencyCodeL r \<notin> set supportedCurrencies \<or> feq (nr_Units r) (float_of_int 0) then store_rates now k rs
      else do {
        u \<leftarrow> RateRepo_Upsert (now k) (nr_CurrencyCodeL r) (fdiv (nr_Amount r) (nr_Units r));
        case u of
          Inl e \<Rightarrow> ret (Inl (Wrap ''upsert %s rate'' [nr_CurrencyCodeL r] e))
        | Inr _ \<Rightarrow> store_rates now (k + 1) rs })"

definition fetchAndStore :: "network \<Rightarrow> string \<Rightarrow> (nat \<Rightarrow> gotime) \<Rightarrow> unit redisop" where
  "fetchAndStore net url now =
     (case net \<lparr>hq_method = ''GET'', hq_url = url, hq_headers = [], hq_body = []\<rparr> of
        Inl e \<Rightarrow> ret (Inl (Wrap ''fetch NBU rates'' [] e))
      | Inr resp \<Rightarrow>
          if hp_status resp \<noteq> 200 then ret (Inl (Errorf ''NBU API returned status %d'' [fmt_d (hp_status resp)]))
          else (case Decode (decode_slice (decode_fields nbuRate_fields) nbuRate0) None (hp_body resp) of
                  Inl e \<Rightarrow> ret (Inl (Wrap ''decode NBU response'' [] e))
                | Inr rates \<Rightarrow> do {
                    u \<leftarrow> RateRepo_Upsert (now 0) ''UAH'' (float_of_int 1);
                    case u of
                      Inl e \<Rightarrow> ret (Inl (Wrap ''upsert UAH rate'' [] e))
                    | Inr _ \<Rightarrow> store_rates now 1 (slice_list rates) }))"

text \<open>The job logs an error and goes on.\<close>

definition syncOnce :: "network \<Rightarrow> string \<Rightarrow> (nat \<Rightarrow> gotime) \<Rightarrow> (redis, unit) state" where
  "syncOnce net url now = do { _ \<leftarrow> fetchAndStore net url now; ret () }"

section \<open>The handlers\<close>

definition rateToJSON :: "Rate \<Rightarrow> jval" where
  "rateToJSON r = VStruct
     [(''currency'', VStr (ra_Currency r)), (''rateToUah'', VFloat (ra_RateToUAH r)),
      (''updatedAt'', VStr (Format_rfc3339 (ra_UpdatedAt r)))]"

definition rates_list :: "uuid \<Rightarrow> request \<Rightarrow> (redis, response) state" where
  "rates_list userID r = do {
     res \<leftarrow> rate_List;
     case res of
       Inl _ \<Rightarrow> ret (writeError 500 ''failed to list rates'')
     | Inr rs \<Rightarrow> ret (writeJSON 200 (VArr (map rateToJSON rs))) }"

definition rates_history :: "network \<Rightarrow> uuid \<Rightarrow> request \<Rightarrow> (redis, response) state" where
  "rates_history net userID r =
     (case parse_layout layout_iso (query_Get r ''date'') of
        None \<Rightarrow> ret (writeError 400 ''invalid date (expected YYYY-MM-DD)'')
      | Some date \<Rightarrow> do {
          res \<leftarrow> rate_HistoryAt net date;
          case res of
            Inl _ \<Rightarrow> ret (writeError 500 ''failed to fetch historical rates'')
          | Inr m \<Rightarrow> ret (writeJSON 200 (VMap (map (apsnd VFloat) m))) })"

end
