(* ===== verification/World.thy ===== *)
theory World
  imports Rates Rest_Auth
begin

text \<open>
  The two stores of the process side by side, and the lifting of a program over one of them to
  both.
\<close>

record world =
  wo_db :: db
  wo_redis :: redis

type_synonym 'a worldop = "(world, 'a) state"

definition on_db :: "(db, 'a) state \<Rightarrow> 'a worldop" where
  "on_db m = State (\<lambda>w. case run_state m (wo_db w) of (r, d) \<Rightarrow> (r, w\<lparr>wo_db := d\<rparr>))"

definition on_redis :: "(redis, 'a) state \<Rightarrow> 'a worldop" where
  "on_redis m = State (\<lambda>w. case run_state m (wo_redis w) of (r, d) \<Rightarrow> (r, w\<lparr>wo_redis := d\<rparr>))"

lemma run_on_db: "run_state (on_db m) w = (result m (wo_db w), w\<lparr>wo_db := exec m (wo_db w)\<rparr>)"
  by (simp add: on_db_def split: prod.splits)

lemma run_on_redis: "run_state (on_redis m) w = (result m (wo_redis w), w\<lparr>wo_redis := exec m (wo_redis w)\<rparr>)"
  by (simp add: on_redis_def split: prod.splits)

text \<open>A predicate on the database is kept by whatever a program does to Redis.\<close>

definition db_holds :: "(db \<Rightarrow> bool) \<Rightarrow> world \<Rightarrow> bool" where
  "db_holds P w \<longleftrightarrow> P (wo_db w)"

lemma keeps_on_db: "keeps P m \<Longrightarrow> keeps (db_holds P) (on_db m)"
  by (simp add: hoare_def run_on_db db_holds_def)

lemma keeps_on_redis [hr]: "keeps (db_holds P) (on_redis m)"
  by (simp add: hoare_def run_on_redis db_holds_def)

end
