(* ===== verification/Insights.thy ===== *)
theory Insights
  imports World Ledger Go_Strconv
begin

text \<open>
  The computations of \<open>internal/service/advisor/insights.go\<close> -- subscriptions, the runway to
  the next payday, the pace of the month -- and the financial score and currency conversion of
  \<open>internal/service/advisor/advisor.go\<close>. Floating-point operations round one by one (on
  amd64 the compiler does not fuse them). The order in which a Go map is traversed, and in which
  \<open>sort.Slice\<close> leaves elements that compare equal, is a parameter: a permutation of the entries
  of the map, or of the list before it is sorted.
\<close>

section \<open>Parameters and maps\<close>

record sub_entry =
  se_date :: gotime
  se_amount :: float64
  se_currency :: string

record advisor_env =
  ai_name_le :: "string \<Rightarrow> string \<Rightarrow> bool"
  ai_pgnum :: pgnum
  ai_lower :: "string \<Rightarrow> string"
  ai_fold :: "string \<Rightarrow> string"
  ai_uuid_String :: "uuid \<Rightarrow> string"
  ai_by_id :: "(uuid \<times> float64) list \<Rightarrow> (uuid \<times> float64) list"
  ai_by_name :: "(string \<times> float64) list \<Rightarrow> (string \<times> float64) list"
  ai_notes :: "string list \<Rightarrow> string list"
  ai_entries :: "sub_entry list \<Rightarrow> sub_entry list"

abbreviation fzero :: float64 where "fzero \<equiv> FFin False 0 (-1074)"

definition map_float :: "('k \<times> float64) list \<Rightarrow> 'k \<Rightarrow> float64" where
  "map_float m k = (case map_of m k of None \<Rightarrow> fzero | Some f \<Rightarrow> f)"

text \<open>\<open>m[k] += v\<close>\<close>

definition put_at :: "'k \<Rightarrow> 'v \<Rightarrow> ('k \<times> 'v) list \<Rightarrow> ('k \<times> 'v) list" where
  "put_at k v m = filter (\<lambda>p. fst p \<noteq> k) m @ [(k, v)]"

definition map_add :: "'k \<Rightarrow> float64 \<Rightarrow> ('k \<times> float64) list \<Rightarrow> ('k \<times> float64) list" where
  "map_add k v m = put_at k (fadd (map_float m k) v) m"

definition map_list :: "('k \<times> 'v list) list \<Rightarrow> 'k \<Rightarrow> 'v list" where
  "map_list m k = (case map_of m k of None \<Rightarrow> [] | Some vs \<Rightarrow> vs)"

section \<open>Amounts and rates\<close>

definition parseAmount :: "string \<Rightarrow> float64 option" where
  "parseAmount s = Sscanf_f s"

text \<open>\<open>amount, _ := parseAmount(s)\<close>: zero when it does not parse.\<close>

definition amount_or_zero :: "string \<Rightarrow> float64" where
  "amount_or_zero s = (case parseAmount s of None \<Rightarrow> fzero | Some f \<Rightarrow> f)"

definition rate_table :: "Rate list \<Rightarrow> (string \<times> float64) list" where
  "rate_table rates = foldl (\<lambda>m r. put_at (ra_Currency r) (ra_RateToUAH r) m) [(''UAH'', float_of_int 1)] rates"

definition convert :: "float64 \<Rightarrow> string \<Rightarrow> string \<Rightarrow> (string \<times> float64) list \<Rightarrow> float64" where
  "convert amount from to rateToUAH =
     (if from = to then amount
      else (let fromRate = map_float rateToUAH from; toRate = map_float rateToUAH to in
            if feq fromRate fzero \<or> feq toRate fzero then amount else fdiv (fmul amount fromRate) toRate))"

section \<open>The financial score\<close>

record FinancialScoreBreakdown =
  fs_Total :: int
  fs_SavingsRate :: float64
  fs_SavingsScore :: int
  fs_TopCategoryShare :: float64
  fs_BalanceScore :: int
  fs_ActiveDays :: int
  fs_ConsistencyScore :: int

definition scoreWindow :: duration where "scoreWindow = 30 * 24 * time_Hour"

definition clampScore :: "float64 \<Rightarrow> int" where
  "clampScore v =
     (if fless v fzero then 0 else if fless (float_of_int 100) v then 100 else int_of_float (fRound v))"

record score_sums =
  sc_income :: float64
  sc_expense :: float64
  sc_byCategory :: "(uuid \<times> float64) list"
  sc_days :: "string list"

definition score_tx :: "string \<Rightarrow> (string \<times> float64) list \<Rightarrow> score_sums \<Rightarrow> Transaction \<Rightarrow> score_sums" where
  "score_tx base rates a tx =
     (if tx_IsInternalTransfer tx then a
      else
        (let converted = convert (amount_or_zero (tx_Amount tx)) (tx_Currency tx) base rates;
             a' = a\<lparr>sc_days := List.insert (Format_date (tx_Date tx)) (sc_days a)\<rparr>
         in if tx_Type tx = ''income'' then a'\<lparr>sc_income := fadd (sc_income a) converted\<rparr>
            else a'\<lparr>sc_expense := fadd (sc_expense a) converted,
                    sc_byCategory := map_add (tx_CategoryID tx) converted (sc_byCategory a)\<rparr>))"

definition score_sums_of :: "string \<Rightarrow> (string \<times> float64) list \<Rightarrow> Transaction list \<Rightarrow> score_sums" where
  "score_sums_of base rates txs =
     foldl (score_tx base rates) \<lparr>sc_income = fzero, sc_expense = fzero, sc_byCategory = [], sc_days = []\<rparr> txs"

text \<open>The constants 0.20, 0.75, 0.5, 0.4 and 0.3 as the compiler rounds them.\<close>

definition f020 :: float64 where "f020 = round64 False 20 100"
definition f075 :: float64 where "f075 = round64 False 75 100"
definition f05 :: float64 where "f05 = round64 False 5 10"
definition f04 :: float64 where "f04 = round64 False 4 10"
definition f03 :: float64 where "f03 = round64 False 3 10"

definition savings_rate :: "score_sums \<Rightarrow> float64" where
  "savings_rate a =
     (if fless fzero (sc_income a) then fdiv (fsub (sc_income a) (sc_expense a)) (sc_income a) else fzero)"

definition top_share :: "advisor_env \<Rightarrow> score_sums \<Rightarrow> float64" where
  "top_share env a =
     (if fless fzero (sc_expense a)
      then foldl (\<lambda>top p. let share = fdiv (snd p) (sc_expense a) in if fless top share then share else top)
             fzero (ai_by_id env (sc_byCategory a))
      else fzero)"

definition score_of :: "advisor_env \<Rightarrow> score_sums \<Rightarrow> FinancialScoreBreakdown" where
  "score_of env a =
     (let savings = savings_rate a;
          savingsScore = clampScore (fmul (fdiv savings f020) (float_of_int 100));
          top = top_share env a;
          balanceScore = clampScore (fmul (fdiv (fsub f075 top) f05) (float_of_int 100));
          days = int (length (sc_days a));
          consistencyScore = clampScore (fmul (fdiv (float_of_int days) (float_of_int 20)) (float_of_int 100));
          total_f = fadd (fadd (fmul f04 (float_of_int savingsScore)) (fmul f03 (float_of_int balanceScore)))
                         (fmul f03 (float_of_int consistencyScore))
      in \<lparr>fs_Total = int_of_float (fRound total_f), fs_SavingsRate = savings, fs_SavingsScore = savingsScore,
          fs_TopCategoryShare = top, fs_BalanceScore = balanceScore, fs_ActiveDays = days,
          fs_ConsistencyScore = consistencyScore\<rparr>)"

definition FinancialScore ::
  "advisor_env \<Rightarrow> gotime \<Rightarrow> uuid \<Rightarrow> string \<Rightarrow> FinancialScoreBreakdown res worldop" where
  "FinancialScore env now userID baseCurrency = do {
     r \<leftarrow> on_db (TransactionRepo_ListForUser (ai_pgnum env) userID (now - scoreWindow) now);
     case r of
       Inl e \<Rightarrow> ret (Inl e)
     | Inr txs \<Rightarrow> do {
         r2 \<leftarrow> on_redis RateRepo_List;
         case r2 of
           Inl e \<Rightarrow> ret (Inl e)
         | Inr rates \<Rightarrow> ret (Inr (score_of env (score_sums_of baseCurrency (rate_table rates) txs))) } }"

section \<open>Subscriptions\<close>

record Subscription =
  sb_Description :: string
  sb_AverageAmount :: float64
  sb_Currency :: string
  sb_Occurrences :: int
  sb_LastDate :: gotime
  sb_AverageIntervalDays :: float64

definition subscriptionWindow :: duration where "subscriptionWindow = 180 * 24 * time_Hour"
definition subscriptionMinCount :: nat where "subscriptionMinCount = 3"
definition subscriptionMinInterval :: float64 where "subscriptionMinInterval = float_of_int 20"
definition subscriptionMaxInterval :: float64 where "subscriptionMaxInterval = float_of_int 40"
definition subscriptionMaxVariance :: float64 where "subscriptionMaxVariance = f020"

definition group_tx ::
  "advisor_env \<Rightarrow> (string \<times> sub_entry list) list \<Rightarrow> Transaction \<Rightarrow> (string \<times> sub_entry list) list" where
  "group_tx env groups tx =
     (if tx_Type tx \<noteq> ''expense'' \<or> tx_IsInternalTransfer tx then groups
      else
        (let note = ToLower (ai_lower env) (TrimSpace (tx_Note tx)) in
         if note = [] then groups
         else (case parseAmount (tx_Amount tx) of
                 None \<Rightarrow> groups
               | Some amount \<Rightarrow>
                   put_at note
                     (map_list groups note @ [\<lparr>se_date = tx_Date tx, se_amount = amount, se_currency = tx_Currency tx\<rparr>])
                     groups)))"

text \<open>\<open>Duration.Hours\<close>\<close>

definition duration_Hours :: "duration \<Rightarrow> float64" where
  "duration_Hours d =
     fadd (float_of_int (d sdiv time_Hour)) (fdiv (float_of_int (d smod time_Hour)) (float_of_int time_Hour))"

fun interval_sum :: "float64 \<Rightarrow> sub_entry list \<Rightarrow> float64" where
  "interval_sum acc (x # y # es) =
     interval_sum (fadd acc (fdiv (duration_Hours (se_date y - se_date x)) (float_of_int 24))) (y # es)"
| "interval_sum acc _ = acc"

definition max_deviation :: "float64 \<Rightarrow> sub_entry list \<Rightarrow> float64" where
  "max_deviation avg es =
     foldl (\<lambda>mx e. let dev = fdiv (fsub (se_amount e) avg) avg;
                       dev = (if fless dev fzero then fneg dev else dev)
                   in if fless mx dev then dev else mx) fzero es"

text \<open>
  \<open>strings.ToUpper(note[:1]) + note[1:]\<close>: the first byte alone. When it begins a longer
  character it is not valid UTF-8, and \<open>ToUpper\<close> gives U+FFFD for it.
\<close>

definition displayNote :: "string \<Rightarrow> string" where
  "displayNote note =
     (case note of
        [] \<Rightarrow> []
      | c # r \<Rightarrow>
          (let n = (of_char c :: nat) in
           if n < 128 then (if 97 \<le> n \<and> n \<le> 122 then char_of (n - 32) else c) # r else utf8 [rune_error] @ r))"

definition subscription_of :: "advisor_env \<Rightarrow> string \<times> sub_entry list \<Rightarrow> Subscription option" where
  "subscription_of env g =
     (if length (snd g) < subscriptionMinCount then None
      else
        (let es = sort_key se_date (ai_entries env (snd g));
             n = length es;
             avgInterval = fdiv (interval_sum fzero es) (float_of_int (int n - 1));
             avgAmount = fdiv (foldl (\<lambda>s e. fadd s (se_amount e)) fzero es) (float_of_int (int n))
         in if fless avgInterval subscriptionMinInterval \<or> fless subscriptionMaxInterval avgInterval then None
            else if feq avgAmount fzero then None
            else if fless subscriptionMaxVariance (max_deviation avgAmount es) then None
            else Some
              \<lparr>sb_Description = displayNote (fst g), sb_AverageAmount = avgAmount, sb_Currency = se_currency (last es),
               sb_Occurrences = int n, sb_LastDate = se_date (last es), sb_AverageIntervalDays = avgInterval\<rparr>))"

definition DetectSubscriptions ::
  "advisor_env \<Rightarrow> gotime \<Rightarrow> gotime \<Rightarrow> uuid \<Rightarrow> Subscription list dbop" where
  "DetectSubscriptions env now1 now2 userID = do {
     r \<leftarrow> TransactionRepo_ListForUser (ai_pgnum env) userID (now1 - subscriptionWindow) now2;
     case r of
       Inl e \<Rightarrow> ret (Inl (Wrap ''list transactions'' [] e))
     | Inr txs \<Rightarrow>
         (let groups = foldl (group_tx env) [] txs;
              out = List.map_filter (\<lambda>note. subscription_of env (note, map_list groups note)) (ai_notes env (map fst groups))
          in ret (Inr (sort_by (\<lambda>x y. \<not> fless (sb_AverageAmount x) (sb_AverageAmount y)) out))) }"

section \<open>The runway\<close>

record RunwayForecast =
  rf_CurrentBalance :: float64
  rf_DailyBurnRate :: float64
  rf_ProjectedZeroDate :: gotime
  rf_NextPaydayEstimate :: gotime
  rf_WillMakeIt :: bool

definition runwayBurnWindow :: duration where "runwayBurnWindow = 30 * 24 * time_Hour"

record runway_sums =
  rs_balance :: float64
  rs_income :: "(uuid \<times> float64) list"
  rs_days :: "(uuid \<times> int list) list"
  rs_recent :: float64

definition runway_tx ::
  "string \<Rightarrow> (string \<times> float64) list \<Rightarrow> gotime \<Rightarrow> runway_sums \<Rightarrow> Transaction \<Rightarrow> runway_sums" where
  "runway_tx base rates since30 a tx =
     (if tx_IsInternalTransfer tx then a
      else (case parseAmount (tx_Amount tx) of
              None \<Rightarrow> a
            | Some amount \<Rightarrow>
                (let converted = convert amount (tx_Currency tx) base rates; c = tx_CategoryID tx in
                 if tx_Type tx = ''income''
                 then a\<lparr>rs_balance := fadd (rs_balance a) converted, rs_income := map_add c converted (rs_income a),
                        rs_days := put_at c (map_list (rs_days a) c @ [d_day (civil (tx_Date tx))]) (rs_days a)\<rparr>
                 else a\<lparr>rs_balance := fsub (rs_balance a) converted,
                        rs_recent := (if \<not> tx_Date tx < since30 then fadd (rs_recent a) converted else rs_recent a)\<rparr>)))"

text \<open>The category with the most income, and its typical day.\<close>

definition salary_category :: "(uuid \<times> float64) list \<Rightarrow> uuid" where
  "salary_category m =
     snd (foldl (\<lambda>best p. if fless (fst best) (snd p) then (snd p, fst p) else best) (fzero, uuid_Nil) m)"

text \<open>
  \<open>t.AddDate(0, k, 0)\<close>: the month counts on over the years, and a day the month does not have
  runs into the next one.
\<close>

definition add_months :: "gotime \<Rightarrow> int \<Rightarrow> gotime" where
  "add_months t k =
     (let D = civil t; m = d_month D - 1 + k in
      instant_of_date (Date (d_year D + m div 12) (m mod 12 + 1) (d_day D)) + t mod day_ns)"

definition next_payday :: "int list \<Rightarrow> gotime \<Rightarrow> gotime" where
  "next_payday days now =
     (if length days \<ge> 2 then
        (let typicalDay = sum_list days div int (length days);
             candidate = instant_of_date (Date (d_year (civil now)) (d_month (civil now)) typicalDay)
         in if \<not> now < candidate then add_months candidate 1 else candidate)
      else 0)"

text \<open>The clock is read for the query, the window, the payday and the projection in turn.\<close>

definition forecast_of :: "advisor_env \<Rightarrow> (nat \<Rightarrow> gotime) \<Rightarrow> runway_sums \<Rightarrow> RunwayForecast" where
  "forecast_of env now a =
     (let dailyBurn = fdiv (rs_recent a) (float_of_int 30);
          payday = next_payday (map_list (rs_days a) (salary_category (ai_by_id env (rs_income a)))) (now 2);
          zero_date = add_days (now 3) (int_of_float (fdiv (rs_balance a) dailyBurn))
      in if fless fzero dailyBurn
         then \<lparr>rf_CurrentBalance = rs_balance a, rf_DailyBurnRate = dailyBurn, rf_ProjectedZeroDate = zero_date,
               rf_NextPaydayEstimate = payday, rf_WillMakeIt = (payday = 0 \<or> \<not> zero_date < payday)\<rparr>
         else \<lparr>rf_CurrentBalance = rs_balance a, rf_DailyBurnRate = dailyBurn, rf_ProjectedZeroDate = 0,
               rf_NextPaydayEstimate = payday, rf_WillMakeIt = True\<rparr>)"

definition Runway :: "advisor_env \<Rightarrow> (nat \<Rightarrow> gotime) \<Rightarrow> uuid \<Rightarrow> string \<Rightarrow> RunwayForecast res worldop" where
  "Runway env now userID baseCurrency = do {
     r \<leftarrow> on_redis RateRepo_List;
     case r of
       Inl e \<Rightarrow> ret (Inl (Wrap ''list rates'' [] e))
     | Inr rates \<Rightarrow> do {
         r2 \<leftarrow> on_db (TransactionRepo_ListForUser (ai_pgnum env) userID 0 (now 0));
         case r2 of
           Inl e \<Rightarrow> ret (Inl (Wrap ''list transactions'' [] e))
         | Inr txs \<Rightarrow>
             ret (Inr (forecast_of env now
               (foldl (runway_tx baseCurrency (rate_table rates) (now 1 - runwayBurnWindow))
                  \<lparr>rs_balance = fzero, rs_income = [], rs_days = [], rs_recent = fzero\<rparr> txs))) } }"

section \<open>The pace of the month\<close>

record CategoryPace =
  cg_CategoryID :: uuid
  cg_CategoryName :: string
  cg_TypicalMonthly :: float64
  cg_SpentSoFar :: float64
  cg_PaceRatio :: float64

definition paceHistoryMonths :: int where "paceHistoryMonths = 3"

definition month_start :: "gotime \<Rightarrow> gotime" where
  "month_start t = instant_of_date (Date (d_year (civil t)) (d_month (civil t)) 1)"

definition names_of :: "Category list \<Rightarrow> (uuid \<times> string) list" where
  "names_of cats = rev (map (\<lambda>c. (ca_ID c, ca_Name c)) cats)"

definition name_at :: "Category list \<Rightarrow> uuid \<Rightarrow> string" where
  "name_at cats i = (case map_of (names_of cats) i of None \<Rightarrow> [] | Some n \<Rightarrow> n)"

definition pace_tx ::
  "string \<Rightarrow> (string \<times> float64) list \<Rightarrow> gotime \<Rightarrow> (uuid \<times> float64) list \<times> (uuid \<times> float64) list \<Rightarrow> Transaction \<Rightarrow>
     (uuid \<times> float64) list \<times> (uuid \<times> float64) list" where
  "pace_tx base rates start a tx =
     (if tx_Type tx \<noteq> ''expense'' \<or> tx_IsInternalTransfer tx then a
      else (case parseAmount (tx_Amount tx) of
              None \<Rightarrow> a
            | Some amount \<Rightarrow>
                (let converted = convert amount (tx_Currency tx) base rates in
                 if tx_Date tx < start then (map_add (tx_CategoryID tx) converted (fst a), snd a)
                 else (fst a, map_add (tx_CategoryID tx) converted (snd a)))))"

definition pace_of :: "Category list \<Rightarrow> gotime \<Rightarrow> (uuid \<times> float64) list \<Rightarrow> uuid \<times> float64 \<Rightarrow> CategoryPace option" where
  "pace_of cats now this_month p =
     (let typical = fdiv (snd p) (float_of_int paceHistoryMonths);
          spent = map_float this_month (fst p);
          D = civil now;
          monthProgress = fdiv (float_of_int (d_day D)) (float_of_int (days_in_month (d_year D) (d_month D)))
      in if feq typical fzero then None
         else Some \<lparr>cg_CategoryID = fst p, cg_CategoryName = name_at cats (fst p), cg_TypicalMonthly = typical,
                    cg_SpentSoFar = spent, cg_PaceRatio = fdiv (fdiv spent typical) monthProgress\<rparr>)"

definition BudgetPace :: "advisor_env \<Rightarrow> gotime \<Rightarrow> uuid \<Rightarrow> string \<Rightarrow> CategoryPace list res worldop" where
  "BudgetPace env now userID baseCurrency = do {
     r \<leftarrow> on_db (TransactionRepo_ListForUser (ai_pgnum env) userID (add_months (month_start now) (- paceHistoryMonths)) now);
     case r of
       Inl e \<Rightarrow> ret (Inl (Wrap ''list transactions'' [] e))
     | Inr txs \<Rightarrow> do {
         r2 \<leftarrow> on_db (CategoryRepo_ListForUser (ai_name_le env) userID);
         case r2 of
           Inl e \<Rightarrow> ret (Inl (Wrap ''list categories'' [] e))
         | Inr cats \<Rightarrow> do {
             r3 \<leftarrow> on_redis RateRepo_List;
             case r3 of
               Inl e \<Rightarrow> ret (Inl (Wrap ''list rates'' [] e))
             | Inr rates \<Rightarrow>
                 (case foldl (pace_tx baseCurrency (rate_table rates) (month_start now)) ([], []) txs of
                    (history, this_month) \<Rightarrow>
                      ret (Inr (sort_by (\<lambda>x y. \<not> fless (cg_PaceRatio x) (cg_PaceRatio y))
                        (List.map_filter (pace_of cats now this_month) (ai_by_id env history))))) } } }"

end
