(* ===== verification/Advisor.thy ===== *)
theory Advisor
  imports Insights
begin

text \<open>
  The assistant of \<open>internal/service/advisor/advisor.go\<close>, the client of the language model
  (\<open>pkg/ollama/ollama.go\<close>) and the handlers of \<open>internal/rest/advisor.go\<close>. The Ukrainian texts
  are given by their code points; a format with verbs is the list of the pieces between them.
\<close>

section \<open>The client of the model\<close>

record Message =
  mg_Role :: string
  mg_Content :: string

record ollama_Client =
  oc_baseURL :: string
  oc_model :: string

definition Message0 :: Message where
  "Message0 = \<lparr>mg_Role = [], mg_Content = []\<rparr>"

definition Message_fields :: "(string \<times> Message setter) list" where
  "Message_fields =
     [(''role'', set_string (\<lambda>t s. s\<lparr>mg_Role := t\<rparr>)), (''content'', set_string (\<lambda>t s. s\<lparr>mg_Content := t\<rparr>))]"

definition messageToJSON :: "Message \<Rightarrow> jval" where
  "messageToJSON m = VStruct [(''role'', VStr (mg_Role m)), (''content'', VStr (mg_Content m))]"

definition ollama_body :: "ollama_Client \<Rightarrow> Message list \<Rightarrow> jval" where
  "ollama_body c messages = VStruct
     [(''model'', VStr (oc_model c)), (''messages'', VArr (map messageToJSON messages)), (''stream'', VBool False)]"

definition ollama_request :: "ollama_Client \<Rightarrow> string \<Rightarrow> http_req" where
  "ollama_request c body =
     \<lparr>hq_method = ''POST'', hq_url = oc_baseURL c @ ''/api/chat'', hq_headers = [(''Content-Type'', ''application/json'')],
      hq_body = body\<rparr>"

definition ollama_Chat :: "network \<Rightarrow> ollama_Client \<Rightarrow> Message list \<Rightarrow> string res" where
  "ollama_Chat net c messages =
     (case jval_text (ollama_body c messages) of
        None \<Rightarrow> Inl (Wrap ''encode ollama request'' [] (Errorf ''json: unsupported value'' []))
      | Some body \<Rightarrow>
          (case net (ollama_request c body) of
             Inl e \<Rightarrow> Inl (Wrap ''call ollama'' [] e)
           | Inr resp \<Rightarrow>
               if hp_status resp \<noteq> 200
               then Inl (Errorf (''ollama returned status %d '' @ utf8 [8212] @
                           '' is `ollama serve` running with OLLAMA_HOST=0.0.0.0?'') [fmt_d (hp_status resp)])
               else (case Decode (decode_fields [(''message'', set_struct id (\<lambda>m _. m) Message_fields)]) Message0
                            (hp_body resp) of
                       Inl e \<Rightarrow> Inl (Wrap ''decode ollama response'' [] e)
                     | Inr m \<Rightarrow> Inr (mg_Content m))))"

section \<open>The texts\<close>

text \<open>The instructions to the model: who it is, to quote only the figures below, to answer in the language of the question.\<close>

definition systemPreamble :: string where
  "systemPreamble =
     utf8 [1058, 1077, 1073, 1077, 32, 1079, 1074, 1072, 1090, 1080, 32, 70, 101, 108, 105, 120, 32, 8212, 32, 65,
        73, 45, 1087, 1086, 1084, 1110, 1095, 1085, 1080, 1082, 32, 1079, 1072, 1089, 1090, 1086, 1089, 1091,
        1085, 1082, 1091, 32, 86, 97, 117, 108, 116, 108, 121, 46, 32, 1058, 1080, 32, 1085, 1077, 32, 1092,
        1086, 1088, 1084, 1072, 1083, 1100, 1085, 1080, 1081, 32, 1082, 1086, 1085, 1089, 1091, 1083, 1100,
        1090, 1072, 1085, 1090, 44, 32, 1072, 32, 1076, 1088, 1091, 1078, 1085, 1110, 1081, 32, 1072, 1089,
        1080, 1089, 1090, 1077, 1085, 1090, 32, 1082, 1086, 1088, 1080, 1089, 1090, 1091, 1074, 1072, 1095,
        1072, 58, 32, 1088, 1086, 1079, 1084, 1086, 1074, 1083, 1103, 1081, 32, 1087, 1088, 1080, 1088, 1086,
        1076, 1085, 1086, 44, 32, 1103, 1082, 32, 1088, 1077, 1072, 1083, 1100, 1085, 1072, 32, 1083, 1102,
        1076, 1080, 1085, 1072, 45, 1087, 1086, 1084, 1110, 1095, 1085, 1080, 1082, 44, 32, 1084, 1086, 1078,
        1077, 1096, 32, 1084, 1072, 1090, 1080, 32, 1083, 1077, 1075, 1082, 1080, 1081, 32, 1093, 1072, 1088,
        1072, 1082, 1090, 1077, 1088, 44, 32, 1072, 1083, 1077, 32, 1079, 1072, 1074, 1078, 1076, 1080, 32,
        1082, 1086, 1088, 1080, 1089, 1085, 1080, 1081, 32, 1110, 32, 1095, 1077, 1089, 1085, 1080, 1081, 46,
        32, 1071, 1082, 1097, 1086, 32, 1079, 1072, 1087, 1080, 1090, 1072, 1085, 1085, 1103, 32, 1089, 1090,
        1086, 1089, 1091, 1108, 1090, 1100, 1089, 1103, 32, 1092, 1110, 1085, 1072, 1085, 1089, 1110, 1074, 32,
        8212, 32, 1089, 1087, 1080, 1088, 1072, 1081, 1089, 1103, 32, 1051, 1048, 1064, 1045, 32, 1085, 1072,
        32, 1076, 1072, 1085, 1110, 32, 1082, 1086, 1088, 1080, 1089, 1090, 1091, 1074, 1072, 1095, 1072, 32,
        1085, 1080, 1078, 1095, 1077, 44, 32, 1085, 1110, 1082, 1086, 1083, 1080, 32, 1085, 1077, 32, 1074,
        1080, 1075, 1072, 1076, 1091, 1081, 32, 1094, 1080, 1092, 1088, 1080, 46, 32, 1071, 1082, 1097, 1086,
        32, 1087, 1080, 1090, 1072, 1085, 1085, 1103, 32, 1085, 1077, 32, 1087, 1088, 1086, 32, 1092, 1110,
        1085, 1072, 1085, 1089, 1080, 32, 8212, 32, 1087, 1088, 1086, 1089, 1090, 1086, 32, 1087, 1110, 1076,
        1090, 1088, 1080, 1084, 1072, 1081, 32, 1088, 1086, 1079, 1084, 1086, 1074, 1091, 44, 32, 1090, 1080,
        32, 1085, 1077, 32, 1086, 1073, 1084, 1077, 1078, 1077, 1085, 1080, 1081, 32, 1090, 1110, 1083, 1100,
        1082, 1080, 32, 1094, 1110, 1108, 1102, 32, 1090, 1077, 1084, 1086, 1102, 46, 10, 10, 1050, 1072, 1090,
        1077, 1075, 1086, 1088, 1110, 1111, 32, 1082, 1086, 1088, 1080, 1089, 1090, 1091, 1074, 1072, 1095,
        1072, 32, 40, 1089, 1087, 1080, 1089, 1086, 1082, 32, 1085, 1080, 1078, 1095, 1077, 41, 32, 1074, 1078,
        1077, 32, 1085, 1072, 1083, 1072, 1096, 1090, 1086, 1074, 1072, 1085, 1110, 32, 1074, 32, 1079, 1072,
        1089, 1090, 1086, 1089, 1091, 1085, 1082, 1091, 32, 8212, 32, 1053, 1030, 1050, 1054, 1051, 1048, 32,
        1085, 1077, 32, 1088, 1072, 1076, 1100, 32, 34, 1089, 1090, 1074, 1086, 1088, 1080, 1090, 1080, 32,
        1082, 1072, 1090, 1077, 1075, 1086, 1088, 1110, 1111, 34, 32, 1095, 1080, 32, 34, 1079, 1072, 1074,
        1077, 1089, 1090, 1080, 32, 1073, 1102, 1076, 1078, 1077, 1090, 34, 44, 32, 1074, 1086, 1085, 1080, 32,
        1074, 1078, 1077, 32, 1108, 46, 32, 1047, 1072, 1084, 1110, 1089, 1090, 1100, 32, 103, 101, 110, 101,
        114, 105, 99, 45, 1087, 1086, 1088, 1072, 1076, 32, 1085, 1072, 32, 1082, 1096, 1090, 1072, 1083, 1090,
        32, 34, 1089, 1082, 1083, 1072, 1076, 1110, 1090, 1100, 32, 1073, 1102, 1076, 1078, 1077, 1090, 34, 32,
        1095, 1080, 32, 34, 1074, 1077, 1076, 1110, 1090, 1100, 32, 1086, 1073, 1083, 1110, 1082, 32, 1074,
        1080, 1090, 1088, 1072, 1090, 34, 32, 8212, 32, 1076, 1072, 1074, 1072, 1081, 32, 1082, 1086, 1085,
        1082, 1088, 1077, 1090, 1085, 1110, 32, 1089, 1087, 1086, 1089, 1090, 1077, 1088, 1077, 1078, 1077,
        1085, 1085, 1103, 32, 1079, 32, 1088, 1077, 1072, 1083, 1100, 1085, 1080, 1084, 1080, 32, 1094, 1080,
        1092, 1088, 1072, 1084, 1080, 32, 1081, 32, 1085, 1072, 1079, 1074, 1072, 1084, 1080, 32, 1082, 1072,
        1090, 1077, 1075, 1086, 1088, 1110, 1081, 32, 1110, 1079, 32, 1076, 1072, 1085, 1080, 1093, 32, 1085,
        1080, 1078, 1095, 1077, 46, 32, 1042, 1110, 1076, 1089, 1086, 1090, 1082, 1080, 32, 1074, 32, 1076,
        1072, 1085, 1080, 1093, 32, 1085, 1080, 1078, 1095, 1077, 32, 1074, 1078, 1077, 32, 1087, 1086, 1088,
        1072, 1093, 1086, 1074, 1072, 1085, 1110, 32, 8212, 32, 1074, 1080, 1082, 1086, 1088, 1080, 1089, 1090,
        1086, 1074, 1091, 1081, 32, 1111, 1093, 32, 1103, 1082, 32, 1108, 44, 32, 1053, 1045, 32, 1088, 1072,
        1093, 1091, 1081, 32, 1087, 1088, 1086, 1094, 1077, 1085, 1090, 1080, 32, 1095, 1080, 32, 1089, 1087,
        1110, 1074, 1074, 1110, 1076, 1085, 1086, 1096, 1077, 1085, 1085, 1103, 32, 1089, 1072, 1084, 1086,
        1089, 1090, 1110, 1081, 1085, 1086, 32, 40, 1072, 1088, 1080, 1092, 1084, 1077, 1090, 1080, 1082, 1072,
        32, 1074, 32, 1090, 1077, 1073, 1077, 32, 1085, 1077, 1085, 1072, 1076, 1110, 1081, 1085, 1072, 41, 46,
        32, 1071, 1082, 1097, 1086, 32, 1076, 1072, 1085, 1080, 1093, 32, 1079, 1072, 1084, 1072, 1083, 1086,
        32, 1076, 1083, 1103, 32, 1074, 1080, 1089, 1085, 1086, 1074, 1082, 1091, 32, 8212, 32, 1090, 1072,
        1082, 32, 1110, 32, 1089, 1082, 1072, 1078, 1080, 44, 32, 1079, 1072, 1084, 1110, 1089, 1090, 1100, 32,
        1090, 1080, 1087, 1086, 1074, 1086, 1111, 32, 1087, 1086, 1088, 1072, 1076, 1080, 46, 10, 10, 1042,
        1110, 1076, 1087, 1086, 1074, 1110, 1076, 1072, 1081, 32, 1090, 1110, 1108, 1102, 32, 1078, 32, 1084,
        1086, 1074, 1086, 1102, 44, 32, 1103, 1082, 1086, 1102, 32, 1087, 1080, 1096, 1077, 32, 1082, 1086,
        1088, 1080, 1089, 1090, 1091, 1074, 1072, 1095, 46, 32, 1041, 1077, 1079, 32, 1074, 1089, 1090, 1091,
        1087, 1085, 1080, 1093, 32, 1092, 1088, 1072, 1079, 32, 1085, 1072, 32, 1082, 1096, 1090, 1072, 1083,
        1090, 32, 34, 1079, 1074, 1110, 1089, 1085, 1086, 34, 32, 1095, 1080, 32, 34, 1103, 1082, 32, 65, 73,
        45, 1084, 1086, 1076, 1077, 1083, 1100, 34, 32, 8212, 32, 1086, 1076, 1088, 1072, 1079, 1091, 32, 1087,
        1086, 32, 1089, 1091, 1090, 1110, 44, 32, 1087, 1088, 1080, 1088, 1086, 1076, 1085, 1086, 46, 32, 1050,
        1086, 1088, 1086, 1090, 1082, 1086, 44, 32, 1103, 1082, 1097, 1086, 32, 1085, 1077, 32, 1087, 1088,
        1086, 1089, 1103, 1090, 1100, 32, 1088, 1086, 1079, 1075, 1086, 1088, 1085, 1091, 1090, 1086, 46]"

text \<open>The base currency of the user: ..\<close>

definition sum_currency :: "string list" where
  "sum_currency =
     [utf8 [1041, 1072, 1079, 1086, 1074, 1072, 32, 1074, 1072, 1083, 1102, 1090, 1072, 32, 1082, 1086, 1088, 1080,
         1089, 1090, 1091, 1074, 1072, 1095, 1072, 58, 32],
      utf8 [10]]"

text \<open>Expense categories the user already has: ..\<close>

definition sum_expense_categories :: "string list" where
  "sum_expense_categories =
     [utf8 [1050, 1072, 1090, 1077, 1075, 1086, 1088, 1110, 1111, 32, 1074, 1080, 1090, 1088, 1072, 1090, 44, 32,
         1103, 1082, 1110, 32, 1074, 1078, 1077, 32, 1108, 32, 1091, 32, 1082, 1086, 1088, 1080, 1089, 1090,
         1091, 1074, 1072, 1095, 1072, 58, 32],
      utf8 [10]]"

text \<open>Income categories the user already has: ..\<close>

definition sum_income_categories :: "string list" where
  "sum_income_categories =
     [utf8 [1050, 1072, 1090, 1077, 1075, 1086, 1088, 1110, 1111, 32, 1076, 1086, 1093, 1086, 1076, 1110, 1074, 44,
         32, 1103, 1082, 1110, 32, 1074, 1078, 1077, 32, 1108, 32, 1091, 32, 1082, 1086, 1088, 1080, 1089, 1090,
         1091, 1074, 1072, 1095, 1072, 58, 32],
      utf8 [10]]"

text \<open>This month: income .., expenses .. (that is ..% of the income, ..% of the income saved)\<close>

definition sum_this_month :: "string list" where
  "sum_this_month =
     [utf8 [1062, 1077, 1081, 32, 1084, 1110, 1089, 1103, 1094, 1100, 58, 32, 1076, 1086, 1093, 1110, 1076, 32],
      utf8 [44, 32, 1074, 1080, 1090, 1088, 1072, 1090, 1080, 32],
      utf8 [32, 40, 1094, 1077, 32],
      utf8 [37, 32, 1074, 1110, 1076, 32, 1076, 1086, 1093, 1086, 1076, 1091, 44, 32, 1079, 1073, 1077, 1088, 1077,
         1078, 1077, 1085, 1086, 32],
      utf8 [37, 32, 1076, 1086, 1093, 1086, 1076, 1091, 41, 10]]"

text \<open>Last month: income .., expenses ..\<close>

definition sum_last_month :: "string list" where
  "sum_last_month =
     [utf8 [1052, 1080, 1085, 1091, 1083, 1080, 1081, 32, 1084, 1110, 1089, 1103, 1094, 1100, 58, 32, 1076, 1086,
         1093, 1110, 1076, 32],
      utf8 [44, 32, 1074, 1080, 1090, 1088, 1072, 1090, 1080, 32],
      utf8 [10]]"

text \<open>Change of the expenses compared with last month: ..%\<close>

definition sum_change :: "string list" where
  "sum_change =
     [utf8 [1047, 1084, 1110, 1085, 1072, 32, 1074, 1080, 1090, 1088, 1072, 1090, 32, 1087, 1086, 1088, 1110, 1074,
         1085, 1103, 1085, 1086, 32, 1079, 32, 1084, 1080, 1085, 1091, 1083, 1080, 1084, 32, 1084, 1110, 1089,
         1103, 1094, 1077, 1084, 58, 32],
      utf8 [37, 10]]"

text \<open>A line of the breakdown, of expenses and of income\<close>

definition sum_line :: "string list" where
  "sum_line =
     [''- '',
      '': '',
      '' ('',
      utf8 [37, 41, 10]]"

text \<open>The financial literacy scale of the user (0-100, over the last 30 days): ../100.\<close>

definition sum_scale :: "string list" where
  "sum_scale =
     [utf8 [10, 1064, 1082, 1072, 1083, 1072, 32, 1092, 1110, 1085, 1072, 1085, 1089, 1086, 1074, 1086, 1111, 32,
         1075, 1088, 1072, 1084, 1086, 1090, 1085, 1086, 1089, 1090, 1110, 32, 1082, 1086, 1088, 1080, 1089,
         1090, 1091, 1074, 1072, 1095, 1072, 32, 40, 48, 45, 49, 48, 48, 44, 32, 1079, 1072, 32, 1086, 1089,
         1090, 1072, 1085, 1085, 1110, 32, 51, 48, 32, 1076, 1085, 1110, 1074, 41, 58, 32],
      utf8 [47, 49, 48, 48, 46, 10]]"

text \<open>Its parts: savings ../100 (..% of the income kept), balance ../100 (the largest category takes ..% of all expenses), regularity ../100 (.. active days of 30).\<close>

definition sum_parts :: "string list" where
  "sum_parts =
     [utf8 [1057, 1082, 1083, 1072, 1076, 1086, 1074, 1110, 32, 1094, 1110, 1108, 1111, 32, 1096, 1082, 1072, 1083,
         1080, 58, 32, 1079, 1072, 1086, 1097, 1072, 1076, 1078, 1077, 1085, 1085, 1103, 32],
      ''/100 ('',
      utf8 [37, 32, 1076, 1086, 1093, 1086, 1076, 1091, 32, 1074, 1110, 1076, 1082, 1083, 1072, 1076, 1077, 1085,
         1086, 41, 44, 32, 1073, 1072, 1083, 1072, 1085, 1089, 32, 1082, 1072, 1090, 1077, 1075, 1086, 1088,
         1110, 1081, 32],
      utf8 [47, 49, 48, 48, 32, 40, 1085, 1072, 1081, 1073, 1110, 1083, 1100, 1096, 1072, 32, 1082, 1072, 1090,
         1077, 1075, 1086, 1088, 1110, 1103, 32, 1074, 1080, 1090, 1088, 1072, 1090, 32, 1079, 1072, 1081, 1084,
         1072, 1108, 32],
      utf8 [37, 32, 1091, 1089, 1110, 1093, 32, 1074, 1080, 1090, 1088, 1072, 1090, 41, 44, 32, 1088, 1077, 1075,
         1091, 1083, 1103, 1088, 1085, 1110, 1089, 1090, 1100, 32, 1074, 1085, 1077, 1089, 1077, 1085, 1085,
         1103, 32, 1090, 1088, 1072, 1085, 1079, 1072, 1082, 1094, 1110, 1081, 32],
      ''/100 ('',
      utf8 [32, 1072, 1082, 1090, 1080, 1074, 1085, 1080, 1093, 32, 1076, 1085, 1110, 1074, 32, 1110, 1079, 32, 51,
         48, 41, 46, 10]]"

text \<open>Breakdown of this month's expenses by category (amount and % of the expenses):\<close>

definition sum_expense_title :: string where
  "sum_expense_title =
     utf8 [1056, 1086, 1079, 1087, 1086, 1076, 1110, 1083, 32, 1074, 1080, 1090, 1088, 1072, 1090, 32, 1094, 1100,
        1086, 1075, 1086, 32, 1084, 1110, 1089, 1103, 1094, 1103, 32, 1087, 1086, 32, 1082, 1072, 1090, 1077,
        1075, 1086, 1088, 1110, 1103, 1093, 32, 40, 1089, 1091, 1084, 1072, 32, 1110, 32, 37, 32, 1074, 1110,
        1076, 32, 1079, 1072, 1075, 1072, 1083, 1100, 1085, 1080, 1093, 32, 1074, 1080, 1090, 1088, 1072, 1090,
        32, 1094, 1100, 1086, 1075, 1086, 32, 1084, 1110, 1089, 1103, 1094, 1103, 41, 58, 10]"

text \<open>There is no expense this month yet.\<close>

definition sum_no_expense :: string where
  "sum_no_expense =
     utf8 [1062, 1100, 1086, 1075, 1086, 32, 1084, 1110, 1089, 1103, 1094, 1103, 32, 1097, 1077, 32, 1085, 1077,
        1084, 1072, 1108, 32, 1078, 1086, 1076, 1085, 1086, 1111, 32, 1074, 1080, 1090, 1088, 1072, 1090, 1080,
        46, 10]"

text \<open>Breakdown of this month's income by category (amount and % of the income):\<close>

definition sum_income_title :: string where
  "sum_income_title =
     utf8 [1056, 1086, 1079, 1087, 1086, 1076, 1110, 1083, 32, 1076, 1086, 1093, 1086, 1076, 1110, 1074, 32, 1094,
        1100, 1086, 1075, 1086, 32, 1084, 1110, 1089, 1103, 1094, 1103, 32, 1087, 1086, 32, 1082, 1072, 1090,
        1077, 1075, 1086, 1088, 1110, 1103, 1093, 32, 40, 1089, 1091, 1084, 1072, 32, 1110, 32, 37, 32, 1074,
        1110, 1076, 32, 1079, 1072, 1075, 1072, 1083, 1100, 1085, 1086, 1075, 1086, 32, 1076, 1086, 1093, 1086,
        1076, 1091, 32, 1094, 1100, 1086, 1075, 1086, 32, 1084, 1110, 1089, 1103, 1094, 1103, 41, 58, 10]"

text \<open>If the user asks about the scale, explain it by its three parts.\<close>

definition sum_scale_note :: string where
  "sum_scale_note =
     utf8 [1071, 1082, 1097, 1086, 32, 1082, 1086, 1088, 1080, 1089, 1090, 1091, 1074, 1072, 1095, 32, 1087, 1080,
        1090, 1072, 1108, 32, 1087, 1088, 1086, 32, 1094, 1102, 32, 1096, 1082, 1072, 1083, 1091, 32, 8212, 32,
        1087, 1086, 1103, 1089, 1085, 1080, 32, 1111, 1111, 32, 1089, 1072, 1084, 1077, 32, 1095, 1077, 1088,
        1077, 1079, 32, 1094, 1110, 32, 1090, 1088, 1080, 32, 1089, 1082, 1083, 1072, 1076, 1086, 1074, 1110,
        44, 32, 1072, 32, 1085, 1077, 32, 1072, 1073, 1089, 1090, 1088, 1072, 1082, 1090, 1085, 1086, 46, 10]"

text \<open>The name of no category\<close>

definition sum_uncategorised :: string where
  "sum_uncategorised =
     utf8 [1041, 1077, 1079, 32, 1082, 1072, 1090, 1077, 1075, 1086, 1088, 1110, 1111]"

text \<open>Give 2-3 short observations or pieces of advice (each a line, no numbering, no asterisks, no introduction).\<close>

definition insights_question :: string where
  "insights_question =
     utf8 [1044, 1072, 1081, 32, 50, 45, 51, 32, 1082, 1086, 1088, 1086, 1090, 1082, 1080, 1093, 32, 1089, 1087,
        1086, 1089, 1090, 1077, 1088, 1077, 1078, 1077, 1085, 1085, 1103, 32, 1072, 1073, 1086, 32, 1087, 1086,
        1088, 1072, 1076, 1080, 32, 1085, 1072, 32, 1086, 1089, 1085, 1086, 1074, 1110, 32, 1094, 1080, 1093,
        32, 1076, 1072, 1085, 1080, 1093, 32, 40, 1082, 1086, 1078, 1085, 1077, 32, 8212, 32, 1086, 1082, 1088,
        1077, 1084, 1080, 1081, 32, 1088, 1103, 1076, 1086, 1082, 44, 32, 1073, 1077, 1079, 32, 1085, 1091,
        1084, 1077, 1088, 1072, 1094, 1110, 1111, 44, 32, 1073, 1077, 1079, 32, 1079, 1110, 1088, 1086, 1095,
        1086, 1082, 44, 32, 1073, 1077, 1079, 32, 1074, 1089, 1090, 1091, 1087, 1091, 41, 46]"

section \<open>Formatting\<close>

fun weave :: "string list \<Rightarrow> string list \<Rightarrow> string" where
  "weave (p # ps) (a # as) = p @ a @ weave ps as"
| "weave ps as = concat ps"

text \<open>The verbs \<open>%.0f\<close> and \<open>%+.0f\<close>.\<close>

definition fmt_0f :: "float64 \<Rightarrow> string" where
  "fmt_0f f = FormatFloat_prec 0 f"

definition fmt_plus_0f :: "float64 \<Rightarrow> string" where
  "fmt_plus_0f f =
     (let t = FormatFloat_prec 0 f in
      case t of c # _ \<Rightarrow> if c = CHR ''-'' \<or> c = CHR ''+'' then t else CHR ''+'' # t | [] \<Rightarrow> t)"

section \<open>The summary\<close>

record summary_sums =
  su_thisIncome :: float64
  su_thisExpense :: float64
  su_lastIncome :: float64
  su_lastExpense :: float64
  su_expenses :: "(string \<times> float64) list"
  su_incomes :: "(string \<times> float64) list"

definition category_label :: "Category list \<Rightarrow> uuid \<Rightarrow> string" where
  "category_label cats i = (if name_at cats i = [] then sum_uncategorised else name_at cats i)"

definition summary_tx ::
  "string \<Rightarrow> (string \<times> float64) list \<Rightarrow> Category list \<Rightarrow> gotime \<Rightarrow> summary_sums \<Rightarrow> Transaction \<Rightarrow> summary_sums" where
  "summary_tx base rates cats start a tx =
     (if tx_IsInternalTransfer tx then a
      else
        (let converted = convert (amount_or_zero (tx_Amount tx)) (tx_Currency tx) base rates;
             isThisMonth = (\<not> tx_Date tx < start);
             label = category_label cats (tx_CategoryID tx)
         in if tx_Type tx = ''income'' \<and> isThisMonth
            then a\<lparr>su_thisIncome := fadd (su_thisIncome a) converted, su_incomes := map_add label converted (su_incomes a)\<rparr>
            else if tx_Type tx = ''expense'' \<and> isThisMonth
            then a\<lparr>su_thisExpense := fadd (su_thisExpense a) converted,
                   su_expenses := map_add label converted (su_expenses a)\<rparr>
            else if tx_Type tx = ''income'' then a\<lparr>su_lastIncome := fadd (su_lastIncome a) converted\<rparr>
            else if tx_Type tx = ''expense'' then a\<lparr>su_lastExpense := fadd (su_lastExpense a) converted\<rparr>
            else a))"

definition summary_of ::
  "string \<Rightarrow> (string \<times> float64) list \<Rightarrow> Category list \<Rightarrow> gotime \<Rightarrow> Transaction list \<Rightarrow> summary_sums" where
  "summary_of base rates cats start txs =
     foldl (summary_tx base rates cats start)
       \<lparr>su_thisIncome = fzero, su_thisExpense = fzero, su_lastIncome = fzero, su_lastExpense = fzero,
        su_expenses = [], su_incomes = []\<rparr> txs"

text \<open>\<open>x / y * 100\<close> where \<open>y\<close> is positive, else 0.\<close>

definition percent :: "float64 \<Rightarrow> float64 \<Rightarrow> float64" where
  "percent x y = (if fless fzero y then fmul (fdiv x y) (float_of_int 100) else fzero)"

definition totals_sorted :: "advisor_env \<Rightarrow> (string \<times> float64) list \<Rightarrow> (string \<times> float64) list" where
  "totals_sorted env m = sort_by (\<lambda>x y. \<not> fless (snd x) (snd y)) (ai_by_name env m)"

definition total_line :: "float64 \<Rightarrow> string \<times> float64 \<Rightarrow> string" where
  "total_line whole ct = weave sum_line [fst ct, fmt_0f (snd ct), fmt_0f (percent (snd ct) whole)]"

definition score_text :: "FinancialScoreBreakdown \<Rightarrow> string" where
  "score_text s =
     weave sum_scale [fmt_d (fs_Total s)] @
     weave sum_parts
       [fmt_d (fs_SavingsScore s), fmt_0f (fmul (fs_SavingsRate s) (float_of_int 100)), fmt_d (fs_BalanceScore s),
        fmt_0f (fmul (fs_TopCategoryShare s) (float_of_int 100)), fmt_d (fs_ConsistencyScore s), fmt_d (fs_ActiveDays s)] @
     sum_scale_note"

definition summary_text :: "advisor_env \<Rightarrow> string \<Rightarrow> Category list \<Rightarrow> summary_sums \<Rightarrow> string" where
  "summary_text env base cats a =
     (let top = totals_sorted env (su_expenses a); topIncome = totals_sorted env (su_incomes a) in
      weave sum_currency [base] @
      weave sum_expense_categories [join_with '', '' (map ca_Name (filter (\<lambda>c. ca_Type c = ''expense'') cats))] @
      weave sum_income_categories [join_with '', '' (map ca_Name (filter (\<lambda>c. ca_Type c \<noteq> ''expense'') cats))] @
      weave sum_this_month
        [fmt_0f (su_thisIncome a), fmt_0f (su_thisExpense a), fmt_0f (percent (su_thisExpense a) (su_thisIncome a)),
         fmt_0f (percent (fsub (su_thisIncome a) (su_thisExpense a)) (su_thisIncome a))] @
      weave sum_last_month [fmt_0f (su_lastIncome a), fmt_0f (su_lastExpense a)] @
      (if fless fzero (su_lastExpense a)
       then weave sum_change [fmt_plus_0f (percent (fsub (su_thisExpense a) (su_lastExpense a)) (su_lastExpense a))]
       else []) @
      (if top \<noteq> [] then sum_expense_title @ concat (map (total_line (su_thisExpense a)) top) else sum_no_expense) @
      (if topIncome \<noteq> [] then sum_income_title @ concat (map (total_line (su_thisIncome a)) topIncome) else []))"

text \<open>The clock is read for the summary and again for the score, whose failure leaves it out.\<close>

definition buildSummary :: "advisor_env \<Rightarrow> (nat \<Rightarrow> gotime) \<Rightarrow> uuid \<Rightarrow> string \<Rightarrow> string res worldop" where
  "buildSummary env now userID baseCurrency =
     (let start = month_start (now 0) in do {
        r \<leftarrow> on_db (TransactionRepo_ListForUser (ai_pgnum env) userID (add_months start (-1)) (now 0));
        case r of
          Inl e \<Rightarrow> ret (Inl e)
        | Inr txs \<Rightarrow> do {
            r2 \<leftarrow> on_db (CategoryRepo_ListForUser (ai_name_le env) userID);
            case r2 of
              Inl e \<Rightarrow> ret (Inl e)
            | Inr cats \<Rightarrow> do {
                r3 \<leftarrow> on_redis RateRepo_List;
                case r3 of
                  Inl e \<Rightarrow> ret (Inl e)
                | Inr rates \<Rightarrow> do {
                    sc \<leftarrow> FinancialScore env (now 1) userID baseCurrency;
                    ret (Inr
                      (summary_text env baseCurrency cats (summary_of baseCurrency (rate_table rates) cats start txs) @
                       (case sc of Inl _ \<Rightarrow> [] | Inr s \<Rightarrow> score_text s))) } } } })"

section \<open>Chat and insights\<close>

definition system_message :: "string \<Rightarrow> Message" where
  "system_message summary =
     \<lparr>mg_Role = ''system'', mg_Content = systemPreamble @ [CHR 0x0A, CHR 0x0A] @ summary\<rparr>"

definition user_message :: "string \<Rightarrow> Message" where
  "user_message text = \<lparr>mg_Role = ''user'', mg_Content = text\<rparr>"

record advisor_service =
  as_env :: advisor_env
  as_net :: network
  as_llm :: ollama_Client

definition advisor_Chat ::
  "advisor_service \<Rightarrow> (nat \<Rightarrow> gotime) \<Rightarrow> uuid \<Rightarrow> string \<Rightarrow> Message list \<Rightarrow> string \<Rightarrow> string res worldop" where
  "advisor_Chat s now userID baseCurrency history userMessage = do {
     r \<leftarrow> buildSummary (as_env s) now userID baseCurrency;
     case r of
       Inl e \<Rightarrow> ret (Inl (Wrap ''build financial summary'' [] e))
     | Inr summary \<Rightarrow>
         ret (ollama_Chat (as_net s) (as_llm s) ([system_message summary] @ history @ [user_message userMessage])) }"

definition insightsCacheTTL :: duration where "insightsCacheTTL = time_Hour"

definition insights_key :: "advisor_env \<Rightarrow> uuid \<Rightarrow> string \<Rightarrow> string" where
  "insights_key env userID baseCurrency = ''advisor:insights:'' @ ai_uuid_String env userID @ '':'' @ baseCurrency"

text \<open>\<open>TrimLeft\<close> with the dash, the bullet (three bytes), the asterisk, digits, the point and the blank.\<close>

function trim_bullets :: "string \<Rightarrow> string" where
  "trim_bullets s =
     (if s = [] then []
      else if hd s \<in> set ''-*0123456789. '' then trim_bullets (tl s)
      else if take 3 s = utf8 [8226] \<and> 3 \<le> length s then trim_bullets (drop 3 s)
      else s)"
  by pat_completeness auto
termination
  by (relation "measure length") auto

declare trim_bullets.simps [simp del]

definition insight_line :: "advisor_env \<Rightarrow> string \<Rightarrow> string option" where
  "insight_line env line =
     (let l = TrimSpace (trim_bullets line) in
      if l = [] \<or> EqualFold (ai_fold env) l ''assistant'' then None else Some l)"

definition insights_of :: "advisor_env \<Rightarrow> string \<Rightarrow> string slice" where
  "insights_of env reply =
     (let ls = take 3 (List.map_filter (insight_line env) (split_char (CHR 0x0A) reply)) in
      if ls = [] then None else Some ls)"

definition set_insights :: "string slice setter" where
  "set_insights = decode_slice (set_string (\<lambda>t _. t)) []"

definition fresh_insights :: "advisor_service \<Rightarrow> (nat \<Rightarrow> gotime) \<Rightarrow> uuid \<Rightarrow> string \<Rightarrow> string slice res worldop" where
  "fresh_insights s now userID baseCurrency = do {
     r \<leftarrow> buildSummary (as_env s) now userID baseCurrency;
     case r of
       Inl e \<Rightarrow> ret (Inl (Wrap ''build financial summary'' [] e))
     | Inr summary \<Rightarrow>
         (case ollama_Chat (as_net s) (as_llm s) [system_message summary, user_message insights_question] of
            Inl e \<Rightarrow> ret (Inl e)
          | Inr reply \<Rightarrow>
              (let ins = insights_of (as_env s) reply in do {
                 _ \<leftarrow> (case jval_text (slice_jval VStr ins) of
                         Some encoded \<Rightarrow> on_redis (redis_Set (insights_key (as_env s) userID baseCurrency) encoded insightsCacheTTL)
                       | None \<Rightarrow> ret (Inr ()));
                 ret (Inr ins) })) }"

definition advisor_Insights :: "advisor_service \<Rightarrow> (nat \<Rightarrow> gotime) \<Rightarrow> uuid \<Rightarrow> string \<Rightarrow> string slice res worldop" where
  "advisor_Insights s now userID baseCurrency = do {
     r \<leftarrow> on_redis (redis_Get (insights_key (as_env s) userID baseCurrency));
     case (case r of Inl _ \<Rightarrow> None | Inr cached \<Rightarrow> Unmarshal set_insights None cached) of
       Some ins \<Rightarrow> ret (Inr ins)
     | None \<Rightarrow> fresh_insights s now userID baseCurrency }"

section \<open>The handlers\<close>

text \<open>The message with which an unreachable model is answered.\<close>

definition advisor_unavailable :: string where
  "advisor_unavailable =
     utf8 [97, 100, 118, 105, 115, 111, 114, 32, 117, 110, 97, 118, 97, 105, 108, 97, 98, 108, 101, 32, 8212, 32,
        109, 97, 107, 101, 32, 115, 117, 114, 101, 32, 96, 111, 108, 108, 97, 109, 97, 32, 115, 101, 114, 118,
        101, 96, 32, 105, 115, 32, 114, 117, 110, 110, 105, 110, 103]"

text \<open>The account is looked up first, by the handlers that need its currency or its plan.\<close>

definition with_user :: "uuid \<Rightarrow> (User \<Rightarrow> response worldop) \<Rightarrow> response worldop" where
  "with_user userID k = do {
     res \<leftarrow> on_db (Me userID);
     case res of
       Inl _ \<Rightarrow> ret (writeError 401 ''not signed in'')
     | Inr user \<Rightarrow> k user }"

definition felix_only :: "uuid \<Rightarrow> (User \<Rightarrow> response worldop) \<Rightarrow> response worldop" where
  "felix_only userID k = with_user userID (\<lambda>user.
     if \<not> AllowsFelix (u_Plan user) then ret (writeError 403 ''Felix is available from the Pro plan'') else k user)"

record chatRequest =
  cq_Message :: string
  cq_History :: "Message slice"

definition chatRequest_fields :: "(string \<times> chatRequest setter) list" where
  "chatRequest_fields =
     [(''message'', set_string (\<lambda>t s. s\<lparr>cq_Message := t\<rparr>)),
      (''history'', set_slice cq_History (\<lambda>x s. s\<lparr>cq_History := x\<rparr>) (decode_fields Message_fields) Message0)]"

definition decode_chat :: "request \<Rightarrow> chatRequest res" where
  "decode_chat r = Decode (decode_fields chatRequest_fields) \<lparr>cq_Message = [], cq_History = None\<rparr> (rq_body r)"

definition advisor_chat :: "advisor_service \<Rightarrow> draws \<Rightarrow> uuid \<Rightarrow> request \<Rightarrow> response worldop" where
  "advisor_chat s w userID r =
     (case decode_chat r of
        Inl _ \<Rightarrow> ret bad_body
      | Inr req \<Rightarrow>
          if cq_Message req = [] then ret (writeError 400 ''message is required'')
          else felix_only userID (\<lambda>user. do {
            res \<leftarrow> advisor_Chat s (dw_now w) userID (u_BaseCurrency user) (slice_list (cq_History req)) (cq_Message req);
            case res of
              Inl _ \<Rightarrow> ret (writeError 503 advisor_unavailable)
            | Inr reply \<Rightarrow> ret (writeJSON 200 (VMap [(''reply'', VStr reply)])) }))"

definition financialScoreToJSON :: "FinancialScoreBreakdown \<Rightarrow> jval" where
  "financialScoreToJSON s = VStruct
     [(''total'', VInt (fs_Total s)), (''savingsRate'', VFloat (fs_SavingsRate s)),
      (''savingsScore'', VInt (fs_SavingsScore s)), (''topCategoryShare'', VFloat (fs_TopCategoryShare s)),
      (''balanceScore'', VInt (fs_BalanceScore s)), (''activeDays'', VInt (fs_ActiveDays s)),
      (''consistencyScore'', VInt (fs_ConsistencyScore s))]"

definition advisor_score :: "advisor_service \<Rightarrow> draws \<Rightarrow> uuid \<Rightarrow> request \<Rightarrow> response worldop" where
  "advisor_score s w userID r = with_user userID (\<lambda>user. do {
     res \<leftarrow> FinancialScore (as_env s) (dw_now w 0) userID (u_BaseCurrency user);
     case res of
       Inl _ \<Rightarrow> ret (writeError 500 ''failed to compute financial score'')
     | Inr sc \<Rightarrow> ret (writeJSON 200 (financialScoreToJSON sc)) })"

definition subscriptionToJSON :: "Subscription \<Rightarrow> jval" where
  "subscriptionToJSON s = VStruct
     [(''description'', VStr (sb_Description s)), (''averageAmount'', VFloat (sb_AverageAmount s)),
      (''currency'', VStr (sb_Currency s)), (''occurrences'', VInt (sb_Occurrences s)),
      (''lastDate'', VStr (Format_rfc3339 (sb_LastDate s))),
      (''averageIntervalDays'', VFloat (sb_AverageIntervalDays s))]"

definition advisor_subscriptions :: "advisor_service \<Rightarrow> draws \<Rightarrow> uuid \<Rightarrow> request \<Rightarrow> response worldop" where
  "advisor_subscriptions s w userID r = do {
     res \<leftarrow> on_db (DetectSubscriptions (as_env s) (dw_now w 0) (dw_now w 1) userID);
     case res of
       Inl _ \<Rightarrow> ret (writeError 500 ''failed to detect subscriptions'')
     | Inr subs \<Rightarrow> ret (writeJSON 200 (VArr (map subscriptionToJSON subs))) }"

definition runwayToJSON :: "RunwayForecast \<Rightarrow> jval" where
  "runwayToJSON f = VStruct
     ([(''currentBalance'', VFloat (rf_CurrentBalance f)), (''dailyBurnRate'', VFloat (rf_DailyBurnRate f))] @
      omit_empty ''projectedZeroDate'' (formatOptionalTime (rf_ProjectedZeroDate f)) @
      omit_empty ''nextPaydayEstimate'' (formatOptionalTime (rf_NextPaydayEstimate f)) @
      [(''willMakeIt'', VBool (rf_WillMakeIt f))])"

definition advisor_runway :: "advisor_service \<Rightarrow> draws \<Rightarrow> uuid \<Rightarrow> request \<Rightarrow> response worldop" where
  "advisor_runway s w userID r = with_user userID (\<lambda>user. do {
     res \<leftarrow> Runway (as_env s) (dw_now w) userID (u_BaseCurrency user);
     case res of
       Inl _ \<Rightarrow> ret (writeError 500 ''failed to compute runway'')
     | Inr f \<Rightarrow> ret (writeJSON 200 (runwayToJSON f)) })"

definition categoryPaceToJSON :: "advisor_env \<Rightarrow> CategoryPace \<Rightarrow> jval" where
  "categoryPaceToJSON env p = VStruct
     [(''categoryId'', VStr (ai_uuid_String env (cg_CategoryID p))), (''categoryName'', VStr (cg_CategoryName p)),
      (''typicalMonthly'', VFloat (cg_TypicalMonthly p)), (''spentSoFar'', VFloat (cg_SpentSoFar p)),
      (''paceRatio'', VFloat (cg_PaceRatio p))]"

definition advisor_pace :: "advisor_service \<Rightarrow> draws \<Rightarrow> uuid \<Rightarrow> request \<Rightarrow> response worldop" where
  "advisor_pace s w userID r = with_user userID (\<lambda>user. do {
     res \<leftarrow> BudgetPace (as_env s) (dw_now w 0) userID (u_BaseCurrency user);
     case res of
       Inl _ \<Rightarrow> ret (writeError 500 ''failed to compute budget pace'')
     | Inr ps \<Rightarrow> ret (writeJSON 200 (VArr (map (categoryPaceToJSON (as_env s)) ps))) })"

definition advisor_insights :: "advisor_service \<Rightarrow> draws \<Rightarrow> uuid \<Rightarrow> request \<Rightarrow> response worldop" where
  "advisor_insights s w userID r = felix_only userID (\<lambda>user. do {
     res \<leftarrow> advisor_Insights s (dw_now w) userID (u_BaseCurrency user);
     case res of
       Inl _ \<Rightarrow> ret (writeError 503 advisor_unavailable)
     | Inr ins \<Rightarrow> ret (writeJSON 200 (VMap [(''insights'', slice_jval VStr ins)])) })"

lemmas advisor_defs =
  advisor_chat_def advisor_score_def advisor_subscriptions_def advisor_runway_def advisor_pace_def
  advisor_insights_def felix_only_def with_user_def advisor_Chat_def advisor_Insights_def fresh_insights_def
  buildSummary_def FinancialScore_def DetectSubscriptions_def Runway_def BudgetPace_def

end
