(* ===== verification/Statements.thy ===== *)
theory Statements
  imports Admin Reports Rest_Billing Rest_Ledger Rest_Monobank Advisor
begin

text \<open>
  The interface between the program and its database: the statements of \<open>pkg/dbq\<close>. Whatever
  every statement keeps -- a constraint of the schema, a table that only grows -- is kept by
  every repository, service and handler, since they reach the database through statements only.
  Of the statements the one that sets the plan of an account stands apart: what all others keep
  (\<open>plain_statements\<close>) is kept by everything that does not run it.
\<close>

locale plain_statements =
  fixes P :: "db \<Rightarrow> bool"
  assumes blind: "fault_free P"
    and user_writes:
      "\<And>t u s. keeps P (UserCreate t u s)" "\<And>t u s. keeps P (UserCreateWithEmail t u s)"
      "\<And>t u s. keeps P (UserCreateWithGoogle t u s)" "\<And>i s w. keeps P (UserStartTrial i s w)"
      "\<And>i s. keeps P (UserUpdateBaseCurrency i s)" "\<And>i s. keeps P (UserUpdateGoals i s)"
      "\<And>i s t. keeps P (UserUpdatePreferences i s t)" "\<And>i s t. keeps P (UserUpdateProfile i s t)"
    and payment_writes: "\<And>p. keeps P (PaymentEventCreate p)"
    and session_writes:
      "\<And>u h e a. keeps P (SessionCreate u h e a)" "\<And>i. keeps P (SessionRevokeByID i)"
      "\<And>h. keeps P (SessionRevokeByRefreshHash h)" "\<And>i u. keeps P (SessionRevokeForUser i u)"
    and category_writes:
      "\<And>p. keeps P (CategoryCreate p)" "\<And>i u. keeps P (CategoryDeleteForUser i u)"
      "\<And>i a b. keeps P (CategoryUpdateTranslations i a b)"
    and transaction_writes:
      "\<And>q. keeps P (TransactionCreate q)" "\<And>q x oa oc. keeps P (TransactionCreateWithExternalID q x oa oc)"
      "\<And>i u q. keeps P (TransactionUpdateForUser i u q)" "\<And>i u. keeps P (TransactionDeleteForUser i u)"
      "\<And>t s. keeps P (TransactionDeleteExpiredForPlan t s)"
    and monobank_writes:
      "\<And>p. keeps P (MonobankConnectionUpsert p)" "\<And>i. keeps P (MonobankConnectionDelete i)"
      "\<And>i. keeps P (MonobankConnectionTouchSync i)"
      "\<And>i a b c e. keeps P (MonobankConnectionUpdateAccounts i a b c e)"
begin

lemmas writes [hr] =
  user_writes payment_writes session_writes category_writes transaction_writes monobank_writes

lemma reads [hr]:
  "keeps P (UserGetByAppleSub t)" "keeps P (UserGetByEmail t)" "keeps P (UserGetByGoogleSub t)" "keeps P (UserGetByID i)"
  "keeps P (UserGetByLiqPayOrderID s)" "keeps P (UserListForAdmin ilike l off s p)" "keeps P UserCountByPlan"
  "keeps P (UserSignupsByDay n)" "keeps P (PaymentEventListForUser i m)" "keeps P (SessionGetByRefreshHash h)"
  "keeps P (SessionListActiveForUser i)" "keeps P (CategoryGetByID i)" "keeps P (CategoryListForUser le i)"
  "keeps P (TransactionCountForUser i)" "keeps P (TransactionListForUser i f t')"
  "keeps P (MonobankConnectionGetByUserID i)" "keeps P (MonobankConnectionGetByWebhookSecret s)"
  unfolding UserGetByAppleSub_def UserGetByEmail_def UserGetByGoogleSub_def UserGetByID_def UserGetByLiqPayOrderID_def
    UserListForAdmin_def UserCountByPlan_def UserSignupsByDay_def PaymentEventListForUser_def
    SessionGetByRefreshHash_def SessionListActiveForUser_def CategoryGetByID_def CategoryListForUser_def
    TransactionCountForUser_def TransactionListForUser_def MonobankConnectionGetByUserID_def
    MonobankConnectionGetByWebhookSecret_def
  by (rule keeps_read [OF blind])+

section \<open>Repositories\<close>

lemma user_repository [hr]:
  "keeps P (UserRepo_GetByAppleSub t)" "keeps P (UserRepo_GetByEmail t)" "keeps P (UserRepo_GetByGoogleSub t)"
  "keeps P (UserRepo_GetByID i)" "keeps P (UserRepo_GetByLiqPayOrderID s)" "keeps P (UserRepo_Create t u s)"
  "keeps P (UserRepo_CreateWithEmail t u s)" "keeps P (UserRepo_CreateWithGoogle t u s)"
  "keeps P (UserRepo_UpdateGoals i s)" "keeps P (UserRepo_UpdateBaseCurrency i s)"
  "keeps P (UserRepo_UpdatePreferences i s p)" "keeps P (UserRepo_UpdateProfile i s p)"
  "keeps P (UserRepo_BeginCheckout i s w)"
  "keeps P (UserRepo_ListForAdmin ilike s p l off)" "keeps P UserRepo_CountByPlan" "keeps P (UserRepo_SignupsByDay n)"
  by (auto simp: user_repo UserRepo_ListForAdmin_def UserRepo_CountByPlan_def UserRepo_SignupsByDay_def intro!: hr)

lemma payment_repository [hr]: "keeps P (PaymentRepo_Create pg q)" "keeps P (PaymentRepo_ListForUser pg i m)"
  by (auto simp: PaymentRepo_Create_def PaymentRepo_ListForUser_def intro!: hr)

lemma session_repository [hr]:
  "keeps P (SessionRepo_Create u h e a)" "keeps P (SessionRepo_GetByRefreshHash h)" "keeps P (SessionRepo_RevokeByID i)"
  "keeps P (SessionRepo_RevokeByRefreshHash h)" "keeps P (SessionRepo_ListActiveForUser i)"
  "keeps P (SessionRepo_RevokeForUser i u)"
  by (auto simp: session_repo intro!: hr)

lemma ledger_repository [hr]:
  "keeps P (CategoryRepo_ListForUser le u)" "keeps P (CategoryRepo_Create u a b c e f g)"
  "keeps P (CategoryRepo_GetByID i)" "keeps P (CategoryRepo_UpdateTranslations i a b)"
  "keeps P (CategoryRepo_DeleteForUser i u)" "keeps P (TransactionRepo_Create pg q)"
  "keeps P (TransactionRepo_CreateWithExternalID pg q x oa oc)" "keeps P (TransactionRepo_ListForUser pg u ta tb)"
  "keeps P (TransactionRepo_UpdateForUser pg y)" "keeps P (TransactionRepo_CountForUser u)"
  "keeps P (TransactionRepo_DeleteForUser i u)" "keeps P (TransactionRepo_DeleteExpiredForPlan s tc)"
  by (auto simp: ledger_defs intro!: hr)

lemma monobank_repository [hr]:
  "keeps P (MonobankRepo_Upsert p)" "keeps P (MonobankRepo_GetByUserID i)" "keeps P (MonobankRepo_GetByWebhookSecret s)"
  "keeps P (MonobankRepo_Delete i)" "keeps P (MonobankRepo_TouchSync i)" "keeps P (MonobankRepo_UpdateAccounts i a b c e)"
  by (auto simp: monobank_repo intro!: hr)

section \<open>Services\<close>

lemma auth_service [hr]:
  "keeps P (SignInWithApple env s t t' x)" "keeps P (DevSignIn env s t t' x)" "keeps P (SignUpWithEmail env s t t' x y)"
  "keeps P (SignInWithEmail env s t t' x y)" "keeps P (SignInWithGoogle env s t t' x)" "keeps P (Me i)"
  "keeps P (UpdatePreferences i x y)" "keeps P (UpdateBaseCurrency i x)" "keeps P (UpdateGoals i x)"
  "keeps P (UpdateProfile i x y)"
  by (auto simp: auth_defs Let_def intro!: hr)

lemma session_services [hr]:
  "keeps P (Issue lib sv w u a)" "keeps P (Refresh lib sv t w raw)" "keeps P (Revoke raw)" "keeps P (ListActive u raw)"
  "keeps P (RevokeForUser u i)"
  by (auto simp: session_service refresh_check_def refresh_rotate_def Let_def intro!: hr)

lemma billing_services [hr]:
  "keeps P (StartTrial be b t t' i)" "keeps P (Subscribe be b t t' i p)" "keeps P (Receipts be i)"
  by (auto simp: StartTrial_def Subscribe_def Receipts_def Let_def intro!: hr)

lemma admin_services [hr]:
  "keeps P (ListUsers ilike q p l off)" "keeps P (GetUser i)" "keeps P admin_Stats"
  by (auto simp: admin_defs Let_def intro!: hr)

lemma ledger_services [hr]:
  "keeps P (category_List le u)" "keeps P (category_Create tr u a b c e)" "keeps P (category_Delete u i)"
  "keeps P (transaction_List pg u f t)" "keeps P (transaction_Create pg q)" "keeps P (transaction_Update pg y)"
  "keeps P (transaction_Delete u i)" "keeps P (sweepOnce now)"
  by (auto simp: category_List_def category_Create_def category_Delete_def transaction_List_def
      transaction_Create_def transaction_Update_def transaction_Delete_def check_category_def sweepOnce_def
      intro!: hr keeps_heal keeps_sweep_plans)

lemma bank_import [hr]: "keeps P (Item ie u x c)"
  by (auto simp: Item_def findCategory_def Let_def intro!: hr)

lemmas bank_services [hr] =
  keeps_monobank_services [where P = P, OF bank_import monobank_repository(2,3,1,6,4,5)]

lemma report_services [hr]: "keeps P (Export re u f t)" "keeps P (Import re u cur data)"
proof -
  have row: "keeps P (row_category re u n cache ty name)" for n cache ty name
    by (auto simp: row_category_def Let_def intro!: hr)
  have rows: "keeps P (import_rows re u cur n rs cache res)" for n rs cache res
    by (induction rs arbitrary: n cache res) (auto intro!: hr row)
  show "keeps P (Export re u f t)" by (auto simp: Export_def intro!: hr)
  show "keeps P (Import re u cur data)"
    by (auto simp: Import_def Let_def intro!: hr rows split: list.split)
qed

section \<open>Handlers\<close>

lemma auth_handlers [hr]:
  "keeps P (signup h w r)" "keeps P (login h w r)" "keeps P (google h w r)" "keeps P (me h u r)"
  "keeps P (updatePreferences h u r)" "keeps P (updateProfile h u r)" "keeps P (updateGoals h u r)"
  "keeps P (updateCurrency h u r)" "keeps P (refresh h w r)" "keeps P (listSessions h u r)" "keeps P (revokeSession h u r)"
  "keeps P (logout h r)"
  by (auto simp: rest_auth_defs Let_def intro!: hr)

lemma ledger_handlers [hr]:
  "keeps P (categories_list lh u r)" "keeps P (categories_create lh u r)" "keeps P (categories_delete lh u r)"
  "keeps P (transactions_list lh u r)" "keeps P (transactions_create lh u r)" "keeps P (transactions_update lh u r)"
  "keeps P (transactions_delete lh u r)"
  by (auto simp: rest_ledger_defs Let_def intro!: hr)

lemma billing_handlers [hr]:
  "keeps P (billing_startTrial bh w u r)" "keeps P (billing_subscribe bh w u r)" "keeps P (billing_receipts bh u r)"
  by (auto simp: rest_billing_defs Let_def intro!: hr)

lemma admin_handlers [hr]:
  "keeps P (admin_login dh w r)" "keeps P (admin_listUsers dh r)" "keeps P (admin_getUser dh r)"
  "keeps P (admin_stats dh r)"
  by (auto simp: rest_admin_defs Let_def intro!: hr)

lemma bank_handlers [hr]:
  "keeps P (monobank_accounts nh u r)" "keeps P (monobank_connect nh w u r)" "keeps P (monobank_myAccounts nh u r)"
  "keeps P (monobank_updateAccounts nh u r)" "keeps P (monobank_sync nh w u r)" "keeps P (monobank_status nh u r)"
  "keeps P (monobank_disconnect u r)"
  by (auto simp: rest_monobank_defs Let_def intro!: hr)

lemma report_handlers [hr]: "keeps P (reports_export ph w u r)" "keeps P (reports_importCSV ph up u r)"
  by (auto simp: reports_export_def reports_importCSV_def Let_def intro!: hr)

lemmas lifted [hr] = keeps_on_db [where P = P]

lemma advisor_handlers [hr]:
  "keeps (db_holds P) (advisor_chat s w u r)" "keeps (db_holds P) (advisor_score s w u r)"
  "keeps (db_holds P) (advisor_subscriptions s w u r)" "keeps (db_holds P) (advisor_runway s w u r)"
  "keeps (db_holds P) (advisor_pace s w u r)" "keeps (db_holds P) (advisor_insights s w u r)"
  by (auto simp: advisor_defs Let_def intro!: hr)

end

section \<open>The statement that sets the plan\<close>

locale statement_invariant = plain_statements +
  assumes subscription_writes: "\<And>i s t w. keeps P (UserUpdateSubscription i s t w)"
begin

lemma subscription_services [hr]:
  "keeps P (UserRepo_UpdateSubscription i s p t)" "keeps P (HandleCallback be b d sg)" "keeps P (Cancel be b i)"
  "keeps P (LiqPay_ServeHTTP be b m f)" "keeps P (SetPlan i p)" "keeps P (ExtendTrial t t' i n)"
  "keeps P (CancelSubscription be b i)"
proof -
  show u [hr]: "keeps P (UserRepo_UpdateSubscription i s p t)" for i s p t
    by (auto simp: UserRepo_UpdateSubscription_def intro!: hr subscription_writes)
  show h [hr]: "keeps P (HandleCallback be b d sg)" for d sg
    by (auto simp: HandleCallback_def apply_status_def Let_def intro!: hr)
  show c [hr]: "keeps P (Cancel be b i)" for i
    by (auto simp: Cancel_def Let_def intro!: hr)
  show "keeps P (LiqPay_ServeHTTP be b m f)"
    by (auto simp: LiqPay_ServeHTTP_def intro!: hr)
  show "keeps P (SetPlan i p)" "keeps P (ExtendTrial t t' i n)" "keeps P (CancelSubscription be b i)"
    by (auto simp: admin_defs Let_def intro!: hr)
qed

lemma subscription_handlers [hr]:
  "keeps P (billing_cancel bh u r)" "keeps P (admin_setPlan dh r)" "keeps P (admin_extendTrial dh w r)"
  "keeps P (admin_cancelSubscription dh r)"
  by (auto simp: rest_billing_defs rest_admin_defs Let_def intro!: hr)

end

text \<open>
  A predicate about one account: the plan of every other account may be set without disturbing it.
\<close>

locale account_statements = plain_statements +
  fixes account :: uuid
  assumes others: "\<And>i s t w. i \<noteq> account \<Longrightarrow> keeps P (UserUpdateSubscription i s t w)"
begin

lemma other_cancel: "u \<noteq> account \<Longrightarrow> keeps P (billing_cancel bh u r)"
proof -
  assume u: "u \<noteq> account"
  have [hr]: "keeps P (UserRepo_UpdateSubscription u s p t)" for s p t
    by (auto simp: UserRepo_UpdateSubscription_def intro!: hr others [OF u])
  show "keeps P (billing_cancel bh u r)"
    by (auto simp: rest_billing_defs Cancel_def Let_def intro!: hr)
qed

lemma forged_ignored:
  "(\<And>data sg. form = Some (data, sg) \<Longrightarrow> Sign (bs_liqpay b) data \<noteq> sg) \<Longrightarrow> keeps P (LiqPay_ServeHTTP be b m form)"
  by (auto simp: LiqPay_ServeHTTP_def HandleCallback_def VerifyAndDecode_def intro!: hr split: option.split)

end

end
