(* ===== verification/Rest_Server.thy ===== *)
theory Rest_Server
  imports Statements
begin

text \<open>
  The routing table of \<open>internal/rest/server.go\<close> over the handlers of the other files. The values the program gets from its environment are the record \<open>outside\<close>, one for each
  request: the readings of the clock, random bytes, the form of a payment call-back and the file
  of an upload, already parsed by the server.
\<close>

section \<open>Options\<close>

record Options =
  op_env :: auth_env
  op_errors :: err_lib
  op_Auth :: AuthService
  op_Sessions :: SessionService
  op_name_le :: "string \<Rightarrow> string \<Rightarrow> bool"
  op_pgnum :: pgnum
  op_translator :: translator
  op_net :: network
  op_Advisor :: advisor_service
  op_Billing :: Billing
  op_Reports :: reports_env
  op_Monobank :: MonobankService
  op_mono_env :: mono_env
  op_ilike :: "string \<Rightarrow> string \<Rightarrow> bool"
  op_JWT :: jwtManager
  op_CORSOrigin :: string
  op_AdminOrigin :: string
  op_AdminPassword :: string
  op_JWTSecret :: string
  op_AccessMaxAge :: duration
  op_RefreshMaxAge :: duration

record outside =
  ot_now :: gotime
  ot_draws :: draws
  ot_form :: "(string \<times> string) option"
  ot_upload :: "string option option"

abbreviation op_lib :: "Options \<Rightarrow> jwt_lib" where
  "op_lib o' \<equiv> ae_jwt (op_env o')"

definition op_billing_env :: "Options \<Rightarrow> billing_env" where
  "op_billing_env opts =
     \<lparr>be_uuid_String = jl_uuid_String (op_lib opts), be_pgnum = op_pgnum opts, be_network = op_net opts\<rparr>"

definition newAuthHandler :: "Options \<Rightarrow> authHandler" where
  "newAuthHandler opts =
     \<lparr>ah_env = op_env opts, ah_auth = op_Auth opts, ah_sessions = op_Sessions opts, ah_corsOrigin = op_CORSOrigin opts,
      ah_accessMaxAge = op_AccessMaxAge opts, ah_refreshMaxAge = op_RefreshMaxAge opts, ah_errors = op_errors opts\<rparr>"

definition newLedgerHandler :: "Options \<Rightarrow> ledgerHandler" where
  "newLedgerHandler opts =
     \<lparr>lh_lib = op_lib opts, lh_name_le = op_name_le opts, lh_pgnum = op_pgnum opts, lh_translator = op_translator opts,
      lh_errors = op_errors opts\<rparr>"

definition newReportsHandler :: "Options \<Rightarrow> reportsHandler" where
  "newReportsHandler opts = \<lparr>ph_env = op_Reports opts, ph_errors = op_errors opts\<rparr>"

definition newMonobankHandler :: "Options \<Rightarrow> monobankHandler" where
  "newMonobankHandler opts =
     \<lparr>nh_env = op_mono_env opts, nh_service = op_Monobank opts, nh_errors = op_errors opts\<rparr>"

definition newBillingHandler :: "Options \<Rightarrow> billingHandler" where
  "newBillingHandler opts =
     \<lparr>bh_env = op_billing_env opts, bh_service = op_Billing opts, bh_errors = op_errors opts\<rparr>"

definition newAdminHandler :: "Options \<Rightarrow> adminHandler" where
  "newAdminHandler opts =
     \<lparr>dh_env = op_billing_env opts, dh_service = op_Billing opts, dh_lib = op_lib opts, dh_ilike = op_ilike opts,
      dh_adminPassword = op_AdminPassword opts, dh_jwtSecret = op_JWTSecret opts, dh_errors = op_errors opts\<rparr>"

section \<open>The routes\<close>

type_synonym http_handler = "request \<Rightarrow> response worldop"

definition HandleFunc :: "string \<Rightarrow> segment list \<Rightarrow> http_handler \<Rightarrow> http_handler route" where
  "HandleFunc meth pattern h = \<lparr>rt_method = meth, rt_pattern = Seg ''api'' # pattern, rt_handler = h\<rparr>"

definition user_route :: "Options \<Rightarrow> outside \<Rightarrow> (uuid \<Rightarrow> http_handler) \<Rightarrow> http_handler" where
  "user_route opts ot h = withAuth (op_lib opts) (op_JWT opts) (ot_now ot) h"

definition admin_route :: "Options \<Rightarrow> outside \<Rightarrow> http_handler \<Rightarrow> http_handler" where
  "admin_route opts ot h = withAdminAuth (op_lib opts) (op_JWTSecret opts) (ot_now ot) h"

definition auth_routes :: "Options \<Rightarrow> outside \<Rightarrow> http_handler route list" where
  "auth_routes opts ot =
     (let h = newAuthHandler opts; w = ot_draws ot; user = user_route opts ot in
      [HandleFunc ''POST'' [Seg ''auth'', Seg ''signup''] (\<lambda>r. on_db (signup h w r)),
       HandleFunc ''POST'' [Seg ''auth'', Seg ''login''] (\<lambda>r. on_db (login h w r)),
       HandleFunc ''POST'' [Seg ''auth'', Seg ''google''] (\<lambda>r. on_db (google h w r)),
       HandleFunc ''POST'' [Seg ''auth'', Seg ''refresh''] (\<lambda>r. on_db (refresh h w r)),
       HandleFunc ''POST'' [Seg ''auth'', Seg ''logout''] (\<lambda>r. on_db (logout h r)),
       HandleFunc ''GET'' [Seg ''auth'', Seg ''me''] (user (\<lambda>u r. on_db (me h u r))),
       HandleFunc ''PATCH'' [Seg ''auth'', Seg ''preferences''] (user (\<lambda>u r. on_db (updatePreferences h u r))),
       HandleFunc ''PATCH'' [Seg ''auth'', Seg ''profile''] (user (\<lambda>u r. on_db (updateProfile h u r))),
       HandleFunc ''PATCH'' [Seg ''auth'', Seg ''goals''] (user (\<lambda>u r. on_db (updateGoals h u r))),
       HandleFunc ''PATCH'' [Seg ''auth'', Seg ''currency''] (user (\<lambda>u r. on_db (updateCurrency h u r))),
       HandleFunc ''GET'' [Seg ''auth'', Seg ''sessions''] (user (\<lambda>u r. on_db (listSessions h u r))),
       HandleFunc ''DELETE'' [Seg ''auth'', Seg ''sessions'', Param] (user (\<lambda>u r. on_db (revokeSession h u r)))])"

definition ledger_routes :: "Options \<Rightarrow> outside \<Rightarrow> http_handler route list" where
  "ledger_routes opts ot =
     (let h = newLedgerHandler opts; p = newReportsHandler opts; w = ot_draws ot; user = user_route opts ot in
      [HandleFunc ''GET'' [Seg ''categories''] (user (\<lambda>u r. on_db (categories_list h u r))),
       HandleFunc ''POST'' [Seg ''categories''] (user (\<lambda>u r. on_db (categories_create h u r))),
       HandleFunc ''DELETE'' [Seg ''categories'', Param] (user (\<lambda>u r. on_db (categories_delete h u r))),
       HandleFunc ''GET'' [Seg ''transactions''] (user (\<lambda>u r. on_db (transactions_list h u r))),
       HandleFunc ''POST'' [Seg ''transactions''] (user (\<lambda>u r. on_db (transactions_create h u r))),
       HandleFunc ''PUT'' [Seg ''transactions'', Param] (user (\<lambda>u r. on_db (transactions_update h u r))),
       HandleFunc ''DELETE'' [Seg ''transactions'', Param] (user (\<lambda>u r. on_db (transactions_delete h u r))),
       HandleFunc ''GET'' [Seg ''rates''] (user (\<lambda>u r. on_redis (rates_list u r))),
       HandleFunc ''GET'' [Seg ''rates'', Seg ''history''] (user (\<lambda>u r. on_redis (rates_history (op_net opts) u r))),
       HandleFunc ''GET'' [Seg ''reports'', Seg ''export''] (user (\<lambda>u r. on_db (reports_export p w u r))),
       HandleFunc ''POST'' [Seg ''reports'', Seg ''import''] (user (\<lambda>u r. on_db (reports_importCSV p (ot_upload ot) u r)))])"

definition bank_routes :: "Options \<Rightarrow> outside \<Rightarrow> http_handler route list" where
  "bank_routes opts ot =
     (let h = newMonobankHandler opts; w = ot_draws ot; user = user_route opts ot in
      [HandleFunc ''POST'' [Seg ''monobank'', Seg ''accounts''] (user (\<lambda>u r. on_db (monobank_accounts h u r))),
       HandleFunc ''POST'' [Seg ''monobank'', Seg ''connect''] (user (\<lambda>u r. on_db (monobank_connect h w u r))),
       HandleFunc ''GET'' [Seg ''monobank'', Seg ''my-accounts''] (user (\<lambda>u r. on_db (monobank_myAccounts h u r))),
       HandleFunc ''PUT'' [Seg ''monobank'', Seg ''accounts''] (user (\<lambda>u r. on_db (monobank_updateAccounts h u r))),
       HandleFunc ''POST'' [Seg ''monobank'', Seg ''sync''] (user (\<lambda>u r. on_db (monobank_sync h w u r))),
       HandleFunc ''GET'' [Seg ''monobank'', Seg ''status''] (user (\<lambda>u r. on_db (monobank_status h u r))),
       HandleFunc ''POST'' [Seg ''monobank'', Seg ''disconnect''] (user (\<lambda>u r. on_db (monobank_disconnect u r)))])"

definition advisor_routes :: "Options \<Rightarrow> outside \<Rightarrow> http_handler route list" where
  "advisor_routes opts ot =
     (let s = op_Advisor opts; w = ot_draws ot; user = user_route opts ot in
      [HandleFunc ''POST'' [Seg ''advisor'', Seg ''chat''] (user (advisor_chat s w)),
       HandleFunc ''GET'' [Seg ''advisor'', Seg ''insights''] (user (advisor_insights s w)),
       HandleFunc ''GET'' [Seg ''advisor'', Seg ''score''] (user (advisor_score s w)),
       HandleFunc ''GET'' [Seg ''advisor'', Seg ''subscriptions''] (user (advisor_subscriptions s w)),
       HandleFunc ''GET'' [Seg ''advisor'', Seg ''runway''] (user (advisor_runway s w)),
       HandleFunc ''GET'' [Seg ''advisor'', Seg ''pace''] (user (advisor_pace s w))])"

definition billing_routes :: "Options \<Rightarrow> outside \<Rightarrow> http_handler route list" where
  "billing_routes opts ot =
     (let h = newBillingHandler opts; w = ot_draws ot; user = user_route opts ot in
      [HandleFunc ''POST'' [Seg ''billing'', Seg ''start-trial''] (user (\<lambda>u r. on_db (billing_startTrial h w u r))),
       HandleFunc ''POST'' [Seg ''billing'', Seg ''subscribe''] (user (\<lambda>u r. on_db (billing_subscribe h w u r))),
       HandleFunc ''POST'' [Seg ''billing'', Seg ''cancel''] (user (\<lambda>u r. on_db (billing_cancel h u r))),
       HandleFunc ''GET'' [Seg ''billing'', Seg ''receipts''] (user (\<lambda>u r. on_db (billing_receipts h u r)))])"

definition admin_routes :: "Options \<Rightarrow> outside \<Rightarrow> http_handler route list" where
  "admin_routes opts ot =
     (let h = newAdminHandler opts; w = ot_draws ot; admin = admin_route opts ot in
      [HandleFunc ''POST'' [Seg ''admin'', Seg ''login''] (\<lambda>r. on_db (admin_login h w r)),
       HandleFunc ''GET'' [Seg ''admin'', Seg ''users''] (admin (\<lambda>r. on_db (admin_listUsers h r))),
       HandleFunc ''GET'' [Seg ''admin'', Seg ''users'', Param] (admin (\<lambda>r. on_db (admin_getUser h r))),
       HandleFunc ''PATCH'' [Seg ''admin'', Seg ''users'', Param, Seg ''plan''] (admin (\<lambda>r. on_db (admin_setPlan h r))),
       HandleFunc ''POST'' [Seg ''admin'', Seg ''users'', Param, Seg ''extend-trial'']
         (admin (\<lambda>r. on_db (admin_extendTrial h w r))),
       HandleFunc ''POST'' [Seg ''admin'', Seg ''users'', Param, Seg ''cancel'']
         (admin (\<lambda>r. on_db (admin_cancelSubscription h r))),
       HandleFunc ''GET'' [Seg ''admin'', Seg ''stats''] (admin (\<lambda>r. on_db (admin_stats h r)))])"

definition api_routes :: "Options \<Rightarrow> outside \<Rightarrow> http_handler route list" where
  "api_routes opts ot =
     auth_routes opts ot @ ledger_routes opts ot @ bank_routes opts ot @ advisor_routes opts ot @
     billing_routes opts ot @ admin_routes opts ot"

definition ServeMux :: "http_handler route list \<Rightarrow> http_handler" where
  "ServeMux rs r =
     (case find_route rs (rq_method r) (rq_path r) of
        None \<Rightarrow> ret (not_routed rs (rq_path r))
      | Some (h, ws) \<Rightarrow> h (r\<lparr>rq_wild := ws\<rparr>))"

definition NewMux :: "Options \<Rightarrow> outside \<Rightarrow> http_handler" where
  "NewMux opts ot = withCORS [op_CORSOrigin opts, op_AdminOrigin opts] (ServeMux (api_routes opts ot))"

section \<open>Every route is behind a guard, or public\<close>

text \<open>A handler that answers 401 and changes nothing when neither kind of token verifies.\<close>

definition guarded_handler :: "Options \<Rightarrow> outside \<Rightarrow> http_handler \<Rightarrow> bool" where
  "guarded_handler opts ot h \<longleftrightarrow>
     (\<forall>r w. is_err (jwt_Verify (op_lib opts) (op_JWT opts) (ot_now ot) (accessToken r)) \<longrightarrow>
            is_err (admin_Verify (op_lib opts) (op_JWTSecret opts) (ot_now ot) (bearerToken r)) \<longrightarrow>
            (\<exists>m. run_state (h r) w = (writeError 401 m, w)))"

lemma user_route_guarded [simp]: "guarded_handler opts ot (user_route opts ot h)"
  by (auto simp: guarded_handler_def user_route_def withAuth_def Let_def split: sum.split)

lemma admin_route_guarded [simp]: "guarded_handler opts ot (admin_route opts ot h)"
  by (auto simp: guarded_handler_def admin_route_def withAdminAuth_def Let_def)

definition public_patterns :: "segment list set" where
  "public_patterns =
     {[Seg ''api'', Seg ''auth'', Seg ''signup''], [Seg ''api'', Seg ''auth'', Seg ''login''],
      [Seg ''api'', Seg ''auth'', Seg ''google''], [Seg ''api'', Seg ''auth'', Seg ''refresh''],
      [Seg ''api'', Seg ''auth'', Seg ''logout''], [Seg ''api'', Seg ''admin'', Seg ''login'']}"

definition route_guarded :: "Options \<Rightarrow> outside \<Rightarrow> http_handler route \<Rightarrow> bool" where
  "route_guarded opts ot rt \<longleftrightarrow> rt_pattern rt \<in> public_patterns \<or> guarded_handler opts ot (rt_handler rt)"

lemma HandleFunc_guarded [simp]:
  "route_guarded opts ot (HandleFunc meth p (user_route opts ot h))"
  "route_guarded opts ot (HandleFunc meth p (admin_route opts ot g))"
  "route_guarded opts ot (HandleFunc meth [Seg ''auth'', Seg ''signup''] f)"
  "route_guarded opts ot (HandleFunc meth [Seg ''auth'', Seg ''login''] f)"
  "route_guarded opts ot (HandleFunc meth [Seg ''auth'', Seg ''google''] f)"
  "route_guarded opts ot (HandleFunc meth [Seg ''auth'', Seg ''refresh''] f)"
  "route_guarded opts ot (HandleFunc meth [Seg ''auth'', Seg ''logout''] f)"
  "route_guarded opts ot (HandleFunc meth [Seg ''admin'', Seg ''login''] f)"
  by (simp_all add: route_guarded_def HandleFunc_def public_patterns_def)

lemma routes_guarded: "\<forall>rt \<in> set (api_routes opts ot). route_guarded opts ot rt"
  by (simp add: api_routes_def auth_routes_def ledger_routes_def bank_routes_def advisor_routes_def billing_routes_def
      admin_routes_def Let_def ball_Un)

section \<open>What every statement keeps is kept by the process\<close>

lemma keeps_withCORS: "(\<And>r. keeps P (next r)) \<Longrightarrow> keeps P (withCORS origins next r)"
  by (auto simp: withCORS_def Let_def intro!: hr)

lemma keeps_withAuth: "(\<And>u r. keeps P (next u r)) \<Longrightarrow> keeps P (withAuth lib m now next r)"
  by (auto simp: withAuth_def Let_def intro!: hr)

lemma keeps_withAdminAuth: "(\<And>r. keeps P (next r)) \<Longrightarrow> keeps P (withAdminAuth lib s now next r)"
  by (auto simp: withAdminAuth_def Let_def intro!: hr)

definition keeps_route :: "(world \<Rightarrow> bool) \<Rightarrow> http_handler route \<Rightarrow> bool" where
  "keeps_route P rt \<longleftrightarrow> (\<forall>r. keeps P (rt_handler rt r))"

lemma keeps_ServeMux: "\<forall>rt \<in> set rs. keeps_route P rt \<Longrightarrow> keeps P (ServeMux rs r)"
  by (auto simp: ServeMux_def keeps_route_def intro!: hr dest!: find_route_in split: option.splits)

lemma keeps_user: "(\<And>u r. keeps P (h u r)) \<Longrightarrow> keeps_route P (HandleFunc m p (user_route opts ot h))"
  by (simp add: keeps_route_def HandleFunc_def user_route_def keeps_withAuth)

lemma keeps_admin: "(\<And>r. keeps P (h r)) \<Longrightarrow> keeps_route P (HandleFunc m p (admin_route opts ot h))"
  by (simp add: keeps_route_def HandleFunc_def admin_route_def keeps_withAdminAuth)

lemma keeps_public: "(\<And>r. keeps P (h r)) \<Longrightarrow> keeps_route P (HandleFunc m p h)"
  by (simp add: keeps_route_def HandleFunc_def)

context statement_invariant begin

lemma routes_keep: "\<forall>rt \<in> set (api_routes opts ot). keeps_route (db_holds P) rt"
  unfolding api_routes_def auth_routes_def ledger_routes_def bank_routes_def advisor_routes_def billing_routes_def
    admin_routes_def Let_def set_append ball_Un list.set ball_simps
  by (intro conjI keeps_user keeps_admin TrueI) (auto intro!: keeps_public hr)

lemma api_keeps [hr]: "keeps (db_holds P) (NewMux opts ot r)"
  by (auto simp: NewMux_def intro!: hr keeps_withCORS keeps_ServeMux routes_keep)

end

section \<open>Who may set a plan\<close>

text \<open>
  The requests that may change the plan of an account: those with an accepted token of the
  administrator, and the cancellation of the subscription with the token of the account itself.
\<close>

definition admin_request :: "Options \<Rightarrow> outside \<Rightarrow> request \<Rightarrow> bool" where
  "admin_request opts ot r \<longleftrightarrow> \<not> is_err (admin_Verify (op_lib opts) (op_JWTSecret opts) (ot_now ot) (bearerToken r))"

definition own_cancel :: "Options \<Rightarrow> outside \<Rightarrow> uuid \<Rightarrow> request \<Rightarrow> bool" where
  "own_cancel opts ot i r \<longleftrightarrow>
     rq_path r = [''api'', ''billing'', ''cancel''] \<and>
     jwt_Verify (op_lib opts) (op_JWT opts) (ot_now ot) (accessToken r) = Inr i"

text \<open>A route that keeps a predicate on the requests it takes of the form of \<open>r\<close>.\<close>

definition quiet :: "(world \<Rightarrow> bool) \<Rightarrow> request \<Rightarrow> http_handler route \<Rightarrow> bool" where
  "quiet P r rt \<longleftrightarrow>
     (\<forall>ws. match_path (rt_pattern rt) (rq_path r) = Some ws \<longrightarrow> keeps P (rt_handler rt (r\<lparr>rq_wild := ws\<rparr>)))"

lemma find_route_pattern:
  "find_route rs m p = Some (h, ws) \<Longrightarrow> \<exists>rt \<in> set rs. rt_handler rt = h \<and> match_path (rt_pattern rt) p = Some ws"
  by (induction rs) (auto split: option.splits if_splits)

lemma quiet_ServeMux: "\<forall>rt \<in> set rs. quiet P r rt \<Longrightarrow> keeps P (ServeMux rs r)"
  by (auto simp: ServeMux_def quiet_def intro!: hr dest!: find_route_pattern split: option.splits)

lemma quiet_if_keeps: "keeps_route P rt \<Longrightarrow> quiet P r rt"
  by (simp add: keeps_route_def quiet_def)

lemma accessToken_wild [simp]:
  "accessToken (r\<lparr>rq_wild := ws\<rparr>) = accessToken r" "bearerToken (r\<lparr>rq_wild := ws\<rparr>) = bearerToken r"
  by (simp_all add: accessToken_def bearerToken_def Let_def)

lemma match_fixed: "match_path (map Seg ss) p = Some ws \<longleftrightarrow> p = ss \<and> ws = []"
  by (induction ss arbitrary: p) (case_tac p; auto)+

lemma quiet_admin: "\<not> admin_request opts ot r \<Longrightarrow> quiet P r (HandleFunc m p (admin_route opts ot h))"
  by (auto simp: quiet_def HandleFunc_def admin_route_def withAdminAuth_def admin_request_def Let_def intro!: hr)

context account_statements begin

lemma quiet_cancel:
  assumes "\<not> own_cancel opts ot account r"
  shows "quiet (db_holds P) r
    (HandleFunc m [Seg ''billing'', Seg ''cancel''] (user_route opts ot (\<lambda>u r. on_db (billing_cancel h u r))))"
  using assms match_fixed [of "[''api'', ''billing'', ''cancel'']" "rq_path r"]
  by (auto simp: quiet_def HandleFunc_def user_route_def withAuth_def own_cancel_def Let_def intro!: hr other_cancel
      split: sum.split)

lemma quiet_routes:
  assumes "\<not> admin_request opts ot r" and "\<not> own_cancel opts ot account r"
  shows "\<forall>rt \<in> set (api_routes opts ot). quiet (db_holds P) r rt"
  unfolding api_routes_def auth_routes_def ledger_routes_def bank_routes_def advisor_routes_def billing_routes_def
    admin_routes_def Let_def set_append ball_Un list.set ball_simps
  by (intro conjI TrueI quiet_admin [OF assms(1)] quiet_cancel [OF assms(2)] quiet_if_keeps keeps_user)
    (auto intro!: keeps_public hr)

lemma api_quiet:
  "\<not> admin_request opts ot r \<Longrightarrow> \<not> own_cancel opts ot account r \<Longrightarrow> keeps (db_holds P) (NewMux opts ot r)"
  using quiet_ServeMux [OF quiet_routes, of opts ot r]
  by (auto simp: NewMux_def withCORS_def Let_def intro!: hr)

end

end
