(* ===== verification/Grpc.thy ===== *)
theory Grpc
  imports Rest_Server
begin

text \<open>
  The gRPC interface of the mobile application: the controllers and conversions of
  \<open>internal/grpc/controllers\<close>, the authentication of \<open>internal/grpc/interceptors/auth.go\<close> and
  the composition of \<open>internal/grpc/server.go\<close>. A call is a message already decoded by the
  generated code; a repeated field with no element is a nil slice. The interceptors that log a call
  and recover from a panic change nothing here: nothing the model has panics.
\<close>

section \<open>Messages\<close>

text \<open>Enumerations of proto3 are open: any number may arrive.\<close>

definition CURRENCY_UNSPECIFIED :: int where "CURRENCY_UNSPECIFIED = 0"
definition CURRENCY_UAH :: int where "CURRENCY_UAH = 1"
definition CURRENCY_USD :: int where "CURRENCY_USD = 2"
definition CURRENCY_EUR :: int where "CURRENCY_EUR = 3"
definition CURRENCY_GBP :: int where "CURRENCY_GBP = 4"
definition CURRENCY_PLN :: int where "CURRENCY_PLN = 5"

definition TYPE_EXPENSE :: int where "TYPE_EXPENSE = 1"
definition TYPE_INCOME :: int where "TYPE_INCOME = 2"

datatype rpc =
    SignInWithAppleRequest (identity_token: string)
  | DevSignInRequest (device_id: string)
  | CategoryListRequest
  | CategoryCreateRequest string string string int
  | CategoryDeleteRequest string
  | TransactionListRequest string string
  | TransactionCreateRequest string int int string string string
  | TransactionDeleteRequest string
  | RateListRequest
  | ConnectMonobankRequest string "string list" "string list"
  | MonobankAccountsRequest string
  | MonobankStatusRequest
  | DisconnectMonobankRequest

record pb_User =
  pu_Id :: string
  pu_Email :: string
  pu_BaseCurrency :: int
  pu_CreatedAt :: string

record pb_Category =
  pc_Id :: string
  pc_Name :: string
  pc_IconName :: string
  pc_ColorHex :: string
  pc_Type :: int
  pc_IsDefault :: bool

record pb_Transaction =
  pt_Id :: string
  pt_Amount :: string
  pt_Currency :: int
  pt_Type :: int
  pt_Date :: string
  pt_Note :: string
  pt_CategoryId :: string

record pb_Rate =
  pf_Currency :: int
  pf_RateToUah :: float64
  pf_UpdatedAt :: string

record pb_Connection =
  pn_IsConnected :: bool
  pn_MaskedPans :: "string list"
  pn_ConnectedAt :: string
  pn_LastSyncedAt :: string

datatype reply =
    SignInWithAppleReply string pb_User
  | CategoryListReply "pb_Category list"
  | CategoryCreateReply pb_Category
  | CategoryDeleteReply
  | TransactionListReply "pb_Transaction list"
  | TransactionCreateReply pb_Transaction
  | TransactionDeleteReply
  | RateListReply "pb_Rate list"
  | MonobankStatusReply pb_Connection
  | MonobankAccountsReply "(string \<times> string \<times> string \<times> string) list"
  | DisconnectMonobankReply

datatype code = Unauthenticated | PermissionDenied | InvalidArgument | NotFound | Internal

type_synonym rpc_result = "(code \<times> string) + reply"

section \<open>Conversions (convert.go)\<close>

definition currencyToProto :: "string \<Rightarrow> int" where
  "currencyToProto s =
     (if s = ''UAH'' then CURRENCY_UAH else if s = ''USD'' then CURRENCY_USD else if s = ''EUR'' then CURRENCY_EUR
      else if s = ''GBP'' then CURRENCY_GBP else if s = ''PLN'' then CURRENCY_PLN else CURRENCY_UNSPECIFIED)"

definition currencyFromProto :: "int \<Rightarrow> string" where
  "currencyFromProto c =
     (if c = CURRENCY_UAH then ''UAH'' else if c = CURRENCY_USD then ''USD'' else if c = CURRENCY_EUR then ''EUR''
      else if c = CURRENCY_GBP then ''GBP'' else if c = CURRENCY_PLN then ''PLN'' else ''UAH'')"

definition transactionTypeToProto :: "string \<Rightarrow> int" where
  "transactionTypeToProto s = (if s = ''income'' then TYPE_INCOME else TYPE_EXPENSE)"

definition transactionTypeFromProto :: "int \<Rightarrow> string" where
  "transactionTypeFromProto t = (if t = TYPE_INCOME then ''income'' else ''expense'')"

definition categoryToProto :: "(uuid \<Rightarrow> string) \<Rightarrow> Category \<Rightarrow> pb_Category" where
  "categoryToProto str c =
     \<lparr>pc_Id = str (ca_ID c), pc_Name = ca_Name c, pc_IconName = ca_IconName c, pc_ColorHex = ca_ColorHex c,
      pc_Type = transactionTypeToProto (ca_Type c), pc_IsDefault = ca_IsDefault c\<rparr>"

definition transactionToProto :: "(uuid \<Rightarrow> string) \<Rightarrow> Transaction \<Rightarrow> pb_Transaction" where
  "transactionToProto str t =
     (let categoryID = (if str (tx_CategoryID t) \<noteq> nil_uuid_text then str (tx_CategoryID t) else []) in
      \<lparr>pt_Id = str (tx_ID t), pt_Amount = tx_Amount t, pt_Currency = currencyToProto (tx_Currency t),
       pt_Type = transactionTypeToProto (tx_Type t), pt_Date = Format_rfc3339 (tx_Date t), pt_Note = tx_Note t,
       pt_CategoryId = categoryID\<rparr>)"

definition rateToProto :: "Rate \<Rightarrow> pb_Rate" where
  "rateToProto r =
     \<lparr>pf_Currency = currencyToProto (ra_Currency r), pf_RateToUah = ra_RateToUAH r,
      pf_UpdatedAt = Format_rfc3339 (ra_UpdatedAt r)\<rparr>"

definition monobankStatusToProto :: "MonobankStatus \<Rightarrow> pb_Connection" where
  "monobankStatusToProto s =
     \<lparr>pn_IsConnected = mt_IsConnected s, pn_MaskedPans = mt_MaskedPans s,
      pn_ConnectedAt = formatOptionalTime (mt_ConnectedAt s), pn_LastSyncedAt = formatOptionalTime (mt_LastSyncedAt s)\<rparr>"

definition signInReply :: "(uuid \<Rightarrow> string) \<Rightarrow> SignInResult \<Rightarrow> reply" where
  "signInReply str r =
     SignInWithAppleReply (si_AccessToken r)
       \<lparr>pu_Id = str (u_ID (si_User r)), pu_Email = u_Email (si_User r),
        pu_BaseCurrency = currencyToProto (u_BaseCurrency (si_User r)),
        pu_CreatedAt = Format_rfc3339 (u_CreatedAt (si_User r))\<rparr>"

definition nil_if_empty :: "'a list \<Rightarrow> 'a slice" where
  "nil_if_empty xs = (if xs = [] then None else Some xs)"

section \<open>Controllers\<close>

definition grpc_SignInWithApple :: "Options \<Rightarrow> draws \<Rightarrow> string \<Rightarrow> (db, rpc_result) state" where
  "grpc_SignInWithApple opts w token = do {
     r \<leftarrow> SignInWithApple (op_env opts) (op_Auth opts) (dw_now w 0) (dw_now w 1) token;
     case r of
       Inl _ \<Rightarrow> ret (Inl (Unauthenticated, ''failed to sign in with apple''))
     | Inr x \<Rightarrow> ret (Inr (signInReply (jl_uuid_String (op_lib opts)) x)) }"

definition grpc_DevSignIn :: "Options \<Rightarrow> draws \<Rightarrow> string \<Rightarrow> (db, rpc_result) state" where
  "grpc_DevSignIn opts w device = do {
     r \<leftarrow> DevSignIn (op_env opts) (op_Auth opts) (dw_now w 0) (dw_now w 1) device;
     case r of
       Inl e \<Rightarrow> ret (Inl (PermissionDenied, Error (op_errors opts) e))
     | Inr x \<Rightarrow> ret (Inr (signInReply (jl_uuid_String (op_lib opts)) x)) }"

definition grpc_CategoryList :: "Options \<Rightarrow> uuid \<Rightarrow> (db, rpc_result) state" where
  "grpc_CategoryList opts userID = do {
     r \<leftarrow> category_List (op_name_le opts) userID;
     case r of
       Inl _ \<Rightarrow> ret (Inl (Internal, ''failed to list categories''))
     | Inr cs \<Rightarrow> ret (Inr (CategoryListReply (map (categoryToProto (jl_uuid_String (op_lib opts))) cs))) }"

definition grpc_CategoryCreate ::
  "Options \<Rightarrow> uuid \<Rightarrow> string \<Rightarrow> string \<Rightarrow> string \<Rightarrow> int \<Rightarrow> (db, rpc_result) state" where
  "grpc_CategoryCreate opts userID name icon color ty = do {
     r \<leftarrow> category_Create (op_translator opts) userID name icon color (transactionTypeFromProto ty);
     case r of
       Inl e \<Rightarrow> ret (Inl (InvalidArgument, Error (op_errors opts) e))
     | Inr c \<Rightarrow> ret (Inr (CategoryCreateReply (categoryToProto (jl_uuid_String (op_lib opts)) c))) }"

definition grpc_CategoryDelete :: "Options \<Rightarrow> uuid \<Rightarrow> string \<Rightarrow> (db, rpc_result) state" where
  "grpc_CategoryDelete opts userID i =
     (case jl_uuid_Parse (op_lib opts) i of
        Inl _ \<Rightarrow> ret (Inl (InvalidArgument, ''invalid category_id''))
      | Inr categoryID \<Rightarrow> do {
          r \<leftarrow> category_Delete userID categoryID;
          case r of
            Inl e \<Rightarrow> ret (Inl (NotFound, Error (op_errors opts) e))
          | Inr _ \<Rightarrow> ret (Inr CategoryDeleteReply) })"

definition grpc_TransactionList :: "Options \<Rightarrow> uuid \<Rightarrow> string \<Rightarrow> string \<Rightarrow> (db, rpc_result) state" where
  "grpc_TransactionList opts userID fromDate toDate =
     (case parseOptionalTime fromDate of
        None \<Rightarrow> ret (Inl (InvalidArgument, ''invalid from_date''))
      | Some from \<Rightarrow>
          (case parseOptionalTime toDate of
             None \<Rightarrow> ret (Inl (InvalidArgument, ''invalid to_date''))
           | Some to \<Rightarrow> do {
               r \<leftarrow> transaction_List (op_pgnum opts) userID from to;
               case r of
                 Inl _ \<Rightarrow> ret (Inl (Internal, ''failed to list transactions''))
               | Inr ts \<Rightarrow>
                   ret (Inr (TransactionListReply (map (transactionToProto (jl_uuid_String (op_lib opts))) ts))) }))"

definition grpc_TransactionCreate ::
  "Options \<Rightarrow> uuid \<Rightarrow> string \<Rightarrow> int \<Rightarrow> int \<Rightarrow> string \<Rightarrow> string \<Rightarrow> string \<Rightarrow> (db, rpc_result) state" where
  "grpc_TransactionCreate opts userID amount cur ty rawDate note category =
     (case Parse_rfc3339 rawDate of
        None \<Rightarrow> ret (Inl (InvalidArgument, ''invalid date''))
      | Some date \<Rightarrow>
          (case (if category \<noteq> [] then jl_uuid_Parse (op_lib opts) category else Inr uuid_Nil) of
             Inl _ \<Rightarrow> ret (Inl (InvalidArgument, ''invalid category_id''))
           | Inr categoryID \<Rightarrow> do {
               r \<leftarrow> transaction_Create (op_pgnum opts)
                 \<lparr>ct_UserID = userID, ct_CategoryID = categoryID, ct_Amount = amount,
                  ct_Currency = currencyFromProto cur, ct_Type = transactionTypeFromProto ty, ct_Date = date,
                  ct_Note = note\<rparr>;
               case r of
                 Inl e \<Rightarrow> ret (Inl (InvalidArgument, Error (op_errors opts) e))
               | Inr t \<Rightarrow>
                   ret (Inr (TransactionCreateReply (transactionToProto (jl_uuid_String (op_lib opts)) t))) }))"

definition grpc_TransactionDelete :: "Options \<Rightarrow> uuid \<Rightarrow> string \<Rightarrow> (db, rpc_result) state" where
  "grpc_TransactionDelete opts userID i =
     (case jl_uuid_Parse (op_lib opts) i of
        Inl _ \<Rightarrow> ret (Inl (InvalidArgument, ''invalid transaction_id''))
      | Inr transactionID \<Rightarrow> do {
          r \<leftarrow> transaction_Delete userID transactionID;
          case r of
            Inl e \<Rightarrow> ret (Inl (NotFound, Error (op_errors opts) e))
          | Inr _ \<Rightarrow> ret (Inr TransactionDeleteReply) })"

definition grpc_RateList :: "(redis, rpc_result) state" where
  "grpc_RateList = do {
     r \<leftarrow> rate_List;
     case r of
       Inl _ \<Rightarrow> ret (Inl (Internal, ''failed to list rates''))
     | Inr rs \<Rightarrow> ret (Inr (RateListReply (map rateToProto rs))) }"

text \<open>The account types and currencies are nil: the messages have no field for them.\<close>

definition grpc_ConnectMonobank ::
  "Options \<Rightarrow> draws \<Rightarrow> uuid \<Rightarrow> string \<Rightarrow> string list \<Rightarrow> string list \<Rightarrow> (db, rpc_result) state" where
  "grpc_ConnectMonobank opts w userID token accounts pans = do {
     r \<leftarrow> Connect (op_mono_env opts) (op_Monobank opts) (dw_rand w 0) (dw_rand w 1) userID token
            (nil_if_empty accounts) (nil_if_empty pans) None None;
     case r of
       Inl e \<Rightarrow> ret (Inl (InvalidArgument, Error (op_errors opts) e))
     | Inr s \<Rightarrow> ret (Inr (MonobankStatusReply (monobankStatusToProto s))) }"

definition grpc_MonobankAccounts :: "Options \<Rightarrow> string \<Rightarrow> rpc_result" where
  "grpc_MonobankAccounts opts token =
     (case ListAccounts (me_net (op_mono_env opts)) token of
        Inl e \<Rightarrow> Inl (InvalidArgument, Error (op_errors opts) e)
      | Inr options \<Rightarrow>
          Inr (MonobankAccountsReply (map (\<lambda>a. (ao_ID a, ao_MaskedPan a, ao_Currency a, ao_Type a)) options)))"

definition grpc_MonobankStatus :: "uuid \<Rightarrow> (db, rpc_result) state" where
  "grpc_MonobankStatus userID = do {
     r \<leftarrow> Status userID;
     case r of
       Inl _ \<Rightarrow> ret (Inl (Internal, ''failed to get monobank status''))
     | Inr s \<Rightarrow> ret (Inr (MonobankStatusReply (monobankStatusToProto s))) }"

definition grpc_DisconnectMonobank :: "uuid \<Rightarrow> (db, rpc_result) state" where
  "grpc_DisconnectMonobank userID = do {
     r \<leftarrow> Disconnect userID;
     case r of
       Inl _ \<Rightarrow> ret (Inl (Internal, ''failed to disconnect''))
     | Inr _ \<Rightarrow> ret (Inr DisconnectMonobankReply) }"

section \<open>Authentication and dispatch\<close>

definition FullMethod :: "rpc \<Rightarrow> string" where
  "FullMethod q =
     (case q of
        SignInWithAppleRequest _ \<Rightarrow> ''/AuthService/SignInWithApple''
      | DevSignInRequest _ \<Rightarrow> ''/AuthService/DevSignIn''
      | CategoryListRequest \<Rightarrow> ''/CategoryService/CategoryList''
      | CategoryCreateRequest _ _ _ _ \<Rightarrow> ''/CategoryService/CategoryCreate''
      | CategoryDeleteRequest _ \<Rightarrow> ''/CategoryService/CategoryDelete''
      | TransactionListRequest _ _ \<Rightarrow> ''/TransactionService/TransactionList''
      | TransactionCreateRequest _ _ _ _ _ _ \<Rightarrow> ''/TransactionService/TransactionCreate''
      | TransactionDeleteRequest _ \<Rightarrow> ''/TransactionService/TransactionDelete''
      | RateListRequest \<Rightarrow> ''/RateService/RateList''
      | ConnectMonobankRequest _ _ _ \<Rightarrow> ''/MonobankService/ConnectMonobank''
      | MonobankAccountsRequest _ \<Rightarrow> ''/MonobankService/MonobankAccounts''
      | MonobankStatusRequest \<Rightarrow> ''/MonobankService/MonobankStatus''
      | DisconnectMonobankRequest \<Rightarrow> ''/MonobankService/DisconnectMonobank'')"

definition methodsDoNotRequireAuth :: "string list" where
  "methodsDoNotRequireAuth = [''/AuthService/SignInWithApple'', ''/AuthService/DevSignIn'']"

text \<open>\<open>strings.SplitN(s, " ", 2)\<close> and the identifier the token names.\<close>

definition authorize :: "jwt_lib \<Rightarrow> jwtManager \<Rightarrow> gotime \<Rightarrow> string list \<Rightarrow> (code \<times> string) + uuid" where
  "authorize lib m now values =
     (case values of
        [] \<Rightarrow> Inl (Unauthenticated, ''authorization header is not provided'')
      | v # _ \<Rightarrow>
          (let scheme = takeWhile (\<lambda>c. c \<noteq> CHR '' '') v; rest = dropWhile (\<lambda>c. c \<noteq> CHR '' '') v in
           if rest = [] \<or> \<not> (is_ascii scheme \<and> map ascii_lower scheme = ''bearer'')
           then Inl (Unauthenticated, ''expected '' @ [CHR 0x27] @ ''Bearer <token>'' @ [CHR 0x27] @ '' authorization header'')
           else (case jwt_Verify lib m now (tl rest) of
                   Inl _ \<Rightarrow> Inl (Unauthenticated, ''invalid or expired token'')
                 | Inr userID \<Rightarrow> Inr userID)))"

text \<open>
  The controllers by method. The two sign-ins run without a user; the others are given the one
  the interceptor put in the context, and refuse a context without one.
\<close>

definition missing_user :: rpc_result where
  "missing_user = Inl (Unauthenticated, ''missing user'')"

definition controller :: "Options \<Rightarrow> draws \<Rightarrow> uuid option \<Rightarrow> rpc \<Rightarrow> rpc_result worldop" where
  "controller opts w user q =
     (case q of
        SignInWithAppleRequest t \<Rightarrow> on_db (grpc_SignInWithApple opts w t)
      | DevSignInRequest i \<Rightarrow> on_db (grpc_DevSignIn opts w i)
      | RateListRequest \<Rightarrow> on_redis grpc_RateList
      | _ \<Rightarrow>
          (case user of
             None \<Rightarrow> ret missing_user
           | Some u \<Rightarrow>
               (case q of
                  CategoryListRequest \<Rightarrow> on_db (grpc_CategoryList opts u)
                | CategoryCreateRequest n i c t \<Rightarrow> on_db (grpc_CategoryCreate opts u n i c t)
                | CategoryDeleteRequest i \<Rightarrow> on_db (grpc_CategoryDelete opts u i)
                | TransactionListRequest f t \<Rightarrow> on_db (grpc_TransactionList opts u f t)
                | TransactionCreateRequest a c t d n k \<Rightarrow> on_db (grpc_TransactionCreate opts u a c t d n k)
                | TransactionDeleteRequest i \<Rightarrow> on_db (grpc_TransactionDelete opts u i)
                | ConnectMonobankRequest t a p \<Rightarrow> on_db (grpc_ConnectMonobank opts w u t a p)
                | MonobankAccountsRequest t \<Rightarrow> ret (grpc_MonobankAccounts opts t)
                | MonobankStatusRequest \<Rightarrow> on_db (grpc_MonobankStatus u)
                | DisconnectMonobankRequest \<Rightarrow> on_db (grpc_DisconnectMonobank u)
                | _ \<Rightarrow> ret missing_user)))"

definition grpc_Unary :: "Options \<Rightarrow> outside \<Rightarrow> string list \<Rightarrow> rpc \<Rightarrow> rpc_result worldop" where
  "grpc_Unary opts ot values q =
     (if FullMethod q \<in> set methodsDoNotRequireAuth then controller opts (ot_draws ot) None q
      else (case authorize (op_lib opts) (au_jwt (op_Auth opts)) (ot_now ot) values of
              Inl e \<Rightarrow> ret (Inl e)
            | Inr userID \<Rightarrow> controller opts (ot_draws ot) (Some userID) q))"

lemmas grpc_defs =
  grpc_SignInWithApple_def grpc_DevSignIn_def grpc_CategoryList_def grpc_CategoryCreate_def grpc_CategoryDelete_def
  grpc_TransactionList_def grpc_TransactionCreate_def grpc_TransactionDelete_def grpc_RateList_def
  grpc_ConnectMonobank_def grpc_MonobankStatus_def grpc_DisconnectMonobank_def

context plain_statements begin

lemma controllers_keep [hr]:
  "keeps P (grpc_SignInWithApple opts w t)" "keeps P (grpc_DevSignIn opts w i)" "keeps P (grpc_CategoryList opts u)"
  "keeps P (grpc_CategoryCreate opts u n ic co ty)" "keeps P (grpc_CategoryDelete opts u i)"
  "keeps P (grpc_TransactionList opts u fd td)" "keeps P (grpc_TransactionCreate opts u a cu ty rd no k)"
  "keeps P (grpc_TransactionDelete opts u i)" "keeps P (grpc_ConnectMonobank opts w u t as ps)"
  "keeps P (grpc_MonobankStatus u)" "keeps P (grpc_DisconnectMonobank u)"
  by (auto simp: grpc_defs Let_def intro!: hr)

lemma grpc_keeps [hr]: "keeps (db_holds P) (grpc_Unary opts ot values q)"
proof -
  have "keeps (db_holds P) (controller opts w user q)" for w user
    by (auto simp: controller_def intro!: hr split: rpc.split)
  then show ?thesis by (auto simp: grpc_Unary_def intro!: hr)
qed

end

text \<open>
  A currency of the program survives the way to the application and back, and so does the type
  of a transaction.
\<close>

lemma currency_roundtrip: "currencyFromProto (currencyToProto s) = (if s \<in> {''USD'', ''EUR'', ''GBP'', ''PLN''} then s else ''UAH'')"
  by (simp add: currencyToProto_def currencyFromProto_def CURRENCY_UAH_def CURRENCY_USD_def CURRENCY_EUR_def
      CURRENCY_GBP_def CURRENCY_PLN_def CURRENCY_UNSPECIFIED_def)

lemma type_roundtrip: "transaction_type_ok t \<Longrightarrow> transactionTypeFromProto (transactionTypeToProto t) = t"
  by (auto simp: transaction_type_ok_def transactionTypeFromProto_def transactionTypeToProto_def TYPE_INCOME_def
      TYPE_EXPENSE_def)

end
