(* ===== verification/Process.thy ===== *)
theory Process
  imports Grpc Config
begin

text \<open>
  The process of \<open>cmd/server/main.go\<close>: the mux that puts the web hooks beside the JSON API, the
  gRPC server, and the jobs that run on their own, as the events of one system; and the start, from
  the environment to the options everything runs with. What every statement keeps is kept by every
  event.
\<close>

section \<open>The process\<close>

text \<open>
  \<open>webhookMux\<close>. A path without its last slash is redirected by the server; every other path
  is 404. The text of an error of a web hook is not kept.
\<close>

definition path_text :: "string list \<Rightarrow> string" where
  "path_text segs = concat (map (Cons CHR ''/'') segs)"

definition webhookMux :: "Options \<Rightarrow> outside \<Rightarrow> http_handler" where
  "webhookMux opts ot r =
     (case rq_path r of
        a # b # rest \<Rightarrow>
          if a = ''api'' then NewMux opts ot r
          else if a = ''webhooks'' \<and> b = ''monobank'' \<and> rest \<noteq> []
          then do {
            st \<leftarrow> on_db (Monobank_ServeHTTP (me_import (op_mono_env opts)) (rq_method r) (path_text (rq_path r)) (rq_body r));
            ret (status_only st) }
          else if a = ''webhooks'' \<and> b = ''monobank'' then ret (status_only 301)
          else if a = ''webhooks'' \<and> b = ''liqpay'' \<and> rest = []
          then do {
            st \<leftarrow> on_db (LiqPay_ServeHTTP (op_billing_env opts) (op_Billing opts) (rq_method r) (ot_form ot));
            ret (status_only st) }
          else ret (status_only 404)
      | [a] \<Rightarrow> ret (status_only (if a = ''api'' then 301 else 404))
      | [] \<Rightarrow> ret (status_only 404))"

text \<open>
  What the process does to its stores: it serves a request or a call, deletes what has outlived its
  retention, stores the rates of the National Bank; meanwhile time passes and statements may
  start to fail.
\<close>

datatype event =
    Served outside request
  | Called outside "string list" rpc
  | Swept "string \<Rightarrow> gotime"
  | Synced network string "nat \<Rightarrow> gotime"
  | Elapsed gotime "string option list" gotime "string option list"

definition run_event :: "Options \<Rightarrow> event \<Rightarrow> world \<Rightarrow> world" where
  "run_event opts e w =
     (case e of
        Served ot r \<Rightarrow> exec (webhookMux opts ot r) w
      | Called ot values q \<Rightarrow> exec (grpc_Unary opts ot values q) w
      | Swept now \<Rightarrow> exec (on_db (sweepOnce now)) w
      | Synced net url now \<Rightarrow> exec (on_redis (syncOnce net url now)) w
      | Elapsed t fs t' fs' \<Rightarrow>
          w\<lparr>wo_db := (wo_db w)\<lparr>db_clock := t, db_faults := fs\<rparr>, wo_redis := (wo_redis w)\<lparr>rd_clock := t', rd_faults := fs'\<rparr>\<rparr>)"

definition run_events :: "Options \<Rightarrow> event list \<Rightarrow> world \<Rightarrow> world" where
  "run_events opts es w = foldl (\<lambda>w e. run_event opts e w) w es"

text \<open>
  The loops of the two jobs: once at the start, then once per tick until the context is cancelled,
  which ends the list. They are events of the process.
\<close>

fun ticking :: "('t \<Rightarrow> ('s, unit) state) \<Rightarrow> 't list \<Rightarrow> ('s, unit) state" where
  "ticking job [] = ret ()"
| "ticking job (t # ts) = do { _ \<leftarrow> job t; ticking job ts }"

definition retention_Run :: "(string \<Rightarrow> gotime) \<Rightarrow> (string \<Rightarrow> gotime) list \<Rightarrow> (db, unit) state" where
  "retention_Run start ticks = ticking sweepOnce (start # ticks)"

definition ratesync_Run ::
  "string \<Rightarrow> network \<times> (nat \<Rightarrow> gotime) \<Rightarrow> (network \<times> (nat \<Rightarrow> gotime)) list \<Rightarrow> (redis, unit) state" where
  "ratesync_Run url start ticks = ticking (\<lambda>(net, now). syncOnce net url now) (start # ticks)"

lemma run_events_simps [simp]:
  "run_events opts [] w = w" "run_events opts (e # es) w = run_events opts es (run_event opts e w)"
  by (simp_all add: run_events_def)

lemma ticking_db: "exec (on_db (ticking sweepOnce ts)) w = run_events opts (map Swept ts) w"
proof (induction ts arbitrary: w)
  case (Cons t ts)
  have "exec (on_db (ticking sweepOnce (t # ts))) w = exec (on_db (ticking sweepOnce ts)) (run_event opts (Swept t) w)"
    by (simp add: run_on_db split_beta run_event_def)
  with Cons show ?case by simp
qed (simp add: run_on_db)

lemma ticking_redis:
  "exec (on_redis (ticking (\<lambda>(net, now). syncOnce net url now) ts)) w =
   run_events opts (map (\<lambda>(net, now). Synced net url now) ts) w"
proof (induction ts arbitrary: w)
  case (Cons t ts)
  obtain net now where t: "t = (net, now)" by (cases t)
  have "exec (on_redis (ticking (\<lambda>(net, now). syncOnce net url now) (t # ts))) w =
      exec (on_redis (ticking (\<lambda>(net, now). syncOnce net url now) ts)) (run_event opts (Synced net url now) w)"
    by (simp add: t run_on_redis split_beta run_event_def)
  with Cons t show ?case by simp
qed (simp add: run_on_redis)

lemma jobs_are_events:
  "exec (on_db (retention_Run t ts)) w = run_events opts (map Swept (t # ts)) w"
  "exec (on_redis (ratesync_Run url s ss)) w = run_events opts (map (\<lambda>(net, now). Synced net url now) (s # ss)) w"
  unfolding retention_Run_def ratesync_Run_def by (rule ticking_db ticking_redis)+

section \<open>The start\<close>

text \<open>
  What \<open>run\<close> builds from the configuration. The libraries are taken from \<open>base\<close>; the two token
  managers share the secret and differ in how long their tokens live.
\<close>

definition wire :: "Options \<Rightarrow> (string \<Rightarrow> aead) \<Rightarrow> Config \<Rightarrow> Options res" where
  "wire base newGCM cfg =
     (let jwtManager = \<lparr>jm_secret = cf_JWTSecret cfg, jm_duration = cf_JWTDuration cfg\<rparr>;
          webAccessJWT = \<lparr>jm_secret = cf_JWTSecret cfg, jm_duration = cf_JWTWebAccessDuration cfg\<rparr>
      in case Box_New newGCM (cf_MonobankTokenKey cfg) of
           Inl e \<Rightarrow> Inl (Wrap ''init token encryption'' [] e)
         | Inr tokenBox \<Rightarrow>
             Inr (base\<lparr>
               op_Auth := \<lparr>au_jwt = jwtManager, au_devMode = cf_DevMode cfg\<rparr>,
               op_Sessions := \<lparr>sv_jwt = webAccessJWT, sv_refreshDuration = cf_SessionRefreshDuration cfg\<rparr>,
               op_Monobank := \<lparr>ms_box = tokenBox, ms_webhookBaseURL = cf_PublicBaseURL cfg\<rparr>,
               op_Advisor := (op_Advisor base)\<lparr>as_llm := \<lparr>oc_baseURL = cf_OllamaURL cfg, oc_model = cf_OllamaModel cfg\<rparr>\<rparr>,
               op_Billing :=
                 \<lparr>bs_liqpay = \<lparr>lc_publicKey = cf_LiqPayPublicKey cfg, lc_privateKey = cf_LiqPayPrivateKey cfg,
                              lc_sandbox = cf_LiqPaySandbox cfg\<rparr>,
                  bs_frontendURL = cf_CORSAllowedOrigin cfg, bs_backendURL = cf_PublicBaseURL cfg\<rparr>,
               op_JWT := webAccessJWT, op_CORSOrigin := cf_CORSAllowedOrigin cfg,
               op_AdminOrigin := cf_AdminDashboardOrigin cfg, op_AdminPassword := cf_AdminPassword cfg,
               op_JWTSecret := cf_JWTSecret cfg, op_AccessMaxAge := cf_JWTWebAccessDuration cfg,
               op_RefreshMaxAge := cf_SessionRefreshDuration cfg\<rparr>))"

text \<open>The order of the failures: the configuration, Postgres, Redis, the token key.\<close>

definition boot ::
  "environ \<Rightarrow> Options \<Rightarrow> (string \<Rightarrow> aead) \<Rightarrow> (string \<Rightarrow> unit res) \<Rightarrow> (string \<Rightarrow> unit res) \<Rightarrow> Options res" where
  "boot env base newGCM postgres redis =
     (case Load env of
        Inl e \<Rightarrow> Inl (Wrap ''load config'' [] e)
      | Inr cfg \<Rightarrow>
          (case postgres (cf_PostgresDSN cfg) of
             Inl e \<Rightarrow> Inl (Wrap ''connect to postgres'' [] e)
           | Inr _ \<Rightarrow>
               (case redis (cf_RedisAddr cfg) of
                  Inl e \<Rightarrow> Inl (Wrap ''connect to redis'' [] e)
                | Inr _ \<Rightarrow> wire base newGCM cfg)))"

text \<open>
  A token for the web is good for gRPC and the other way round; a process started without
  \<open>JWT_SECRET\<close> signs with the published one; the token key never fails, because it has a default.
\<close>

lemma wired_options:
  assumes "boot env base newGCM postgres redis = Inr opts"
  shows "jm_secret (op_JWT opts) = op_JWTSecret opts" and "jm_secret (au_jwt (op_Auth opts)) = op_JWTSecret opts"
    and "jm_secret (sv_jwt (op_Sessions opts)) = op_JWTSecret opts"
    and "op_JWTSecret opts = (if env ''JWT_SECRET'' = [] then ''dev-secret-change-me'' else env ''JWT_SECRET'')"
    and "au_devMode (op_Auth opts) \<longleftrightarrow> env ''DEV_MODE'' = ''true''" and "op_env opts = op_env base"
  using assms
  by (auto simp: boot_def wire_def Let_def config_of_fields dest!: Load_Inr split: sum.splits)

lemma token_key_set: "Load env = Inr cfg \<Longrightarrow> Box_New newGCM (cf_MonobankTokenKey cfg) = Inr (newGCM (sha256_Sum (cf_MonobankTokenKey cfg)))"
  by (auto simp: Box_New_def config_of_fields dest!: Load_Inr)

lemma same_secret_same_tokens: "jm_secret m = jm_secret m' \<Longrightarrow> jwt_Verify lib m now t = jwt_Verify lib m' now t"
  by (simp add: jwt_Verify_def)

context plain_statements begin

text \<open>An event keeps what the requests it serves keep, and the passing of time.\<close>

lemma event_plain:
  assumes "db_holds P w" and served: "\<And>ot r. e = Served ot r \<Longrightarrow> keeps (db_holds P) (webhookMux opts ot r)"
    and clock: "\<And>t fs t' fs'. e = Elapsed t fs t' fs' \<Longrightarrow> P ((wo_db w)\<lparr>db_clock := t\<rparr>)"
  shows "db_holds P (run_event opts e w)"
proof (cases e)
  case (Served ot r)
  then show ?thesis using hoareD [OF served assms(1)] by (simp add: run_event_def)
next
  case (Called ot vs q)
  then show ?thesis using hoareD [OF grpc_keeps assms(1)] by (simp add: run_event_def)
next
  case (Swept now)
  have "keeps (db_holds P) (on_db (sweepOnce now))" by (intro hr)
  with Swept show ?thesis using hoareD assms(1) by (fastforce simp: run_event_def)
next
  case (Synced net url now)
  have "keeps (db_holds P) (on_redis (syncOnce net url now))" by (intro hr)
  with Synced show ?thesis using hoareD assms(1) by (fastforce simp: run_event_def)
next
  case (Elapsed t fs t' fs')
  have "P ((wo_db w)\<lparr>db_clock := t\<rparr>)" by (rule clock [OF Elapsed])
  then have "P ((wo_db w)\<lparr>db_clock := t\<rparr>\<lparr>db_faults := fs\<rparr>)" using blind by (simp only: fault_free_def)
  with Elapsed show ?thesis by (simp add: run_event_def db_holds_def)
qed

end

context statement_invariant begin

lemma mux_keeps: "keeps (db_holds P) (webhookMux opts ot r)"
  by (auto simp: webhookMux_def intro!: hr split: list.split)

lemma event_keeps:
  assumes "db_holds P w" and "\<And>t fs t' fs'. e = Elapsed t fs t' fs' \<Longrightarrow> P ((wo_db w)\<lparr>db_clock := t\<rparr>)"
  shows "db_holds P (run_event opts e w)"
  using assms by (rule event_plain [OF _ mux_keeps])

end

section \<open>Who may change a plan\<close>

text \<open>
  The events that may change the plan of an account: a request of the administrator, the account's
  own cancellation, and a payment callback that is signed with the merchant's key.
\<close>

definition signed_callback :: "Options \<Rightarrow> outside \<Rightarrow> request \<Rightarrow> bool" where
  "signed_callback opts ot r \<longleftrightarrow>
     rq_path r = [''webhooks'', ''liqpay''] \<and>
     (\<exists>data. ot_form ot = Some (data, Sign (bs_liqpay (op_Billing opts)) data))"

definition may_change_plan :: "Options \<Rightarrow> uuid \<Rightarrow> event \<Rightarrow> bool" where
  "may_change_plan opts i e \<longleftrightarrow>
     (case e of
        Served ot r \<Rightarrow> admin_request opts ot r \<or> own_cancel opts ot i r \<or> signed_callback opts ot r
      | _ \<Rightarrow> False)"

context account_statements begin

lemma mux_quiet:
  assumes "\<not> admin_request opts ot r" and "\<not> own_cancel opts ot account r" and "\<not> signed_callback opts ot r"
  shows "keeps (db_holds P) (webhookMux opts ot r)"
proof -
  have "keeps P (LiqPay_ServeHTTP be (op_Billing opts) m (ot_form ot))" if "rq_path r = [''webhooks'', ''liqpay'']" for be m
    using assms(3) that by (intro forged_ignored) (auto simp: signed_callback_def)
  with api_quiet [OF assms(1,2)] show ?thesis
    by (auto simp: webhookMux_def intro!: hr split: list.split)
qed

lemma event_quiet:
  assumes "db_holds P w" and "\<not> may_change_plan opts account e" and "\<And>d t. P d \<Longrightarrow> P (d\<lparr>db_clock := t\<rparr>)"
  shows "db_holds P (run_event opts e w)"
  using assms by (intro event_plain mux_quiet) (auto simp: may_change_plan_def db_holds_def)

lemma events_quiet:
  assumes "\<And>d t. P d \<Longrightarrow> P (d\<lparr>db_clock := t\<rparr>)"
  shows "db_holds P w \<Longrightarrow> \<forall>e \<in> set es. \<not> may_change_plan opts account e \<Longrightarrow> db_holds P (run_events opts es w)"
  by (induction es arbitrary: w) (auto intro: event_quiet assms)

end

end
