(* ===== verification/Logger.thy ===== *)
theory Logger
  imports Go_Server
begin

text \<open>
  The console logger, \<open>pkg/logger/logger.go\<close>: a level, a message and fields printed as JSON, on
  the standard logger of the library, which puts the date in front and a line end behind. A log is
  the list of what was written, in order. Whatever texts the fields hold, a line is one line.
\<close>

text \<open>\<open>H\<close>, a map that may be nil.\<close>

type_synonym H = "(string \<times> jval) list option"

section \<open>The verb \<open>%v\<close>\<close>

text \<open>
  \<open>fmt\<close> on the values the encoder takes: texts as they are, the keys of a map sorted. A line
  falls back to it when a field (a NaN, an infinity) has no JSON. A float has an exponent when it
  is below \<open>1e-4\<close> or from \<open>1e6\<close> on, written with two digits at least.
\<close>

definition exp_of_text :: "int \<Rightarrow> int \<Rightarrow> string" where
  "exp_of_text D x =
     (let ds = dec_nat (nat D) in
      [hd ds] @ (if tl ds = [] then [] else CHR ''.'' # tl ds) @ ''e'' @ (if x < 0 then ''-'' else ''+'') @ pad0 2 (nat \<bar>x\<bar>))"

definition fmt_float :: "float64 \<Rightarrow> string" where
  "fmt_float f =
     (case f of
        FFin s m e \<Rightarrow>
          if m = 0 then FormatFloat_shortest f
          else (case shortest_from m e [1..17] of
                  (D, k) \<Rightarrow>
                    let x = k + int (length (dec_nat (nat D))) - 1
                    in if x < - 4 \<or> 6 \<le> x then sign_text s @ exp_of_text D x else FormatFloat_shortest f)
      | _ \<Rightarrow> FormatFloat_shortest f)"

definition map_v :: "(string \<times> string) list \<Rightarrow> string" where
  "map_v ms = ''map['' @ join_with '' '' (map (\<lambda>m. fst m @ '':'' @ snd m) (sort_members ms)) @ '']''"

fun fmt_v :: "jval \<Rightarrow> string" where
  "fmt_v VNull = ''<nil>''"
| "fmt_v (VBool b) = (if b then ''true'' else ''false'')"
| "fmt_v (VInt i) = fmt_d i"
| "fmt_v (VFloat f) = fmt_float f"
| "fmt_v (VStr s) = s"
| "fmt_v (VArr vs) = ''['' @ join_with '' '' (map fmt_v vs) @ '']''"
| "fmt_v (VStruct ms) = ''{'' @ join_with '' '' (map (\<lambda>m. fmt_v (snd m)) ms) @ ''}''"
| "fmt_v (VMap ms) = map_v (map (\<lambda>m. (fst m, fmt_v (snd m))) ms)"

section \<open>A line\<close>

text \<open>The text \<open>consoleLogger.print\<close> gives to \<open>Printf\<close>.\<close>

definition print_text :: "string \<Rightarrow> string \<Rightarrow> H \<Rightarrow> string" where
  "print_text level msg kv =
     (case kv of
        None \<Rightarrow> ''['' @ level @ ''] '' @ msg
      | Some fs \<Rightarrow>
          (case jval_text (VMap fs) of
             None \<Rightarrow> ''['' @ level @ ''] '' @ msg @ '' '' @ fmt_v (VMap fs)
           | Some b \<Rightarrow> ''['' @ level @ ''] '' @ msg @ '' '' @ b))"

text \<open>
  What the standard logger writes with \<open>LstdFlags\<close>: the date and the time of day of the wall
  clock, the text, and a line end unless the text has one already.
\<close>

definition log_header :: "gotime \<Rightarrow> string" where
  "log_header t =
     (let D = civil t in
      fmt_year (d_year D) @ ''/'' @ pad0 2 (nat (d_month D)) @ ''/'' @ pad0 2 (nat (d_day D)) @ '' '' @ fmt_clock t @ '' '')"

definition log_output :: "gotime \<Rightarrow> string \<Rightarrow> string" where
  "log_output t s = log_header t @ s @ (if s = [] \<or> last s \<noteq> CHR 0x0A then [CHR 0x0A] else [])"

definition log_line :: "gotime \<Rightarrow> string \<Rightarrow> string \<Rightarrow> H \<Rightarrow> string" where
  "log_line t level msg kv = log_output t (print_text level msg kv)"

definition log_Info :: "gotime \<Rightarrow> string \<Rightarrow> H \<Rightarrow> string" where
  "log_Info t msg kv = log_line t ''INFO'' msg kv"

definition log_Error :: "gotime \<Rightarrow> string \<Rightarrow> H \<Rightarrow> string" where
  "log_Error t msg kv = log_line t ''ERROR'' msg kv"

section \<open>A line is one line\<close>

text \<open>A text that may stand inside a line: no line end.\<close>

definition one_line :: "string \<Rightarrow> bool" where
  "one_line s \<longleftrightarrow> CHR 0x0A \<notin> set s"

lemma one_line_simps [simp]:
  "one_line []" "one_line (c # s) \<longleftrightarrow> c \<noteq> CHR 0x0A \<and> one_line s" "one_line (s @ t) \<longleftrightarrow> one_line s \<and> one_line t"
  by (auto simp: one_line_def)

lemma one_line_join: "one_line sep \<Longrightarrow> (\<And>t. t \<in> set ts \<Longrightarrow> one_line t) \<Longrightarrow> one_line (join_with sep ts)"
  by (induction ts rule: induct_list012) auto

lemma one_line_dec [simp]: "one_line (dec_nat n)" "one_line (fmt_d i)" "one_line (pad0 w n)" "one_line (fmt_year y)"
  by (simp_all add: one_line_def not_digit_dec_nat not_in_fmt_d pad0_def fmt_year_def is_digit_def)

lemma one_line_tl: "one_line s \<Longrightarrow> one_line (tl s)"
  by (cases s) auto

lemma one_line_hd: "s \<noteq> [] \<Longrightarrow> one_line s \<Longrightarrow> hd s \<noteq> CHR 0x0A"
  by (cases s) auto

text \<open>The bytes of a JSON text: the escapes leave none below a space.\<close>

lemma decode_tail:
  "decode2 a r = (u, w) \<Longrightarrow> c \<in> set (take (w - 1) r) \<Longrightarrow> cont c"
  "decode3 a r = (u, w) \<Longrightarrow> c \<in> set (take (w - 1) r) \<Longrightarrow> cont c"
  "decode4 a r = (u, w) \<Longrightarrow> c \<in> set (take (w - 1) r) \<Longrightarrow> cont c"
  by (auto simp: decode2_def decode3_def decode4_def take_Cons' split: if_split_asm list.split_asm)

lemma DecodeRune_tail: "DecodeRune (b # r) = (u, w) \<Longrightarrow> c \<in> set (take (w - 1) r) \<Longrightarrow> cont c"
  by (auto simp: DecodeRune_def dest: decode_tail split: if_split_asm)

lemma hex_digit_byte: "n < 16 \<Longrightarrow> of_char (hex_digit n) \<in> {32..<256 :: nat}"
  by (auto simp: hex_digit_def)

lemma escape_byte_printable: "b < 256 \<Longrightarrow> c \<in> set (escape_byte b) \<Longrightarrow> c \<in> {32..<256}"
  using hex_digit_byte [of "b div 16"] hex_digit_byte [of "b mod 16"]
  by (auto simp: escape_byte_def json_safe_def bytes_of_def split: if_splits)

definition high_escape :: "nat \<Rightarrow> nat \<Rightarrow> nat list \<Rightarrow> nat list" where
  "high_escape u w kept =
     (if u = rune_error \<and> w = 1 then bytes_of (CHR 0x5C # ''ufffd'')
      else if u = 8232 then bytes_of (CHR 0x5C # ''u2028'') else if u = 8233 then bytes_of (CHR 0x5C # ''u2029'')
      else kept)"

lemma json_escape_cases:
  "json_escape [] = []"
  "b < 128 \<Longrightarrow> json_escape (b # r) = escape_byte b @ json_escape r"
  "\<not> b < 128 \<Longrightarrow> DecodeRune (b # r) = (u, w) \<Longrightarrow>
     json_escape (b # r) = high_escape u w (b # take (w - 1) r) @ json_escape (drop (w - 1) r)"
  by (simp_all add: json_escape.simps [of "[]"] json_escape.simps [of "b # r"] high_escape_def)

lemma high_escape_printable: "\<forall>x \<in> set kept. x \<in> {32..<256} \<Longrightarrow> c \<in> set (high_escape u w kept) \<Longrightarrow> c \<in> {32..<256}"
  by (auto simp: high_escape_def bytes_of_def split: if_splits)

lemma json_escape_printable:
  "list_all (\<lambda>b. b < 256) bs \<Longrightarrow> c \<in> set (json_escape bs) \<Longrightarrow> c \<in> {32..<256}"
proof (induction "length bs" arbitrary: bs rule: less_induct)
  case less
  show ?case
  proof (cases bs)
    case Nil
    with less show ?thesis by (simp add: json_escape_cases)
  next
    case (Cons b r)
    obtain u w where d: "DecodeRune (b # r) = (u, w)" by fastforce
    have small: "b < 256" "list_all (\<lambda>b. b < 256) r" "list_all (\<lambda>b. b < 256) (drop (w - 1) r)"
      using less.prems(1) Cons by (auto simp: list_all_iff dest: in_set_dropD)
    note IH = less.hyps [of r] less.hyps [of "drop (w - 1) r"]
    show ?thesis
    proof (cases "b < 128")
      case True
      with less.prems(2) Cons have "c \<in> set (escape_byte b) \<or> c \<in> set (json_escape r)" by (simp add: json_escape_cases)
      then show ?thesis using IH(1) small Cons escape_byte_printable by auto
    next
      case False
      with less.prems(2) Cons d have
        "c \<in> set (high_escape u w (b # take (w - 1) r)) \<or> c \<in> set (json_escape (drop (w - 1) r))"
        by (simp add: json_escape_cases)
      moreover have "x \<in> {32..<256}" if "x \<in> set (b # take (w - 1) r)" for x
        using that DecodeRune_tail [OF d, of x] False small(1) by (auto simp: cont_def)
      ultimately show ?thesis using high_escape_printable [of "b # take (w - 1) r" c] IH(2) small Cons by auto
    qed
  qed
qed

lemma one_line_bytes: "(\<And>b. b \<in> set bs \<Longrightarrow> b \<in> {32..<256}) \<Longrightarrow> one_line (string_of_bytes bs)"
proof -
  assume *: "\<And>b. b \<in> set bs \<Longrightarrow> b \<in> {32..<256}"
  have "char_of b \<noteq> CHR 0x0A" if "b \<in> set bs" for b
  proof
    assume "char_of b = CHR 0x0A"
    then have "of_char (char_of b :: char) = (10 :: nat)" by simp
    with * [OF that] show False by simp
  qed
  then show "one_line (string_of_bytes bs)" by (auto simp: one_line_def string_of_bytes_def dest: sym)
qed

lemma one_line_quote [simp]: "one_line (json_quote s)"
  using json_escape_printable [of "bytes_of s"]
  by (auto simp: json_quote_def list_all_iff bytes_of_def intro!: one_line_bytes)

lemma one_line_fixed [simp]: "one_line (fixed_text D k)"
  by (auto simp: fixed_text_def Let_def one_line_def not_digit_dec_nat is_digit_def dest!: in_set_takeD in_set_dropD)

lemma one_line_exp [simp]: "one_line (exp_text D k)"
  by (simp add: exp_text_def Let_def one_line_tl one_line_hd)

lemma one_line_shortest [simp]: "one_line (FormatFloat_shortest f)" "one_line (sign_text b)"
  by (auto simp: FormatFloat_shortest_def sign_text_def split: float64.splits prod.splits)

lemma one_line_float: "json_float f = Some t \<Longrightarrow> one_line t"
  by (auto simp: json_float_def Let_def split: float64.splits if_splits prod.splits)

lemma set_insert_member [simp]: "set (insert_member p ms) = insert p (set ms)"
  by (induction ms) auto

lemma set_sort_members [simp]: "set (sort_members ms) = set ms"
  by (induction ms) (auto simp: sort_members_def)

lemma one_line_members: "(\<And>m. m \<in> set ms \<Longrightarrow> one_line (snd m)) \<Longrightarrow> one_line (members_text ms)"
  by (auto simp: members_text_def intro!: one_line_join)

lemma those_Some: "those xs = Some ys \<Longrightarrow> y \<in> set ys \<Longrightarrow> Some y \<in> set xs"
  by (induction xs arbitrary: ys) (auto split: option.splits)

lemma those_members:
  assumes "those (map (\<lambda>m. map_option (Pair (fst m)) (f (snd m))) ms) = Some ts" and "x \<in> set ts"
  shows "\<exists>m \<in> set ms. f (snd m) = Some (snd x)"
  using those_Some [OF assms] by (force simp: map_option_case split: option.split_asm)

lemma jval_text_one_line: "jval_text v = Some t \<Longrightarrow> one_line t"
proof (induction v arbitrary: t rule: jval_text.induct)
  case (6 vs)
  then show ?case by (fastforce intro!: one_line_join dest: those_Some)
next
  case (7 ms)
  from 7(2) obtain ts where "those (map (\<lambda>m. map_option (Pair (fst m)) (jval_text (snd m))) ms) = Some ts"
    "t = members_text ts" by auto
  with 7(1) show ?case by (auto intro!: one_line_members dest!: those_members)
next
  case (8 ms)
  from 8(2) obtain ts where "those (map (\<lambda>m. map_option (Pair (fst m)) (jval_text (snd m))) ms) = Some ts"
    "t = members_text (sort_members ts)" by auto
  with 8(1) show ?case by (auto intro!: one_line_members dest!: those_members)
qed (auto simp: one_line_float split: if_splits)

lemma print_text_one_line:
  "one_line level \<Longrightarrow> one_line msg \<Longrightarrow> (\<And>fs. kv = Some fs \<Longrightarrow> jval_text (VMap fs) \<noteq> None) \<Longrightarrow> one_line (print_text level msg kv)"
  by (auto simp: print_text_def jval_text_one_line simp del: jval_text.simps split: option.splits)

lemma fields_encodable: "\<forall>m \<in> set fs. jval_text (snd m) \<noteq> None \<Longrightarrow> jval_text (VMap fs) \<noteq> None"
  by (induction fs) (auto split: option.splits)

lemma one_line_header [simp]: "one_line (log_header t)"
  by (simp add: log_header_def fmt_clock_def Let_def)

text \<open>
  A line whose fields have JSON, as texts and numbers do, ends once: no text a client sends starts
  a line of its own.
\<close>

lemma log_line_ends:
  assumes "one_line level" and "one_line msg" and "\<And>fs. kv = Some fs \<Longrightarrow> jval_text (VMap fs) \<noteq> None"
  shows "\<exists>text. log_line t level msg kv = text @ [CHR 0x0A] \<and> one_line text"
proof -
  have l: "one_line (print_text level msg kv)" by (rule print_text_one_line [OF assms])
  moreover have "print_text level msg kv \<noteq> []" by (simp add: print_text_def split: option.split)
  moreover have "last (print_text level msg kv) \<noteq> CHR 0x0A"
    using l \<open>print_text level msg kv \<noteq> []\<close> by (metis last_in_set one_line_def)
  ultimately show ?thesis by (simp add: log_line_def log_output_def)
qed

end
