(* ===== verification/Interceptors.thy ===== *)
theory Interceptors
  imports Grpc Logger
begin

text \<open>
  What surrounds a call of the gRPC server (\<open>internal/grpc/interceptors\<close>, \<open>internal/grpc/server.go\<close>):
  the recovery from a panic, the log of every call, the authentication, around whatever handler the
  call is for. A handler may panic; its effects up to there remain. The text of a status error is
  the library's and an argument.
\<close>

datatype 'a outcome = Returned 'a | Panicked string

record served =
  sd_world :: world
  sd_log :: "string list"

type_synonym rpc_handler = "uuid option \<Rightarrow> rpc \<Rightarrow> (served, rpc_result outcome) state"

definition write_line :: "string \<Rightarrow> (served, unit) state" where
  "write_line l = State (\<lambda>s. ((), s\<lparr>sd_log := sd_log s @ [l]\<rparr>))"

lemma run_write_line [simp]: "run_state (write_line l) s = ((), s\<lparr>sd_log := sd_log s @ [l]\<rparr>)"
  by (simp add: write_line_def)

section \<open>The three interceptors\<close>

definition recovery_Unary :: "gotime \<Rightarrow> string \<Rightarrow> rpc_handler \<Rightarrow> rpc_handler" where
  "recovery_Unary now method handler ctx req = do {
     r \<leftarrow> handler ctx req;
     case r of
       Returned x \<Rightarrow> ret (Returned x)
     | Panicked p \<Rightarrow> do {
         _ \<leftarrow> write_line (log_Error now ''panic recovered'' (Some [(''method'', VStr method), (''panic'', VStr p)]));
         ret (Returned (Inl (Internal, ''internal server error''))) } }"

text \<open>\<open>Duration.Milliseconds\<close> drops the fraction. A panic passes through: nothing is logged here.\<close>

definition Milliseconds :: "duration \<Rightarrow> int" where
  "Milliseconds d = sgn d * (\<bar>d\<bar> div 1000000)"

definition logger_Unary ::
  "(code \<times> string \<Rightarrow> string) \<Rightarrow> gotime \<Rightarrow> duration \<Rightarrow> string \<Rightarrow> rpc_handler \<Rightarrow> rpc_handler" where
  "logger_Unary errText now elapsed method handler ctx req = do {
     r \<leftarrow> handler ctx req;
     case r of
       Panicked p \<Rightarrow> ret (Panicked p)
     | Returned x \<Rightarrow> do {
         let kv = [(''method'', VStr method), (''duration_ms'', VInt (Milliseconds elapsed))];
         _ \<leftarrow> write_line
           (case x of
              Inl e \<Rightarrow> log_Error now ''grpc request failed'' (Some (kv @ [(''error'', VStr (errText e))]))
            | Inr _ \<Rightarrow> log_Info now ''grpc request'' (Some kv));
         ret (Returned x) } }"

definition auth_Unary ::
  "jwt_lib \<Rightarrow> jwtManager \<Rightarrow> string list \<Rightarrow> gotime \<Rightarrow> string list \<Rightarrow> string \<Rightarrow> rpc_handler \<Rightarrow> rpc_handler" where
  "auth_Unary lib m open_methods now vs method handler ctx req =
     (if method \<in> set open_methods then handler ctx req
      else (case authorize lib m now vs of
              Inl e \<Rightarrow> ret (Returned (Inl e))
            | Inr userID \<Rightarrow> handler (Some userID) req))"

section \<open>The chain\<close>

text \<open>
  \<open>NewServer\<close> chains them, the first outermost: recovery, log, authentication. \<open>watch\<close> holds the
  times the interceptors read.
\<close>

record watch =
  wt_elapsed :: duration
  wt_logged :: gotime
  wt_recovered :: gotime

definition NewServer ::
  "Options \<Rightarrow> (code \<times> string \<Rightarrow> string) \<Rightarrow> gotime \<Rightarrow> watch \<Rightarrow> string list \<Rightarrow> string \<Rightarrow> rpc_handler \<Rightarrow> rpc_handler" where
  "NewServer opts errText now wt vs method handler =
     recovery_Unary (wt_recovered wt) method
       (logger_Unary errText (wt_logged wt) (wt_elapsed wt) method
          (auth_Unary (op_lib opts) (au_jwt (op_Auth opts)) methodsDoNotRequireAuth now vs method handler))"

text \<open>The controllers as a handler: they never panic, and log nothing of their own.\<close>

definition controllers :: "Options \<Rightarrow> outside \<Rightarrow> rpc_handler" where
  "controllers opts ot ctx req = State (\<lambda>s.
     (case run_state (controller opts (ot_draws ot) ctx req) (sd_world s) of (r, w) \<Rightarrow> (Returned r, s\<lparr>sd_world := w\<rparr>)))"

text \<open>A line that was written: a text without a line end, and a line end.\<close>

definition log_entry :: "string \<Rightarrow> bool" where
  "log_entry l \<longleftrightarrow> (\<exists>text. l = text @ [CHR 0x0A] \<and> one_line text)"

lemma entries [simp]:
  "one_line msg \<Longrightarrow> log_entry (log_Error t msg (Some [(k, VStr a), (k', VStr b)]))"
  "one_line msg \<Longrightarrow> log_entry (log_Error t msg (Some [(k, VStr a), (k', VInt i), (k'', VStr b)]))"
  "one_line msg \<Longrightarrow> log_entry (log_Info t msg (Some [(k, VStr a), (k', VInt i)]))"
  unfolding log_entry_def log_Error_def log_Info_def
  by (rule log_line_ends; auto intro!: fields_encodable)+

text \<open>Whom a call is made for: no one, when its method is open; else the user of its token.\<close>

definition caller :: "Options \<Rightarrow> gotime \<Rightarrow> string list \<Rightarrow> string \<Rightarrow> (code \<times> string) + uuid option" where
  "caller opts now vs method =
     (if method \<in> set methodsDoNotRequireAuth then Inr None
      else map_sum id Some (authorize (op_lib opts) (au_jwt (op_Auth opts)) now vs))"

definition answer :: "rpc_result outcome \<Rightarrow> rpc_result" where
  "answer r = (case r of Returned x \<Rightarrow> x | Panicked p \<Rightarrow> Inl (Internal, ''internal server error''))"

lemma recovered_and_logged:
  "\<exists>x l. run_state (recovery_Unary t method (logger_Unary errText u d method h) ctx req) s =
     (Returned x, (exec (h ctx req) s)\<lparr>sd_log := sd_log (exec (h ctx req) s) @ [l]\<rparr>) \<and> log_entry l \<and>
     x = answer (result (h ctx req) s)"
  by (cases "run_state (h ctx req) s"; cases "result (h ctx req) s"; cases "answer (result (h ctx req) s)")
    (auto simp: recovery_Unary_def logger_Unary_def answer_def Let_def)

lemma auth_Unary_run:
  "run_state (auth_Unary (op_lib opts) (au_jwt (op_Auth opts)) methodsDoNotRequireAuth now vs method handler None req) s =
     (case caller opts now vs method of Inl e \<Rightarrow> (Returned (Inl e), s) | Inr ctx \<Rightarrow> run_state (handler ctx req) s)"
  by (auto simp: auth_Unary_def caller_def split: sum.split)

text \<open>
  C40. Whatever a handler does, panicking included, its call is answered and leaves exactly one
  line in the log behind those of the handler, whatever text a panic or an error carries. A call
  without an accepted token does not reach the handler; a panic is answered by an internal error
  that says nothing of its cause; any other answer is the handler's.
\<close>

theorem call_answered_and_logged:
  "\<exists>x l ran.
     run_state (NewServer opts errText now wt vs method handler None req) s = (Returned x, ran\<lparr>sd_log := sd_log ran @ [l]\<rparr>) \<and>
     log_entry l \<and>
     (case caller opts now vs method of
        Inl e \<Rightarrow> ran = s \<and> x = Inl e
      | Inr ctx \<Rightarrow> ran = exec (handler ctx req) s \<and> x = answer (result (handler ctx req) s))"
proof -
  let ?h = "auth_Unary (op_lib opts) (au_jwt (op_Auth opts)) methodsDoNotRequireAuth now vs method handler"
  show ?thesis
    using recovered_and_logged [of "wt_recovered wt" "method" errText "wt_logged wt" "wt_elapsed wt" ?h None req s]
    unfolding NewServer_def auth_Unary_run by (auto simp: answer_def split: sum.splits)
qed

text \<open>With the controllers the chain gives what \<open>grpc_Unary\<close> gives, and a line.\<close>

lemma chain_of_controllers:
  "\<exists>l. log_entry l \<and>
     run_state (NewServer opts errText (ot_now ot) wt vs (FullMethod q) (controllers opts ot) None q) s =
       (Returned (result (grpc_Unary opts ot vs q) (sd_world s)),
        s\<lparr>sd_world := exec (grpc_Unary opts ot vs q) (sd_world s), sd_log := sd_log s @ [l]\<rparr>)"
proof -
  let ?h = "auth_Unary (op_lib opts) (au_jwt (op_Auth opts)) methodsDoNotRequireAuth (ot_now ot) vs (FullMethod q) (controllers opts ot)"
  have "run_state (?h None q) s =
      (Returned (result (grpc_Unary opts ot vs q) (sd_world s)), s\<lparr>sd_world := exec (grpc_Unary opts ot vs q) (sd_world s)\<rparr>)"
    by (auto simp: auth_Unary_run caller_def grpc_Unary_def controllers_def split: sum.split prod.split)
  with recovered_and_logged [of "wt_recovered wt" "FullMethod q" errText "wt_logged wt" "wt_elapsed wt" ?h None q s]
  show ?thesis unfolding NewServer_def by (auto simp: answer_def)
qed

end
