(* ===== verification/Services.thy ===== *)
theory Services
  imports Interceptors
begin

text \<open>
  The services of \<open>api/v1/pb\<close> as the server registers them: for each method the handler that reads
  the message, names the method to the interceptors and calls the controller, and for each service
  its table. The reading of a message (protocol buffers) is an argument, as the library passes it
  to a handler: it fills the empty message it is given. A message that cannot be read is refused
  before any interceptor runs, so it is neither logged nor authenticated.
\<close>

type_synonym decode = "rpc \<Rightarrow> (code \<times> string) + rpc"
type_synonym interceptor = "string \<Rightarrow> rpc_handler \<Rightarrow> rpc_handler"
type_synonym method_handler =
  "rpc_handler \<Rightarrow> uuid option \<Rightarrow> decode \<Rightarrow> interceptor option \<Rightarrow> (served, rpc_result outcome) state"

definition unary_Handler :: "string \<Rightarrow> rpc \<Rightarrow> method_handler" where
  "unary_Handler fullMethod zero srv ctx dec interceptor =
     (case dec zero of
        Inl e \<Rightarrow> ret (Returned (Inl e))
      | Inr req \<Rightarrow>
          (case interceptor of
             None \<Rightarrow> srv ctx req
           | Some i \<Rightarrow> i fullMethod srv ctx req))"

section \<open>The handlers of the methods\<close>

text \<open>The empty message of each method is what \<open>new\<close> gives.\<close>

definition AuthService_SignInWithApple_FullMethodName :: string where
  "AuthService_SignInWithApple_FullMethodName = ''/AuthService/SignInWithApple''"

definition AuthService_SignInWithApple_Handler :: method_handler where
  "AuthService_SignInWithApple_Handler = unary_Handler AuthService_SignInWithApple_FullMethodName (SignInWithAppleRequest [])"

definition AuthService_DevSignIn_FullMethodName :: string where
  "AuthService_DevSignIn_FullMethodName = ''/AuthService/DevSignIn''"

definition AuthService_DevSignIn_Handler :: method_handler where
  "AuthService_DevSignIn_Handler = unary_Handler AuthService_DevSignIn_FullMethodName (DevSignInRequest [])"

definition CategoryService_CategoryList_FullMethodName :: string where
  "CategoryService_CategoryList_FullMethodName = ''/CategoryService/CategoryList''"

definition CategoryService_CategoryList_Handler :: method_handler where
  "CategoryService_CategoryList_Handler = unary_Handler CategoryService_CategoryList_FullMethodName (CategoryListRequest)"

definition CategoryService_CategoryCreate_FullMethodName :: string where
  "CategoryService_CategoryCreate_FullMethodName = ''/CategoryService/CategoryCreate''"

definition CategoryService_CategoryCreate_Handler :: method_handler where
  "CategoryService_CategoryCreate_Handler = unary_Handler CategoryService_CategoryCreate_FullMethodName (CategoryCreateRequest [] [] [] 0)"

definition CategoryService_CategoryDelete_FullMethodName :: string where
  "CategoryService_CategoryDelete_FullMethodName = ''/CategoryService/CategoryDelete''"

definition CategoryService_CategoryDelete_Handler :: method_handler where
  "CategoryService_CategoryDelete_Handler = unary_Handler CategoryService_CategoryDelete_FullMethodName (CategoryDeleteRequest [])"

definition TransactionService_TransactionList_FullMethodName :: string where
  "TransactionService_TransactionList_FullMethodName = ''/TransactionService/TransactionList''"

definition TransactionService_TransactionList_Handler :: method_handler where
  "TransactionService_TransactionList_Handler = unary_Handler TransactionService_TransactionList_FullMethodName (TransactionListRequest [] [])"

definition TransactionService_TransactionCreate_FullMethodName :: string where
  "TransactionService_TransactionCreate_FullMethodName = ''/TransactionService/TransactionCreate''"

definition TransactionService_TransactionCreate_Handler :: method_handler where
  "TransactionService_TransactionCreate_Handler = unary_Handler TransactionService_TransactionCreate_FullMethodName (TransactionCreateRequest [] 0 0 [] [] [])"

definition TransactionService_TransactionDelete_FullMethodName :: string where
  "TransactionService_TransactionDelete_FullMethodName = ''/TransactionService/TransactionDelete''"

definition TransactionService_TransactionDelete_Handler :: method_handler where
  "TransactionService_TransactionDelete_Handler = unary_Handler TransactionService_TransactionDelete_FullMethodName (TransactionDeleteRequest [])"

definition RateService_RateList_FullMethodName :: string where
  "RateService_RateList_FullMethodName = ''/RateService/RateList''"

definition RateService_RateList_Handler :: method_handler where
  "RateService_RateList_Handler = unary_Handler RateService_RateList_FullMethodName (RateListRequest)"

definition MonobankService_ConnectMonobank_FullMethodName :: string where
  "MonobankService_ConnectMonobank_FullMethodName = ''/MonobankService/ConnectMonobank''"

definition MonobankService_ConnectMonobank_Handler :: method_handler where
  "MonobankService_ConnectMonobank_Handler = unary_Handler MonobankService_ConnectMonobank_FullMethodName (ConnectMonobankRequest [] [] [])"

definition MonobankService_MonobankAccounts_FullMethodName :: string where
  "MonobankService_MonobankAccounts_FullMethodName = ''/MonobankService/MonobankAccounts''"

definition MonobankService_MonobankAccounts_Handler :: method_handler where
  "MonobankService_MonobankAccounts_Handler = unary_Handler MonobankService_MonobankAccounts_FullMethodName (MonobankAccountsRequest [])"

definition MonobankService_MonobankStatus_FullMethodName :: string where
  "MonobankService_MonobankStatus_FullMethodName = ''/MonobankService/MonobankStatus''"

definition MonobankService_MonobankStatus_Handler :: method_handler where
  "MonobankService_MonobankStatus_Handler = unary_Handler MonobankService_MonobankStatus_FullMethodName (MonobankStatusRequest)"

definition MonobankService_DisconnectMonobank_FullMethodName :: string where
  "MonobankService_DisconnectMonobank_FullMethodName = ''/MonobankService/DisconnectMonobank''"

definition MonobankService_DisconnectMonobank_Handler :: method_handler where
  "MonobankService_DisconnectMonobank_Handler = unary_Handler MonobankService_DisconnectMonobank_FullMethodName (DisconnectMonobankRequest)"

section \<open>The services\<close>

record service_desc =
  sd_name :: string
  sd_methods :: "(string \<times> method_handler) list"

definition AuthService_ServiceDesc :: service_desc where
  "AuthService_ServiceDesc =
     \<lparr>sd_name = ''AuthService'', sd_methods =
       [(''SignInWithApple'', AuthService_SignInWithApple_Handler),
        (''DevSignIn'', AuthService_DevSignIn_Handler)]\<rparr>"

definition CategoryService_ServiceDesc :: service_desc where
  "CategoryService_ServiceDesc =
     \<lparr>sd_name = ''CategoryService'', sd_methods =
       [(''CategoryList'', CategoryService_CategoryList_Handler),
        (''CategoryCreate'', CategoryService_CategoryCreate_Handler),
        (''CategoryDelete'', CategoryService_CategoryDelete_Handler)]\<rparr>"

definition TransactionService_ServiceDesc :: service_desc where
  "TransactionService_ServiceDesc =
     \<lparr>sd_name = ''TransactionService'', sd_methods =
       [(''TransactionList'', TransactionService_TransactionList_Handler),
        (''TransactionCreate'', TransactionService_TransactionCreate_Handler),
        (''TransactionDelete'', TransactionService_TransactionDelete_Handler)]\<rparr>"

definition RateService_ServiceDesc :: service_desc where
  "RateService_ServiceDesc =
     \<lparr>sd_name = ''RateService'', sd_methods =
       [(''RateList'', RateService_RateList_Handler)]\<rparr>"

definition MonobankService_ServiceDesc :: service_desc where
  "MonobankService_ServiceDesc =
     \<lparr>sd_name = ''MonobankService'', sd_methods =
       [(''ConnectMonobank'', MonobankService_ConnectMonobank_Handler),
        (''MonobankAccounts'', MonobankService_MonobankAccounts_Handler),
        (''MonobankStatus'', MonobankService_MonobankStatus_Handler),
        (''DisconnectMonobank'', MonobankService_DisconnectMonobank_Handler)]\<rparr>"

text \<open>The registrations of \<open>NewServer\<close>, and the method a path names among them.\<close>

definition registered_services :: "service_desc list" where
  "registered_services =
     [AuthService_ServiceDesc, CategoryService_ServiceDesc, TransactionService_ServiceDesc, RateService_ServiceDesc, MonobankService_ServiceDesc]"

definition registered :: "string \<Rightarrow> string \<Rightarrow> method_handler option" where
  "registered service method =
     (case List.find (\<lambda>d. sd_name d = service) registered_services of
        None \<Rightarrow> None
      | Some d \<Rightarrow> map_of (sd_methods d) method)"

lemmas method_names =
  AuthService_SignInWithApple_FullMethodName_def AuthService_DevSignIn_FullMethodName_def
  CategoryService_CategoryList_FullMethodName_def CategoryService_CategoryCreate_FullMethodName_def
  CategoryService_CategoryDelete_FullMethodName_def TransactionService_TransactionList_FullMethodName_def
  TransactionService_TransactionCreate_FullMethodName_def TransactionService_TransactionDelete_FullMethodName_def
  RateService_RateList_FullMethodName_def MonobankService_ConnectMonobank_FullMethodName_def
  MonobankService_MonobankAccounts_FullMethodName_def MonobankService_MonobankStatus_FullMethodName_def
  MonobankService_DisconnectMonobank_FullMethodName_def

lemmas method_handlers =
  AuthService_SignInWithApple_Handler_def AuthService_DevSignIn_Handler_def CategoryService_CategoryList_Handler_def
  CategoryService_CategoryCreate_Handler_def CategoryService_CategoryDelete_Handler_def
  TransactionService_TransactionList_Handler_def TransactionService_TransactionCreate_Handler_def
  TransactionService_TransactionDelete_Handler_def RateService_RateList_Handler_def
  MonobankService_ConnectMonobank_Handler_def MonobankService_MonobankAccounts_Handler_def
  MonobankService_MonobankStatus_Handler_def MonobankService_DisconnectMonobank_Handler_def

lemmas service_tables =
  AuthService_ServiceDesc_def CategoryService_ServiceDesc_def TransactionService_ServiceDesc_def
  RateService_ServiceDesc_def MonobankService_ServiceDesc_def registered_services_def

section \<open>What the interceptors are told\<close>

text \<open>
  Every registered handler names to the interceptors the path it is registered under, and the
  message it reads is the one of that method: so the two names that need no token are those two
  methods, and no other is reached through them.
\<close>

definition wire_path :: "string \<Rightarrow> string \<Rightarrow> string" where
  "wire_path service method = ''/'' @ service @ ''/'' @ method"

definition names_agree :: "string \<Rightarrow> string \<Rightarrow> method_handler \<Rightarrow> bool" where
  "names_agree service method h \<longleftrightarrow>
     (\<exists>zero. h = unary_Handler (wire_path service method) zero \<and> FullMethod zero = wire_path service method)"

lemma names_agreeI:
  "full = wire_path service method \<Longrightarrow> FullMethod zero = wire_path service method \<Longrightarrow>
     names_agree service method (unary_Handler full zero)"
  by (auto simp: names_agree_def)

lemma tables_agree:
  "list_all (\<lambda>d. list_all (\<lambda>(method, h). names_agree (sd_name d) method h) (sd_methods d)) registered_services"
  unfolding service_tables list.pred_inject service_desc.simps prod.case method_handlers
  by (intro conjI names_agreeI TrueI) (simp_all add: method_names wire_path_def FullMethod_def)

lemma registeredD:
  assumes "registered service method = Some h"
  obtains d where "d \<in> set registered_services" "sd_name d = service" "(method, h) \<in> set (sd_methods d)"
proof -
  from assms obtain d where "List.find (\<lambda>d. sd_name d = service) registered_services = Some d"
    and m: "map_of (sd_methods d) method = Some h" by (auto simp: registered_def split: option.split_asm)
  then have "d \<in> set registered_services" "sd_name d = service" by (auto simp: List.find_Some_iff in_set_conv_nth)
  with map_of_SomeD [OF m] that show thesis by blast
qed

lemma registered_agree: "registered service method = Some h \<Longrightarrow> names_agree service method h"
  using tables_agree by (fastforce simp: list_all_iff elim!: registeredD)

lemma open_methods_are_signins:
  assumes "registered service method = Some h" and "wire_path service method \<in> set methodsDoNotRequireAuth"
  shows "service = ''AuthService'' \<and> method \<in> {''SignInWithApple'', ''DevSignIn''}"
  using assms by (auto simp: service_tables wire_path_def methodsDoNotRequireAuth_def elim!: registeredD)

text \<open>
  A call on the wire, with the chain of the server around the controllers, is the call of
  \<open>grpc_Unary\<close> with the message that was read, and one line in the log; what cannot be read leaves
  everything as it was.
\<close>

definition serve_call ::
  "Options \<Rightarrow> (code \<times> string \<Rightarrow> string) \<Rightarrow> outside \<Rightarrow> watch \<Rightarrow> string list \<Rightarrow> decode \<Rightarrow> method_handler \<Rightarrow>
     (served, rpc_result outcome) state" where
  "serve_call opts errText ot wt vs dec h =
     h (controllers opts ot) None dec (Some (NewServer opts errText (ot_now ot) wt vs))"

theorem wire_call:
  assumes "registered service method = Some h"
    and "\<And>m q. dec m = Inr q \<Longrightarrow> FullMethod q = FullMethod m"
  shows "\<exists>zero. FullMethod zero = wire_path service method \<and>
    (case dec zero of
       Inl e \<Rightarrow> run_state (serve_call opts errText ot wt vs dec h) s = (Returned (Inl e), s)
     | Inr q \<Rightarrow> \<exists>l. log_entry l \<and>
         run_state (serve_call opts errText ot wt vs dec h) s =
           (Returned (result (grpc_Unary opts ot vs q) (sd_world s)),
            s\<lparr>sd_world := exec (grpc_Unary opts ot vs q) (sd_world s), sd_log := sd_log s @ [l]\<rparr>))"
proof -
  obtain zero where h: "h = unary_Handler (wire_path service method) zero" "FullMethod zero = wire_path service method"
    using registered_agree [OF assms(1)] by (auto simp: names_agree_def)
  have "\<exists>l. log_entry l \<and> run_state (serve_call opts errText ot wt vs dec h) s =
      (Returned (result (grpc_Unary opts ot vs q) (sd_world s)),
       s\<lparr>sd_world := exec (grpc_Unary opts ot vs q) (sd_world s), sd_log := sd_log s @ [l]\<rparr>)" if "dec zero = Inr q" for q
    using chain_of_controllers [of opts errText ot wt vs q s] assms(2) [OF that] h that
    by (simp add: serve_call_def unary_Handler_def)
  with h show ?thesis by (intro exI [of _ zero]) (auto simp: serve_call_def unary_Handler_def split: sum.split)
qed

end
