(* ===== verification/Run.thy ===== *)
theory Run
  imports Process Services
begin

text \<open>
  The life of the process (\<open>main\<close> and \<open>run\<close> of \<open>cmd/server/main.go\<close>): what it says when it starts,
  what it waits for, how it stops and with which status it exits.
\<close>

type_synonym entry = "string \<times> H"

text \<open>The entries written before anything is connected, all at level INFO.\<close>

definition startup_entries :: "Config \<Rightarrow> entry list" where
  "startup_entries cfg =
     [(''starting finance-engine'',
       Some [(''grpc_address'', VStr (cf_GRPCAddress cfg)), (''dev_mode'', VBool (cf_DevMode cfg))])] @
     (if cf_DevMode cfg
      then [(''DEV_MODE is on: AuthService.DevSignIn bypasses Sign in with Apple. Never enable this on a real deployment.'', None)]
      else []) @
     (if cf_PublicBaseURL cfg = []
      then [(''PUBLIC_BASE_URL is not set: Monobank connect will be unavailable until this points at a public HTTPS URL.'', None)]
      else []) @
     (if cf_GoogleClientID cfg = []
      then [(''GOOGLE_CLIENT_ID is not set: /api/auth/google will reject every request until it'' @ [CHR 0x27] @ ''s configured.'', None)]
      else [])"

section \<open>Waiting\<close>

text \<open>
  \<open>Server.Serve\<close>: what \<open>net.Listen\<close> and the serving of the library return. The web server's
  \<open>ListenAndServe\<close> never returns without an error; the one of an orderly stop is not reported.
\<close>

definition grpc_Serve :: "(string \<Rightarrow> unit res) \<Rightarrow> unit res \<Rightarrow> string \<Rightarrow> unit res" where
  "grpc_Serve listen serving addr =
     (case listen addr of
        Inl e \<Rightarrow> Inl (Wrap ''listen on %s'' [addr] e)
      | Inr _ \<Rightarrow> serving)"

definition ErrServerClosed :: goerr where
  "ErrServerClosed = Foreign ''http: Server closed''"

text \<open>
  What the process waits for, in the order in which it comes about: the two servers ending, and
  the signal that cancels the context. When none ever comes, \<open>run\<close> does not return.
\<close>

datatype happening = GrpcEnded "unit res" | WebListening | WebEnded goerr | Interrupted

fun await :: "string \<Rightarrow> happening list \<Rightarrow> (unit res \<times> entry list) option" where
  "await addr [] = None"
| "await addr (GrpcEnded (Inl e) # hs) = Some (Inl (Wrap ''grpc server'' [] e), [])"
| "await addr (GrpcEnded (Inr _) # hs) = await addr hs"
| "await addr (WebListening # hs) =
     map_option (apsnd (Cons (''webhook server listening'', Some [(''address'', VStr addr)]))) (await addr hs)"
| "await addr (WebEnded e # hs) =
     (if e \<noteq> ErrServerClosed then Some (Inl (Wrap ''webhook server'' [] e), []) else await addr hs)"
| "await addr (Interrupted # hs) = Some (Inr (), [(''shutting down'', None), (''stopped gracefully'', None)])"

section \<open>The run\<close>

text \<open>A run that fails before it serves has said no more than the entries of the start.\<close>

definition run ::
  "environ \<Rightarrow> Options \<Rightarrow> (string \<Rightarrow> aead) \<Rightarrow> (string \<Rightarrow> unit res) \<Rightarrow> (string \<Rightarrow> unit res) \<Rightarrow> happening list \<Rightarrow>
     (unit res \<times> entry list) option" where
  "run env base newGCM postgres redis hs =
     (case Load env of
        Inl e \<Rightarrow> Some (Inl (Wrap ''load config'' [] e), [])
      | Inr cfg \<Rightarrow>
          (case boot env base newGCM postgres redis of
             Inl e \<Rightarrow> Some (Inl e, startup_entries cfg)
           | Inr _ \<Rightarrow> map_option (apsnd (append (startup_entries cfg))) (await (cf_WebhookAddress cfg) hs)))"

text \<open>The exit status and what is written to the standard error.\<close>

definition main :: "err_lib \<Rightarrow> (unit res \<times> entry list) option \<Rightarrow> (int \<times> string) option" where
  "main lib r =
     map_option (\<lambda>(r, _). case r of Inl e \<Rightarrow> (1, ''fatal: '' @ Error lib e @ [CHR 0x0A]) | Inr _ \<Rightarrow> (0, [])) r"

section \<open>How it ends\<close>

definition failure :: "happening \<Rightarrow> bool" where
  "failure h \<longleftrightarrow> (\<exists>e. h = GrpcEnded (Inl e)) \<or> (\<exists>e. h = WebEnded e \<and> e \<noteq> ErrServerClosed)"

lemma failure_simps [simp]:
  "failure (GrpcEnded r) \<longleftrightarrow> is_err r" "failure (WebEnded e) \<longleftrightarrow> e \<noteq> ErrServerClosed"
  "\<not> failure WebListening" "\<not> failure Interrupted"
  by (cases r) (auto simp: failure_def)

lemma await_returns: "await addr hs = None \<longleftrightarrow> Interrupted \<notin> set hs \<and> (\<forall>h \<in> set hs. \<not> failure h)"
  by (induction addr hs rule: await.induct) auto

lemma main_simps [simp]:
  "main lib None = None" "main lib (Some (Inr u, l)) = Some (0, [])"
  "main lib (Some (Inl e, l)) = Some (1, ''fatal: '' @ Error lib e @ [CHR 0x0A])"
  "main lib (map_option (apsnd f) r) = main lib r"
  by (simp_all add: main_def) (cases r; auto)

text \<open>The status and the message a first interrupt or failure leads to.\<close>

definition exit_of :: "err_lib \<Rightarrow> happening option \<Rightarrow> (int \<times> string) option" where
  "exit_of lib h =
     (case h of
        None \<Rightarrow> None
      | Some (GrpcEnded (Inl e)) \<Rightarrow> Some (1, ''fatal: grpc server: '' @ Error lib e @ [CHR 0x0A])
      | Some (WebEnded e) \<Rightarrow> Some (1, ''fatal: webhook server: '' @ Error lib e @ [CHR 0x0A])
      | Some _ \<Rightarrow> Some (0, []))"

text \<open>
  A process that has started runs until it is interrupted or one of its servers fails, and
  then ends: with status 0 exactly when the interrupt comes before any failure. A process whose
  configuration, databases or token key fail ends at once with status 1.
\<close>

theorem run_exit:
  "main lib (run env base newGCM postgres redis hs) =
     (case boot env base newGCM postgres redis of
        Inl e \<Rightarrow> Some (1, ''fatal: '' @ Error lib e @ [CHR 0x0A])
      | Inr _ \<Rightarrow> exit_of lib (List.find (\<lambda>h. h = Interrupted \<or> failure h) hs))"
proof -
  have "main lib (await addr hs) = exit_of lib (List.find (\<lambda>h. h = Interrupted \<or> failure h) hs)" for addr
    by (induction addr hs rule: await.induct) (simp_all add: exit_of_def)
  then show ?thesis by (cases "Load env") (auto simp: run_def boot_def split: sum.split)
qed

end
