(* ===== verification/Score_Properties.thy ===== *)
theory Score_Properties
  imports Insights Go_Float_Facts Ledger_Properties
begin

text \<open>
  The bounds of the financial score of \<open>internal/service/advisor/advisor.go\<close>, through all the
  floating-point steps and whatever the amounts and rates are.
\<close>

section \<open>Floats as the operations make them\<close>

text \<open>The mantissa of a finite float is not negative; infinities and NaN are allowed.\<close>

definition well :: "float64 \<Rightarrow> bool" where
  "well f \<longleftrightarrow> (case f of FFin s m e \<Rightarrow> 0 \<le> m | _ \<Rightarrow> True)"

lemma well_simps [simp]: "well FNaN" "well (FInf s)" "well (FFin s m e) \<longleftrightarrow> 0 \<le> m"
  by (simp_all add: well_def)

lemma well_finite: "well f \<Longrightarrow> f \<noteq> FNaN \<Longrightarrow> f \<notin> range FInf \<Longrightarrow> finite64 f"
  by (cases f) (simp_all add: finite64_def)

lemma well_round64: "0 \<le> n \<Longrightarrow> 0 < d \<Longrightarrow> well (round64 s n d)"
  by (auto simp: round64_def Let_def intro!: round_even_nonneg)

lemma round64_not_NaN: "round64 s n d \<noteq> FNaN"
  by (simp add: round64_def Let_def)

lemma well_float_of_int [simp]: "well (float_of_int i)"
  by (simp add: float_of_int_def well_round64)

lemma well_fneg: "well f \<Longrightarrow> well (fneg f)"
  by (cases f) (simp_all add: fneg_def)

lemma well_fadd: "well f \<Longrightarrow> well g \<Longrightarrow> well (fadd f g)"
  by (cases f; cases g) (auto simp: fadd_def Let_def intro!: well_round64)

lemma well_fsub: "well f \<Longrightarrow> well g \<Longrightarrow> well (fsub f g)"
  by (simp add: fsub_def well_fadd well_fneg)

lemma well_fmul: "well f \<Longrightarrow> well g \<Longrightarrow> well (fmul f g)"
  by (cases f; cases g) (auto simp: fmul_def intro!: well_round64)

lemma well_fdiv: "well f \<Longrightarrow> well g \<Longrightarrow> well (fdiv f g)"
  by (cases f; cases g) (auto simp: fdiv_def intro!: well_round64)

lemmas well_ops = well_fadd well_fsub well_fmul well_fdiv well_fneg

section \<open>Floats as they are read\<close>

lemma p10_pos [simp]: "0 < p10 k" "0 \<le> p10 k"
  by (simp_all add: p10_def)

lemma well_finite_or_error: "finite_or_error neg f = Some g \<Longrightarrow> well f \<Longrightarrow> well g"
  by (auto simp: finite_or_error_def split: float64.splits)

lemma hex_nat_nonneg: "0 \<le> hex_nat s"
proof -
  have "0 \<le> v \<Longrightarrow> 0 \<le> foldl (\<lambda>v c. 16 * v + (case hex_val c of None \<Rightarrow> 0 | Some d \<Rightarrow> int d)) v s" for v
    by (induction s arbitrary: v) (auto split: option.split)
  then show ?thesis by (simp add: hex_nat_def)
qed

lemma well_ParseFloat: "ParseFloat s = Some f \<Longrightarrow> well f"
  by (auto simp: ParseFloat_def parse_decimal_def parse_hex_def Let_def split: prod.splits if_splits option.splits
      dest!: well_finite_or_error intro!: well_round64 mult_nonneg_nonneg hex_nat_nonneg less_imp_le [OF p2_pos])

lemma well_Sscanf: "Sscanf_f s = Some f \<Longrightarrow> well f"
proof -
  have "well f \<Longrightarrow> well (Ldexp f k)" for f k by (cases f) (auto simp: Ldexp_def intro!: well_round64)
  then show "Sscanf_f s = Some f \<Longrightarrow> well f"
    by (auto simp: Sscanf_f_def convertFloat_def Let_def split: list.splits if_splits option.splits
        dest: well_ParseFloat)
qed

lemma well_amount: "well (amount_or_zero s)"
  using well_Sscanf by (auto simp: amount_or_zero_def parseAmount_def split: option.split)

lemma decode_fields_keeps:
  assumes "\<And>n f w t. (n, f) \<in> set fs \<Longrightarrow> P t \<Longrightarrow> P (fst (f w t))" and "P s"
  shows "P (fst (decode_fields fs v s))"
proof (cases v)
  case (JObj ms)
  have step: "P t'" if "map_of fs n = Some f" "f w t = (t', b)" "P t" for n f w t t' b
    using assms(1) [OF map_of_SomeD [OF that(1)] that(3), of w] that(2) by simp
  have "P (fst (foldl (\<lambda>(t, bad) (k, w). case field_of (map fst fs) k of None \<Rightarrow> (t, bad)
      | Some n \<Rightarrow> (case map_of fs n of None \<Rightarrow> (t, bad)
                 | Some f \<Rightarrow> (case f w t of (t', b) \<Rightarrow> (t', bad \<or> b)))) a ms))" if "P (fst a)" for a
    using that
  proof (induction ms arbitrary: a)
    case (Cons p ms)
    from Cons.prems have "P (fst ((\<lambda>(t, bad) (k, w). case field_of (map fst fs) k of None \<Rightarrow> (t, bad)
      | Some n \<Rightarrow> (case map_of fs n of None \<Rightarrow> (t, bad)
                 | Some f \<Rightarrow> (case f w t of (t', b) \<Rightarrow> (t', bad \<or> b)))) a p))"
      by (auto split: prod.split option.split intro: step)
    from Cons.IH [OF this] show ?case by simp
  qed simp
  with assms(2) show ?thesis by (simp add: decode_fields_def JObj)
qed (simp_all add: decode_fields_def assms(2))

lemma well_num_float: "num_float neg ip fp ex = Some f \<Longrightarrow> well f"
proof -
  assume a: "num_float neg ip fp ex = Some f"
  have "well (round64 neg (int n * p10 e) (p10 h))" for n e h by (intro well_round64) simp_all
  with a show ?thesis by (auto simp: num_float_def Let_def split: float64.splits) (metis well_simps(3))+
qed

lemma well_rate:
  assumes "decode_rate p = Some r" shows "well (ra_RateToUAH r)"
proof -
  have "well (rv_RateToUAH (fst (decode_fields rateValue_fields v rateValue0)))" for v
    by (rule decode_fields_keeps)
      (auto simp: rateValue_fields_def rateValue0_def set_float_def set_time_def split: json.split option.split
        dest: well_num_float)
  then show ?thesis
    using assms by (auto simp: decode_rate_def Unmarshal_def split: option.splits prod.splits if_splits) (metis fst_conv)
qed

lemma RateRepo_List_well:
  assumes "result RateRepo_List d = Inr rates" shows "\<forall>r \<in> set rates. well (ra_RateToUAH r)"
proof -
  obtain raw where "rates = List.map_filter decode_rate (sort_members raw)"
    using assms by (auto simp: RateRepo_List_def split_beta split: sum.splits)
  then show ?thesis using well_rate by (fastforce simp: map_filter_def)
qed

section \<open>The sums\<close>

definition well_map :: "('k \<times> float64) list \<Rightarrow> bool" where
  "well_map m \<longleftrightarrow> (\<forall>p \<in> set m. well (snd p))"

lemma well_map_float: "well_map m \<Longrightarrow> well (map_float m k)"
  by (fastforce simp: well_map_def map_float_def split: option.split dest: map_of_SomeD)

lemma well_put_at: "well_map m \<Longrightarrow> well v \<Longrightarrow> well_map (put_at k v m)"
  by (auto simp: well_map_def put_at_def)

lemma well_map_add: "well_map m \<Longrightarrow> well v \<Longrightarrow> well_map (map_add k v m)"
  by (simp add: map_add_def well_put_at well_ops well_map_float)

lemma well_rate_table:
  assumes "\<forall>r \<in> set rates. well (ra_RateToUAH r)" shows "well_map (rate_table rates)"
proof -
  have "well_map m \<Longrightarrow> well_map (foldl (\<lambda>m r. put_at (ra_Currency r) (ra_RateToUAH r) m) m rates)" for m
    using assms by (induction rates arbitrary: m) (auto intro: well_put_at)
  from this [of "[(''UAH'', float_of_int 1)]"] show ?thesis unfolding rate_table_def using well_map_def by fastforce
qed

lemma well_convert: "well a \<Longrightarrow> well_map rates \<Longrightarrow> well (convert a x y rates)"
  by (simp add: convert_def Let_def well_ops well_map_float)

definition well_sums :: "score_sums \<Rightarrow> bool" where
  "well_sums a \<longleftrightarrow> well (sc_income a) \<and> well (sc_expense a) \<and> well_map (sc_byCategory a)"

lemma well_score_tx: "well_sums a \<Longrightarrow> well_map rates \<Longrightarrow> well_sums (score_tx base rates a tx)"
  by (simp add: well_sums_def score_tx_def Let_def well_ops well_convert well_amount well_map_add)

lemma well_score_sums:
  assumes "well_map rates" shows "well_sums (score_sums_of base rates txs)"
proof -
  have "well_sums a \<Longrightarrow> well_sums (foldl (score_tx base rates) a txs)" for a
    using assms by (induction txs arbitrary: a) (auto intro: well_score_tx)
  moreover have "well_sums \<lparr>sc_income = fzero, sc_expense = fzero, sc_byCategory = [], sc_days = []\<rparr>"
    by (simp add: well_sums_def well_map_def)
  ultimately show ?thesis unfolding score_sums_of_def by blast
qed

section \<open>One component\<close>

lemma small_val: "\<bar>real_of_int i\<bar> \<le> 100 \<Longrightarrow> finite64 (float_of_int i) \<and> fval (float_of_int i) = real_of_int i"
  using float_of_int_exact [of i] by simp

lemma clampScore_range:
  assumes "well v" "v \<noteq> FNaN" shows "0 \<le> clampScore v \<and> clampScore v \<le> 100"
proof (cases "v \<in> range FInf")
  case True
  then obtain s where "v = FInf s" by blast
  moreover have "\<exists>b m e. float_of_int 100 = FFin b m e"
    using small_val [of 100] by (cases "float_of_int 100") (auto simp: finite64_def)
  ultimately show ?thesis by (cases s) (auto simp: clampScore_def fless_def)
next
  case False
  then have v: "finite64 v" using assms well_finite by blast
  have z: "finite64 fzero" "fval fzero = 0" by (simp_all add: finite64_def signed_def)
  have h: "finite64 (float_of_int 100)" "fval (float_of_int 100) = 100" using small_val [of 100] by simp_all
  show ?thesis
  proof (cases "fval v < 0 \<or> 100 < fval v")
    case True
    then show ?thesis using fless_val [OF v z(1)] fless_val [OF h(1) v] h z by (auto simp: clampScore_def)
  next
    case False
    then have "int_of_float (fRound v) = \<lfloor>fval v + 1 / 2\<rfloor>" by (intro int_of_fRound v) auto
    moreover have "0 \<le> \<lfloor>fval v + 1 / 2\<rfloor>" "\<lfloor>fval v + 1 / 2\<rfloor> \<le> 100" using False by (simp_all add: floor_le_iff)
    ultimately show ?thesis by (simp add: clampScore_def)
  qed
qed

text \<open>A quotient by a constant that is not zero, times a hundred, is a number when the dividend is.\<close>

definition positive :: "float64 \<Rightarrow> bool" where
  "positive c \<longleftrightarrow> (\<exists>m e. c = FFin False m e \<and> 0 < m)"

lemma positive_number: "positive c \<Longrightarrow> well c" "positive c \<Longrightarrow> c \<noteq> FNaN" "positive c \<Longrightarrow> c \<notin> range FInf"
  by (auto simp: positive_def)

lemma positive_minus: "positive c \<Longrightarrow> x \<noteq> FNaN \<Longrightarrow> fsub c x \<noteq> FNaN"
  by (cases x) (auto simp: positive_def fsub_def fneg_def fadd_def Let_def round64_not_NaN split: if_splits)

lemma constants: "positive f020" "positive f05" "positive f04" "positive f03" "positive (float_of_int 20)"
  "positive (float_of_int 100)" "positive f075"
proof -
  have "f020 = FFin False 7205759403792794 (- 55)" "f05 = FFin False 4503599627370496 (- 53)"
    "f04 = FFin False 7205759403792794 (- 54)" "f03 = FFin False 5404319552844595 (- 54)"
    "float_of_int 20 = FFin False 5629499534213120 (- 48)" "float_of_int 100 = FFin False 7036874417766400 (- 46)"
    "f075 = FFin False 6755399441055744 (- 53)"
    by code_simp+
  then show "positive f020" "positive f05" "positive f04" "positive f03" "positive (float_of_int 20)"
    "positive (float_of_int 100)" "positive f075" by (auto simp: positive_def)
qed

lemma percent:
  assumes "well x" "x \<noteq> FNaN" "positive c"
  shows "0 \<le> clampScore (fmul (fdiv x c) (float_of_int 100))"
    and "clampScore (fmul (fdiv x c) (float_of_int 100)) \<le> 100"
proof -
  have c: "well c" using assms(3) by (rule positive_number)
  obtain m e where h: "float_of_int 100 = FFin False m e" "0 < m" using constants by (auto simp: positive_def)
  have "fdiv x c \<noteq> FNaN" using assms by (cases x) (auto simp: positive_def fdiv_def round64_not_NaN)
  then have "fmul (fdiv x c) (float_of_int 100) \<noteq> FNaN"
    using h by (cases "fdiv x c") (auto simp: fmul_def round64_not_NaN)
  moreover have "well (fmul (fdiv x c) (float_of_int 100))" using assms c by (simp add: well_ops)
  ultimately show "0 \<le> clampScore (fmul (fdiv x c) (float_of_int 100))"
    "clampScore (fmul (fdiv x c) (float_of_int 100)) \<le> 100" using clampScore_range by blast+
qed

lemma less_NaN [simp]: "\<not> fless x FNaN" "\<not> fless FNaN x"
  by (simp_all add: fless_def split: float64.split)

lemma top_share_well:
  assumes "well_sums a" "\<forall>p \<in> set (ai_by_id env (sc_byCategory a)). well (snd p)"
  shows "well (top_share env a) \<and> top_share env a \<noteq> FNaN"
proof -
  have "well t \<and> t \<noteq> FNaN \<Longrightarrow> \<forall>p \<in> set ps. well (snd p) \<Longrightarrow>
      (let r = foldl (\<lambda>top p. let share = fdiv (snd p) (sc_expense a) in if fless top share then share else top) t ps
       in well r \<and> r \<noteq> FNaN)" for t ps
  proof (induction ps arbitrary: t)
    case (Cons p ps)
    from Cons.prems assms(1) have "well (if fless t (fdiv (snd p) (sc_expense a)) then fdiv (snd p) (sc_expense a) else t) \<and>
        (if fless t (fdiv (snd p) (sc_expense a)) then fdiv (snd p) (sc_expense a) else t) \<noteq> FNaN"
      by (auto simp: well_sums_def well_ops)
    from Cons.IH [OF this] Cons.prems(2) show ?case by (simp add: Let_def)
  qed simp
  from this [of fzero "ai_by_id env (sc_byCategory a)"] assms(2) show ?thesis by (simp add: top_share_def Let_def)
qed

section \<open>The total\<close>

text \<open>Rounding a value between 0 and 200 moves it by next to nothing, and 0 not at all.\<close>

lemma near:
  assumes "rounds_to x r" "x = 0 \<or> t + 1 / 100000 \<le> x" "0 < t" "x \<le> 200"
  shows "finite64 r" "\<bar>fval r - x\<bar> \<le> 1 / 100000" "fval r = 0 \<or> t \<le> fval r"
proof -
  have "\<bar>x\<bar> * pw (- 53) \<le> 200 * pw (- 53)" by (rule mult_right_mono) (use assms in auto)
  also have "\<dots> \<le> 1 / 100000" by (simp add: pw_def power_int_minus)
  finally have a: "\<bar>x\<bar> * pw (- 53) \<le> 1 / 100000" .
  have "pw (- 1075) \<le> pw (- 20)" by (rule pw_mono) simp
  also have "pw (- 20) \<le> 1 / 100000" by (simp add: pw_def power_int_minus)
  finally have "max (\<bar>x\<bar> * pw (- 53)) (pw (- 1075)) \<le> 1 / 100000" using a by (rule max.boundedI [rotated])
  then show e: "\<bar>fval r - x\<bar> \<le> 1 / 100000" using rounds_toD(2) [OF assms(1)] by linarith
  show "finite64 r" by (rule rounds_toD(1) [OF assms(1)])
  show "fval r = 0 \<or> t \<le> fval r"
  proof (cases "x = 0")
    case True
    then show ?thesis using assms(1) rounds_to_zero by blast
  qed (use assms(2) e in auto)
qed

lemma small_product: "x \<le> (200 :: real) \<Longrightarrow> 0 \<le> x \<Longrightarrow> \<bar>x\<bar> < pw 1023"
  using pw_mono [of 10 1023] by (simp add: pw_nat [of 10])

lemma weights:
  "finite64 f04" "\<bar>fval f04 - 4 / 10\<bar> \<le> 1 / 100000" "finite64 f03" "\<bar>fval f03 - 3 / 10\<bar> \<le> 1 / 100000"
proof -
  have "rounds_to (4 / 10) f04" "rounds_to (3 / 10) f03"
    using round64_rounds [of 4 10 False] round64_rounds [of 3 10 False] small_product [of "4 / 10"] small_product [of "3 / 10"]
    by (simp_all add: f04_def f03_def)
  from near [OF this(1), of "1 / 4"] near [OF this(2), of "1 / 4"]
  show "finite64 f04" "\<bar>fval f04 - 4 / 10\<bar> \<le> 1 / 100000" "finite64 f03" "\<bar>fval f03 - 3 / 10\<bar> \<le> 1 / 100000" by auto
qed

text \<open>A finite float that is 0 or at least \<open>t\<close>, and at most \<open>u\<close>.\<close>

definition zero_or :: "real \<Rightarrow> real \<Rightarrow> float64 \<Rightarrow> bool" where
  "zero_or t u f \<longleftrightarrow> finite64 f \<and> (fval f = 0 \<or> t \<le> fval f) \<and> fval f \<le> u"

lemma weighted:
  assumes "finite64 c" "\<bar>fval c - w\<bar> \<le> 1 / 100000" "3 / 10 \<le> w" "w \<le> 4 / 10" "0 \<le> i" "i \<le> 100"
  shows "zero_or (1 / 4) (100 * w + 1 / 100) (fmul c (float_of_int i))"
proof -
  define x where "x = fval c * real_of_int i"
  have i: "finite64 (float_of_int i)" "fval (float_of_int i) = real_of_int i" using small_val [of i] assms(5,6) by simp_all
  have c: "29 / 100 \<le> fval c" "fval c \<le> w + 1 / 100000" using assms(2,3) by linarith+
  have "x \<le> (w + 1 / 100000) * 100" unfolding x_def using c assms(3,5,6) by (intro mult_mono) auto
  then have up: "x \<le> 100 * w + 1 / 1000" by simp
  have low: "x = 0 \<or> 29 / 100 \<le> x"
  proof (cases "i = 0")
    case False
    then have "29 / 100 * 1 \<le> x" unfolding x_def using c assms(5) by (intro mult_mono) auto
    then show ?thesis by simp
  qed (simp add: x_def)
  have "rounds_to x (fmul c (float_of_int i))"
    unfolding x_def i(2) [symmetric] using low up assms(4)
    by (intro fmul_rounds [OF assms(1) i(1)] small_product) (auto simp: i(2) x_def)
  from near [OF this, of "1 / 4"] low up assms(4)
  have "finite64 (fmul c (float_of_int i))" "\<bar>fval (fmul c (float_of_int i)) - x\<bar> \<le> 1 / 100000"
    "fval (fmul c (float_of_int i)) = 0 \<or> 1 / 4 \<le> fval (fmul c (float_of_int i))" by auto
  moreover from this(2) up have "fval (fmul c (float_of_int i)) \<le> 100 * w + 1 / 100" by linarith
  ultimately show ?thesis by (simp add: zero_or_def)
qed

lemma zero_or_add:
  assumes "zero_or t u f" "zero_or t v g" "r + 1 / 100000 \<le> t" "0 < r" "0 \<le> u" "0 \<le> v" "u + v \<le> 200"
  shows "zero_or r (u + v + 1 / 100000) (fadd f g)"
proof -
  define x where "x = fval f + fval g"
  have x: "x = 0 \<or> r + 1 / 100000 \<le> x" "x \<le> u + v" using assms by (auto simp: zero_or_def x_def)
  have "rounds_to x (fadd f g)"
    unfolding x_def using x assms by (intro fadd_rounds small_product) (auto simp: zero_or_def x_def)
  from near [OF this x(1)] x assms
  have "finite64 (fadd f g)" "\<bar>fval (fadd f g) - x\<bar> \<le> 1 / 100000" "fval (fadd f g) = 0 \<or> r \<le> fval (fadd f g)" by auto
  moreover from this(2) x(2) have "fval (fadd f g) \<le> u + v + 1 / 100000" by linarith
  ultimately show ?thesis by (simp add: zero_or_def)
qed

lemma zero_or_weaken: "zero_or t u f \<Longrightarrow> t' \<le> t \<Longrightarrow> u \<le> u' \<Longrightarrow> zero_or t' u' f"
  by (auto simp: zero_or_def)

lemma total_range:
  assumes "0 \<le> s" "s \<le> 100" "0 \<le> b" "b \<le> 100" "0 \<le> c" "c \<le> 100"
  shows "int_of_float (fRound (fadd (fadd (fmul f04 (float_of_int s)) (fmul f03 (float_of_int b))) (fmul f03 (float_of_int c))))
    \<in> {0..100}" (is "int_of_float (fRound ?t) \<in> _")
proof -
  note w = weighted [OF weights(1,2), of s] weighted [OF weights(3,4), of b] weighted [OF weights(3,4), of c]
  have "zero_or (1 / 5) (70 + 3 / 100) (fadd (fmul f04 (float_of_int s)) (fmul f03 (float_of_int b)))"
    by (rule zero_or_weaken [OF zero_or_add [OF w(1,2), of "1 / 5"]]) (use assms in simp_all)
  moreover have "zero_or (1 / 5) (30 + 1 / 100) (fmul f03 (float_of_int c))"
    by (rule zero_or_weaken [OF w(3)]) (use assms in simp_all)
  ultimately have "zero_or (1 / 6) (100 + 5 / 100) ?t"
    by (rule zero_or_weaken [OF zero_or_add [of "1 / 5" _ _ _ _ "1 / 6"]]) simp_all
  then have t: "finite64 ?t" "0 \<le> fval ?t" "fval ?t \<le> 100 + 5 / 100" by (auto simp: zero_or_def)
  then have "int_of_float (fRound ?t) = \<lfloor>fval ?t + 1 / 2\<rfloor>" by (intro int_of_fRound) auto
  moreover have "0 \<le> \<lfloor>fval ?t + 1 / 2\<rfloor>" "\<lfloor>fval ?t + 1 / 2\<rfloor> \<le> 100" using t by (simp_all add: floor_le_iff)
  ultimately show ?thesis by simp
qed

section \<open>The score\<close>

lemma score_of_range:
  assumes "well_sums a" "\<forall>p \<in> set (ai_by_id env (sc_byCategory a)). well (snd p)"
  shows "fs_BalanceScore (score_of env a) \<in> {0..100}" and "fs_ConsistencyScore (score_of env a) \<in> {0..100}"
    and "savings_rate a \<noteq> FNaN \<Longrightarrow> fs_SavingsScore (score_of env a) \<in> {0..100} \<and> fs_Total (score_of env a) \<in> {0..100}"
    and "savings_rate a = FNaN \<Longrightarrow> fs_SavingsScore (score_of env a) = - (2 ^ 63)"
proof -
  note top = top_share_well [OF assms]
  note f075 = positive_number [OF constants(7)]
  have "fsub f075 (top_share env a) \<noteq> FNaN"
    using top by (intro positive_minus constants) simp
  moreover have "well (fsub f075 (top_share env a))" using top f075 by (simp add: well_ops)
  ultimately have b: "0 \<le> fs_BalanceScore (score_of env a)" "fs_BalanceScore (score_of env a) \<le> 100"
    using percent [OF _ _ constants(2)] by (simp_all add: score_of_def Let_def)
  have "float_of_int i \<noteq> FNaN" for i by (simp add: float_of_int_def round64_not_NaN)
  then have c: "0 \<le> fs_ConsistencyScore (score_of env a)" "fs_ConsistencyScore (score_of env a) \<le> 100"
    using percent [OF _ _ constants(5)] by (simp_all add: score_of_def Let_def)
  show "fs_BalanceScore (score_of env a) \<in> {0..100}" "fs_ConsistencyScore (score_of env a) \<in> {0..100}"
    using b c by simp_all
  have "well (savings_rate a)" using assms(1) by (simp add: savings_rate_def well_sums_def well_ops)
  then have s: "0 \<le> fs_SavingsScore (score_of env a)" "fs_SavingsScore (score_of env a) \<le> 100" if "savings_rate a \<noteq> FNaN"
    using percent [OF _ that constants(1)] by (simp_all add: score_of_def Let_def)
  show "fs_SavingsScore (score_of env a) \<in> {0..100} \<and> fs_Total (score_of env a) \<in> {0..100}" if "savings_rate a \<noteq> FNaN"
    using total_range [OF s [OF that] b c] s [OF that] by (simp add: score_of_def Let_def)
  show "fs_SavingsScore (score_of env a) = - (2 ^ 63)" if "savings_rate a = FNaN"
    by (simp add: score_of_def Let_def that fdiv_def fmul_def clampScore_def fRound_def int_of_float_def)
qed

text \<open>
  C35. The financial score and its three parts lie between 0 and 100 whatever the transactions and
  rates are -- overflowing, absurd, missing -- unless the savings rate is not a number (an infinite
  or NaN amount): then the savings part is the least 64-bit integer.
\<close>

theorem score_bounds:
  assumes "\<And>m. set (ai_by_id env m) = set m"
    and "run_state (FinancialScore env now userID base) w = (Inr s, w')"
  shows "fs_BalanceScore s \<in> {0..100} \<and> fs_ConsistencyScore s \<in> {0..100} \<and>
    (if fs_SavingsRate s = FNaN then fs_SavingsScore s = - (2 ^ 63)
     else fs_SavingsScore s \<in> {0..100} \<and> fs_Total s \<in> {0..100})"
proof -
  obtain d txs rates where "result RateRepo_List d = Inr rates" and s: "s = score_of env (score_sums_of base (rate_table rates) txs)"
    using assms(2) by (fastforce simp: FinancialScore_def run_on_db run_on_redis split: sum.splits)
  then have a: "well_sums (score_sums_of base (rate_table rates) txs)"
    by (intro well_score_sums well_rate_table RateRepo_List_well)
  moreover have "\<forall>p \<in> set (ai_by_id env (sc_byCategory (score_sums_of base (rate_table rates) txs))). well (snd p)"
    using a by (simp add: assms(1) well_sums_def well_map_def)
  moreover have "fs_SavingsRate s = savings_rate (score_sums_of base (rate_table rates) txs)"
    by (simp add: s score_of_def Let_def)
  ultimately show ?thesis using score_of_range unfolding s by auto
qed

section \<open>Witness\<close>

definition score_env :: advisor_env where
  "score_env =
     \<lparr>ai_name_le = (\<lambda>_ _. True), ai_pgnum = sample_pgnum, ai_lower = id, ai_fold = id, ai_uuid_String = uuid_hex,
      ai_by_id = id, ai_by_name = id, ai_notes = id, ai_entries = id\<rparr>"

definition score_world :: world where
  "score_world = \<lparr>wo_db = ledger_db, wo_redis = \<lparr>rd_faults = [], rd_clock = 5, rd_hash = [], rd_keys = []\<rparr>\<rparr>"

theorem score_bounds_witness:
  "\<exists>s. result (FinancialScore score_env (time_of_unix 1700000000) 1 ''UAH'') score_world = Inr s \<and>
    fs_BalanceScore s \<in> {0..100} \<and> fs_ConsistencyScore s \<in> {0..100}"
proof -
  let ?m = "FinancialScore score_env (time_of_unix 1700000000) 1 ''UAH''"
  have "\<exists>s. result ?m score_world = Inr s"
    by (simp add: FinancialScore_def run_on_db run_on_redis TransactionRepo_ListForUser_def TransactionListForUser_def
        RateRepo_List_def HGetAll_def redis_cmd_def score_world_def split_beta)
  then obtain s where "result ?m score_world = Inr s" ..
  then have "run_state ?m score_world = (Inr s, exec ?m score_world)" by (simp add: prod_eq_iff)
  note score_bounds [OF _ this]
  with \<open>result ?m score_world = Inr s\<close> show ?thesis by (simp add: score_env_def)
qed

end
