(* ===== verification/Schema.thy ===== *)
theory Schema
  imports Process "HOL-Library.Sublist"
begin

text \<open>
  What every statement keeps: the constraints of the schema (the migrations' keys, references and
  checks), and the rows that are never taken back -- the log of payment events and the accounts.
\<close>

section \<open>Statements that do not concern a predicate\<close>

definition unmoved :: "(('x \<Rightarrow> 'x) \<Rightarrow> db \<Rightarrow> db) \<Rightarrow> (db \<Rightarrow> bool) \<Rightarrow> bool" where
  "unmoved upd Q \<longleftrightarrow> fault_free Q \<and> (\<forall>d. Q (bump d) = Q d) \<and> (\<forall>f d. Q (upd f d) = Q d)"

lemma unmovedD:
  "unmoved upd Q \<Longrightarrow> fault_free Q" "unmoved upd Q \<Longrightarrow> Q (bump d) = Q d" "unmoved upd Q \<Longrightarrow> Q (upd f d) = Q d"
  by (simp_all add: unmoved_def)

lemma unmoved_payments: "unmoved db_payments_update Q \<Longrightarrow> keeps Q (PaymentEventCreate p)"
  unfolding PaymentEventCreate_def
  by (rule keeps_stmt) (auto simp: payment_insert_def Let_def unmovedD split: sum.splits)

lemma unmoved_sessions:
  assumes "unmoved db_sessions_update Q"
  shows "keeps Q (SessionCreate u h e a)" "keeps Q (SessionRevokeByID i)" "keeps Q (SessionRevokeByRefreshHash h)"
    "keeps Q (SessionRevokeForUser i u)"
  unfolding SessionCreate_def SessionRevokeByID_def SessionRevokeByRefreshHash_def SessionRevokeForUser_def Let_def
  by (auto intro!: keeps_stmt simp: session_insert_def revoke_where_def unmovedD [OF assms])

lemma unmoved_ledger:
  assumes "unmoved db_categories_update Q" "unmoved db_transactions_update Q"
  shows "keeps Q (CategoryCreate p)" "keeps Q (CategoryDeleteForUser i u)" "keeps Q (CategoryUpdateTranslations i a b)"
    "keeps Q (TransactionCreate q)" "keeps Q (TransactionCreateWithExternalID q x oa oc)"
    "keeps Q (TransactionUpdateForUser i u y)" "keeps Q (TransactionDeleteForUser i u)"
    "keeps Q (TransactionDeleteExpiredForPlan t s)"
  using unmovedD [OF assms(1)] unmovedD [OF assms(2)]
  unfolding CategoryCreate_def CategoryDeleteForUser_without CategoryUpdateTranslations_def transaction_statements
  by (auto intro!: keeps_stmt simp: category_insert_def without_category_def category_upd_def transaction_insert_def
      delete_where_def split: sum.splits option.splits)

lemma unmoved_monobank:
  assumes "unmoved db_monobank_update Q"
  shows "keeps Q (MonobankConnectionUpsert c)" "keeps Q (MonobankConnectionDelete i)" "keeps Q (MonobankConnectionTouchSync i)"
    "keeps Q (MonobankConnectionUpdateAccounts i a b c' e)"
  using unmovedD [OF assms] unfolding monobank_statements
  by (auto intro!: keeps_stmt simp: Let_def mono_upd_def split: option.splits)

text \<open>The statements on the users table add accounts and change them, and never take one away.\<close>

definition user_ids :: "db \<Rightarrow> uuid set" where
  "user_ids d = ur_id ` set (db_users d)"

definition grows :: "(db \<Rightarrow> bool) \<Rightarrow> bool" where
  "grows Q \<longleftrightarrow> fault_free Q \<and> (\<forall>d. Q (bump d) = Q d) \<and>
     (\<forall>d us. Q d \<longrightarrow> user_ids d \<subseteq> ur_id ` set us \<longrightarrow> Q (d\<lparr>db_users := us\<rparr>))"

lemma grows_upd: "grows Q \<Longrightarrow> Q d \<Longrightarrow> (\<And>r. ur_id (f r) = ur_id r) \<Longrightarrow> Q (user_upd i f d)"
  by (simp add: grows_def user_upd_def user_ids_def ids_update_by)

lemma growsD: "grows Q \<Longrightarrow> Q (bump d) = Q d" "grows Q \<Longrightarrow> Q d \<Longrightarrow> user_ids d \<subseteq> ur_id ` set us \<Longrightarrow> Q (d\<lparr>db_users := us\<rparr>)"
  by (simp_all add: grows_def)

lemma grows_insert: "grows Q \<Longrightarrow> Q d \<Longrightarrow> Q (snd (user_insert r d))"
proof (cases "user_conflict r (db_users d)")
  case None
  assume "grows Q" "Q d"
  then have "Q (d\<lparr>db_users := db_users d @ [r]\<rparr>)" by (rule growsD(2)) (auto simp: user_ids_def)
  with None \<open>grows Q\<close> show ?thesis by (simp add: user_insert_def growsD(1))
qed (simp add: user_insert_def)

lemma grows_users:
  assumes "grows Q"
  shows "keeps Q (UserCreate t u s)" "keeps Q (UserCreateWithEmail t u s)" "keeps Q (UserCreateWithGoogle t u s)"
    "keeps Q (UserStartTrial i x w)" "keeps Q (UserUpdateBaseCurrency i x)" "keeps Q (UserUpdateGoals i x)"
    "keeps Q (UserUpdatePreferences i x y)" "keeps Q (UserUpdateProfile i x y)" "keeps Q (UserUpdateSubscription i x y w)"
proof -
  have Q: "fault_free Q" using assms by (simp add: grows_def)
  note rules = keeps_stmt [OF Q] grows_insert [OF assms] grows_upd [OF assms]
  show "keeps Q (UserCreate t u s)" "keeps Q (UserCreateWithEmail t u s)" "keeps Q (UserCreateWithGoogle t u s)"
    "keeps Q (UserStartTrial i x w)" "keeps Q (UserUpdateBaseCurrency i x)" "keeps Q (UserUpdateGoals i x)"
    "keeps Q (UserUpdatePreferences i x y)" "keeps Q (UserUpdateProfile i x y)" "keeps Q (UserUpdateSubscription i x y w)"
    by (auto simp: user_inserts user_updates user_update_def Let_def intro!: rules)
qed

section \<open>The constraints of the schema\<close>

definition schema_wf :: "db \<Rightarrow> bool" where
  "schema_wf d \<longleftrightarrow> users_wf d \<and> payments_wf d \<and> sessions_wf d \<and> ledger_wf d \<and> monobank_wf d"

lemma grows_tables: "grows payments_wf" "grows sessions_wf" "grows ledger_wf" "grows monobank_wf"
proof -
  have tx: "transaction_ok (d\<lparr>db_users := us\<rparr>) r"
    if "transaction_ok d r" "ur_id ` set (db_users d) \<subseteq> ur_id ` set us" for d us r
    using that by (auto simp: transaction_ok_def)
  have ct: "category_ok (d\<lparr>db_users := us\<rparr>) r"
    if "category_ok d r" "ur_id ` set (db_users d) \<subseteq> ur_id ` set us" for d us r
    using that by (auto simp: category_ok_def)
  have bumped: "transaction_ok (bump d) r = transaction_ok d r" "category_ok (bump d) c = category_ok d c" for d r c
    by (simp_all add: bump_def transaction_ok_def category_ok_def)
  show "grows ledger_wf"
    by (auto simp: grows_def user_ids_def ledger_wf_def transactions_wf_def categories_wf_def bumped intro: tx ct)
      (simp_all add: bump_def)
  show "grows payments_wf" "grows sessions_wf" "grows monobank_wf"
    by (auto simp: grows_def user_ids_def payments_wf_def sessions_wf_def monobank_wf_def bump_def)
qed

lemma unmoved_tables:
  "unmoved db_payments_update users_wf" "unmoved db_payments_update sessions_wf" "unmoved db_payments_update ledger_wf"
  "unmoved db_payments_update monobank_wf"
  "unmoved db_sessions_update users_wf" "unmoved db_sessions_update payments_wf" "unmoved db_sessions_update ledger_wf"
  "unmoved db_sessions_update monobank_wf"
  "unmoved db_categories_update users_wf" "unmoved db_categories_update payments_wf"
  "unmoved db_categories_update sessions_wf" "unmoved db_categories_update monobank_wf"
  "unmoved db_transactions_update users_wf" "unmoved db_transactions_update payments_wf"
  "unmoved db_transactions_update sessions_wf" "unmoved db_transactions_update monobank_wf"
  "unmoved db_monobank_update users_wf" "unmoved db_monobank_update payments_wf" "unmoved db_monobank_update sessions_wf"
  "unmoved db_monobank_update ledger_wf"
  by (simp_all add: unmoved_def fault_free_def bump_def users_wf_def payments_wf_def sessions_wf_def monobank_wf_def
      ledger_unfold)

lemma keeps_schema:
  "keeps users_wf m \<Longrightarrow> keeps payments_wf m \<Longrightarrow> keeps sessions_wf m \<Longrightarrow> keeps ledger_wf m \<Longrightarrow> keeps monobank_wf m \<Longrightarrow>
    keeps schema_wf m"
  unfolding schema_wf_def by (intro keeps_conj)

interpretation schema: statement_invariant schema_wf
  by unfold_locales
    (auto simp: fault_free_def schema_wf_def users_wf_def payments_wf_def sessions_wf_def monobank_wf_def ledger_unfold,
     (intro keeps_schema hr unmoved_payments unmoved_sessions unmoved_ledger unmoved_monobank grows_users grows_tables
        unmoved_tables)+)

section \<open>What is never taken back\<close>

text \<open>The payment events of a moment stay the first ones, and every account of a moment stays.\<close>

definition history_kept :: "payment_row list \<Rightarrow> uuid set \<Rightarrow> db \<Rightarrow> bool" where
  "history_kept log ids d \<longleftrightarrow> prefix log (db_payments d) \<and> ids \<subseteq> user_ids d"

lemma history_unmoved:
  "unmoved db_sessions_update (history_kept log ids)" "unmoved db_categories_update (history_kept log ids)"
  "unmoved db_transactions_update (history_kept log ids)" "unmoved db_monobank_update (history_kept log ids)"
  by (simp_all add: unmoved_def fault_free_def bump_def history_kept_def user_ids_def)

lemma history_grows: "grows (history_kept log ids)"
  by (auto simp: grows_def fault_free_def bump_def history_kept_def user_ids_def)

lemma history_payments: "keeps (history_kept log ids) (PaymentEventCreate p)"
  unfolding PaymentEventCreate_def
  by (rule keeps_stmt)
    (auto simp: fault_free_def history_kept_def user_ids_def payment_insert_def bump_def Let_def prefix_append split: sum.splits)

interpretation history: statement_invariant "history_kept log ids" for log ids
  by unfold_locales
    (simp add: history_unmoved [THEN unmovedD(1)],
     (intro history_payments unmoved_sessions unmoved_ledger unmoved_monobank grows_users history_grows
        history_unmoved)+)

section \<open>The plan of an account\<close>

definition has_plan :: "uuid \<Rightarrow> string \<Rightarrow> db \<Rightarrow> bool" where
  "has_plan i p d \<longleftrightarrow> map_option ur_plan (user_get i d) = Some p"

lemma has_plan_simps [simp]:
  "has_plan i p (bump d) = has_plan i p d" "has_plan i p (d\<lparr>db_faults := fs\<rparr>) = has_plan i p d"
  "has_plan i p (d\<lparr>db_clock := t\<rparr>) = has_plan i p d"
  by (simp_all add: has_plan_def user_get_def bump_def)

lemma has_plan_unmoved:
  "unmoved db_payments_update (has_plan i p)" "unmoved db_sessions_update (has_plan i p)"
  "unmoved db_categories_update (has_plan i p)" "unmoved db_transactions_update (has_plan i p)"
  "unmoved db_monobank_update (has_plan i p)"
  by (simp_all add: unmoved_def fault_free_def) (simp_all add: has_plan_def user_get_def)

lemma has_plan_insert: "has_plan i p d \<Longrightarrow> has_plan i p (snd (user_insert r d))"
  by (auto simp: user_insert_def has_plan_def user_get_def row_by_append bump_def split: option.splits)

lemma has_plan_upd:
  "(\<And>r. ur_id (f r) = ur_id r) \<Longrightarrow> (j = i \<Longrightarrow> \<forall>r. ur_plan (f r) = ur_plan r) \<Longrightarrow> has_plan i p d \<Longrightarrow> has_plan i p (user_upd j f d)"
  by (cases "j = i") (auto simp: has_plan_def user_get_def user_upd_def row_by_update_same row_by_update_other)

interpretation account: account_statements "has_plan i p" i for i p
proof -
  have Q: "fault_free (has_plan i p)" by (simp add: fault_free_def)
  note rules = keeps_stmt [OF Q] has_plan_insert has_plan_upd
  have users: "keeps (has_plan i p) (UserCreate t u s)" "keeps (has_plan i p) (UserCreateWithEmail t u s)"
    "keeps (has_plan i p) (UserCreateWithGoogle t u s)" "keeps (has_plan i p) (UserStartTrial j x w)"
    "keeps (has_plan i p) (UserUpdateBaseCurrency j x)" "keeps (has_plan i p) (UserUpdateGoals j x)"
    "keeps (has_plan i p) (UserUpdatePreferences j x y)" "keeps (has_plan i p) (UserUpdateProfile j x y)"
    "j \<noteq> i \<Longrightarrow> keeps (has_plan i p) (UserUpdateSubscription j x y w)" for t u s x y w j
    by (auto simp: user_inserts user_updates user_update_def Let_def intro!: rules)
  show "account_statements (has_plan i p) i"
    by unfold_locales
      (rule Q, (intro users unmoved_payments unmoved_sessions unmoved_ledger unmoved_monobank has_plan_unmoved; assumption?)+)
qed

end
