(* ===== verification/Server_Samples.thy ===== *)
theory Server_Samples
  imports Rest_Server Samples
begin

text \<open>
  A concrete server for the witnesses: a token library that keeps its contract (the token is its
  key and claims, spelled out and read back), and options around it.
\<close>

section \<open>A token library\<close>

text \<open>A text is framed by marking each of its characters and closing it with a point.\<close>

definition frame :: "string \<Rightarrow> string" where
  "frame s = concat (map (\<lambda>c. [CHR ''x'', c]) s) @ ''.''"

fun unframe :: "string \<Rightarrow> string \<times> string" where
  "unframe (m # r) =
     (if m = CHR ''.'' then ([], r)
      else (case r of [] \<Rightarrow> ([], []) | c # r' \<Rightarrow> apfst (Cons c) (unframe r')))"
| "unframe [] = ([], [])"

lemma unframe_frame [simp]: "unframe (frame s @ r) = (s, r)"
  by (induction s) (simp_all add: frame_def)

definition int_text :: "int \<Rightarrow> string" where
  "int_text i = (if i < 0 then CHR ''-'' else CHR ''+'') # dec_nat (nat \<bar>i\<bar>)"

definition int_of_text :: "string \<Rightarrow> int" where
  "int_of_text s = (let n = int (val_dec (tl s)) in if hd s = CHR ''-'' then - n else n)"

lemma int_of_text [simp]: "int_of_text (int_text i) = i"
  by (simp add: int_of_text_def int_text_def)

definition token_text :: "string \<Rightarrow> claims \<Rightarrow> string" where
  "token_text k c =
     frame k @ frame (cl_subject c) @ frame (cl_user_id c) @ frame (int_text (cl_expires_at c)) @
     frame (int_text (cl_issued_at c)) @ []"

definition token_of_text :: "string \<Rightarrow> string \<times> claims" where
  "token_of_text t =
     (let (k, t) = unframe t; (s, t) = unframe t; (u, t) = unframe t; (e, t) = unframe t; (i, t) = unframe t
      in (k, \<lparr>cl_subject = s, cl_user_id = u, cl_expires_at = int_of_text e, cl_issued_at = int_of_text i\<rparr>))"

lemma token_of_token [simp]: "token_of_text (token_text k c) = (k, c)"
  unfolding token_text_def token_of_text_def append_assoc unframe_frame Let_def prod.case int_of_text by simp

definition token_lib :: jwt_lib where
  "token_lib =
     \<lparr>jl_sign = (\<lambda>k c. Inr (token_text k c)),
      jl_parse = (\<lambda>now key t.
        (case key True of
           Inl e \<Rightarrow> Inl e
         | Inr k' \<Rightarrow>
             (case token_of_text t of
                (k, c) \<Rightarrow> if k' \<noteq> k then Inl (Foreign ''signature is invalid'')
                          else if cl_expires_at c \<le> time_Unix now then Inl (Foreign ''token is expired'')
                          else Inr (c, True)))),
      jl_uuid_String = (\<lambda>i. dec_nat (unat i)),
      jl_uuid_Parse = (\<lambda>s. if s = [] then Inl (Foreign ''invalid UUID length: 0'') else Inr (of_nat (val_dec s)))\<rparr>"

lemma token_lib_contract: "jwt_contract token_lib"
  by (simp add: jwt_contract_def token_lib_def split: sum.split)

section \<open>A server\<close>

definition sample_advisor_env :: advisor_env where
  "sample_advisor_env =
     \<lparr>ai_name_le = (\<lambda>_ _. True), ai_pgnum = sample_pgnum, ai_lower = id, ai_fold = id, ai_uuid_String = uuid_hex,
      ai_by_id = id, ai_by_name = id, ai_notes = id, ai_entries = id\<rparr>"

definition sample_errors :: err_lib where
  "sample_errors = \<lparr>el_other = (\<lambda>_. ''error''), el_isprint = (\<lambda>_. True)\<rparr>"

definition sample_options :: Options where
  "sample_options =
     \<lparr>op_env = \<lparr>ae_jwt = token_lib, ae_bcrypt = \<lparr>bl_Generate = Inr, bl_Compare = (\<lambda>h p. if h = p then Inr () else Inl ErrNoRows)\<rparr>,
               ae_apple = (\<lambda>t. Inr (t, [])), ae_google = (\<lambda>t. Inr (t, [])), ae_lower = id\<rparr>,
      op_errors = sample_errors,
      op_Auth = \<lparr>au_jwt = \<lparr>jm_secret = ''k'', jm_duration = 720 * time_Hour\<rparr>, au_devMode = False\<rparr>,
      op_Sessions = \<lparr>sv_jwt = \<lparr>jm_secret = ''k'', jm_duration = 900 * time_Second\<rparr>, sv_refreshDuration = 720 * time_Hour\<rparr>,
      op_name_le = (\<lambda>_ _. True), op_pgnum = sample_pgnum, op_translator = (\<lambda>_ s _. Inr s), op_net = sample_network,
      op_Advisor = \<lparr>as_env = sample_advisor_env, as_net = sample_network,
                    as_llm = \<lparr>oc_baseURL = ''http://o'', oc_model = ''m''\<rparr>\<rparr>,
      op_Billing = sample_billing,
      op_Reports = \<lparr>re_name_le = (\<lambda>_ _. True), re_pgnum = sample_pgnum, re_translator = (\<lambda>_ _ s _. Inr s), re_lower = id,
                    re_upper = id, re_errors = sample_errors\<rparr>,
      op_Monobank = \<lparr>ms_box = \<lparr>ae_NonceSize = 1, ae_Seal = (\<lambda>n p. p), ae_Open = (\<lambda>n c. Inr c)\<rparr>, ms_webhookBaseURL = ''https://b''\<rparr>,
      op_mono_env = \<lparr>me_net = (\<lambda>_. Inr \<lparr>hp_status = 200, hp_body = ''{}''\<rparr>),
                     me_import = \<lparr>im_name_le = (\<lambda>_ _. True), im_fold = id, im_pgnum = sample_pgnum\<rparr>\<rparr>,
      op_ilike = (=), op_JWT = \<lparr>jm_secret = ''k'', jm_duration = 900 * time_Second\<rparr>, op_CORSOrigin = ''https://ui'',
      op_AdminOrigin = ''https://admin'', op_AdminPassword = ''pw'', op_JWTSecret = ''k'', op_AccessMaxAge = 900 * time_Second,
      op_RefreshMaxAge = 720 * time_Hour\<rparr>"

lemma sample_options_simps [simp]:
  "op_lib sample_options = token_lib" "op_JWTSecret sample_options = ''k''"
  "op_JWT sample_options = \<lparr>jm_secret = ''k'', jm_duration = 900 * time_Second\<rparr>"
  by (simp_all add: sample_options_def)

definition sample_outside :: outside where
  "sample_outside =
     \<lparr>ot_now = unix_epoch, ot_draws = \<lparr>dw_now = (\<lambda>_. unix_epoch), dw_rand = (\<lambda>_. Inr ''bytes'')\<rparr>, ot_form = None, ot_upload = None\<rparr>"

definition sample_request :: "string \<Rightarrow> string list \<Rightarrow> string \<Rightarrow> request" where
  "sample_request meth path token =
     \<lparr>rq_method = meth, rq_path = path, rq_headers = [(''Authorization'', bearer_prefix @ token)], rq_cookies = [],
      rq_query = [], rq_body = ''{}'', rq_wild = []\<rparr>"

lemma sample_request_simps [simp]:
  "rq_method (sample_request m p t) = m" "rq_path (sample_request m p t) = p"
  "bearerToken (sample_request m p t) = t" "accessToken (sample_request m p t) = t"
  by (simp_all add: sample_request_def bearerToken_def accessToken_def first_value_def)

definition sample_start :: world where
  "sample_start =
     \<lparr>wo_db = sample_db, wo_redis = \<lparr>rd_faults = [], rd_clock = 5, rd_hash = [], rd_keys = []\<rparr>\<rparr>"

end
