(* ===== verification/Server_Properties.thy ===== *)
theory Server_Properties
  imports Schema Server_Samples
begin

text \<open>
  What holds of the process as a whole: of the routing table, of the two kinds of token, and of
  the database under any sequence of requests, jobs and failures.
\<close>

section \<open>Requests without a token\<close>

definition public_path :: "string list \<Rightarrow> bool" where
  "public_path path \<longleftrightarrow> (\<exists>p \<in> public_patterns. match_path p path \<noteq> None)"

text \<open>
  C30. A request that carries no token the server accepts, for any path but the six public ones,
  is answered 401 (or 404 or 405 when no route takes it, 204 when it is a preflight request),
  and leaves the database and Redis as they were.
\<close>

theorem unauthenticated_refused:
  assumes "is_err (jwt_Verify (op_lib opts) (op_JWT opts) (ot_now ot) (accessToken r))"
    and "is_err (admin_Verify (op_lib opts) (op_JWTSecret opts) (ot_now ot) (bearerToken r))"
    and "\<not> public_path (rq_path r)"
  shows "exec (NewMux opts ot r) w = w \<and>
    rp_status (result (NewMux opts ot r) w) =
      (if rq_method r = ''OPTIONS'' then 204
       else case find_route (api_routes opts ot) (rq_method r) (rq_path r) of
              Some _ \<Rightarrow> 401
            | None \<Rightarrow> rp_status (not_routed (api_routes opts ot) (rq_path r)))"
proof (cases "find_route (api_routes opts ot) (rq_method r) (rq_path r)")
  case None
  then show ?thesis by (simp add: NewMux_def withCORS_def ServeMux_def Let_def)
next
  case (Some hw)
  obtain h ws where hw: "hw = (h, ws)" by (cases hw)
  from find_route_pattern [OF Some [unfolded hw]] obtain rt where rt: "rt \<in> set (api_routes opts ot)" "rt_handler rt = h"
    and m: "match_path (rt_pattern rt) (rq_path r) = Some ws" by blast
  have "rt_pattern rt \<notin> public_patterns" using assms(3) m by (auto simp: public_path_def)
  then have "guarded_handler opts ot h" using rt routes_guarded by (auto simp: route_guarded_def)
  then obtain msg where "run_state (h (r\<lparr>rq_wild := ws\<rparr>)) w = (writeError 401 msg, w)"
    using assms(1,2) unfolding guarded_handler_def by (metis accessToken_wild)
  with Some hw show ?thesis by (simp add: NewMux_def withCORS_def ServeMux_def Let_def)
qed


section \<open>Who may change a plan\<close>

text \<open>
  C4. Whatever happens to the process -- requests, gRPC calls, web hooks and jobs in any order and
  under any failures --, an account keeps its plan unless the events include a request with an
  accepted token of the administrator, its own cancellation, or a payment callback signed with the
  merchant's key.
\<close>

theorem plan_changes_authorised:
  assumes "user_get i (wo_db w) = Some r" and "\<forall>e \<in> set es. \<not> may_change_plan opts i e"
  shows "\<exists>r'. user_get i (wo_db (run_events opts es w)) = Some r' \<and> ur_plan r' = ur_plan r"
proof -
  have "db_holds (has_plan i (ur_plan r)) (run_events opts es w)"
    using assms by (intro account.events_quiet) (simp_all add: db_holds_def has_plan_def user_get_def)
  then show ?thesis by (auto simp: db_holds_def has_plan_def)
qed

section \<open>The two kinds of token\<close>

text \<open>
  C31. The tokens of users and of the administrator, signed with whatever secrets (the program
  uses one for both), are not interchangeable: a route for users refuses an administrator's
  token, a route for the administrator a user's token, and neither changes anything.
\<close>

theorem tokens_not_interchangeable:
  assumes "jwt_contract (op_lib opts)"
    and "admin_Generate (op_lib opts) secret d n1 n2 = Inr admin_token"
    and "jwt_Generate (op_lib opts) m n3 n4 userID = Inr user_token"
    and "accessToken r = admin_token" "bearerToken r' = user_token"
  shows "(\<exists>msg. run_state (user_route opts ot h r) w = (writeError 401 msg, w)) \<and>
    (\<exists>msg. run_state (admin_route opts ot g r') w = (writeError 401 msg, w))"
proof
  note parse = jwt_contract_parse [OF assms(1)]
  obtain e where e: "jl_uuid_Parse (op_lib opts) [] = Inl e" using assms(1) by (auto simp: jwt_contract_def)
  have "is_err (jwt_Verify (op_lib opts) (op_JWT opts) (ot_now ot) admin_token)"
    using parse [OF assms(2) [unfolded admin_Generate_def]] by (simp add: jwt_Verify_def e)
  then show "\<exists>msg. run_state (user_route opts ot h r) w = (writeError 401 msg, w)"
    using assms(4) by (auto simp: user_route_def withAuth_def Let_def split: sum.splits)
  have "is_err (admin_Verify (op_lib opts) (op_JWTSecret opts) (ot_now ot) user_token)"
    using parse [OF assms(3) [unfolded jwt_Generate_def]] by (simp add: admin_Verify_def admin_subject_def)
  then show "\<exists>msg. run_state (admin_route opts ot g r') w = (writeError 401 msg, w)"
    using assms(5) by (auto simp: admin_route_def withAdminAuth_def Let_def)
qed

section \<open>The database under any sequence of events\<close>

lemma schema_clock: "schema_wf d \<Longrightarrow> t \<noteq> 0 \<Longrightarrow> schema_wf (d\<lparr>db_clock := t\<rparr>)"
  by (simp add: schema_wf_def users_wf_def payments_wf_def sessions_wf_def monobank_wf_def ledger_unfold)

lemma history_clock: "history_kept log ids (d\<lparr>db_clock := t\<rparr>) = history_kept log ids d"
  by (simp add: history_kept_def user_ids_def)

definition real_time :: "event \<Rightarrow> bool" where
  "real_time e \<longleftrightarrow> (case e of Elapsed t fs t' fs' \<Rightarrow> t \<noteq> 0 | _ \<Rightarrow> True)"

text \<open>
  C32. Every database the process reaches, by any requests, web hooks and jobs in any order and
  under any failures of statements, satisfies the types and constraints of the schema.
\<close>

theorem reachable_schema:
  assumes "schema_wf (wo_db w)" "\<forall>e \<in> set es. real_time e"
  shows "schema_wf (wo_db (run_events opts es w))"
proof -
  have step: "db_holds schema_wf (run_event opts e w)" if "db_holds schema_wf w" "real_time e" for e w
    by (rule schema.event_keeps [OF that(1)]) (use that in \<open>auto simp: db_holds_def real_time_def intro: schema_clock\<close>)
  have "db_holds schema_wf (run_events opts es w)"
    using assms unfolding run_events_def db_holds_def [symmetric] by (induction es arbitrary: w) (auto intro: step)
  then show ?thesis by (simp add: db_holds_def)
qed

text \<open>
  C33. Nothing the process does removes or rewrites a payment event, or removes an account: the
  log of a moment is the beginning of every later log.
\<close>

theorem history_append_only:
  "prefix (db_payments (wo_db w)) (db_payments (wo_db (run_events opts es w))) \<and>
   user_ids (wo_db w) \<subseteq> user_ids (wo_db (run_events opts es w))"
proof -
  define H where "H = history_kept (db_payments (wo_db w)) (user_ids (wo_db w))"
  have step: "db_holds H (run_event opts e v)" if "db_holds H v" for e v
    using that unfolding H_def
    by (rule history.event_keeps) (use that in \<open>auto simp: db_holds_def history_clock H_def\<close>)
  have "db_holds H w" by (simp add: H_def db_holds_def history_kept_def)
  then have "db_holds H (run_events opts es w)"
    unfolding run_events_def by (induction es arbitrary: w) (auto intro: step)
  then show ?thesis by (simp add: H_def db_holds_def history_kept_def)
qed

section \<open>Witnesses\<close>

lemma tokenless:
  "is_err (jwt_Verify token_lib m now [])" "is_err (admin_Verify token_lib k now [])"
proof -
  have "token_of_text [] = ([], \<lparr>cl_subject = [], cl_user_id = [], cl_expires_at = int_of_text [], cl_issued_at = int_of_text []\<rparr>)"
    by (simp add: token_of_text_def)
  then show "is_err (jwt_Verify token_lib m now [])" "is_err (admin_Verify token_lib k now [])"
    by (simp_all add: jwt_Verify_def admin_Verify_def token_lib_def hmac_key_def admin_subject_def)
qed

lemma unauthenticated_refused_witness:
  "exec (NewMux sample_options sample_outside (sample_request ''GET'' [''api'', ''transactions''] [])) sample_start = sample_start"
  using unauthenticated_refused [of sample_options sample_outside "sample_request ''GET'' [''api'', ''transactions''] []" sample_start]
  by (simp add: tokenless public_path_def public_patterns_def)


lemma tokens_not_interchangeable_witness:
  "\<exists>msg. run_state (user_route sample_options sample_outside (\<lambda>u r. ret (status_only 200))
      (sample_request ''GET'' [''api'', ''auth'', ''me''] (token_text ''k'' \<lparr>cl_subject = ''admin'', cl_user_id = [], cl_expires_at = NumericDate 1, cl_issued_at = NumericDate 0\<rparr>)))
      sample_start = (writeError 401 msg, sample_start)"
proof -
  let ?a = "token_text ''k'' \<lparr>cl_subject = ''admin'', cl_user_id = [], cl_expires_at = NumericDate 1, cl_issued_at = NumericDate 0\<rparr>"
  let ?u = "token_text ''k'' \<lparr>cl_subject = [], cl_user_id = dec_nat (unat (7 :: uuid)), cl_expires_at = NumericDate 1,
    cl_issued_at = NumericDate 0\<rparr>"
  have "admin_Generate (op_lib sample_options) ''k'' 1 0 0 = Inr ?a"
    "jwt_Generate (op_lib sample_options) \<lparr>jm_secret = ''k'', jm_duration = 1\<rparr> 0 0 7 = Inr ?u"
    by (simp_all add: admin_Generate_def jwt_Generate_def admin_subject_def) (simp_all add: token_lib_def)
  from tokens_not_interchangeable [OF _ this, of "sample_request ''GET'' [''api'', ''auth'', ''me''] ?a"
      "sample_request ''GET'' [''api'', ''admin'', ''stats''] ?u" sample_outside "\<lambda>u r. ret (status_only 200)" sample_start
      "\<lambda>r. ret (status_only 200)"]
  show ?thesis by (simp add: token_lib_contract)
qed

text \<open>A forged callback, a cancellation without a token, and a sweep while statements fail.\<close>

definition uninvited :: "event list" where
  "uninvited =
     [Served (sample_outside\<lparr>ot_form := Some (''data'', Sign sample_client ''data'' @ ''x'')\<rparr>)
        (sample_request ''POST'' [''webhooks'', ''liqpay''] []),
      Served sample_outside (sample_request ''POST'' [''api'', ''billing'', ''cancel''] []),
      Elapsed 7 [Some ''down''] 7 [], Swept (\<lambda>_. 8)]"

lemma plan_changes_authorised_witness:
  "\<exists>r. user_get 1 (wo_db (run_events sample_options uninvited sample_start)) = Some r \<and> ur_plan r = ur_plan (sample_user 1)"
proof -
  have "bs_liqpay (op_Billing sample_options) = sample_client" by (simp add: sample_options_def sample_billing_def)
  moreover have "jwt_Verify token_lib m now [] \<noteq> Inr u" for m now u
    using tokenless(1) [of m now] by auto
  ultimately have "\<forall>e \<in> set uninvited. \<not> may_change_plan sample_options 1 e"
    using tokenless(2) by (simp add: uninvited_def may_change_plan_def admin_request_def own_cancel_def signed_callback_def)
  with plan_changes_authorised [of 1 sample_start "sample_user 1" uninvited sample_options] show ?thesis
    by (simp add: sample_start_def user_get_def sample_db_def row_by_def sample_user_def)
qed

lemma sample_schema: "schema_wf sample_db"
  by (simp add: schema_wf_def users_wf_def payments_wf_def sessions_wf_def monobank_wf_def ledger_unfold)
    (simp add: sample_user_def indexed_email_def sample_db_def empty_db_def time_of_unix_def unix_epoch_def time_Second_def)

lemma reachable_schema_witness:
  "schema_wf (wo_db (run_events sample_options
     [Elapsed 7 [None, Some ''down''] 7 [], Served sample_outside (sample_request ''POST'' [''api'', ''auth'', ''signup''] []),
      Swept (\<lambda>_. 8)] sample_start))"
  using reachable_schema [of sample_start "[Elapsed 7 [None, Some ''down''] 7 [],
    Served sample_outside (sample_request ''POST'' [''api'', ''auth'', ''signup''] []), Swept (\<lambda>_. 8)]" sample_options]
  by (simp add: sample_schema real_time_def sample_start_def)

end
