(* ===== verification/Session_Properties.thy ===== *)
theory Session_Properties
  imports Sessions Samples
begin

text \<open>
  The properties of web sessions: a refresh token works once, stays dead, and only its owner
  can end a session from the list; what \<open>Refresh\<close> and \<open>ListActive\<close> return; and the race
  of two concurrent refreshes.
\<close>

section \<open>Results on a database that answers\<close>

lemma run_Issue:
  assumes "db_faults d = []" "jwt_Generate lib (sv_jwt s) (iw_now1 w) (iw_now2 w) u = Inr access"
    and "iw_rand w = Inr buf"
  shows "run_state (Issue lib s w u a) d =
    (case session_insert (new_session d u (token_Hash (base64_RawURL buf))
            (Some (pg_instant (iw_now3 w + sv_refreshDuration s))) a) d of
       (Inl e, d') \<Rightarrow> (Inl (Wrap ''store session'' [] e), d')
     | (Inr _, d') \<Rightarrow> (Inr \<lparr>pa_AccessToken = access, pa_RefreshToken = base64_RawURL buf\<rparr>, d'))"
  using assms
  by (auto simp: Issue_def token_New_def Let_def SessionRepo_Create_def SessionCreate_def TimeFromGo_def
      split: prod.splits sum.splits)

lemma run_Refresh_live:
  assumes "db_faults d = []" "session_by_hash (token_Hash raw) d = Some r"
    and "sr_revoked_at r = None" "now \<le> sr_expires_at r"
  shows "run_state (Refresh lib s now w raw) d =
    run_state (Issue lib s w (sr_user_id r) (sr_user_agent r)) (revoke_where (\<lambda>x. sr_id x = sr_id r) d)"
  using assms
  by (simp add: Refresh_def run_refresh_check refresh_rotate_def SessionRepo_RevokeByID_def
      SessionRevokeByID_def sessionFromRow_def)

section \<open>Sample data\<close>

definition sample_jwt :: jwt_lib where
  "sample_jwt =
     \<lparr>jl_sign = (\<lambda>k c. Inr (k @ cl_user_id c)), jl_parse = (\<lambda>now key t. Inl (Foreign ''x'')),
      jl_uuid_String = uuid_hex, jl_uuid_Parse = (\<lambda>t. Inl (Foreign ''x''))\<rparr>"

definition sample_service :: SessionService where
  "sample_service = \<lparr>sv_jwt = \<lparr>jm_secret = ''k'', jm_duration = 900 * time_Second\<rparr>,
                     sv_refreshDuration = 720 * time_Hour\<rparr>"

definition sample_world :: issue_world where
  "sample_world = \<lparr>iw_now1 = 5, iw_now2 = 6, iw_now3 = 7, iw_rand = Inr ''bytes''\<rparr>"

definition sample_session :: session_row where
  "sample_session =
     \<lparr>sr_id = 40, sr_user_id = 1, sr_refresh_hash = token_Hash ''tok'', sr_created_at = 3,
      sr_expires_at = 1000000, sr_revoked_at = None, sr_user_agent = ''ua''\<rparr>"

definition session_db :: db where
  "session_db = sample_db\<lparr>db_sessions := [sample_session]\<rparr>"

lemma session_db_simps [simp]:
  "db_faults session_db = []" "db_sessions session_db = [sample_session]"
  "db_users session_db = [sample_user 1, sample_user 2]" "db_clock session_db \<noteq> 0"
  by (simp_all add: session_db_def sample_db_def empty_db_def time_of_unix_def unix_epoch_def time_Second_def)

lemma session_db_wf: "sessions_wf session_db"
  by (simp add: sessions_wf_def sample_session_def sample_user_def)

lemma session_db_by_hash: "session_by_hash (token_Hash ''tok'') session_db = Some sample_session"
  by (simp add: session_by_hash_def sample_session_def)

lemma sample_refresh:
  "rotated (result (Refresh sample_jwt sample_service 10 sample_world ''tok'') session_db)"
proof -
  have j: "jwt_Generate sample_jwt (sv_jwt sample_service) (iw_now1 sample_world) (iw_now2 sample_world) 1 =
      Inr (''k'' @ uuid_hex 1)"
    by (simp add: jwt_Generate_def sample_jwt_def sample_service_def)
  have "run_state (Refresh sample_jwt sample_service 10 sample_world ''tok'') session_db =
      run_state (Issue sample_jwt sample_service sample_world 1 ''ua'')
        (revoke_where (\<lambda>x. sr_id x = 40) session_db)"
    using run_Refresh_live [OF _ session_db_by_hash, of 10] by (simp add: sample_session_def)
  then show ?thesis
    using run_Issue [OF _ j, of "revoke_where (\<lambda>x. sr_id x = 40) session_db" "''bytes''" "''ua''"]
    by (simp add: sample_world_def split: prod.splits sum.splits)
qed

section \<open>Properties\<close>

text \<open>
  C10. A refresh token works once. After \<open>Refresh\<close> has rotated a token -- even if storing the new
  session then failed -- every later \<open>Refresh\<close> with it is refused with
  \<open>ErrInvalidRefreshToken\<close> and changes nothing, whatever requests ran in between, in any
  interleaving of their parts and with any failures.
\<close>

theorem refresh_single_use:
  assumes "sessions_wf d" and "rotated (result (Refresh lib s now w raw) d)"
    and "(session_step lib s)\<^sup>*\<^sup>* (exec (Refresh lib s now w raw) d) d'" and "db_faults d' = []"
  shows "run_state (Refresh lib s now' w' raw) d' = (Inl ErrInvalidRefreshToken, d')"
proof -
  let ?e = "exec (Refresh lib s now w raw) d"
  have "sessions_wf ?e \<and> spent_at (token_Hash raw) ?e"
    using hoareD [OF refresh_spends assms(1)] assms(2) by blast
  then obtain r where "session_by_hash (token_Hash raw) ?e = Some r" "spent r" "sessions_wf ?e"
    by (auto simp: spent_at_def)
  then obtain r' where "session_by_hash (token_Hash raw) d' = Some r'" "spent r'"
    using tokens.spent_steps [OF assms(3)] by blast
  with assms(4) show ?thesis by (rule_tac run_refresh_spent)
qed

theorem refresh_single_use_witness:
  "run_state (Refresh sample_jwt sample_service 20 sample_world ''tok'')
     ((exec (Refresh sample_jwt sample_service 10 sample_world ''tok'') session_db)\<lparr>db_faults := [], db_clock := 9\<rparr>) =
   (Inl ErrInvalidRefreshToken,
    (exec (Refresh sample_jwt sample_service 10 sample_world ''tok'') session_db)\<lparr>db_faults := [], db_clock := 9\<rparr>)"
  by (rule refresh_single_use [OF session_db_wf sample_refresh])
    (auto intro!: r_into_rtranclp session_step.world)

text \<open>
  C11. \<open>Refresh\<close> keeps the session's owner and device: on a database that answers, with a live
  token, it revokes the session the token belongs to and adds one for the same user and device
  label under the hash of the new token, valid for the configured time from now, unless the
  insertion is refused.
\<close>

theorem refresh_rotates:
  assumes "db_faults d = []" and "session_by_hash (token_Hash raw) d = Some r"
    and "sr_revoked_at r = None" and "now \<le> sr_expires_at r"
    and "jwt_Generate lib (sv_jwt s) (iw_now1 w) (iw_now2 w) (sr_user_id r) = Inr access"
    and "iw_rand w = Inr buf"
  shows "run_state (Refresh lib s now w raw) d =
    (let d1 = d\<lparr>db_sessions := map (\<lambda>x. if sr_id x = sr_id r then x\<lparr>sr_revoked_at := Some (db_clock d)\<rparr> else x)
                                 (db_sessions d)\<rparr>;
         new = \<lparr>sr_id = next_id d, sr_user_id = sr_user_id r, sr_refresh_hash = token_Hash (base64_RawURL buf),
                sr_created_at = db_clock d, sr_expires_at = pg_instant (iw_now3 w + sv_refreshDuration s),
                sr_revoked_at = None, sr_user_agent = sr_user_agent r\<rparr>
     in case session_insert new d1 of
          (Inl e, d2) \<Rightarrow> (Inl (Wrap ''store session'' [] e), d2)
        | (Inr _, d2) \<Rightarrow> (Inr \<lparr>pa_AccessToken = access, pa_RefreshToken = base64_RawURL buf\<rparr>, d2))"
proof -
  have "db_faults (revoke_where (\<lambda>x. sr_id x = sr_id r) d) = []" using assms(1) by simp
  then show ?thesis
    unfolding run_Refresh_live [OF assms(1-4)]
    by (subst run_Issue [OF _ assms(5,6)])
      (simp_all add: revoke_where_def new_session_def next_id_def cong: if_cong)
qed

theorem refresh_rotates_witness:
  "sr_revoked_at (hd (db_sessions (exec (Refresh sample_jwt sample_service 10 sample_world ''tok'') session_db)))
    = Some (db_clock session_db)"
  by (subst refresh_rotates [OF _ session_db_by_hash, where access = "''k'' @ uuid_hex 1" and buf = "''bytes''"])
    (auto simp: sample_session_def sample_world_def jwt_Generate_def sample_jwt_def sample_service_def
      session_insert_def Let_def bump_def)

text \<open>
  A user can end only their own sessions: under any failures, \<open>RevokeForUser\<close> leaves every
  session of every other user as it is, wherever the session identifier came from.
\<close>

theorem revoke_own_only:
  "filter (\<lambda>r. sr_user_id r \<noteq> userID) (db_sessions (exec (RevokeForUser userID sessionID) d)) =
   filter (\<lambda>r. sr_user_id r \<noteq> userID) (db_sessions d)"
proof -
  let ?P = "\<lambda>e. filter (\<lambda>r. sr_user_id r \<noteq> userID) (db_sessions e) = filter (\<lambda>r. sr_user_id r \<noteq> userID) (db_sessions d)"
  have others: "filter (\<lambda>r. sr_user_id r \<noteq> userID)
      (map (\<lambda>r. if sr_id r = sessionID \<and> sr_user_id r = userID \<and> sr_revoked_at r = None
                then r\<lparr>sr_revoked_at := Some t\<rparr> else r) rs) =
    filter (\<lambda>r. sr_user_id r \<noteq> userID) rs" for rs t
    by (induction rs) auto
  have "keeps ?P (SessionRevokeForUser sessionID userID)"
    unfolding SessionRevokeForUser_def Let_def
    by (intro keeps_stmt) (simp_all add: fault_free_def revoke_where_def others)
  then have "keeps ?P (RevokeForUser userID sessionID)"
    by (auto simp: RevokeForUser_def SessionRepo_RevokeForUser_def intro!: hr)
  then show ?thesis by (auto dest: hoareD [where s = d])
qed

text \<open>
  The list of active sessions, on a database that answers: exactly the user's sessions that
  are neither revoked nor expired, newest first, each as stored; \<open>Current\<close> marks those whose
  hash is the hash of the caller's own token, and no other.
\<close>

theorem ListActive_spec:
  assumes "db_faults d = []"
  shows "\<exists>rows. set rows = {r \<in> set (db_sessions d). sr_user_id r = userID \<and> sr_revoked_at r = None \<and>
             db_clock d < sr_expires_at r} \<and>
           sorted (map (\<lambda>r. - sr_created_at r) rows) \<and>
           run_state (ListActive userID raw) d =
             (Inr (map (\<lambda>r. \<lparr>ac_ID = sr_id r, ac_UserAgent = sr_user_agent r, ac_CreatedAt = sr_created_at r,
                           ac_ExpiresAt = sr_expires_at r,
                           ac_Current = (raw \<noteq> [] \<and> sr_refresh_hash r = token_Hash raw)\<rparr>) rows), d)"
proof -
  have ne: "token_Hash raw \<noteq> []"
    using length_hex [of "sha256_Sum raw"] by (auto simp: token_Hash_def sha256_length)
  show ?thesis
    using assms ne
    by (intro exI [of _ "sort_key (\<lambda>r. - sr_created_at r) (filter (\<lambda>r. sr_user_id r = userID \<and>
          sr_revoked_at r = None \<and> db_clock d < sr_expires_at r) (db_sessions d))"])
      (auto simp: ListActive_def SessionRepo_ListActiveForUser_def SessionListActiveForUser_def Let_def
        sessionFromRow_def)
qed

theorem ListActive_spec_witness:
  "\<exists>rows. set rows = {r \<in> set (db_sessions session_db). sr_user_id r = 1 \<and> sr_revoked_at r = None \<and>
       db_clock session_db < sr_expires_at r} \<and>
     sorted (map (\<lambda>r. - sr_created_at r) rows) \<and>
     run_state (ListActive 1 ''tok'') session_db =
       (Inr (map (\<lambda>r. \<lparr>ac_ID = sr_id r, ac_UserAgent = sr_user_agent r, ac_CreatedAt = sr_created_at r,
                     ac_ExpiresAt = sr_expires_at r,
                     ac_Current = (''tok'' \<noteq> [] \<and> sr_refresh_hash r = token_Hash ''tok'')\<rparr>) rows), session_db)"
  by (rule ListActive_spec) simp

section \<open>Two refreshes at once\<close>

text \<open>
  The single use above is of a rotation that has happened. Two requests with the same live
  token may both pass the check before either rotates; then both rotations succeed and two
  live sessions descend from one token.
\<close>

definition refresh_both ::
  "jwt_lib \<Rightarrow> SessionService \<Rightarrow> issue_world \<Rightarrow> issue_world \<Rightarrow> gotime \<Rightarrow> gotime \<Rightarrow> string \<Rightarrow> (db, Pair res \<times> Pair res) state" where
  "refresh_both lib s w1 w2 now1 now2 raw = do {
     a \<leftarrow> refresh_check now1 raw;
     b \<leftarrow> refresh_check now2 raw;
     case (a, b) of
       (Inr x, Inr y) \<Rightarrow> do { p \<leftarrow> refresh_rotate lib s w1 x; q \<leftarrow> refresh_rotate lib s w2 y; ret (p, q) }
     | _ \<Rightarrow> ret (Inl ErrInvalidRefreshToken, Inl ErrInvalidRefreshToken) }"

lemma refresh_race:
  assumes "db_faults d = []" "session_by_hash (token_Hash raw) d = Some r"
    and "sr_revoked_at r = None" "now1 \<le> sr_expires_at r" "now2 \<le> sr_expires_at r"
    and "result (refresh_rotate lib s w1 (sessionFromRow r)) d = Inr pa"
    and "result (refresh_rotate lib s w2 (sessionFromRow r)) (exec (refresh_rotate lib s w1 (sessionFromRow r)) d) = Inr pb"
  shows "result (refresh_both lib s w1 w2 now1 now2 raw) d = (Inr pa, Inr pb)"
  using assms by (auto simp: refresh_both_def run_refresh_check split_beta)

end
