(* ===== verification/Translate.thy ===== *)
theory Translate
  imports Go_Http
begin

text \<open>
  The translation client of \<open>pkg/translate/translate.go\<close> with its circuit breaker: one
  process-wide instant until which the endpoint is left alone. The mutex only guards that
  instant, so each access to it is atomic; a call is modelled as a whole, with a clock reading
  for each \<open>time.Now()\<close>. The requests that leave the process are logged beside the instant.
\<close>

section \<open>The circuit breaker\<close>

definition cooldown :: duration where "cooldown = 10 * time_Minute"

record breaker =
  br_cooldownUntil :: gotime
  br_sent :: "(gotime \<times> http_req) list"

definition circuitOpen :: "gotime \<Rightarrow> (breaker, bool) state" where
  "circuitOpen now = State (\<lambda>b. (now < br_cooldownUntil b, b))"

definition tripCircuit :: "gotime \<Rightarrow> (breaker, unit) state" where
  "tripCircuit now = State (\<lambda>b. ((), b\<lparr>br_cooldownUntil := now + cooldown\<rparr>))"

definition resetCircuit :: "(breaker, unit) state" where
  "resetCircuit = State (\<lambda>b. ((), b\<lparr>br_cooldownUntil := 0\<rparr>))"

definition send :: "network \<Rightarrow> gotime \<Rightarrow> http_req \<Rightarrow> (breaker, http_resp res) state" where
  "send net now q = State (\<lambda>b. (net q, b\<lparr>br_sent := (now, q) # br_sent b\<rparr>))"

section \<open>The request and the answer\<close>

definition translate_endpoint :: string where
  "translate_endpoint = ''https://translate.googleapis.com/translate_a/single''"

definition user_agent :: string where
  "user_agent = ''Mozilla/5.0 (Macintosh; Intel Mac OS X 10_15_7) AppleWebKit/537.36 (KHTML, like Gecko) Chrome/120.0 Safari/537.36''"

definition translate_request :: "string \<Rightarrow> string \<Rightarrow> http_req" where
  "translate_request q targetLang =
     \<lparr>hq_method = ''GET'',
      hq_url = translate_endpoint @ ''?'' @ Values_Encode
        [(''client'', ''gtx''), (''sl'', ''auto''), (''tl'', targetLang), (''dt'', ''t''), (''q'', q)],
      hq_headers = [(''User-Agent'', user_agent)], hq_body = []\<rparr>"

text \<open>The text of one segment: the first item of an array when it is a string, else nothing.\<close>

definition segment_text :: "json \<Rightarrow> string" where
  "segment_text seg = (case seg of JArr (JString s # _) \<Rightarrow> s | _ \<Rightarrow> [])"

definition set_any_list :: "json list setter" where
  "set_any_list v s =
     (case v of JNull \<Rightarrow> ([], False) | JArr vs \<Rightarrow> (vs, \<not> list_all any_ok vs) | _ \<Rightarrow> (s, True))"

definition translation_of :: "string \<Rightarrow> string res" where
  "translation_of body =
     (case Decode set_any_list [] body of
        Inl e \<Rightarrow> Inl (Wrap ''decode translate response'' [] e)
      | Inr [] \<Rightarrow> Inl (Errorf ''empty translate response'' [])
      | Inr (JArr segments # _) \<Rightarrow>
          (let t = concat (map segment_text segments) in
           if t = [] then Inl (Errorf ''translate returned no text'' []) else Inr t)
      | Inr _ \<Rightarrow> Inl (Errorf ''unexpected translate response shape'' []))"

section \<open>Translate\<close>

definition in_cooldown :: goerr where
  "in_cooldown = Errorf ''translate endpoint in cooldown after a recent failure'' []"

definition Translate :: "network \<Rightarrow> gotime \<Rightarrow> gotime \<Rightarrow> string \<Rightarrow> string \<Rightarrow> (breaker, string res) state" where
  "Translate net now1 now2 rawText targetLang =
     (let text = TrimSpace rawText in
      if text = [] then ret (Inr [])
      else do {
        isOpen \<leftarrow> circuitOpen now1;
        if isOpen then ret (Inl in_cooldown)
        else do {
          r \<leftarrow> send net now1 (translate_request text targetLang);
          case r of
            Inl e \<Rightarrow> do { _ \<leftarrow> tripCircuit now2; ret (Inl (Wrap ''call translate endpoint'' [] e)) }
          | Inr resp \<Rightarrow>
              if hp_status resp \<noteq> 200
              then do {
                _ \<leftarrow> tripCircuit now2;
                ret (Inl (Errorf ''translate endpoint returned status %d'' [fmt_d (hp_status resp)])) }
              else do { _ \<leftarrow> resetCircuit; ret (translation_of (hp_body resp)) } } })"

section \<open>Sequences of calls\<close>

text \<open>
  A call with its two clock readings and the way the network behaves during it.
\<close>

record call =
  cl_now1 :: gotime
  cl_now2 :: gotime
  cl_net :: network
  cl_text :: string
  cl_lang :: string

definition run_call :: "call \<Rightarrow> (breaker, string res) state" where
  "run_call c = Translate (cl_net c) (cl_now1 c) (cl_now2 c) (cl_text c) (cl_lang c)"

primrec run_calls :: "call list \<Rightarrow> breaker \<Rightarrow> breaker" where
  "run_calls [] b = b"
| "run_calls (c # cs) b = run_calls cs (exec (run_call c) b)"

text \<open>The clock does not go back within a call or from one to the next.\<close>

fun in_order :: "gotime \<Rightarrow> call list \<Rightarrow> bool" where
  "in_order t [] \<longleftrightarrow> True"
| "in_order t (c # cs) \<longleftrightarrow> t \<le> cl_now1 c \<and> cl_now1 c \<le> cl_now2 c \<and> in_order (cl_now2 c) cs"




lemma exec_Translate:
  "exec (Translate net n1 n2 x l) b =
     (if TrimSpace x = [] \<or> n1 < br_cooldownUntil b then b
      else (case net (translate_request (TrimSpace x) l) of
              Inl _ \<Rightarrow> b\<lparr>br_sent := (n1, translate_request (TrimSpace x) l) # br_sent b, br_cooldownUntil := n2 + cooldown\<rparr>
            | Inr resp \<Rightarrow>
                b\<lparr>br_sent := (n1, translate_request (TrimSpace x) l) # br_sent b,
                  br_cooldownUntil := (if hp_status resp \<noteq> 200 then n2 + cooldown else 0)\<rparr>))"
  by (simp add: Translate_def Let_def circuitOpen_def send_def tripCircuit_def resetCircuit_def split: sum.splits)







section \<open>What the breaker guarantees\<close>


text \<open>
  The breaker is never shut for longer than the cooldown after the last call, and a call that
  is answered opens it for good.
\<close>

fun last_time :: "gotime \<Rightarrow> call list \<Rightarrow> gotime" where
  "last_time t [] = t"
| "last_time t (c # cs) = last_time (cl_now2 c) cs"

lemma last_time_ge: "in_order t cs \<Longrightarrow> t \<le> last_time t cs"
  by (induction cs arbitrary: t) fastforce+

lemma shut_at_most:
  assumes "in_order t cs" "br_cooldownUntil b \<le> t + cooldown" "0 \<le> t"
  shows "br_cooldownUntil (run_calls cs b) \<le> last_time t cs + cooldown"
  using assms
proof (induction cs arbitrary: b t)
  case (Cons c cs)
  have "0 \<le> cooldown" by (simp add: cooldown_def durations)
  then have "br_cooldownUntil (exec (run_call c) b) \<le> cl_now2 c + cooldown"
    using Cons.prems by (auto simp: run_call_def exec_Translate split: sum.splits)
  with Cons show ?case by simp
qed simp

definition endpoint_up :: "network \<Rightarrow> bool" where
  "endpoint_up net \<longleftrightarrow> (\<forall>q. \<exists>body. net q = Inr \<lparr>hp_status = 200, hp_body = body\<rparr>)"

lemma endpoint_upD: "endpoint_up net \<Longrightarrow> (\<And>body. net q = Inr \<lparr>hp_status = 200, hp_body = body\<rparr> \<Longrightarrow> P) \<Longrightarrow> P"
  by (auto simp: endpoint_up_def)

lemma call_up:
  assumes "endpoint_up (cl_net c)" "TrimSpace (cl_text c) \<noteq> []" "br_cooldownUntil b \<le> cl_now1 c"
  shows "br_cooldownUntil (exec (run_call c) b) = 0"
    and "map fst (br_sent (exec (run_call c) b)) = cl_now1 c # map fst (br_sent b)"
proof -
  obtain body where "cl_net c (translate_request (TrimSpace (cl_text c)) (cl_lang c)) = Inr \<lparr>hp_status = 200, hp_body = body\<rparr>"
    by (rule endpoint_upD [OF assms(1)])
  with assms(2,3) show "br_cooldownUntil (exec (run_call c) b) = 0"
    "map fst (br_sent (exec (run_call c) b)) = cl_now1 c # map fst (br_sent b)"
    by (simp_all add: run_call_def exec_Translate)
qed

lemma open_calls:
  assumes "\<forall>c \<in> set cs. endpoint_up (cl_net c) \<and> TrimSpace (cl_text c) \<noteq> [] \<and> 0 \<le> cl_now1 c" "br_cooldownUntil b = 0"
  shows "map fst (br_sent (run_calls cs b)) = rev (map cl_now1 cs) @ map fst (br_sent b)"
  using assms
  by (induction cs arbitrary: b) (simp_all add: call_up)

text \<open>
  C29. Whatever happened before, the first call made ten minutes after the last one is sent; once
  the endpoint answers, that call and every later one goes through.
\<close>

theorem breaker_recovers:
  assumes "in_order 0 cs" "last_time 0 cs + cooldown \<le> cl_now1 c"
    "\<forall>c' \<in> set (c # ds). endpoint_up (cl_net c') \<and> TrimSpace (cl_text c') \<noteq> [] \<and> 0 \<le> cl_now1 c'"
  shows "map fst (br_sent (run_calls (cs @ c # ds) \<lparr>br_cooldownUntil = 0, br_sent = []\<rparr>)) =
    rev (map cl_now1 (c # ds)) @ map fst (br_sent (run_calls cs \<lparr>br_cooldownUntil = 0, br_sent = []\<rparr>))"
proof -
  define b where "b = run_calls cs \<lparr>br_cooldownUntil = 0, br_sent = []\<rparr>"
  have "br_cooldownUntil b \<le> last_time 0 cs + cooldown"
    unfolding b_def by (rule shut_at_most [OF assms(1)]) (simp_all add: cooldown_def durations)
  with assms(2) have free: "br_cooldownUntil b \<le> cl_now1 c" by simp
  note c = call_up [OF _ _ free]
  have "run_calls (cs @ ds') e = run_calls ds' (run_calls cs e)" for ds' e
    by (induction cs arbitrary: e) simp_all
  with c show ?thesis
    using open_calls [of ds] assms(3) by (simp add: b_def [symmetric])
qed

section \<open>Witnesses\<close>

definition sample_call :: "int \<Rightarrow> gotime \<Rightarrow> call" where
  "sample_call st now =
     \<lparr>cl_now1 = now, cl_now2 = now, cl_net = (\<lambda>_. Inr \<lparr>hp_status = st, hp_body = []\<rparr>), cl_text = ''x'', cl_lang = ''uk''\<rparr>"

lemma trim_sample: "TrimSpace ''x'' = ''x''"
  by code_simp


lemma breaker_recovers_witness:
  "map fst (br_sent (run_calls ([sample_call 429 0] @ [sample_call 200 cooldown]) \<lparr>br_cooldownUntil = 0, br_sent = []\<rparr>)) =
   [cooldown] @ map fst (br_sent (run_calls [sample_call 429 0] \<lparr>br_cooldownUntil = 0, br_sent = []\<rparr>))"
  using breaker_recovers [of "[sample_call 429 0]" "sample_call 200 cooldown" "[]"]
  by (simp add: sample_call_def endpoint_up_def trim_sample cooldown_def durations)

end
