(* ===== verification/Verifiers.thy ===== *)
theory Verifiers
  imports Go_Http Go_Base64 "HOL-Library.Signed_Division"
begin

text \<open>
  The verifiers of identity tokens, \<open>pkg/googleauth/googleauth.go\<close> and
  \<open>pkg/appleauth/appleauth.go\<close>: which key a token is checked with, where the keys come from and
  how long they are kept, and what the claims must say. The two packages are the same but for the
  names and the issuer; the shared part is given once, over the provider, and each package is an
  instance. The mutex makes a look-up of a key atomic. The token library is a parameter: it reads
  the header of a token (the name of a method it refuses is not kept in the error), and checks the signature, the audience and the expiry (and the issuer
  when it is asked to).
\<close>

record rsa_key =
  rk_N :: nat
  rk_E :: "64 word"

record id_claims =
  ic_Issuer :: string
  ic_Subject :: string
  ic_Email :: string

text \<open>The header: whether the method is RSA, and the key identifier when it is a text.\<close>

record id_lib =
  il_header :: "string \<Rightarrow> (bool \<times> string option) res"
  il_check :: "string option \<Rightarrow> string \<Rightarrow> gotime \<Rightarrow> rsa_key \<Rightarrow> string \<Rightarrow> (id_claims \<times> bool) res"

record provider =
  pv_name :: string
  pv_token :: string
  pv_jwksURL :: string
  pv_issuer :: "string option"

record verifier =
  vf_keys :: "(string \<times> rsa_key) list"
  vf_fetchedAt :: gotime

type_synonym 'a verifierop = "(verifier, 'a res) state"

section \<open>Keys\<close>

record jwk =
  jk_Kid :: string
  jk_N :: string
  jk_E :: string

definition jwk_fields :: "(string \<times> jwk setter) list" where
  "jwk_fields =
     [(''kid'', set_string (\<lambda>t s. s\<lparr>jk_Kid := t\<rparr>)), (''n'', set_string (\<lambda>t s. s\<lparr>jk_N := t\<rparr>)),
      (''e'', set_string (\<lambda>t s. s\<lparr>jk_E := t\<rparr>))]"

definition jwk0 :: jwk where "jwk0 = \<lparr>jk_Kid = [], jk_N = [], jk_E = []\<rparr>"

definition jwkSet_setter :: "jwk slice setter" where
  "jwkSet_setter = decode_fields [(''keys'', set_slice id (\<lambda>x _. x) (decode_fields jwk_fields) jwk0)]"

text \<open>\<open>base64.RawURLEncoding.DecodeString\<close>: the alphabet of URLs, no padding, line ends ignored.\<close>

definition url_char :: "char \<Rightarrow> char" where
  "url_char c = (if c = CHR ''-'' then CHR ''+'' else if c = CHR ''_'' then CHR ''/'' else c)"

definition RawURL_DecodeString :: "string \<Rightarrow> string option" where
  "RawURL_DecodeString s =
     (let t = filter (\<lambda>c. c \<noteq> CHR 0x0A \<and> c \<noteq> CHR 0x0D) s in
      if set t \<inter> {CHR ''+'', CHR ''/'', CHR ''=''} \<noteq> {} \<or> length t mod 4 = 1 then None
      else base64_DecodeString (map url_char t @ replicate ((4 - length t mod 4) mod 4) CHR ''=''))"

text \<open>\<open>new(big.Int).SetBytes\<close>; the exponent keeps its low 64 bits.\<close>

definition SetBytes :: "string \<Rightarrow> nat" where
  "SetBytes s = foldl (\<lambda>n b. 256 * n + b) 0 (bytes_of s)"

definition parseRSAPublicKey :: "string \<Rightarrow> string \<Rightarrow> rsa_key res" where
  "parseRSAPublicKey nEnc eEnc =
     (case RawURL_DecodeString nEnc of
        None \<Rightarrow> Inl (Wrap ''decode modulus'' [] (Foreign ''illegal base64 data''))
      | Some nBytes \<Rightarrow>
          (case RawURL_DecodeString eEnc of
             None \<Rightarrow> Inl (Wrap ''decode exponent'' [] (Foreign ''illegal base64 data''))
           | Some eBytes \<Rightarrow> Inr \<lparr>rk_N = SetBytes nBytes, rk_E = of_nat (SetBytes eBytes)\<rparr>))"

definition add_key :: "(string \<times> rsa_key) list \<Rightarrow> jwk \<Rightarrow> (string \<times> rsa_key) list" where
  "add_key keys k =
     (case parseRSAPublicKey (jk_N k) (jk_E k) of Inl _ \<Rightarrow> keys | Inr pub \<Rightarrow> map_put (jk_Kid k) pub keys)"

definition jwks_request :: "provider \<Rightarrow> http_req" where
  "jwks_request p = \<lparr>hq_method = ''GET'', hq_url = pv_jwksURL p, hq_headers = [], hq_body = []\<rparr>"

text \<open>The status of the answer is not looked at; keys that do not decode are left out.\<close>

definition refreshKeysLocked :: "network \<Rightarrow> provider \<Rightarrow> gotime \<Rightarrow> unit verifierop" where
  "refreshKeysLocked net p now = State (\<lambda>v.
     (case net (jwks_request p) of
        Inl e \<Rightarrow> (Inl (Wrap (''fetch '' @ pv_name p @ '' JWKS'') [] e), v)
      | Inr resp \<Rightarrow>
          (case Decode jwkSet_setter None (hp_body resp) of
             Inl e \<Rightarrow> (Inl (Wrap (''decode '' @ pv_name p @ '' JWKS'') [] e), v)
           | Inr ks \<Rightarrow> (Inr (), \<lparr>vf_keys = foldl add_key [] (slice_list ks), vf_fetchedAt = now\<rparr>))))"

definition known_key :: "gotime \<Rightarrow> string \<Rightarrow> verifier \<Rightarrow> rsa_key option" where
  "known_key now kid v = (if now - vf_fetchedAt v < time_Hour then map_of (vf_keys v) kid else None)"

definition publicKey :: "network \<Rightarrow> provider \<Rightarrow> gotime \<Rightarrow> gotime \<Rightarrow> string \<Rightarrow> rsa_key verifierop" where
  "publicKey net p now1 now2 kid = do {
     k \<leftarrow> State (\<lambda>v. (known_key now1 kid v, v));
     case k of
       Some key \<Rightarrow> ret (Inr key)
     | None \<Rightarrow> do {
         r \<leftarrow> refreshKeysLocked net p now2;
         case r of
           Inl e \<Rightarrow> ret (Inl e)
         | Inr _ \<Rightarrow> State (\<lambda>v.
             (case map_of (vf_keys v) kid of
                None \<Rightarrow> Inl (Errorf (''no matching '' @ pv_name p @ '' public key for kid %q'') [kid])
              | Some key \<Rightarrow> Inr key, v)) } }"

definition keyFunc ::
  "network \<Rightarrow> provider \<Rightarrow> gotime \<Rightarrow> gotime \<Rightarrow> bool \<times> string option \<Rightarrow> rsa_key verifierop" where
  "keyFunc net p now1 now2 header =
     (case header of
        (is_rsa, kid) \<Rightarrow>
          if \<not> is_rsa then ret (Inl (Errorf ''unexpected signing method: %v'' []))
          else (case kid of
                  None \<Rightarrow> ret (Inl (Errorf (pv_token p @ '' has no kid header'') []))
                | Some k \<Rightarrow> if k = [] then ret (Inl (Errorf (pv_token p @ '' has no kid header'') []))
                            else publicKey net p now1 now2 k))"

section \<open>Tokens\<close>

text \<open>\<open>jwt.ParseWithClaims\<close> with the verifier's key function.\<close>

definition ParseWithClaims ::
  "id_lib \<Rightarrow> network \<Rightarrow> provider \<Rightarrow> string \<Rightarrow> (nat \<Rightarrow> gotime) \<Rightarrow> string \<Rightarrow> (id_claims \<times> bool) verifierop" where
  "ParseWithClaims lib net p audience now token =
     (case il_header lib token of
        Inl e \<Rightarrow> ret (Inl e)
      | Inr header \<Rightarrow> do {
          r \<leftarrow> keyFunc net p (now 0) (now 1) header;
          case r of
            Inl e \<Rightarrow> ret (Inl (Wrap ''token is unverifiable: error while executing keyfunc'' [] e))
          | Inr key \<Rightarrow> ret (il_check lib (pv_issuer p) audience (now 2) key token) })"

definition google_jwksURL :: string where "google_jwksURL = ''https://www.googleapis.com/oauth2/v3/certs''"
definition apple_jwksURL :: string where "apple_jwksURL = ''https://appleid.apple.com/auth/keys''"
definition apple_issuer :: string where "apple_issuer = ''https://appleid.apple.com''"

definition google_provider :: provider where
  "google_provider = \<lparr>pv_name = ''Google'', pv_token = ''id token'', pv_jwksURL = google_jwksURL, pv_issuer = None\<rparr>"

definition apple_provider :: provider where
  "apple_provider = \<lparr>pv_name = ''Apple'', pv_token = ''identity token'', pv_jwksURL = apple_jwksURL, pv_issuer = Some apple_issuer\<rparr>"




definition apple_Verify ::
  "id_lib \<Rightarrow> network \<Rightarrow> string \<Rightarrow> (nat \<Rightarrow> gotime) \<Rightarrow> string \<Rightarrow> (string \<times> string) verifierop" where
  "apple_Verify lib net audience now identityToken = do {
     r \<leftarrow> ParseWithClaims lib net apple_provider audience now identityToken;
     case r of
       Inl e \<Rightarrow> ret (Inl (Wrap ''parse identity token'' [] e))
     | Inr (claims, valid) \<Rightarrow>
         if \<not> valid then ret (Inl (Errorf ''invalid identity token'' []))
         else if ic_Subject claims = [] then ret (Inl (Errorf ''identity token has no subject'' []))
         else ret (Inr (ic_Subject claims, ic_Email claims)) }"

text \<open>The parts of the two packages as instances.\<close>

definition google_publicKey :: "network \<Rightarrow> gotime \<Rightarrow> gotime \<Rightarrow> string \<Rightarrow> rsa_key verifierop" where
  "google_publicKey net = publicKey net google_provider"
definition apple_publicKey :: "network \<Rightarrow> gotime \<Rightarrow> gotime \<Rightarrow> string \<Rightarrow> rsa_key verifierop" where
  "apple_publicKey net = publicKey net apple_provider"
definition google_keyFunc :: "network \<Rightarrow> gotime \<Rightarrow> gotime \<Rightarrow> bool \<times> string option \<Rightarrow> rsa_key verifierop" where
  "google_keyFunc net = keyFunc net google_provider"
definition apple_keyFunc :: "network \<Rightarrow> gotime \<Rightarrow> gotime \<Rightarrow> bool \<times> string option \<Rightarrow> rsa_key verifierop" where
  "apple_keyFunc net = keyFunc net apple_provider"
definition google_refreshKeys :: "network \<Rightarrow> gotime \<Rightarrow> unit verifierop" where
  "google_refreshKeys net = refreshKeysLocked net google_provider"
definition apple_refreshKeys :: "network \<Rightarrow> gotime \<Rightarrow> unit verifierop" where
  "apple_refreshKeys net = refreshKeysLocked net apple_provider"

section \<open>Where an accepted subject comes from\<close>

text \<open>The keys of a verifier are those one answer of the provider listed.\<close>

definition published_keys :: "network \<Rightarrow> provider \<Rightarrow> (string \<times> rsa_key) list" where
  "published_keys net p =
     (case net (jwks_request p) of
        Inl _ \<Rightarrow> []
      | Inr resp \<Rightarrow> (case Decode jwkSet_setter None (hp_body resp) of Inl _ \<Rightarrow> [] | Inr ks \<Rightarrow> foldl add_key [] (slice_list ks)))"


lemma publicKey_state:
  "exec (publicKey net p now1 now2 kid) v \<in> {v, \<lparr>vf_keys = published_keys net p, vf_fetchedAt = now2\<rparr>}"
  by (cases "known_key now1 kid v")
    (auto simp: publicKey_def refreshKeysLocked_def published_keys_def split: sum.splits)





end
