(* ===== verification/Spec2Isabelle.thy ===== *)
theory Spec2Isabelle
  imports Admin_Properties Auth_Properties Billing_Properties LiqPay_Properties Monobank_Properties Report_Properties Run Score_Properties Server_Properties Session_Properties Translate Verifiers
begin

text \<open>
  The finance engine, a personal-finance backend in Go, as Isabelle definitions.

  \<^bold>\<open>The program.\<close> One process (\<open>cmd/server/main.go\<close>) keeps its data in Postgres, its exchange rates
  and cached answers in Redis, and serves three sides: a gRPC interface for the phone
  (\<open>internal/grpc\<close>), a JSON interface for the web and for the administrator (\<open>internal/rest\<close>), and
  the web hooks of a bank and of a payment provider (\<open>internal/webhook\<close>). Handlers and
  controllers call services (\<open>internal/service\<close>), services call repositories
  (\<open>internal/repository\<close>), repositories run the SQL of \<open>pkg/dbq\<close>. Two jobs run beside them: one
  deletes what has outlived the retention of its plan (\<open>internal/retention\<close>), one fetches the rates
  of the National Bank (\<open>internal/ratesync\<close>). Clients of foreign services are in \<open>pkg\<close>.

  \<^bold>\<open>How it is modelled.\<close> An operation of the program is a state-passing program of
  \<open>HOL-Library.State_Monad\<close> over a record: \<open>db\<close> (six tables as lists of rows, the clock and the
  identifiers of the server, and the failures its next statements will have), \<open>redis\<close>, or both
  (\<open>world\<close>). A Go error is a \<open>goerr\<close> on the left of a sum, with its format, its arguments and what
  it wraps, so that \<open>errors.Is\<close> and the text sent to a client can be computed. One statement is one
  atomic step and may fail at any time (\<open>db_faults\<close>): a theorem about arbitrary databases covers
  every place where an operation can be interrupted. Machine integers that can overflow are words
  (amounts of the bank, identifiers, RSA exponents), floats are IEEE doubles rounded operation by
  operation (\<open>Go_Float\<close>), instants are nanoseconds since year 1, texts are byte strings. Readings of
  the clock and of the random source are arguments, one per call of the source.

  \<^bold>\<open>The theories\<close>, from the bottom:
    \<^item> \<open>Prelude\<close>: errors, Hoare triples over the state monad and the collection \<open>hr\<close> of their rules,
      rows by key, and the interfaces \<open>row_store\<close>, \<open>account_store\<close> and \<open>token_registry\<close>.
    \<^item> \<open>Go_Base\<close>, \<open>Go_Calendar\<close>, \<open>Go_Float\<close>, \<open>Go_Base64\<close>, \<open>Go_Crypto\<close>, \<open>Go_Json\<close>, \<open>Go_Csv\<close>,
      \<open>Go_Strconv\<close>, \<open>Go_Http\<close>, \<open>Go_Server\<close>: the parts of the standard library the program uses --
      strings, dates, floats with their texts, base64, SHA-1 and SHA-256, JSON both ways, CSV
      both ways, \<open>ParseFloat\<close> and \<open>Sscanf\<close>, HTTP as a client and as a server. Their facts are in the
      same theories and in \<open>Go_Float_Facts\<close> (rounding over the reals) and \<open>Go_Json_Facts\<close> (the parser
      of JSON never runs out of fuel).
    \<^item> \<open>Db\<close>, \<open>Statements\<close>: rows, the execution of a statement, the conversions of \<open>pkg/pgutil\<close>; the
      interface \<open>statement_invariant\<close> between the program and its database.
    \<^item> \<open>Users\<close>, \<open>Payments\<close>, \<open>Sessions\<close>, \<open>Categories\<close>, \<open>Transactions\<close>, \<open>Monobank\<close>: the statements of
      \<open>pkg/dbq\<close> with the constraints of the migrations, and the repositories; with them the services
      of sessions, categories and transactions, the retention job, and the bank's client and
      token encryption (\<open>pkg/monobank\<close>, \<open>pkg/mcc\<close>, \<open>pkg/cryptobox\<close>).
    \<^item> \<open>Plan\<close>, \<open>LiqPay\<close>, \<open>Billing\<close>, \<open>Subscriptions\<close>: plans, the payment provider's client, the billing
      service and its web hook; \<open>Subscriptions\<close> has the abstract machine of one subscription.
    \<^item> \<open>Jwt\<close>, \<open>Auth\<close>, \<open>Verifiers\<close>: tokens, accounts and sign-ins, the verifiers of Google's and Apple's
      identity tokens with their cache of keys.
    \<^item> \<open>Monobank_Import\<close>: the importer, the bank service and its web hook. \<open>Admin\<close>: the dashboard.
    \<^item> \<open>Rates\<close>, \<open>World\<close>, \<open>Translate\<close>, \<open>Reports\<close>, \<open>Insights\<close>, \<open>Advisor\<close>: rates in Redis, the
      translation client with its circuit breaker, CSV export and import, the financial score and
      forecasts, the assistant over a language model.
    \<^item> \<open>Rest_Auth\<close>, \<open>Rest_Ledger\<close>, \<open>Rest_Billing\<close>, \<open>Rest_Monobank\<close>, \<open>Rest_Server\<close>: the handlers, the
      middleware and the routing table. \<open>Grpc\<close>: the controllers, conversions and authentication;
      \<open>Logger\<close>, \<open>Interceptors\<close>, \<open>Services\<close>: the lines of the log, the chain of interceptors around a
      handler that may panic, and the tables of methods the server registers.
    \<^item> \<open>Config\<close>, \<open>Process\<close>, \<open>Run\<close>: the configuration with its durations, the start of the process,
      the process as a sequence of events, and what ends it. \<open>Schema\<close>: what every statement keeps.
    \<^item> \<open>Samples\<close>, \<open>Server_Samples\<close>: the concrete data of the witnesses, among them a token library.

  A definition has the name of the Go function it translates, with a prefix where two packages share
  it or HOL has the name (\<open>category_List\<close>, \<open>monobank_sync\<close>, \<open>grpc_CategoryList\<close>); a part of a long
  function that is a definition of its own is named for what it computes.
\<close>

text \<open>
  \<^bold>\<open>What the lemmas show.\<close>
    \<^item> Billing (\<open>Billing_Properties\<close>, \<open>LiqPay_Properties\<close>): forged callbacks change nothing; what a
      genuine one does, and that it is logged before it acts, whatever fails; a paid plan always has
      an order that names it; no two accounts share an order; each operation moves an account by at
      most one step of the abstract machine; decoding a callback always ends.
    \<^item> Sessions and accounts (\<open>Session_Properties\<close>, \<open>Auth_Properties\<close>): a refresh token works once,
      under any interleaving, and rotates; a user revokes own sessions only; a failed sign-in does
      not tell why; settings stay within the allowed values.
    \<^item> Ledger (\<open>Ledger_Properties\<close>, \<open>Report_Properties\<close>): a bank item is imported once; another user's
      transaction is refused as an unknown one, and never changed; amounts are stored exactly or
      within half a hundredth; the sweep is one filter; an export read back is the same table.
    \<^item> Bank (\<open>Monobank_Properties\<close>): exact amounts with their one exception, repeatable synchronisation,
      web hooks that add at most one transaction, connections that decrypt to the token given.
    \<^item> Administration, score, translation (\<open>Admin_Properties\<close>, \<open>Score_Properties\<close>, \<open>Translate\<close>): the
      dashboard equals counts over the table; the score lies between 0 and 100 unless the savings rate
      is not a number; the breaker limits requests and recovers.
    \<^item> Calls (\<open>Interceptors\<close>, \<open>Services\<close>, \<open>Logger\<close>): every gRPC call is answered and leaves one line in
      the log, whatever its handler does and whatever texts it carries; the method the interceptors are
      told is the one on the wire; a call on the wire with the chain around the controllers is the
      call that the properties of the process speak of.
    \<^item> Process (\<open>Server_Properties\<close>, \<open>Verifiers\<close>, \<open>Config\<close>, \<open>Run\<close>): without a token nothing but the public routes
      does anything, over JSON and over gRPC; the two kinds of tokens are not interchangeable; under
      every sequence of events and failures the schema holds, history only grows, and an account keeps
      its plan unless the administrator, the account itself or a signed callback changes it; which tokens
      of Google are accepted; when the configuration loads; how the process exits.

  The interfaces are locales, each interpreted on the model: \<open>row_store\<close> (users, categories,
  connections), \<open>account_store\<close> (the user repository), \<open>token_registry\<close> (the steps of sessions),
  \<open>statement_invariant\<close> (the schema, and the history), \<open>account_statements\<close> (the plan of one account).
  The last two extend \<open>plain_statements\<close>, which leaves out the statement that sets a plan. A predicate
  every statement keeps is, by their lemmas, kept by each service, handler, controller, job and event.

  \<^bold>\<open>Fuel.\<close> Only the parser of JSON has any: twice the length of the text plus two, which
  \<open>Go_Json_Facts\<close> shows to be enough for every text; its other number, 10000, is the depth the
  library itself allows. Every other loop is structural or has a termination proof.

  \<^bold>\<open>Parameters.\<close> What is not under \<open>src\<close> is an argument: the network (a function from request to
  answer or error), bcrypt, the token library and the UUID texts (with the contract \<open>jwt_contract\<close>
  where a property needs it), the check of identity tokens, AES-GCM, pgtype's numerics, the
  collation of Postgres and its \<open>ILIKE\<close>, Unicode's case mappings and foldings beyond ASCII,
  \<open>IsPrint\<close>, the order in which a map is traversed, the texts of foreign errors, and what a form or
  an upload parses to. The hypotheses on them are met by the concrete libraries of the samples.

  \<^bold>\<open>Not modelled\<close>: of \<open>api/v1/pb\<close> the messages with their encoding, the client stubs and the stubs of
  what is not implemented, and the plumbing of \<open>pkg/dbq\<close> (generated code: a message is the values
  of its fields, and its reading an argument); the lines other components write to the log, which
  change no state (those of the start, the stop and every gRPC call are modelled); the time-outs and
  cancelled contexts other than as failed statements and network errors; and the concurrent execution
  of handlers: an event of the process, and a call of the translation client, is atomic. The one
  interleaving that is modelled is that of two refreshes of a session, between the check of the token
  and its rotation.
\<close>

end
